(* ===== verification/Prelude.thy ===== *)
theory Prelude
  imports Main "HOL-Library.Word" "HOL-Library.Product_Lexorder"
begin

text \<open>
  Shared vocabulary of the development: machine integers of the kernel's types, the
  checked, saturating and wrapping operations of Rust's integer types, the parts of
  \<open>Option\<close>, \<open>Result\<close>, \<open>Vec\<close> and slices that the sources use, and the generic lemmas
  about them.

  Conventions of the model:
  \<^item> \<open>u8\<close>, \<open>u16\<close>, \<open>u32\<close>, \<open>u64\<close> are words of that width; \<open>usize\<close> is a 64-bit word where it
    is an address or a byte count, and a natural number where it is the length of a
    collection or an index into one;
  \<^item> \<open>Result<T, E>\<close> is \<open>'e + 't\<close> with \<open>Inl\<close> the error;
  \<^item> a method on \<open>&mut self\<close> returns its result paired with the new state;
  \<^item> where a Rust expression can panic (an index out of range, \<open>expect\<close>), the operation
    returns an option and \<open>None\<close> is the panic.
\<close>

section \<open>Types\<close>

type_synonym u8 = "8 word"
type_synonym u16 = "16 word"
type_synonym u32 = "32 word"
type_synonym u64 = "64 word"
type_synonym usize = "64 word"

abbreviation u32_MAX :: u32 where "u32_MAX \<equiv> - 1"
abbreviation u64_MAX :: u64 where "u64_MAX \<equiv> - 1"

named_theorems rust_arith \<open>characterisations of the checked operations over natural numbers\<close>
named_theorems rust_vec \<open>rewriting of slice and vector operations\<close>

section \<open>Integer operations\<close>

definition checked_add :: "'a::len word \<Rightarrow> 'a word \<Rightarrow> 'a word option" where
  "checked_add a b = (if unat a + unat b < 2 ^ LENGTH('a) then Some (a + b) else None)"

definition checked_sub :: "'a::len word \<Rightarrow> 'a word \<Rightarrow> 'a word option" where
  "checked_sub a b = (if b \<le> a then Some (a - b) else None)"

definition checked_mul :: "'a::len word \<Rightarrow> 'a word \<Rightarrow> 'a word option" where
  "checked_mul a b = (if unat a * unat b < 2 ^ LENGTH('a) then Some (a * b) else None)"

definition saturating_add :: "'a::len word \<Rightarrow> 'a word \<Rightarrow> 'a word" where
  "saturating_add a b = (if unat a + unat b < 2 ^ LENGTH('a) then a + b else - 1)"

definition saturating_sub :: "'a::len word \<Rightarrow> 'a word \<Rightarrow> 'a word" where
  "saturating_sub a b = (if b \<le> a then a - b else 0)"

section \<open>Options, results and vectors\<close>

fun ok_or :: "'a option \<Rightarrow> 'e \<Rightarrow> 'e + 'a" where
  "ok_or None e = Inl e"
| "ok_or (Some x) e = Inr x"

fun and_then :: "'e + 'a \<Rightarrow> ('a \<Rightarrow> 'e + 'b) \<Rightarrow> 'e + 'b" where
  "and_then (Inl e) f = Inl e"
| "and_then (Inr x) f = f x"

fun map_err :: "('e \<Rightarrow> 'd) \<Rightarrow> 'e + 'a \<Rightarrow> 'd + 'a" where
  "map_err f (Inl e) = Inl (f e)"
| "map_err f (Inr x) = Inr x"

fun is_ok :: "'e + 'a \<Rightarrow> bool" where
  "is_ok (Inl e) = False"
| "is_ok (Inr x) = True"

fun ok :: "'e + 'a \<Rightarrow> 'a option" where
  "ok (Inl e) = None"
| "ok (Inr x) = Some x"

definition vec_get :: "'a list \<Rightarrow> nat \<Rightarrow> 'a option" where
  "vec_get xs i = (if i < length xs then Some (xs ! i) else None)"

fun position :: "('a \<Rightarrow> bool) \<Rightarrow> 'a list \<Rightarrow> nat option" where
  "position p [] = None"
| "position p (x # xs) = (if p x then Some 0 else map_option Suc (position p xs))"

definition vec_remove :: "'a list \<Rightarrow> nat \<Rightarrow> 'a list" where
  "vec_remove xs i = take i xs @ drop (Suc i) xs"

definition vec_insert :: "'a list \<Rightarrow> nat \<Rightarrow> 'a \<Rightarrow> 'a list" where
  "vec_insert xs i x = take i xs @ x # drop i xs"

text \<open>
  \<open>slice::partition_point\<close> is specified only on slices where the elements satisfying the
  predicate come first; there it is the length of that prefix.
\<close>

definition partition_point :: "('a \<Rightarrow> bool) \<Rightarrow> 'a list \<Rightarrow> nat" where
  "partition_point p xs = length (takeWhile p xs)"

definition partitioned :: "('a \<Rightarrow> bool) \<Rightarrow> 'a list \<Rightarrow> bool" where
  "partitioned p xs \<longleftrightarrow> (\<forall>x\<in>set (dropWhile p xs). \<not> p x)"

section \<open>Lemmas on integer operations\<close>

lemma checked_add_eq_Some [rust_arith]:
  "checked_add a b = Some c \<longleftrightarrow> unat c = unat a + unat (b::'a::len word)"
proof
  assume "checked_add a b = Some c"
  then show "unat c = unat a + unat b"
    by (auto simp: checked_add_def unat_word_ariths split: if_splits)
next
  assume c: "unat c = unat a + unat b"
  then have "unat a + unat b < 2 ^ LENGTH('a)"
    by (metis unsigned_less)
  moreover from this c have "c = a + b"
    by (simp add: word_unat_eq_iff unat_word_ariths)
  ultimately show "checked_add a b = Some c"
    by (simp add: checked_add_def)
qed

lemma checked_add_eq_None [rust_arith]:
  "checked_add a (b::'a::len word) = None \<longleftrightarrow> 2 ^ LENGTH('a) \<le> unat a + unat b"
  by (auto simp: checked_add_def)

lemma checked_sub_eq_Some [rust_arith]:
  "checked_sub a b = Some c \<longleftrightarrow> unat a = unat b + unat (c::'a::len word)"
proof
  assume "checked_sub a b = Some c"
  then show "unat a = unat b + unat c"
    by (auto simp: checked_sub_def unat_sub word_le_nat_alt split: if_splits)
next
  assume a: "unat a = unat b + unat c"
  then have "b \<le> a" by (simp add: word_le_nat_alt)
  moreover from this a have "c = a - b"
    by (simp add: word_unat_eq_iff unat_sub)
  ultimately show "checked_sub a b = Some c"
    by (simp add: checked_sub_def)
qed

lemma checked_sub_eq_None [rust_arith]:
  "checked_sub a (b::'a::len word) = None \<longleftrightarrow> unat a < unat b"
  by (auto simp: checked_sub_def word_le_nat_alt)

lemma checked_mul_eq_Some [rust_arith]:
  "checked_mul a b = Some c \<longleftrightarrow> unat c = unat a * unat (b::'a::len word)"
proof
  assume "checked_mul a b = Some c"
  then show "unat c = unat a * unat b"
    by (auto simp: checked_mul_def unat_word_ariths split: if_splits)
next
  assume c: "unat c = unat a * unat b"
  then have "unat a * unat b < 2 ^ LENGTH('a)"
    by (metis unsigned_less)
  moreover from this c have "c = a * b"
    by (simp add: word_unat_eq_iff unat_word_ariths)
  ultimately show "checked_mul a b = Some c"
    by (simp add: checked_mul_def)
qed

lemma checked_mul_eq_None [rust_arith]:
  "checked_mul a (b::'a::len word) = None \<longleftrightarrow> 2 ^ LENGTH('a) \<le> unat a * unat b"
  by (auto simp: checked_mul_def)

lemma unat_u64_less: "unat (a::u64) < 18446744073709551616"
  using unsigned_less [of a] by simp

lemma unat_of_nat_u64: "n < 2 ^ 64 \<Longrightarrow> unat (of_nat n :: u64) = n"
  by (simp add: unat_of_nat)

lemma unat_u32_less: "unat (a::u32) < 4294967296"
  using unsigned_less [of a] by simp

lemma unat_u32_MAX [simp]: "unat u32_MAX = 4294967295"
  by (simp add: unsigned_minus_1_eq_mask mask_eq_exp_minus_1)

lemma unat_u64_MAX [simp]: "unat u64_MAX = 18446744073709551615"
  by (simp add: unsigned_minus_1_eq_mask mask_eq_exp_minus_1)

lemma unat_saturating_add:
  "unat (saturating_add a (b::'a::len word)) = min (unat a + unat b) (2 ^ LENGTH('a) - 1)"
  by (auto simp: saturating_add_def unat_word_ariths min_def unsigned_minus_1_eq_mask mask_eq_exp_minus_1)

lemma unat_saturating_sub:
  "unat (saturating_sub a (b::'a::len word)) = unat a - unat b"
  by (auto simp: saturating_sub_def unat_sub word_le_nat_alt)

text \<open>Evaluation of the checked operations over binary integers.\<close>

lemma nat_less_two_power_iff: "unat (a::'a::len word) + unat b < 2 ^ n \<longleftrightarrow> uint a + uint b < 2 ^ n"
  using of_nat_less_iff [where ?'a = int, of "unat a + unat b" "2 ^ n"] by simp

lemma nat_mult_less_two_power_iff: "unat (a::'a::len word) * unat b < 2 ^ n \<longleftrightarrow> uint a * uint b < 2 ^ n"
  using of_nat_less_iff [where ?'a = int, of "unat a * unat b" "2 ^ n"] by simp

lemma checked_add_code [code]:
  "checked_add a (b::'a::len word) = (if uint a + uint b < 2 ^ LENGTH('a) then Some (a + b) else None)"
  by (simp add: checked_add_def nat_less_two_power_iff)

lemma checked_mul_code [code]:
  "checked_mul a (b::'a::len word) = (if uint a * uint b < 2 ^ LENGTH('a) then Some (a * b) else None)"
  by (simp add: checked_mul_def nat_mult_less_two_power_iff)

lemma saturating_add_code [code]:
  "saturating_add a (b::'a::len word) = (if uint a + uint b < 2 ^ LENGTH('a) then a + b else - 1)"
  by (simp add: saturating_add_def nat_less_two_power_iff)

section \<open>Alignment\<close>

lemma aligned_same:
  assumes "(x::nat) mod m = 0" "y mod m = 0" "x \<le> y" "y < x + m"
  shows "y = x"
proof -
  obtain i j where x: "x = m * i" and y: "y = m * j"
    using assms(1,2) by (auto elim!: dvdE simp: mod_eq_0_iff_dvd)
  then have "m * j < m * Suc i" using assms(4) by simp
  then have "j \<le> i" by (simp only: mult_less_cancel1 less_Suc_eq_le)
  then have "y \<le> x" using x y by (simp only: mult_le_mono2)
  then show ?thesis using assms(3) by (rule le_antisym)
qed

lemma aligned_next:
  "(x::nat) mod m = 0 \<Longrightarrow> y mod m = 0 \<Longrightarrow> x \<le> y \<Longrightarrow> y = x \<or> x + m \<le> y"
  using aligned_same [of x m y] by linarith

lemma align_down_bounds:
  "(0::nat) < m \<Longrightarrow> x div m * m \<le> x \<and> x < x div m * m + m \<and> x div m * m mod m = 0"
  using mod_less_divisor [of m x] div_mult_mod_eq [of x m]
  by (intro conjI) (linarith, linarith, simp)

definition align_up_nat :: "nat \<Rightarrow> nat" where
  "align_up_nat n = (n + 4095) div 4096 * 4096"

lemma align_up_nat_bounds: "n \<le> align_up_nat n" "align_up_nat n < n + 4096" "align_up_nat n mod 4096 = 0"
proof -
  have "(n + 4095) mod 4096 \<le> 4095" by (simp add: less_Suc_eq_le [symmetric])
  then show "n \<le> align_up_nat n" "align_up_nat n < n + 4096"
    unfolding align_up_nat_def using div_mult_mod_eq [of "n + 4095" 4096] by linarith+
  show "align_up_nat n mod 4096 = 0" by (simp add: align_up_nat_def)
qed

section \<open>Lemmas on options and vectors\<close>

lemma ok_or_eq_Inr [simp]: "ok_or x e = Inr y \<longleftrightarrow> x = Some y"
  by (cases x) auto

lemma ok_or_eq_Inl [simp]: "ok_or x e = Inl d \<longleftrightarrow> x = None \<and> d = e"
  by (cases x) auto

lemma and_then_eq_Inr: "and_then r f = Inr y \<longleftrightarrow> (\<exists>x. r = Inr x \<and> f x = Inr y)"
  by (cases r) auto

lemma map_err_eq_Inr [simp]: "map_err f r = Inr y \<longleftrightarrow> r = Inr y"
  by (cases r) auto

lemma is_ok_iff: "is_ok r \<longleftrightarrow> (\<exists>x. r = Inr x)"
  by (cases r) auto

lemma vec_get_Some [rust_vec]: "vec_get xs i = Some x \<longleftrightarrow> i < length xs \<and> xs ! i = x"
  by (simp add: vec_get_def)

lemma vec_get_None [rust_vec]: "vec_get xs i = None \<longleftrightarrow> length xs \<le> i"
  by (auto simp: vec_get_def)

lemma vec_get_update [rust_vec]:
  "vec_get (xs[i := x]) j = (if j = i \<and> i < length xs then Some x else vec_get xs j)"
  by (simp add: vec_get_def)

lemma nth_update_if [rust_vec]:
  "j < length xs \<Longrightarrow> xs[i := x] ! j = (if i = j then x else xs ! j)"
  by (auto simp: nth_list_update)

lemma vec_get_append [rust_vec]:
  "vec_get (xs @ [x]) j = (if j = length xs then Some x else vec_get xs j)"
  by (auto simp: vec_get_def nth_append)

lemma position_None [rust_vec]: "position p xs = None \<longleftrightarrow> (\<forall>x\<in>set xs. \<not> p x)"
  by (induction xs) auto

lemma position_Some:
  "position p xs = Some i \<longleftrightarrow> i < length xs \<and> p (xs ! i) \<and> (\<forall>j<i. \<not> p (xs ! j))"
proof (induction xs arbitrary: i)
  case (Cons x xs)
  then show ?case by (cases i) (auto simp: All_less_Suc2)
qed simp

lemma vec_remove_position:
  assumes "position (\<lambda>y. y = x) xs = Some i"
  shows "vec_remove xs i = remove1 x xs"
  using assms
proof (induction xs arbitrary: i)
  case (Cons y ys)
  show ?case
  proof (cases "y = x")
    case True
    then show ?thesis using Cons.prems by (simp add: vec_remove_def)
  next
    case False
    then obtain j where "i = Suc j" "position (\<lambda>y. y = x) ys = Some j"
      using Cons.prems by auto
    then show ?thesis using Cons.IH [of j] False by (simp add: vec_remove_def)
  qed
qed simp

lemma position_eq_None_iff [simp]: "position (\<lambda>y. y = x) xs = None \<longleftrightarrow> x \<notin> set xs"
  by (auto simp: position_None)

lemma set_vec_insert [simp]: "i \<le> length xs \<Longrightarrow> set (vec_insert xs i x) = insert x (set xs)"
proof -
  have "set (take i xs) \<union> set (drop i xs) = set xs"
    by (simp only: set_append [symmetric] append_take_drop_id)
  then show ?thesis by (auto simp: vec_insert_def)
qed

lemma length_vec_insert [simp]: "length (vec_insert xs i x) = Suc (length xs)"
  unfolding vec_insert_def by simp

lemma map_upt_shift: "map f [k..<k + m] = map (\<lambda>i. f (k + i)) [0..<m]"
  by (rule nth_equalityI) simp_all

lemma partition_point_le [simp]: "partition_point p xs \<le> length xs"
  by (simp add: partition_point_def length_takeWhile_le)

lemma take_partition_point [rust_vec]: "take (partition_point p xs) xs = takeWhile p xs"
  by (simp add: partition_point_def takeWhile_eq_take [symmetric])

lemma drop_partition_point [rust_vec]: "drop (partition_point p xs) xs = dropWhile p xs"
  by (simp add: partition_point_def dropWhile_eq_drop [symmetric])

lemma partitioned_takeWhile: "partitioned p xs \<Longrightarrow> takeWhile p xs = filter p xs"
  unfolding partitioned_def by (rule takeWhile_eq_filter) blast

lemma partitioned_dropWhile:
  assumes "partitioned p xs"
  shows "dropWhile p xs = filter (\<lambda>x. \<not> p x) xs"
proof -
  have "filter (\<lambda>x. \<not> p x) xs = filter (\<lambda>x. \<not> p x) (takeWhile p xs @ dropWhile p xs)"
    by (simp only: takeWhile_dropWhile_id)
  also have "\<dots> = filter (\<lambda>x. \<not> p x) (dropWhile p xs)"
    unfolding filter_append by (auto simp: filter_empty_conv dest: set_takeWhileD)
  also have "\<dots> = dropWhile p xs"
    using assms unfolding partitioned_def by (intro filter_True) blast
  finally show ?thesis ..
qed

lemma length_less_two_power:
  "unat (of_nat n :: 'a::len word) = n \<longleftrightarrow> n < 2 ^ LENGTH('a)"
  by (simp add: unat_of_nat mod_eq_self_iff_div_eq_0 div_eq_0_iff)

end
