(* ===== verification/Task_Model.thy ===== *)
theory Task_Model
  imports Prelude
begin

text \<open>
  Task identity and the task control block (\<open>kernel/src/scheduler/task.rs\<close> and
  \<open>kernel/src/scheduler/execution.rs\<close>): generational task identifiers with the derived
  lexicographic order, the lifecycle states, and the transition table that is the only way
  a task changes state.
\<close>

section \<open>Data\<close>

datatype TaskId = TaskId (task_index: u32) (task_generation: u32)

datatype TaskKind = KernelTask | UserspaceTask

datatype TaskState = Created | Ready | Running | Blocked | Exited

datatype Priority = Priority (priority_value: u8)

datatype ExecutionHandle = ExecutionHandle (handle_task_id: TaskId)

datatype ExecutionAttachError = AlreadyAttached

record TaskControlBlock =
  tcb_id :: TaskId
  tcb_kind :: TaskKind
  tcb_state :: TaskState
  tcb_priority :: Priority
  tcb_execution :: "ExecutionHandle option"

record ExecutionState =
  exec_task_id :: TaskId
  exec_bootstrapped :: bool

text \<open>The derived \<open>Ord\<close> of \<open>TaskId\<close>: index first, then generation.\<close>

instantiation TaskId :: linorder
begin

definition less_eq_TaskId :: "TaskId \<Rightarrow> TaskId \<Rightarrow> bool" where
  "less_eq_TaskId a b \<longleftrightarrow>
     (task_index a, task_generation a) \<le> (task_index b, task_generation b)"

definition less_TaskId :: "TaskId \<Rightarrow> TaskId \<Rightarrow> bool" where
  "less_TaskId a b \<longleftrightarrow>
     (task_index a, task_generation a) < (task_index b, task_generation b)"

instance
  by standard (auto simp: less_eq_TaskId_def less_TaskId_def intro: TaskId.expand)

end

section \<open>Operations\<close>

definition Priority_MIN :: Priority where "Priority_MIN = Priority 0"

definition Priority_DEFAULT :: Priority where "Priority_DEFAULT = Priority 128"

definition Priority_MAX :: Priority where "Priority_MAX = Priority (- 1)"

definition for_task :: "TaskId \<Rightarrow> ExecutionHandle" where
  "for_task task_id = ExecutionHandle task_id"

definition ExecutionState_new :: "TaskId \<Rightarrow> ExecutionState" where
  "ExecutionState_new task_id = \<lparr>exec_task_id = task_id, exec_bootstrapped = False\<rparr>"

definition mark_bootstrapped :: "ExecutionState \<Rightarrow> ExecutionState" where
  "mark_bootstrapped e = e\<lparr>exec_bootstrapped := True\<rparr>"

definition tcb_new :: "TaskId \<Rightarrow> Priority \<Rightarrow> TaskControlBlock" where
  "tcb_new tid priority =
     \<lparr>tcb_id = tid, tcb_kind = KernelTask, tcb_state = Created, tcb_priority = priority,
      tcb_execution = None\<rparr>"

definition tcb_new_userspace :: "TaskId \<Rightarrow> Priority \<Rightarrow> TaskControlBlock" where
  "tcb_new_userspace tid priority =
     \<lparr>tcb_id = tid, tcb_kind = UserspaceTask, tcb_state = Created, tcb_priority = priority,
      tcb_execution = None\<rparr>"

definition tcb_attach_execution ::
  "TaskControlBlock \<Rightarrow> (ExecutionAttachError + ExecutionHandle) \<times> TaskControlBlock" where
  "tcb_attach_execution t =
     (if tcb_execution t \<noteq> None then (Inl AlreadyAttached, t)
      else let handle = for_task (tcb_id t)
           in (Inr handle, t\<lparr>tcb_execution := Some handle\<rparr>))"

definition tcb_detach_execution ::
  "TaskControlBlock \<Rightarrow> ExecutionHandle option \<times> TaskControlBlock" where
  "tcb_detach_execution t = (tcb_execution t, t\<lparr>tcb_execution := None\<rparr>)"

fun valid_transition :: "TaskState \<Rightarrow> TaskState \<Rightarrow> bool" where
  "valid_transition Created Ready = True"
| "valid_transition Ready Running = True"
| "valid_transition Running Ready = True"
| "valid_transition Running Blocked = True"
| "valid_transition Blocked Ready = True"
| "valid_transition Running Exited = True"
| "valid_transition Blocked Exited = True"
| "valid_transition _ _ = False"

definition transition :: "TaskControlBlock \<Rightarrow> TaskState \<Rightarrow> bool \<times> TaskControlBlock" where
  "transition t state =
     (let valid = valid_transition (tcb_state t) state
      in (valid, if valid then t\<lparr>tcb_state := state\<rparr> else t))"

section \<open>Lemmas\<close>

lemma TaskId_collapse [simp]: "TaskId (task_index a) (task_generation a) = a"
  by (cases a) simp

lemma fst_transition [simp]: "fst (transition t st) = valid_transition (tcb_state t) st"
  by (simp add: transition_def Let_def)

lemma transition_id [simp]: "tcb_id (snd (transition t st)) = tcb_id t"
  by (simp add: transition_def Let_def)

lemma transition_execution [simp]: "tcb_execution (snd (transition t st)) = tcb_execution t"
  by (simp add: transition_def Let_def)

lemma transition_state [simp]:
  "tcb_state (snd (transition t st)) =
     (if valid_transition (tcb_state t) st then st else tcb_state t)"
  by (simp add: transition_def Let_def)

lemma valid_transition_from:
  "valid_transition st Ready \<longleftrightarrow> st = Created \<or> st = Running \<or> st = Blocked"
  "valid_transition st Running \<longleftrightarrow> st = Ready"
  "valid_transition st Blocked \<longleftrightarrow> st = Running"
  "valid_transition st Exited \<longleftrightarrow> st = Running \<or> st = Blocked"
  "\<not> valid_transition st Created"
  by (cases st; simp)+

end
