(* ===== verification/Task_Queues.thy ===== *)
theory Task_Queues
  imports Task_Model
begin

text \<open>
  The queues of the scheduler: the ready queue (\<open>kernel/src/scheduler/run_queue.rs\<close>), the
  wait queue (\<open>wait_queue.rs\<close>), the deadline queue (\<open>sleep_queue.rs\<close>), and the deferred
  reschedule flag with its preemption gate (\<open>reschedule.rs\<close>).

  The ready queue and the wait queue implement one contract, the locale \<open>task_fifo\<close>: a
  duplicate-free FIFO of task identifiers, observed through its snapshot.
\<close>

section \<open>Ready queue\<close>

record RunQueue =
  rq_queue :: "TaskId list"

definition RunQueue_new :: RunQueue where
  "RunQueue_new = \<lparr>rq_queue = []\<rparr>"

fun front :: "'a list \<Rightarrow> 'a option" where
  "front [] = None"
| "front (x # xs) = Some x"

fun pop_front :: "'a list \<Rightarrow> 'a option \<times> 'a list" where
  "pop_front [] = (None, [])"
| "pop_front (x # xs) = (Some x, xs)"

definition rq_push :: "RunQueue \<Rightarrow> TaskId \<Rightarrow> bool \<times> RunQueue" where
  "rq_push q tid =
     (if tid \<in> set (rq_queue q) then (False, q)
      else (True, q\<lparr>rq_queue := rq_queue q @ [tid]\<rparr>))"

definition rq_peek :: "RunQueue \<Rightarrow> TaskId option" where
  "rq_peek q = front (rq_queue q)"

definition rq_pop :: "RunQueue \<Rightarrow> TaskId option \<times> RunQueue" where
  "rq_pop q = (let (x, rest) = pop_front (rq_queue q) in (x, q\<lparr>rq_queue := rest\<rparr>))"

definition rq_rotate :: "RunQueue \<Rightarrow> TaskId \<Rightarrow> TaskId option \<times> RunQueue" where
  "rq_rotate q running =
     (if front (rq_queue q) = Some running then
        (case pop_front (rq_queue q) of
           (None, rest) \<Rightarrow> (None, q\<lparr>rq_queue := rest\<rparr>)
         | (Some tid, rest) \<Rightarrow>
             (let q' = q\<lparr>rq_queue := rest @ [tid]\<rparr> in (front (rq_queue q'), q')))
      else (front (rq_queue q), q))"

definition rq_remove :: "RunQueue \<Rightarrow> TaskId \<Rightarrow> bool \<times> RunQueue" where
  "rq_remove q tid =
     (case position (\<lambda>candidate. candidate = tid) (rq_queue q) of
        None \<Rightarrow> (False, q)
      | Some i \<Rightarrow> (vec_get (rq_queue q) i \<noteq> None, q\<lparr>rq_queue := vec_remove (rq_queue q) i\<rparr>))"

definition rq_contains :: "RunQueue \<Rightarrow> TaskId \<Rightarrow> bool" where
  "rq_contains q tid \<longleftrightarrow> tid \<in> set (rq_queue q)"

definition rq_len :: "RunQueue \<Rightarrow> nat" where
  "rq_len q = length (rq_queue q)"

definition rq_is_empty :: "RunQueue \<Rightarrow> bool" where
  "rq_is_empty q \<longleftrightarrow> rq_queue q = []"

definition rq_snapshot :: "RunQueue \<Rightarrow> TaskId list" where
  "rq_snapshot q = rq_queue q"

section \<open>Wait queue\<close>

record WaitQueue =
  wq_queue :: "TaskId list"

datatype WaitQueueError = AlreadyQueued

definition WaitQueue_new :: WaitQueue where
  "WaitQueue_new = \<lparr>wq_queue = []\<rparr>"

definition wq_enqueue :: "WaitQueue \<Rightarrow> TaskId \<Rightarrow> (WaitQueueError + unit) \<times> WaitQueue" where
  "wq_enqueue q task =
     (if task \<in> set (wq_queue q) then (Inl AlreadyQueued, q)
      else (Inr (), q\<lparr>wq_queue := wq_queue q @ [task]\<rparr>))"

definition wq_dequeue :: "WaitQueue \<Rightarrow> TaskId option \<times> WaitQueue" where
  "wq_dequeue q = (let (x, rest) = pop_front (wq_queue q) in (x, q\<lparr>wq_queue := rest\<rparr>))"

definition wq_remove :: "WaitQueue \<Rightarrow> TaskId \<Rightarrow> bool \<times> WaitQueue" where
  "wq_remove q task =
     (case position (\<lambda>candidate. candidate = task) (wq_queue q) of
        None \<Rightarrow> (False, q)
      | Some i \<Rightarrow> (vec_get (wq_queue q) i \<noteq> None, q\<lparr>wq_queue := vec_remove (wq_queue q) i\<rparr>))"

definition wq_contains :: "WaitQueue \<Rightarrow> TaskId \<Rightarrow> bool" where
  "wq_contains q task \<longleftrightarrow> task \<in> set (wq_queue q)"

definition wq_peek :: "WaitQueue \<Rightarrow> TaskId option" where
  "wq_peek q = front (wq_queue q)"

definition wq_len :: "WaitQueue \<Rightarrow> nat" where
  "wq_len q = length (wq_queue q)"

definition wq_is_empty :: "WaitQueue \<Rightarrow> bool" where
  "wq_is_empty q \<longleftrightarrow> wq_queue q = []"

definition wq_snapshot :: "WaitQueue \<Rightarrow> TaskId list" where
  "wq_snapshot q = wq_queue q"

section \<open>Sleep queue\<close>

record SleepEntry =
  sleep_deadline :: u64
  sleep_task :: TaskId

record SleepQueue =
  sq_entries :: "SleepEntry list"

definition SleepEntry_new :: "u64 \<Rightarrow> TaskId \<Rightarrow> SleepEntry" where
  "SleepEntry_new deadline task = \<lparr>sleep_deadline = deadline, sleep_task = task\<rparr>"

definition SleepQueue_new :: SleepQueue where
  "SleepQueue_new = \<lparr>sq_entries = []\<rparr>"

definition sleep_key :: "SleepEntry \<Rightarrow> u64 \<times> TaskId" where
  "sleep_key e = (sleep_deadline e, sleep_task e)"

definition sq_insert :: "SleepQueue \<Rightarrow> SleepEntry \<Rightarrow> bool \<times> SleepQueue" where
  "sq_insert q entry =
     (if list_ex (\<lambda>candidate. sleep_task candidate = sleep_task entry) (sq_entries q)
      then (False, q)
      else let i = partition_point (\<lambda>candidate. sleep_key candidate \<le> sleep_key entry) (sq_entries q)
           in (True, q\<lparr>sq_entries := vec_insert (sq_entries q) i entry\<rparr>))"

definition sq_next_deadline :: "SleepQueue \<Rightarrow> u64 option" where
  "sq_next_deadline q = map_option sleep_deadline (front (sq_entries q))"

definition sq_expire_until :: "SleepQueue \<Rightarrow> u64 \<Rightarrow> TaskId list \<times> SleepQueue" where
  "sq_expire_until q now =
     (let split = partition_point (\<lambda>entry. sleep_deadline entry \<le> now) (sq_entries q)
      in (map sleep_task (take split (sq_entries q)),
          q\<lparr>sq_entries := drop split (sq_entries q)\<rparr>))"

definition sq_remove :: "SleepQueue \<Rightarrow> TaskId \<Rightarrow> bool \<times> SleepQueue" where
  "sq_remove q task =
     (case position (\<lambda>entry. sleep_task entry = task) (sq_entries q) of
        None \<Rightarrow> (False, q)
      | Some i \<Rightarrow> (True, q\<lparr>sq_entries := vec_remove (sq_entries q) i\<rparr>))"

definition sq_contains :: "SleepQueue \<Rightarrow> TaskId \<Rightarrow> bool" where
  "sq_contains q task \<longleftrightarrow> list_ex (\<lambda>entry. sleep_task entry = task) (sq_entries q)"

definition sq_len :: "SleepQueue \<Rightarrow> nat" where
  "sq_len q = length (sq_entries q)"

definition sq_is_empty :: "SleepQueue \<Rightarrow> bool" where
  "sq_is_empty q \<longleftrightarrow> sq_entries q = []"

section \<open>Reschedule request and preemption gate\<close>

record RescheduleRequest =
  pending :: bool

definition RescheduleRequest_new :: RescheduleRequest where
  "RescheduleRequest_new = \<lparr>pending = False\<rparr>"

definition request :: "RescheduleRequest \<Rightarrow> RescheduleRequest" where
  "request r = r\<lparr>pending := True\<rparr>"

definition take_pending :: "RescheduleRequest \<Rightarrow> bool \<times> RescheduleRequest" where
  "take_pending r = (pending r, r\<lparr>pending := False\<rparr>)"

record PreemptionGate =
  disabled_depth :: usize

definition PreemptionGate_new :: PreemptionGate where
  "PreemptionGate_new = \<lparr>disabled_depth = 0\<rparr>"

definition gate_disable :: "PreemptionGate \<Rightarrow> PreemptionGate" where
  "gate_disable g = g\<lparr>disabled_depth := saturating_add (disabled_depth g) 1\<rparr>"

definition gate_is_enabled :: "PreemptionGate \<Rightarrow> bool" where
  "gate_is_enabled g \<longleftrightarrow> disabled_depth g = 0"

text \<open>Dropping a guard; \<open>None\<close> is the failed debug assertion.\<close>

definition gate_enable_one :: "PreemptionGate \<Rightarrow> PreemptionGate option" where
  "gate_enable_one g =
     (if disabled_depth g > 0 then Some (g\<lparr>disabled_depth := disabled_depth g - 1\<rparr>) else None)"

section \<open>The FIFO contract\<close>

text \<open>Pushing a list of tasks, and popping a number of times.\<close>

definition pushes :: "('q \<Rightarrow> TaskId \<Rightarrow> bool \<times> 'q) \<Rightarrow> 'q \<Rightarrow> TaskId list \<Rightarrow> 'q" where
  "pushes push q ts = foldl (\<lambda>q t. snd (push q t)) q ts"

fun pops :: "('q \<Rightarrow> TaskId option \<times> 'q) \<Rightarrow> nat \<Rightarrow> 'q \<Rightarrow> TaskId option list" where
  "pops pop 0 q = []"
| "pops pop (Suc n) q = (let (x, q') = pop q in x # pops pop n q')"

locale task_fifo =
  fixes empty :: 'q
    and push :: "'q \<Rightarrow> TaskId \<Rightarrow> bool \<times> 'q"
    and pop :: "'q \<Rightarrow> TaskId option \<times> 'q"
    and peek :: "'q \<Rightarrow> TaskId option"
    and remove :: "'q \<Rightarrow> TaskId \<Rightarrow> bool \<times> 'q"
    and contains :: "'q \<Rightarrow> TaskId \<Rightarrow> bool"
    and elems :: "'q \<Rightarrow> TaskId list"
  assumes elems_empty [simp]: "elems empty = []"
    and fst_push [simp]: "fst (push q t) \<longleftrightarrow> t \<notin> set (elems q)"
    and elems_push [simp]:
      "elems (snd (push q t)) = (if t \<in> set (elems q) then elems q else elems q @ [t])"
    and fst_pop [simp]: "fst (pop q) = front (elems q)"
    and elems_pop [simp]: "elems (snd (pop q)) = tl (elems q)"
    and peek_front [simp]: "peek q = front (elems q)"
    and fst_remove [simp]: "fst (remove q t) \<longleftrightarrow> t \<in> set (elems q)"
    and elems_remove [simp]: "elems (snd (remove q t)) = remove1 t (elems q)"
    and contains_iff [simp]: "contains q t \<longleftrightarrow> t \<in> set (elems q)"
begin

lemma distinct_push: "distinct (elems q) \<Longrightarrow> distinct (elems (snd (push q t)))"
  by simp

lemma distinct_pop: "distinct (elems q) \<Longrightarrow> distinct (elems (snd (pop q)))"
  by (simp add: distinct_tl)

lemma distinct_remove: "distinct (elems q) \<Longrightarrow> distinct (elems (snd (remove q t)))"
  by simp

lemma removed_gone: "distinct (elems q) \<Longrightarrow> \<not> contains (snd (remove q t)) t"
  by simp

lemma elems_pushes:
  "distinct ts \<Longrightarrow> set ts \<inter> set (elems q) = {} \<Longrightarrow> elems (pushes push q ts) = elems q @ ts"
  by (induction ts arbitrary: q) (auto simp: pushes_def)

lemma pops_all: "pops pop (length (elems q)) q = map Some (elems q)"
proof (induction "elems q" arbitrary: q)
  case (Cons x xs)
  obtain y q' where p: "pop q = (y, q')" by (cases "pop q")
  have "y = Some x" "elems q' = xs"
    using Cons.hyps(2) p fst_pop [of q] elems_pop [of q] by (simp_all flip: Cons.hyps(2))
  then show ?case using Cons.hyps(1) [of q'] p by (simp flip: Cons.hyps(2))
qed simp

lemma fifo:
  assumes "distinct ts" "set ts \<inter> set (elems q) = {}"
  shows "pops pop (length (elems q) + length ts) (pushes push q ts) = map Some (elems q @ ts)"
  using pops_all [of "pushes push q ts"] elems_pushes [OF assms] by simp

end

lemmas rq_defs = rq_push_def rq_pop_def rq_peek_def rq_remove_def rq_contains_def rq_snapshot_def
  RunQueue_new_def

lemmas wq_defs = wq_enqueue_def wq_dequeue_def wq_peek_def wq_remove_def wq_contains_def
  wq_snapshot_def WaitQueue_new_def

lemma fst_pop_front [simp]: "fst (pop_front xs) = front xs"
  by (cases xs) auto

lemma snd_pop_front [simp]: "snd (pop_front xs) = tl xs"
  by (cases xs) auto

lemma position_in_range [simp]: "position p xs = Some i \<Longrightarrow> vec_get xs i \<noteq> None"
  by (auto simp: position_Some vec_get_def)

lemma position_eq_in_set: "position (\<lambda>y. y = x) xs = Some i \<Longrightarrow> x \<in> set xs"
  by (auto simp: position_Some)

interpretation rq: task_fifo RunQueue_new rq_push rq_pop rq_peek rq_remove rq_contains rq_snapshot
  by unfold_locales
    (auto simp: rq_defs case_prod_beta Let_def vec_remove_position remove1_idem
      dest: position_eq_in_set split: option.split)

interpretation wq: task_fifo WaitQueue_new "\<lambda>q t. apfst is_ok (wq_enqueue q t)" wq_dequeue
  wq_peek wq_remove wq_contains wq_snapshot
  by unfold_locales
    (auto simp: wq_defs case_prod_beta Let_def vec_remove_position remove1_idem
      dest: position_eq_in_set split: option.split)

declare rq_snapshot_def [simp] wq_snapshot_def [simp]

lemma front_Some: "front xs = Some x \<longleftrightarrow> (\<exists>ys. xs = x # ys)"
  by (cases xs) auto

lemma front_None [simp]: "front xs = None \<longleftrightarrow> xs = []"
  by (cases xs) auto

lemma wq_dequeue_Some:
  "wq_dequeue w = (Some t, w') \<longleftrightarrow> wq_queue w = t # wq_queue w'"
  by (cases "wq_queue w"; cases w; cases w') (auto simp: wq_dequeue_def)

lemma wq_dequeue_shorter:
  "wq_dequeue w = (Some t, w') \<Longrightarrow> length (wq_queue w') < length (wq_queue w)"
  by (simp add: wq_dequeue_Some)

lemmas rq_lens = rq_len_def rq_is_empty_def

lemma rq_rotate_elems:
  "rq_queue (snd (rq_rotate q t)) =
     (if front (rq_queue q) = Some t then rotate1 (rq_queue q) else rq_queue q)"
  by (cases "rq_queue q") (auto simp: rq_rotate_def Let_def)

section \<open>The deadline order\<close>

definition sq_wf :: "SleepQueue \<Rightarrow> bool" where
  "sq_wf q \<longleftrightarrow> sorted (map sleep_key (sq_entries q)) \<and> distinct (map sleep_task (sq_entries q))"

lemma sorted_partitioned:
  assumes "sorted (map f xs)" and mono: "\<And>x y. f x \<le> f y \<Longrightarrow> p y \<Longrightarrow> p x"
  shows "partitioned p xs"
  using assms(1)
proof (induction xs)
  case (Cons x xs)
  show ?case
  proof (cases "p x")
    case True
    then show ?thesis using Cons unfolding partitioned_def dropWhile.simps by (simp only: if_True) simp
  next
    case False
    then have "\<forall>y\<in>set (x # xs). \<not> p y" using Cons.prems mono by auto
    then show ?thesis unfolding partitioned_def by (blast dest: set_dropWhileD)
  qed
qed (simp add: partitioned_def)

lemma sleep_key_deadline: "sleep_key a \<le> sleep_key b \<Longrightarrow> sleep_deadline a \<le> sleep_deadline b"
  by (auto simp: sleep_key_def less_eq_prod_def)

lemma expire_partitioned:
  "sq_wf q \<Longrightarrow> partitioned (\<lambda>e. sleep_deadline e \<le> now) (sq_entries q)"
  unfolding sq_wf_def
  by (rule sorted_partitioned [of sleep_key]) (auto dest: sleep_key_deadline)

lemma insert_partitioned:
  "sq_wf q \<Longrightarrow> partitioned (\<lambda>e. sleep_key e \<le> k) (sq_entries q)"
  unfolding sq_wf_def by (rule sorted_partitioned [of sleep_key]) auto

lemma sq_wf_new: "sq_wf SleepQueue_new"
  by (simp add: sq_wf_def SleepQueue_new_def)

lemma sq_insert_entries:
  assumes "\<not> sq_contains q (sleep_task e)"
  shows "sq_entries (snd (sq_insert q e)) =
    takeWhile (\<lambda>c. sleep_key c \<le> sleep_key e) (sq_entries q) @ e #
    dropWhile (\<lambda>c. sleep_key c \<le> sleep_key e) (sq_entries q)"
  using assms
  by (simp add: sq_insert_def sq_contains_def Let_def vec_insert_def rust_vec)

lemma sq_wf_insert:
  assumes "sq_wf q" shows "sq_wf (snd (sq_insert q e))"
proof (cases "sq_contains q (sleep_task e)")
  case True
  then show ?thesis using assms by (simp add: sq_insert_def sq_contains_def)
next
  case False
  define ys where "ys = takeWhile (\<lambda>c. sleep_key c \<le> sleep_key e) (sq_entries q)"
  define zs where "zs = dropWhile (\<lambda>c. sleep_key c \<le> sleep_key e) (sq_entries q)"
  have ins: "sq_entries (snd (sq_insert q e)) = ys @ e # zs" and xs: "sq_entries q = ys @ zs"
    by (simp_all only: sq_insert_entries [OF False] ys_def zs_def takeWhile_dropWhile_id)
  have "\<forall>x\<in>set zs. sleep_key e \<le> sleep_key x"
    using insert_partitioned [OF assms, of "sleep_key e"] unfolding partitioned_def zs_def
    by (meson linear)
  moreover have "\<forall>x\<in>set ys. sleep_key x \<le> sleep_key e"
    unfolding ys_def by (blast dest: set_takeWhileD)
  moreover have "sorted (map sleep_key (ys @ zs))" "distinct (map sleep_task (ys @ zs))"
    using assms by (simp_all only: sq_wf_def xs)
  moreover have "sleep_task e \<notin> sleep_task ` set (ys @ zs)"
    using False by (auto simp: sq_contains_def xs list_ex_iff)
  ultimately show ?thesis
    unfolding sq_wf_def ins by (fastforce simp: sorted_append)
qed

lemma sq_wf_expire: "sq_wf q \<Longrightarrow> sq_wf (snd (sq_expire_until q now))"
  by (simp add: sq_wf_def sq_expire_until_def Let_def drop_map [symmetric] sorted_wrt_drop)

lemma sq_wf_remove:
  assumes "sq_wf q" shows "sq_wf (snd (sq_remove q t))"
proof (cases "position (\<lambda>e. sleep_task e = t) (sq_entries q)")
  case (Some i)
  define xs where "xs = sq_entries q"
  have "i < length xs" using Some by (simp add: position_Some xs_def)
  then have "xs = take i xs @ xs ! i # drop (Suc i) xs" by (rule id_take_nth_drop)
  then have "sorted (map sleep_key (take i xs @ xs ! i # drop (Suc i) xs))"
    "distinct (map sleep_task (take i xs @ xs ! i # drop (Suc i) xs))"
    using assms by (simp_all add: sq_wf_def xs_def)
  then have "sorted (map sleep_key (vec_remove xs i))" "distinct (map sleep_task (vec_remove xs i))"
    unfolding vec_remove_def by (auto simp: sorted_append)
  then show ?thesis using Some by (simp add: sq_remove_def sq_wf_def xs_def)
qed (use assms in \<open>simp add: sq_remove_def\<close>)

lemma sq_expire_exact:
  assumes "sq_wf q"
  shows "sq_expire_until q now =
    (map sleep_task (filter (\<lambda>e. sleep_deadline e \<le> now) (sq_entries q)),
     q\<lparr>sq_entries := filter (\<lambda>e. \<not> sleep_deadline e \<le> now) (sq_entries q)\<rparr>)"
  using expire_partitioned [OF assms, of now]
  by (simp add: sq_expire_until_def Let_def rust_vec partitioned_takeWhile partitioned_dropWhile)

end
