(* ===== verification/Scheduler_Model.thy ===== *)
theory Scheduler_Model
  imports Task_Queues
begin

text \<open>
  The scheduler (\<open>kernel/src/scheduler/mod.rs\<close>): the slot table of task control blocks with
  a generation counter per slot, the ready queue, the current task, and every operation of
  \<open>impl Scheduler\<close>. A wait queue or a sleep queue is passed in by the caller, as in the
  source, and returned updated.
\<close>

section \<open>State\<close>

record DispatchDecision =
  previous :: "TaskId option"
  next_task :: "TaskId option"

datatype SchedulerError =
    TaskNotFound
  | ExecutionAlreadyAttached
  | TaskNotCreated
  | WaitQueueAlreadyContainsTask
  | SleepQueueAlreadyContainsTask
  | CurrentTaskMismatch
  | SuccessorNotReady

record Scheduler =
  sch_tasks :: "TaskControlBlock option list"
  sch_generations :: "u32 list"
  sch_ready :: RunQueue
  sch_current :: "TaskId option"

definition Scheduler_new :: Scheduler where
  "Scheduler_new =
     \<lparr>sch_tasks = [], sch_generations = [], sch_ready = RunQueue_new, sch_current = None\<rparr>"

section \<open>Lookup\<close>

text \<open>\<open>self.tasks.get(index).and_then(Option::as_ref)\<close>\<close>

definition slot_at :: "Scheduler \<Rightarrow> nat \<Rightarrow> TaskControlBlock option" where
  "slot_at s i = (case vec_get (sch_tasks s) i of None \<Rightarrow> None | Some slot \<Rightarrow> slot)"

definition task :: "Scheduler \<Rightarrow> TaskId \<Rightarrow> TaskControlBlock option" where
  "task s tid =
     (case slot_at s (unat (task_index tid)) of
        None \<Rightarrow> None
      | Some t \<Rightarrow> if tcb_id t = tid then Some t else None)"

definition set_slot :: "Scheduler \<Rightarrow> nat \<Rightarrow> TaskControlBlock option \<Rightarrow> Scheduler" where
  "set_slot s i v = s\<lparr>sch_tasks := (sch_tasks s)[i := v]\<rparr>"

text \<open>Writing through the reference that \<open>task_mut\<close> returns.\<close>

definition put_task :: "Scheduler \<Rightarrow> TaskId \<Rightarrow> TaskControlBlock \<Rightarrow> Scheduler" where
  "put_task s tid t = set_slot s (unat (task_index tid)) (Some t)"

text \<open>\<open>task_mut(id)\<close> followed by \<open>transition\<close>; \<open>None\<close> when the identifier resolves to no task.\<close>

definition task_transition :: "Scheduler \<Rightarrow> TaskId \<Rightarrow> TaskState \<Rightarrow> bool option \<times> Scheduler" where
  "task_transition s tid st =
     (case task s tid of
        None \<Rightarrow> (None, s)
      | Some t \<Rightarrow> (let (valid, t') = transition t st in (Some valid, put_task s tid t')))"

definition state :: "Scheduler \<Rightarrow> TaskId \<Rightarrow> TaskState option" where
  "state s tid = map_option tcb_state (task s tid)"

definition task_kind :: "Scheduler \<Rightarrow> TaskId \<Rightarrow> TaskKind option" where
  "task_kind s tid = map_option tcb_kind (task s tid)"

definition execution :: "Scheduler \<Rightarrow> TaskId \<Rightarrow> ExecutionHandle option" where
  "execution s tid = Option.bind (task s tid) tcb_execution"

definition next_ready :: "Scheduler \<Rightarrow> TaskId option" where
  "next_ready s = rq_peek (sch_ready s)"

definition ready_len :: "Scheduler \<Rightarrow> nat" where
  "ready_len s = rq_len (sch_ready s)"

definition task_count :: "Scheduler \<Rightarrow> nat" where
  "task_count s = length (filter (\<lambda>slot. slot \<noteq> None) (sch_tasks s))"

section \<open>Creation and destruction\<close>

text \<open>
  The first free slot whose generation is not exhausted. The outer option is the panic of an
  out-of-range \<open>self.generations[*index]\<close>.
\<close>

fun find_free_slot :: "TaskControlBlock option list \<Rightarrow> u32 list \<Rightarrow> nat \<Rightarrow> nat option option" where
  "find_free_slot [] gens i = Some None"
| "find_free_slot (Some t # slots) gens i = find_free_slot slots gens (Suc i)"
| "find_free_slot (None # slots) gens i =
     (case vec_get gens i of
        None \<Rightarrow> None
      | Some g \<Rightarrow> if g \<noteq> u32_MAX then Some (Some i) else find_free_slot slots gens (Suc i))"

fun tcb_of_kind :: "TaskKind \<Rightarrow> TaskId \<Rightarrow> Priority \<Rightarrow> TaskControlBlock" where
  "tcb_of_kind KernelTask tid priority = tcb_new tid priority"
| "tcb_of_kind UserspaceTask tid priority = tcb_new_userspace tid priority"

definition create_task_with_kind ::
  "Scheduler \<Rightarrow> Priority \<Rightarrow> TaskKind \<Rightarrow> (TaskId \<times> Scheduler) option" where
  "create_task_with_kind s priority kind =
     (case find_free_slot (sch_tasks s) (sch_generations s) 0 of
        None \<Rightarrow> None
      | Some (Some index) \<Rightarrow>
          (case checked_add (sch_generations s ! index) 1 of
             None \<Rightarrow> None
           | Some generation \<Rightarrow>
               let tid = TaskId (of_nat index) generation
               in Some (tid,
                    s\<lparr>sch_generations := (sch_generations s)[index := generation],
                      sch_tasks := (sch_tasks s)[index := Some (tcb_of_kind kind tid priority)]\<rparr>))
      | Some None \<Rightarrow>
          let index = length (sch_tasks s);
              tid = TaskId (of_nat index) 1
          in Some (tid,
               s\<lparr>sch_tasks := sch_tasks s @ [Some (tcb_of_kind kind tid priority)],
                 sch_generations := sch_generations s @ [1]\<rparr>))"

definition create_task :: "Scheduler \<Rightarrow> Priority \<Rightarrow> (TaskId \<times> Scheduler) option" where
  "create_task s priority = create_task_with_kind s priority KernelTask"

definition create_user_task :: "Scheduler \<Rightarrow> Priority \<Rightarrow> (TaskId \<times> Scheduler) option" where
  "create_user_task s priority = create_task_with_kind s priority UserspaceTask"

definition attach_execution ::
  "Scheduler \<Rightarrow> TaskId \<Rightarrow> (SchedulerError + ExecutionHandle) \<times> Scheduler" where
  "attach_execution s tid =
     (case task s tid of
        None \<Rightarrow> (Inl TaskNotFound, s)
      | Some t \<Rightarrow>
          (let (r, t') = tcb_attach_execution t
           in (map_err (\<lambda>e. case e of AlreadyAttached \<Rightarrow> ExecutionAlreadyAttached) r,
               put_task s tid t')))"

definition destroy_created ::
  "Scheduler \<Rightarrow> TaskId \<Rightarrow> (SchedulerError + ExecutionHandle) \<times> Scheduler" where
  "destroy_created s tid =
     (let index = unat (task_index tid)
      in case slot_at s index of
           None \<Rightarrow> (Inl TaskNotFound, s)
         | Some t \<Rightarrow>
             if tcb_id t \<noteq> tid \<or> tcb_state t \<noteq> Created then (Inl TaskNotCreated, s)
             else (case tcb_detach_execution t of
                     (None, t') \<Rightarrow> (Inl TaskNotCreated, set_slot s index (Some t'))
                   | (Some handle, t') \<Rightarrow> (Inr handle, set_slot s index None)))"

section \<open>Scheduling\<close>

definition make_ready :: "Scheduler \<Rightarrow> TaskId \<Rightarrow> bool \<times> Scheduler" where
  "make_ready s tid =
     (if rq_contains (sch_ready s) tid then (False, s)
      else case task_transition s tid Ready of
             (Some True, s') \<Rightarrow>
               (let (pushed, q) = rq_push (sch_ready s') tid in (pushed, s'\<lparr>sch_ready := q\<rparr>))
           | (_, s') \<Rightarrow> (False, s'))"

definition terminate_current_to ::
  "Scheduler \<Rightarrow> TaskId \<Rightarrow> (SchedulerError + TaskId) \<times> Scheduler" where
  "terminate_current_to s successor =
     (case sch_current s of
        None \<Rightarrow> (Inl TaskNotFound, s)
      | Some cur \<Rightarrow>
          if cur = successor then (Inl CurrentTaskMismatch, s)
          else if rq_peek (sch_ready s) \<noteq> Some successor \<or> state s successor \<noteq> Some Ready
          then (Inl SuccessorNotReady, s)
          else
            let ci = unat (task_index cur);
                si = unat (task_index successor);
                current_ok = (case slot_at s ci of
                                Some t \<Rightarrow> tcb_id t = cur \<and> tcb_state t = Running | None \<Rightarrow> False);
                successor_ok = (case slot_at s si of
                                  Some t \<Rightarrow> tcb_id t = successor \<and> tcb_state t = Ready | None \<Rightarrow> False)
            in if \<not> current_ok then (Inl TaskNotFound, s)
               else if \<not> successor_ok then (Inl SuccessorNotReady, s)
               else
                 (case slot_at s ci of
                    None \<Rightarrow> (Inl TaskNotFound, s)
                  | Some t \<Rightarrow>
                      if \<not> fst (transition t Exited) then (Inl TaskNotFound, s)
                      else
                        let s1 = set_slot s ci None;
                            (queued, q) = rq_pop (sch_ready s1);
                            s2 = s1\<lparr>sch_ready := q\<rparr>
                        in if queued \<noteq> Some successor then (Inl SuccessorNotReady, s2)
                           else (case slot_at s2 si of
                                   None \<Rightarrow> (Inl SuccessorNotReady, s2)
                                 | Some u \<Rightarrow>
                                     (let (valid, u') = transition u Running;
                                          s3 = set_slot s2 si (Some u')
                                      in if \<not> valid then (Inl SuccessorNotReady, s3)
                                         else (Inr successor, s3\<lparr>sch_current := Some successor\<rparr>)))))"

text \<open>\<open>schedule_next\<close>, first block: the running task goes back to the ready queue.\<close>

definition requeue_previous :: "Scheduler \<Rightarrow> Scheduler" where
  "requeue_previous s =
     (case sch_current s of
        None \<Rightarrow> s
      | Some previous_id \<Rightarrow>
          (case task s previous_id of
             None \<Rightarrow> s
           | Some t \<Rightarrow>
               if tcb_state t = Running
               then let s' = put_task s previous_id (snd (transition t Ready))
                    in s'\<lparr>sch_ready := snd (rq_push (sch_ready s') previous_id)\<rparr>
               else s))"

text \<open>\<open>schedule_next\<close>, last block: the head of the ready queue becomes the current task.\<close>

definition dispatch_head :: "Scheduler \<Rightarrow> Scheduler" where
  "dispatch_head s =
     (let (next, q) = rq_pop (sch_ready s);
          s1 = s\<lparr>sch_ready := q\<rparr>
      in case next of
           None \<Rightarrow> s1\<lparr>sch_current := None\<rparr>
         | Some next_id \<Rightarrow>
             (case task_transition s1 next_id Running of
                (Some True, s2) \<Rightarrow> s2\<lparr>sch_current := Some next_id\<rparr>
              | (_, s2) \<Rightarrow> s2\<lparr>sch_current := None\<rparr>))"

definition schedule_next :: "Scheduler \<Rightarrow> DispatchDecision \<times> Scheduler" where
  "schedule_next s =
     (let prev = sch_current s;
          s1 = requeue_previous s
      in case prev of
           Some previous_id \<Rightarrow>
             if rq_len (sch_ready s1) = 1 \<and> rq_peek (sch_ready s1) = Some previous_id
             then let s2 = s1\<lparr>sch_ready := snd (rq_pop (sch_ready s1))\<rparr>;
                      s3 = snd (task_transition s2 previous_id Running)
                  in (\<lparr>previous = prev, next_task = None\<rparr>, s3\<lparr>sch_current := Some previous_id\<rparr>)
             else let s2 = dispatch_head s1
                  in (\<lparr>previous = prev, next_task = sch_current s2\<rparr>, s2)
         | None \<Rightarrow>
             let s2 = dispatch_head s1
             in (\<lparr>previous = prev, next_task = sch_current s2\<rparr>, s2))"

section \<open>Blocking and waking\<close>

definition block_current_on ::
  "Scheduler \<Rightarrow> WaitQueue \<Rightarrow> (SchedulerError + TaskId) \<times> Scheduler \<times> WaitQueue" where
  "block_current_on s waiters =
     (case sch_current s of
        None \<Rightarrow> (Inl TaskNotFound, s, waiters)
      | Some tid \<Rightarrow>
          if wq_contains waiters tid then (Inl WaitQueueAlreadyContainsTask, s, waiters)
          else
            (case task_transition s tid Blocked of
               (Some True, s') \<Rightarrow>
                 (case wq_enqueue waiters tid of
                    (Inl AlreadyQueued, waiters') \<Rightarrow>
                      (Inl WaitQueueAlreadyContainsTask, snd (task_transition s' tid Running), waiters')
                  | (Inr _, waiters') \<Rightarrow> (Inr tid, s'\<lparr>sch_current := None\<rparr>, waiters'))
             | (_, s') \<Rightarrow> (Inl TaskNotFound, s', waiters)))"

definition block_current :: "Scheduler \<Rightarrow> bool \<times> Scheduler" where
  "block_current s =
     (case sch_current s of
        None \<Rightarrow> (False, s)
      | Some tid \<Rightarrow>
          (case task_transition s tid Blocked of
             (Some True, s') \<Rightarrow> (True, s'\<lparr>sch_current := None\<rparr>)
           | (_, s') \<Rightarrow> (False, s')))"

function wake_one :: "Scheduler \<Rightarrow> WaitQueue \<Rightarrow> TaskId option \<times> Scheduler \<times> WaitQueue" where
  "wake_one s waiters =
     (case wq_dequeue waiters of
        (None, waiters') \<Rightarrow> (None, s, waiters')
      | (Some tid, waiters') \<Rightarrow>
          (case task s tid of
             None \<Rightarrow> wake_one s waiters'
           | Some t \<Rightarrow>
               if tcb_state t \<noteq> Blocked then wake_one s waiters'
               else
                 (case transition t Ready of
                    (False, t') \<Rightarrow> wake_one (put_task s tid t') waiters'
                  | (True, t') \<Rightarrow>
                      let s' = put_task s tid t'
                      in (case rq_push (sch_ready s') tid of
                            (False, q) \<Rightarrow>
                              (None, snd (task_transition (s'\<lparr>sch_ready := q\<rparr>) tid Blocked),
                               snd (wq_enqueue waiters' tid))
                          | (True, q) \<Rightarrow> (Some tid, s'\<lparr>sch_ready := q\<rparr>, waiters')))))"
  by pat_completeness auto

termination wake_one
proof (relation "measure (\<lambda>(s, w). length (wq_queue w))")
qed (auto dest!: sym [of "(_, _)" "wq_dequeue _"] dest: wq_dequeue_shorter)

declare wake_one.simps [simp del]

definition sleep_current_until ::
  "Scheduler \<Rightarrow> u64 \<Rightarrow> SleepQueue \<Rightarrow> (SchedulerError + TaskId) \<times> Scheduler \<times> SleepQueue" where
  "sleep_current_until s deadline sleepers =
     (case sch_current s of
        None \<Rightarrow> (Inl TaskNotFound, s, sleepers)
      | Some tid \<Rightarrow>
          if sq_contains sleepers tid then (Inl SleepQueueAlreadyContainsTask, s, sleepers)
          else
            (case task_transition s tid Blocked of
               (Some True, s') \<Rightarrow>
                 (case sq_insert sleepers (SleepEntry_new deadline tid) of
                    (False, sleepers') \<Rightarrow>
                      (Inl SleepQueueAlreadyContainsTask, snd (task_transition s' tid Running), sleepers')
                  | (True, sleepers') \<Rightarrow> (Inr tid, s'\<lparr>sch_current := None\<rparr>, sleepers'))
             | (_, s') \<Rightarrow> (Inl TaskNotFound, s', sleepers)))"

text \<open>The loop of \<open>expire_sleepers\<close> over the expired tasks, with the woken ones in order.\<close>

fun wake_expired :: "Scheduler \<Rightarrow> TaskId list \<Rightarrow> TaskId list \<times> Scheduler" where
  "wake_expired s [] = ([], s)"
| "wake_expired s (tid # expired) =
     (case task s tid of
        None \<Rightarrow> wake_expired s expired
      | Some t \<Rightarrow>
          if tcb_state t \<noteq> Blocked then wake_expired s expired
          else
            let (transitioned, t') = transition t Ready;
                s1 = put_task s tid t'
            in if transitioned
               then let (pushed, q) = rq_push (sch_ready s1) tid;
                        (woken, s2) = wake_expired (s1\<lparr>sch_ready := q\<rparr>) expired
                    in (if pushed then tid # woken else woken, s2)
               else wake_expired s1 expired)"

definition expire_sleepers ::
  "Scheduler \<Rightarrow> u64 \<Rightarrow> SleepQueue \<Rightarrow> TaskId list \<times> Scheduler \<times> SleepQueue" where
  "expire_sleepers s now sleepers =
     (let (expired, sleepers') = sq_expire_until sleepers now;
          (woken, s') = wake_expired s expired
      in (woken, s', sleepers'))"

definition exit_current :: "Scheduler \<Rightarrow> bool \<times> Scheduler" where
  "exit_current s =
     (case sch_current s of
        None \<Rightarrow> (False, s)
      | Some tid \<Rightarrow>
          let index = unat (task_index tid)
          in (case slot_at s index of
                None \<Rightarrow> (False, s)
              | Some t \<Rightarrow>
                  if tcb_id t \<noteq> tid \<or> \<not> fst (transition t Exited) then (False, s)
                  else (True, (set_slot s index None)\<lparr>sch_current := None\<rparr>)))"

end
