(* ===== verification/Scheduler_Invariant.thy ===== *)
theory Scheduler_Invariant
  imports Scheduler_Model
begin

text \<open>
  The invariant of the scheduler and its preservation by every operation, the step relation
  of the scheduler with its reachable states, and the functional behaviour of the operations
  on the lookup function \<open>task s\<close>.

  The invariant has two parts. \<open>table_wf\<close> ties every occupied slot to the identifier made of
  its index and its generation. \<open>queue_wf\<close> relates the lookup function, the ready queue and
  the current task: the queue lists exactly the ready tasks, once each, and a running task
  is the current one.
\<close>

section \<open>Invariant\<close>

definition table_wf :: "Scheduler \<Rightarrow> bool" where
  "table_wf s \<longleftrightarrow>
     length (sch_generations s) = length (sch_tasks s) \<and>
     length (sch_tasks s) \<le> 2 ^ 32 \<and>
     (\<forall>i t. i < length (sch_tasks s) \<longrightarrow> sch_tasks s ! i = Some t \<longrightarrow>
        tcb_id t = TaskId (of_nat i) (sch_generations s ! i))"

definition task_ok :: "TaskControlBlock \<Rightarrow> bool" where
  "task_ok t \<longleftrightarrow> tcb_execution t \<in> {None, Some (for_task (tcb_id t))} \<and> tcb_state t \<noteq> Exited"

definition queue_wf ::
  "(TaskId \<Rightarrow> TaskControlBlock option) \<Rightarrow> TaskId list \<Rightarrow> TaskId option \<Rightarrow> bool" where
  "queue_wf m q c \<longleftrightarrow>
     distinct q \<and>
     (\<forall>tid t. m tid = Some t \<longrightarrow> task_ok t) \<and>
     (\<forall>tid. tid \<in> set q \<longleftrightarrow> (\<exists>t. m tid = Some t \<and> tcb_state t = Ready)) \<and>
     (\<forall>tid t. m tid = Some t \<longrightarrow> tcb_state t = Running \<longrightarrow> c = Some tid) \<and>
     (\<forall>tid. c = Some tid \<longrightarrow> (\<exists>t. m tid = Some t \<and> (tcb_state t = Running \<or> tcb_state t = Ready)))"

definition sched_wf :: "Scheduler \<Rightarrow> bool" where
  "sched_wf s \<longleftrightarrow> table_wf s \<and> queue_wf (task s) (rq_queue (sch_ready s)) (sch_current s)"

section \<open>The lookup function under updates\<close>

named_theorems task_upd \<open>the lookup function after an update of the slot table\<close>

lemma task_ready [task_upd, simp]: "task (s\<lparr>sch_ready := q\<rparr>) = task s"
  by (simp add: task_def slot_at_def fun_eq_iff)

lemma task_current [task_upd, simp]: "task (s\<lparr>sch_current := c\<rparr>) = task s"
  by (simp add: task_def slot_at_def fun_eq_iff)

lemma slot_at_Some:
  "slot_at s i = Some t \<longleftrightarrow> i < length (sch_tasks s) \<and> sch_tasks s ! i = Some t"
  by (auto simp: slot_at_def vec_get_def split: option.splits)

lemma task_Some:
  "task s tid = Some t \<longleftrightarrow> slot_at s (unat (task_index tid)) = Some t \<and> tcb_id t = tid"
  by (auto simp: task_def split: option.splits)

lemma task_id: "task s tid = Some t \<Longrightarrow> tcb_id t = tid"
  by (simp add: task_Some)

lemma unat_index_eq [simp]:
  "unat (task_index a) = unat (task_index b) \<longleftrightarrow> task_index a = task_index b"
  by (simp add: word_unat_eq_iff)

lemma slot_at_set_slot:
  "slot_at (set_slot s i v) j = (if j = i \<and> i < length (sch_tasks s) then v else slot_at s j)"
  by (simp add: slot_at_def set_slot_def vec_get_update)

lemma task_put [task_upd]:
  assumes "task s tid = Some t" "tcb_id t' = tid"
  shows "task (put_task s tid t') = (task s)(tid \<mapsto> t')"
proof
  fix x
  have "slot_at s (unat (task_index tid)) = Some t" "tcb_id t = tid"
    "unat (task_index tid) < length (sch_tasks s)"
    using assms by (simp_all add: task_Some slot_at_Some)
  then show "task (put_task s tid t') x = ((task s)(tid \<mapsto> t')) x"
    using assms(2) by (auto simp: task_def put_task_def slot_at_set_slot)
qed

lemma task_clear [task_upd]:
  assumes "task s tid = Some t"
  shows "task (set_slot s (unat (task_index tid)) None) = (task s)(tid := None)"
proof
  fix x
  have "slot_at s (unat (task_index tid)) = Some t" "tcb_id t = tid"
    "unat (task_index tid) < length (sch_tasks s)"
    using assms by (simp_all add: task_Some slot_at_Some)
  then show "task (set_slot s (unat (task_index tid)) None) x = ((task s)(tid := None)) x"
    by (auto simp: task_def slot_at_set_slot)
qed

lemma put_task_same [simp]:
  assumes "task s tid = Some t" shows "put_task s tid t = s"
proof -
  have "(sch_tasks s)[unat (task_index tid) := Some t] = sch_tasks s"
    using assms by (intro list_update_same_conv [THEN iffD2]) (auto simp: task_Some slot_at_Some)
  then show ?thesis by (simp add: put_task_def set_slot_def)
qed

lemma put_task_fields [simp]:
  "sch_ready (put_task s tid t) = sch_ready s"
  "sch_current (put_task s tid t) = sch_current s"
  "sch_generations (put_task s tid t) = sch_generations s"
  "length (sch_tasks (put_task s tid t)) = length (sch_tasks s)"
  by (simp_all add: put_task_def set_slot_def)

lemma set_slot_fields [simp]:
  "sch_ready (set_slot s i v) = sch_ready s"
  "sch_current (set_slot s i v) = sch_current s"
  "sch_generations (set_slot s i v) = sch_generations s"
  "length (sch_tasks (set_slot s i v)) = length (sch_tasks s)"
  by (simp_all add: set_slot_def)

lemma task_transition_cases:
  obtains (missing) "task s tid = None" "task_transition s tid st = (None, s)"
  | (invalid) t where "task s tid = Some t" "\<not> valid_transition (tcb_state t) st"
      "task_transition s tid st = (Some False, s)"
  | (valid) t where "task s tid = Some t" "valid_transition (tcb_state t) st"
      "task_transition s tid st = (Some True, put_task s tid (t\<lparr>tcb_state := st\<rparr>))"
  by (cases "task s tid") (auto simp: task_transition_def transition_def Let_def)

lemma state_Some: "state s tid = Some st \<longleftrightarrow> (\<exists>t. task s tid = Some t \<and> tcb_state t = st)"
  by (auto simp: state_def)

section \<open>The slot table\<close>

lemma table_wf_fields [simp]:
  "table_wf (s\<lparr>sch_ready := q\<rparr>) = table_wf s"
  "table_wf (s\<lparr>sch_current := c\<rparr>) = table_wf s"
  by (simp_all add: table_wf_def)

lemma table_wf_put [simp]:
  assumes "table_wf s" "task s tid = Some t" "tcb_id t' = tid"
  shows "table_wf (put_task s tid t')"
proof -
  define i where "i = unat (task_index tid)"
  have "i < length (sch_tasks s)" "sch_tasks s ! i = Some t" "tcb_id t' = tcb_id t"
    using assms(2,3) by (simp_all add: task_Some slot_at_Some i_def)
  moreover from this assms(1) have "tcb_id t = TaskId (of_nat i) (sch_generations s ! i)"
    unfolding table_wf_def by blast
  ultimately show ?thesis using assms(1)
    by (auto simp: table_wf_def put_task_def set_slot_def nth_update_if simp flip: i_def)
qed

lemma table_wf_clear [simp]: "table_wf s \<Longrightarrow> table_wf (set_slot s i None)"
  by (auto simp: table_wf_def set_slot_def nth_update_if)

lemma table_wf_generation:
  assumes "table_wf s" "task s tid = Some t"
  shows "task_generation tid = sch_generations s ! unat (task_index tid)"
proof -
  define i where "i = unat (task_index tid)"
  have "i < length (sch_tasks s)" "sch_tasks s ! i = Some t" "tcb_id t = tid"
    using assms(2) by (simp_all add: task_Some slot_at_Some i_def)
  with assms(1) have "tid = TaskId (of_nat i) (sch_generations s ! i)"
    unfolding table_wf_def by blast
  then show ?thesis unfolding i_def by (metis TaskId.sel(2))
qed

lemma find_free_slot_total:
  "i + length slots \<le> length gens \<Longrightarrow> find_free_slot slots gens i \<noteq> None"
  by (induction slots gens i rule: find_free_slot.induct) (auto simp: vec_get_def)

lemma find_free_slot_Some:
  "find_free_slot slots gens i = Some (Some j) \<Longrightarrow>
     i \<le> j \<and> j < i + length slots \<and> slots ! (j - i) = None \<and> j < length gens \<and> gens ! j \<noteq> u32_MAX"
  by (induction slots gens i rule: find_free_slot.induct)
    (fastforce simp: vec_get_def nth_Cons' split: if_splits)+

lemma find_free_slot_first:
  "find_free_slot slots gens i = Some (Some j) \<Longrightarrow> i \<le> k \<Longrightarrow> k < j \<Longrightarrow>
     slots ! (k - i) \<noteq> None \<or> gens ! k = u32_MAX"
  by (induction slots gens i rule: find_free_slot.induct)
    (fastforce simp: vec_get_def nth_Cons' split: if_splits)+

lemma tcb_of_kind_simps [simp]:
  "tcb_id (tcb_of_kind k tid p) = tid"
  "tcb_kind (tcb_of_kind k tid p) = k"
  "tcb_state (tcb_of_kind k tid p) = Created"
  "tcb_priority (tcb_of_kind k tid p) = p"
  "tcb_execution (tcb_of_kind k tid p) = None"
  by (cases k; simp add: tcb_new_def tcb_new_userspace_def)+

lemma checked_add_one_u32: "(g::u32) \<noteq> u32_MAX \<Longrightarrow> checked_add g 1 = Some (g + 1)"
proof -
  assume "g \<noteq> u32_MAX"
  then have "unat g \<noteq> 4294967295" by (simp add: word_unat_eq_iff)
  moreover have "unat g < 4294967296" using unsigned_less [of g] by simp
  ultimately show ?thesis by (simp add: checked_add_def)
qed

lemma checked_add_MAX_u32: "checked_add u32_MAX 1 = None"
  by (simp add: checked_add_def)

section \<open>The ready queue and the current task\<close>

lemma queue_wfI:
  assumes "distinct q" "\<And>x u. m x = Some u \<Longrightarrow> task_ok u"
    and "\<And>x. x \<in> set q \<longleftrightarrow> (\<exists>u. m x = Some u \<and> tcb_state u = Ready)"
    and "\<And>x u. m x = Some u \<Longrightarrow> tcb_state u = Running \<Longrightarrow> c = Some x"
    and "\<And>x. c = Some x \<Longrightarrow> \<exists>u. m x = Some u \<and> (tcb_state u = Running \<or> tcb_state u = Ready)"
  shows "queue_wf m q c"
  unfolding queue_wf_def using assms by blast

lemma queue_wfD:
  assumes "queue_wf m q c"
  shows queue_wf_distinct: "distinct q"
    and queue_wf_ok: "m x = Some u \<Longrightarrow> task_ok u"
    and queue_wf_mem: "x \<in> set q \<longleftrightarrow> (\<exists>u. m x = Some u \<and> tcb_state u = Ready)"
    and queue_wf_running: "m x = Some u \<Longrightarrow> tcb_state u = Running \<Longrightarrow> c = Some x"
    and queue_wf_current: "c = Some x \<Longrightarrow> \<exists>u. m x = Some u \<and> (tcb_state u = Running \<or> tcb_state u = Ready)"
  using assms unfolding queue_wf_def by blast+

lemma task_ok_update [simp]:
  "task_ok (t\<lparr>tcb_state := st\<rparr>) \<longleftrightarrow> tcb_execution t \<in> {None, Some (for_task (tcb_id t))} \<and> st \<noteq> Exited"
  "task_ok (t\<lparr>tcb_execution := e\<rparr>) \<longleftrightarrow> e \<in> {None, Some (for_task (tcb_id t))} \<and> tcb_state t \<noteq> Exited"
  by (simp_all add: task_ok_def)

lemma task_ok_execution: "task_ok t \<Longrightarrow> tcb_execution t \<noteq> None \<Longrightarrow> tcb_execution t = Some (for_task (tcb_id t))"
  by (auto simp: task_ok_def)

lemma queue_wf_update:
  assumes wf: "queue_wf m q c" and t: "m tid = Some t" and t': "task_ok t'"
    and same: "tcb_state t' = tcb_state t"
  shows "queue_wf (m(tid \<mapsto> t')) q c"
proof (rule queue_wfI)
  fix x
  show "x \<in> set q \<longleftrightarrow> (\<exists>u. (m(tid \<mapsto> t')) x = Some u \<and> tcb_state u = Ready)"
    unfolding queue_wf_mem [OF wf] using t same by auto
next
  fix x assume "c = Some x"
  then show "\<exists>u. (m(tid \<mapsto> t')) x = Some u \<and> (tcb_state u = Running \<or> tcb_state u = Ready)"
    using queue_wf_current [OF wf] t same by (cases "x = tid") auto
qed (use t' t same in \<open>auto split: if_splits
       intro: queue_wf_distinct [OF wf] dest: queue_wf_ok [OF wf] queue_wf_running [OF wf]\<close>)

lemma queue_wf_new:
  assumes wf: "queue_wf m q c" and none: "m tid = None"
  shows "queue_wf (m(tid \<mapsto> tcb_of_kind k tid p)) q c"
proof (rule queue_wfI)
  fix x
  show "x \<in> set q \<longleftrightarrow> (\<exists>u. (m(tid \<mapsto> tcb_of_kind k tid p)) x = Some u \<and> tcb_state u = Ready)"
    unfolding queue_wf_mem [OF wf] using none by auto
next
  fix x assume "c = Some x"
  then show "\<exists>u. (m(tid \<mapsto> tcb_of_kind k tid p)) x = Some u \<and> (tcb_state u = Running \<or> tcb_state u = Ready)"
    using queue_wf_current [OF wf] none by (cases "x = tid") auto
qed (auto simp: task_ok_def split: if_splits intro: queue_wf_distinct [OF wf]
       dest: queue_wf_running [OF wf] queue_wf_ok [OF wf, unfolded task_ok_def])

lemma queue_wf_ready:
  assumes wf: "queue_wf m q c" and t: "m tid = Some t" "valid_transition (tcb_state t) Ready"
  shows "tid \<notin> set q" and "queue_wf (m(tid \<mapsto> t\<lparr>tcb_state := Ready\<rparr>)) (q @ [tid]) c"
proof -
  have nr: "tcb_state t \<noteq> Ready" using t(2) by (auto simp: valid_transition_from)
  then show notin: "tid \<notin> set q" unfolding queue_wf_mem [OF wf] using t by auto
  show "queue_wf (m(tid \<mapsto> t\<lparr>tcb_state := Ready\<rparr>)) (q @ [tid]) c"
  proof (rule queue_wfI)
    fix x
    show "x \<in> set (q @ [tid]) \<longleftrightarrow>
        (\<exists>u. (m(tid \<mapsto> t\<lparr>tcb_state := Ready\<rparr>)) x = Some u \<and> tcb_state u = Ready)"
      using queue_wf_mem [OF wf, of x] by auto
  next
    fix x assume "c = Some x"
    then show "\<exists>u. (m(tid \<mapsto> t\<lparr>tcb_state := Ready\<rparr>)) x = Some u \<and>
        (tcb_state u = Running \<or> tcb_state u = Ready)"
      using queue_wf_current [OF wf] by (cases "x = tid") auto
  qed (use notin queue_wf_ok [OF wf t(1)] queue_wf_distinct [OF wf] in
        \<open>auto simp: task_ok_def split: if_splits
          dest: queue_wf_running [OF wf] queue_wf_ok [OF wf, unfolded task_ok_def]\<close>)
qed

lemma queue_wf_run:
  assumes wf: "queue_wf m (tid # q) c" and t: "m tid = Some t"
    and none: "\<And>x u. m x = Some u \<Longrightarrow> tcb_state u \<noteq> Running"
  shows "queue_wf (m(tid \<mapsto> t\<lparr>tcb_state := Running\<rparr>)) q (Some tid)"
proof (rule queue_wfI)
  have d: "distinct (tid # q)" by (rule queue_wf_distinct [OF wf])
  then show "distinct q" by simp
  fix x
  show "x \<in> set q \<longleftrightarrow> (\<exists>u. (m(tid \<mapsto> t\<lparr>tcb_state := Running\<rparr>)) x = Some u \<and> tcb_state u = Ready)"
    using queue_wf_mem [OF wf, of x] d by (cases "x = tid") auto
qed (use queue_wf_ok [OF wf t] in \<open>auto simp: task_ok_def split: if_splits
       dest: none queue_wf_ok [OF wf, unfolded task_ok_def]\<close>)

lemma queue_wf_block:
  assumes wf: "queue_wf m q (Some tid)" and t: "m tid = Some t" "tcb_state t = Running"
  shows "queue_wf (m(tid \<mapsto> t\<lparr>tcb_state := Blocked\<rparr>)) q None"
proof (rule queue_wfI)
  fix x
  show "x \<in> set q \<longleftrightarrow> (\<exists>u. (m(tid \<mapsto> t\<lparr>tcb_state := Blocked\<rparr>)) x = Some u \<and> tcb_state u = Ready)"
    unfolding queue_wf_mem [OF wf] using t by auto
qed (use queue_wf_ok [OF wf t(1)] queue_wf_distinct [OF wf] in \<open>auto simp: task_ok_def split: if_splits
       dest: queue_wf_running [OF wf] queue_wf_ok [OF wf, unfolded task_ok_def]\<close>)

lemma queue_wf_remove:
  assumes wf: "queue_wf m q c" and t: "m tid = Some t" "tcb_state t \<noteq> Ready"
    and c': "c' = (if c = Some tid then None else c)"
  shows "queue_wf (m(tid := None)) q c'"
proof (rule queue_wfI)
  fix x
  show "x \<in> set q \<longleftrightarrow> (\<exists>u. (m(tid := None)) x = Some u \<and> tcb_state u = Ready)"
    unfolding queue_wf_mem [OF wf] using t by auto
next
  fix x u assume "(m(tid := None)) x = Some u" "tcb_state u = Running"
  then have "x \<noteq> tid" "c = Some x"
    by (auto split: if_splits dest: queue_wf_running [OF wf])
  then show "c' = Some x" unfolding c' by simp
next
  fix x assume "c' = Some x"
  then have "c = Some x" "x \<noteq> tid" unfolding c' by (auto split: if_splits)
  then show "\<exists>u. (m(tid := None)) x = Some u \<and> (tcb_state u = Running \<or> tcb_state u = Ready)"
    using queue_wf_current [OF wf] by simp
qed (auto split: if_splits intro: queue_wf_distinct [OF wf] dest: queue_wf_ok [OF wf])

lemma queue_wf_idle:
  assumes "queue_wf m [] c" "\<And>x u. m x = Some u \<Longrightarrow> tcb_state u \<noteq> Running"
  shows "c = None"
proof (cases c)
  case (Some x)
  then obtain u where u: "m x = Some u" "tcb_state u = Running \<or> tcb_state u = Ready"
    using queue_wf_current [OF assms(1)] by blast
  then show ?thesis using queue_wf_mem [OF assms(1), of x] assms(2) by auto
qed simp

end
