(* ===== verification/Scheduler_Steps.thy ===== *)
theory Scheduler_Steps
  imports Scheduler_Invariant
begin

text \<open>
  Preservation of the scheduler invariant, one lemma per operation of \<open>impl Scheduler\<close>, the
  step relation over all of them, and its reachable states.
\<close>

section \<open>Creation\<close>

lemma create_cases:
  assumes "table_wf s" "create_task_with_kind s p k = Some (tid, s')"
  obtains (reuse) i where "i < length (sch_tasks s)" "sch_tasks s ! i = None"
      "sch_generations s ! i \<noteq> u32_MAX" "tid = TaskId (of_nat i) (sch_generations s ! i + 1)"
      "s' = s\<lparr>sch_generations := (sch_generations s)[i := sch_generations s ! i + 1],
              sch_tasks := (sch_tasks s)[i := Some (tcb_of_kind k tid p)]\<rparr>"
  | (grow) "tid = TaskId (of_nat (length (sch_tasks s))) 1"
      "s' = s\<lparr>sch_tasks := sch_tasks s @ [Some (tcb_of_kind k tid p)],
              sch_generations := sch_generations s @ [1]\<rparr>"
proof (cases "find_free_slot (sch_tasks s) (sch_generations s) 0")
  case None
  then show ?thesis using assms(2) by (simp add: create_task_with_kind_def)
next
  case (Some free)
  show ?thesis
  proof (cases free)
    case None
    then show ?thesis using Some assms(2) grow by (auto simp: create_task_with_kind_def Let_def)
  next
    case (Some i)
    with \<open>find_free_slot _ _ 0 = Some free\<close> have i: "i < length (sch_tasks s)" "sch_tasks s ! i = None"
      "sch_generations s ! i \<noteq> u32_MAX"
      using find_free_slot_Some [of "sch_tasks s" "sch_generations s" 0 i] by auto
    then show ?thesis
      using reuse [OF i] Some \<open>find_free_slot _ _ 0 = Some free\<close> assms(2) checked_add_one_u32 [OF i(3)]
      by (auto simp: create_task_with_kind_def Let_def)
  qed
qed

lemma create_total:
  assumes "table_wf s" shows "create_task_with_kind s p k \<noteq> None"
proof -
  have "find_free_slot (sch_tasks s) (sch_generations s) 0 \<noteq> None"
    using assms by (intro find_free_slot_total) (simp add: table_wf_def)
  then show ?thesis
    by (auto simp: create_task_with_kind_def Let_def checked_add_one_u32
        dest: find_free_slot_Some split: option.splits)
qed

lemma create_table:
  assumes wf: "table_wf s" and len: "length (sch_tasks s) < 2 ^ 32"
    and c: "create_task_with_kind s p k = Some (tid, s')"
  shows create_fresh: "task s tid = None"
    and create_task_map: "task s' = (task s)(tid \<mapsto> tcb_of_kind k tid p)"
    and create_table_wf: "table_wf s'"
    and create_fields: "sch_ready s' = sch_ready s" "sch_current s' = sch_current s"
proof -
  have "task s tid = None \<and> task s' = (task s)(tid \<mapsto> tcb_of_kind k tid p) \<and> table_wf s' \<and>
    sch_ready s' = sch_ready s \<and> sch_current s' = sch_current s"
    using wf c
  proof (cases rule: create_cases)
    case (reuse i)
    then have i: "unat (of_nat i :: u32) = i" using len by (simp add: length_less_two_power)
    have eq: "unat (task_index x) = i \<longleftrightarrow> task_index x = of_nat i" for x
      using i by (simp add: word_unat_eq_iff)
    have "task s' x = ((task s)(tid \<mapsto> tcb_of_kind k tid p)) x" for x
      using reuse i eq [of x]
      by (auto simp: task_def slot_at_def vec_get_update split: option.splits)
        (auto simp: vec_get_def split: if_splits)
    moreover have "table_wf s'"
      using wf reuse by (auto simp: table_wf_def nth_update_if)
    moreover have "task s tid = None"
      using reuse i by (simp add: task_def slot_at_def vec_get_def)
    ultimately show ?thesis using reuse by auto
  next
    case grow
    let ?n = "length (sch_tasks s)"
    have i: "unat (of_nat ?n :: u32) = ?n" using len by (simp add: length_less_two_power)
    have eq: "unat (task_index x) = ?n \<longleftrightarrow> task_index x = of_nat ?n" for x
      using i by (metis word_unat_eq_iff)
    have "task s' x = ((task s)(tid \<mapsto> tcb_of_kind k tid p)) x" for x
      using grow i eq [of x]
      by (auto simp: task_def slot_at_def vec_get_append split: option.splits)
        (auto simp: vec_get_def split: if_splits)
    moreover have "table_wf s'"
      using wf grow len by (auto simp: table_wf_def nth_append less_Suc_eq)
    moreover have "task s tid = None"
      using grow i by (simp add: task_def slot_at_def vec_get_def)
    ultimately show ?thesis using grow by auto
  qed
  then show "task s tid = None" "task s' = (task s)(tid \<mapsto> tcb_of_kind k tid p)" "table_wf s'"
    "sch_ready s' = sch_ready s" "sch_current s' = sch_current s"
    by blast+
qed

lemma create_wf:
  assumes "sched_wf s" "length (sch_tasks s) < 2 ^ 32" "create_task_with_kind s p k = Some (tid, s')"
  shows "sched_wf s'"
  using assms create_table [OF _ assms(2,3)] queue_wf_new
  by (auto simp: sched_wf_def)

section \<open>Attachment and destruction\<close>

lemma sched_wfI:
  "table_wf s \<Longrightarrow> queue_wf (task s) (rq_queue (sch_ready s)) (sch_current s) \<Longrightarrow> sched_wf s"
  by (simp add: sched_wf_def)

lemma sched_wfD:
  assumes "sched_wf s"
  shows sched_wf_table: "table_wf s"
    and sched_wf_queue: "queue_wf (task s) (rq_queue (sch_ready s)) (sch_current s)"
  using assms by (simp_all add: sched_wf_def)

lemma sched_wf_put_same_state:
  assumes "sched_wf s" "task s tid = Some t" "tcb_id t' = tid" "task_ok t'" "tcb_state t' = tcb_state t"
  shows "sched_wf (put_task s tid t')"
  using assms by (auto intro!: sched_wfI simp: task_put sched_wf_table queue_wf_update [OF sched_wf_queue])

lemma attach_execution_wf:
  assumes "sched_wf s" shows "sched_wf (snd (attach_execution s tid))"
proof (cases "task s tid")
  case (Some t)
  then have "task_ok t" "tcb_id t = tid"
    using queue_wf_ok [OF sched_wf_queue [OF assms]] task_id by blast+
  then show ?thesis
    using assms Some sched_wf_put_same_state [OF assms Some, of "t\<lparr>tcb_execution := Some (for_task tid)\<rparr>"]
    by (auto simp: attach_execution_def tcb_attach_execution_def Let_def task_ok_def)
qed (use assms in \<open>simp add: attach_execution_def\<close>)

lemma destroy_created_cases:
  obtains (error) e where "destroy_created s tid = (Inl e, s)"
  | (destroyed) t h where "task s tid = Some t" "tcb_state t = Created" "tcb_execution t = Some h"
      "destroy_created s tid = (Inr h, set_slot s (unat (task_index tid)) None)"
proof (cases "slot_at s (unat (task_index tid))")
  case None
  then show ?thesis using error by (simp add: destroy_created_def)
next
  case (Some t)
  show ?thesis
  proof (cases "tcb_id t = tid \<and> tcb_state t = Created")
    case False
    then show ?thesis using error Some by (auto simp: destroy_created_def)
  next
    case True
    then have t: "task s tid = Some t" using Some by (simp add: task_def)
    show ?thesis
    proof (cases "tcb_execution t")
      case None
      then have "t\<lparr>tcb_execution := None\<rparr> = t" by simp
      then have "set_slot s (unat (task_index tid)) (Some (t\<lparr>tcb_execution := None\<rparr>)) = s"
        using put_task_same [OF t] by (simp add: put_task_def)
      then show ?thesis
        using error True Some None by (simp add: destroy_created_def tcb_detach_execution_def)
    next
      case (Some h)
      then show ?thesis using destroyed [OF t _ Some] True \<open>slot_at s _ = Some t\<close>
        by (simp add: destroy_created_def tcb_detach_execution_def)
    qed
  qed
qed

lemma destroy_created_wf:
  assumes "sched_wf s" shows "sched_wf (snd (destroy_created s tid))"
proof (cases rule: destroy_created_cases [of s tid])
  case (destroyed t h)
  have "sch_current s \<noteq> Some tid"
    using queue_wf_current [OF sched_wf_queue [OF assms], of tid] destroyed by auto
  then show ?thesis
    using destroyed assms queue_wf_remove [OF sched_wf_queue [OF assms] destroyed(1)]
    by (auto intro!: sched_wfI simp: task_clear sched_wf_table)
qed (use assms in simp)

section \<open>Scheduling\<close>

lemma rq_queue_push: "t \<notin> set (rq_queue q) \<Longrightarrow> rq_push q t = (True, q\<lparr>rq_queue := rq_queue q @ [t]\<rparr>)"
  by (simp add: rq_push_def)

lemma rq_queue_pop [simp]: "rq_queue (snd (rq_pop q)) = tl (rq_queue q)"
  by (simp add: rq_pop_def case_prod_beta)

lemma fst_rq_pop [simp]: "fst (rq_pop q) = front (rq_queue q)"
  by (simp add: rq_pop_def case_prod_beta)

lemma wake_to_ready_wf:
  assumes wf: "sched_wf s" and t: "task s tid = Some t" "valid_transition (tcb_state t) Ready"
  shows "tid \<notin> set (rq_queue (sch_ready s))"
    and "sched_wf ((put_task s tid (t\<lparr>tcb_state := Ready\<rparr>))
           \<lparr>sch_ready := (sch_ready s)\<lparr>rq_queue := rq_queue (sch_ready s) @ [tid]\<rparr>\<rparr>)"
  using queue_wf_ready [OF sched_wf_queue [OF wf] t] t task_id [OF t(1)] sched_wf_table [OF wf]
  by (auto intro!: sched_wfI simp: task_put)

lemma make_ready_cases:
  assumes "sched_wf s"
  obtains (refused) "make_ready s tid = (False, s)"
  | (queued) t where "task s tid = Some t" "valid_transition (tcb_state t) Ready"
      "make_ready s tid = (True, (put_task s tid (t\<lparr>tcb_state := Ready\<rparr>))
         \<lparr>sch_ready := (sch_ready s)\<lparr>rq_queue := rq_queue (sch_ready s) @ [tid]\<rparr>\<rparr>)"
proof (cases "tid \<in> set (rq_queue (sch_ready s))")
  case True
  then show ?thesis using refused by (simp add: make_ready_def rq_contains_def)
next
  case False
  show ?thesis
    by (rule task_transition_cases [of s tid Ready])
      (use False refused queued in \<open>auto simp: make_ready_def rq_contains_def rq_queue_push\<close>)
qed

lemma make_ready_wf:
  assumes "sched_wf s" shows "sched_wf (snd (make_ready s tid))"
  by (rule make_ready_cases [OF assms, of tid]) (auto simp: assms wake_to_ready_wf)

lemma block_running_wf:
  assumes wf: "sched_wf s" and c: "sch_current s = Some tid"
    and t: "task s tid = Some t" "valid_transition (tcb_state t) Blocked"
  shows "sched_wf ((put_task s tid (t\<lparr>tcb_state := Blocked\<rparr>))\<lparr>sch_current := None\<rparr>)"
proof -
  have "queue_wf ((task s)(tid \<mapsto> t\<lparr>tcb_state := Blocked\<rparr>)) (rq_queue (sch_ready s)) None"
    using queue_wf_block [of "task s" _ tid t] sched_wf_queue [OF wf] c t
    by (simp add: valid_transition_from)
  then show ?thesis
    using t task_id [OF t(1)] sched_wf_table [OF wf] by (auto intro!: sched_wfI simp: task_put)
qed

lemma block_current_wf:
  assumes "sched_wf s" shows "sched_wf (snd (block_current s))"
proof (cases "sch_current s")
  case (Some tid)
  show ?thesis
    by (rule task_transition_cases [of s tid Blocked])
      (use assms Some block_running_wf [OF assms Some] in \<open>auto simp: block_current_def\<close>)
qed (use assms in \<open>simp add: block_current_def\<close>)

lemma block_current_on_cases:
  obtains (error) e where "block_current_on s w = (Inl e, s, w)"
  | (blocked) tid t where "sch_current s = Some tid" "tid \<notin> set (wq_queue w)"
      "task s tid = Some t" "valid_transition (tcb_state t) Blocked"
      "block_current_on s w = (Inr tid, (put_task s tid (t\<lparr>tcb_state := Blocked\<rparr>))\<lparr>sch_current := None\<rparr>,
         w\<lparr>wq_queue := wq_queue w @ [tid]\<rparr>)"
proof (cases "sch_current s")
  case (Some tid)
  show ?thesis
    by (cases "tid \<in> set (wq_queue w)"; rule task_transition_cases [of s tid Blocked])
      (use Some error blocked in \<open>auto simp: block_current_on_def wq_contains_def wq_enqueue_def\<close>)
qed (use error in \<open>simp add: block_current_on_def\<close>)

lemma block_current_on_wf:
  assumes "sched_wf s" shows "sched_wf (fst (snd (block_current_on s w)))"
  by (rule block_current_on_cases [of s w]) (use assms block_running_wf in auto)

lemma sleep_current_until_cases:
  obtains (error) e where "sleep_current_until s d q = (Inl e, s, q)"
  | (blocked) tid t where "sch_current s = Some tid" "\<not> sq_contains q tid"
      "task s tid = Some t" "valid_transition (tcb_state t) Blocked"
      "sleep_current_until s d q = (Inr tid,
         (put_task s tid (t\<lparr>tcb_state := Blocked\<rparr>))\<lparr>sch_current := None\<rparr>,
         snd (sq_insert q (SleepEntry_new d tid)))"
proof (cases "sch_current s")
  case (Some tid)
  show ?thesis
    by (cases "sq_contains q tid"; rule task_transition_cases [of s tid Blocked])
      (use Some error blocked in \<open>auto simp: sleep_current_until_def sq_contains_def sq_insert_def
        SleepEntry_new_def Let_def\<close>)
qed (use error in \<open>simp add: sleep_current_until_def\<close>)

lemma sleep_current_until_wf:
  assumes "sched_wf s" shows "sched_wf (fst (snd (sleep_current_until s d q)))"
  by (rule sleep_current_until_cases [of s d q]) (use assms block_running_wf in auto)

definition no_running :: "Scheduler \<Rightarrow> bool" where
  "no_running s \<longleftrightarrow> (\<forall>tid t. task s tid = Some t \<longrightarrow> tcb_state t \<noteq> Running)"

lemma requeue_previous_idle:
  assumes "sched_wf s" "\<And>tid. sch_current s = Some tid \<Longrightarrow> state s tid \<noteq> Some Running"
  shows "requeue_previous s = s" "no_running s"
proof -
  show "requeue_previous s = s"
    using assms(2) by (auto simp: requeue_previous_def state_def split: option.split)
  show "no_running s"
    using assms(2) queue_wf_running [OF sched_wf_queue [OF assms(1)]]
    unfolding no_running_def state_Some by blast
qed

lemma requeue_previous_running:
  assumes wf: "sched_wf s" and c: "sch_current s = Some tid" "task s tid = Some t" "tcb_state t = Running"
  shows "requeue_previous s = (put_task s tid (t\<lparr>tcb_state := Ready\<rparr>))
           \<lparr>sch_ready := (sch_ready s)\<lparr>rq_queue := rq_queue (sch_ready s) @ [tid]\<rparr>\<rparr>" (is "_ = ?s'")
    and "sched_wf (requeue_previous s)" "no_running (requeue_previous s)"
proof -
  have v: "valid_transition (tcb_state t) Ready" using c by (simp add: valid_transition_from)
  note ready = wake_to_ready_wf [OF wf c(2) v]
  show eq: "requeue_previous s = ?s'"
    using c v ready(1)
    by (simp add: requeue_previous_def transition_def Let_def rq_queue_push)
  show "sched_wf (requeue_previous s)" unfolding eq by (rule ready(2))
  have uniq: "x = tid" if "task s x = Some u" "tcb_state u = Running" for x u
    using queue_wf_running [OF sched_wf_queue [OF wf] that] c(1) by simp
  show "no_running (requeue_previous s)"
    unfolding eq no_running_def using c task_id [OF c(2)]
    by (auto simp: task_put split: if_splits dest: uniq)
qed

lemma requeue_previous_wf:
  assumes "sched_wf s"
  shows "sched_wf (requeue_previous s)" "no_running (requeue_previous s)"
    "sch_current (requeue_previous s) = sch_current s"
proof -
  have "sched_wf (requeue_previous s) \<and> no_running (requeue_previous s) \<and>
      sch_current (requeue_previous s) = sch_current s"
  proof (cases "\<exists>tid t. sch_current s = Some tid \<and> task s tid = Some t \<and> tcb_state t = Running")
    case True
    then obtain tid t where c: "sch_current s = Some tid" "task s tid = Some t" "tcb_state t = Running"
      by blast
    show ?thesis using requeue_previous_running [OF assms c] by simp
  next
    case False
    then have "\<And>tid. sch_current s = Some tid \<Longrightarrow> state s tid \<noteq> Some Running"
      unfolding state_Some by blast
    then show ?thesis using requeue_previous_idle [OF assms] assms by metis
  qed
  then show "sched_wf (requeue_previous s)" "no_running (requeue_previous s)"
    "sch_current (requeue_previous s) = sch_current s" by blast+
qed

lemma dispatch_head_empty:
  assumes "rq_queue (sch_ready s) = []"
  shows "dispatch_head s = s\<lparr>sch_current := None\<rparr>"
  using assms by (cases s; cases "sch_ready s") (simp add: dispatch_head_def rq_pop_def)

lemma dispatch_head_next:
  assumes wf: "sched_wf s" and q: "rq_queue (sch_ready s) = tid # q"
  obtains t where "task s tid = Some t" "tcb_state t = Ready"
    "dispatch_head s = (put_task (s\<lparr>sch_ready := (sch_ready s)\<lparr>rq_queue := q\<rparr>\<rparr>) tid
        (t\<lparr>tcb_state := Running\<rparr>))\<lparr>sch_current := Some tid\<rparr>"
proof -
  obtain t where t: "task s tid = Some t" "tcb_state t = Ready"
    using queue_wf_mem [OF sched_wf_queue [OF wf], of tid] q by auto
  then have "dispatch_head s = (put_task (s\<lparr>sch_ready := (sch_ready s)\<lparr>rq_queue := q\<rparr>\<rparr>) tid
        (t\<lparr>tcb_state := Running\<rparr>))\<lparr>sch_current := Some tid\<rparr>"
    using q by (simp add: dispatch_head_def rq_pop_def task_transition_def transition_def Let_def)
  with t show ?thesis by (rule that)
qed

lemma dispatch_head_wf:
  assumes wf: "sched_wf s" and nr: "no_running s"
  shows "sched_wf (dispatch_head s)"
proof (cases "rq_queue (sch_ready s)")
  case Nil
  then have "sch_current s = None"
    using queue_wf_idle sched_wf_queue [OF wf] nr unfolding no_running_def by metis
  then show ?thesis using wf by (simp add: dispatch_head_empty [OF Nil] sched_wf_def)
next
  case (Cons tid q)
  obtain t where t: "task s tid = Some t" "tcb_state t = Ready"
    "dispatch_head s = (put_task (s\<lparr>sch_ready := (sch_ready s)\<lparr>rq_queue := q\<rparr>\<rparr>) tid
        (t\<lparr>tcb_state := Running\<rparr>))\<lparr>sch_current := Some tid\<rparr>"
    using dispatch_head_next [OF wf Cons] by blast
  have w: "queue_wf (task s) (tid # q) (sch_current s)"
    using sched_wf_queue [OF wf] Cons by simp
  have "queue_wf ((task s)(tid \<mapsto> t\<lparr>tcb_state := Running\<rparr>)) q (Some tid)"
    by (rule queue_wf_run [OF w t(1)]) (use nr in \<open>simp add: no_running_def\<close>)
  then show ?thesis
    using t task_id [OF t(1)] sched_wf_table [OF wf] by (auto intro!: sched_wfI simp: task_put)
qed

lemma schedule_next_state:
  assumes wf: "sched_wf s"
  shows "snd (schedule_next s) = dispatch_head (requeue_previous s)"
proof -
  let ?s1 = "requeue_previous s"
  have "snd (task_transition (?s1\<lparr>sch_ready := snd (rq_pop (sch_ready ?s1))\<rparr>) tid Running)
          \<lparr>sch_current := Some tid\<rparr> = dispatch_head ?s1"
    if "rq_len (sch_ready ?s1) = 1" "rq_peek (sch_ready ?s1) = Some tid" for tid
  proof -
    have q: "rq_queue (sch_ready ?s1) = [tid]"
      using that by (auto simp: rq_len_def front_Some rq_peek_def length_Suc_conv)
    then obtain t where t: "task ?s1 tid = Some t" "tcb_state t = Ready"
      "dispatch_head ?s1 = (put_task (?s1\<lparr>sch_ready := (sch_ready ?s1)\<lparr>rq_queue := []\<rparr>\<rparr>) tid
        (t\<lparr>tcb_state := Running\<rparr>))\<lparr>sch_current := Some tid\<rparr>"
      using dispatch_head_next [OF requeue_previous_wf(1) [OF wf] q] by blast
    then show ?thesis
      using q by (simp add: task_transition_def transition_def Let_def rq_pop_def)
  qed
  then show ?thesis by (auto simp: schedule_next_def Let_def split: option.split)
qed

lemma schedule_next_wf: "sched_wf s \<Longrightarrow> sched_wf (snd (schedule_next s))"
  by (simp add: schedule_next_state dispatch_head_wf requeue_previous_wf)

end
