(* ===== verification/Scheduler_Waking.thy ===== *)
theory Scheduler_Waking
  imports Scheduler_Steps
begin

text \<open>
  Waking and terminating: closed forms for \<open>wake_one\<close>, \<open>expire_sleepers\<close>,
  \<open>exit_current\<close> and \<open>terminate_current_to\<close>, with the preservation of the invariant.
\<close>

section \<open>Waking one task\<close>

text \<open>The effect of making a task ready: the transition followed by the push.\<close>

definition readied :: "Scheduler \<Rightarrow> TaskId \<Rightarrow> Scheduler" where
  "readied s tid =
     (case task s tid of
        None \<Rightarrow> s
      | Some t \<Rightarrow> (put_task s tid (t\<lparr>tcb_state := Ready\<rparr>))
          \<lparr>sch_ready := (sch_ready s)\<lparr>rq_queue := rq_queue (sch_ready s) @ [tid]\<rparr>\<rparr>)"

lemma readied_wf:
  assumes "sched_wf s" "state s tid = Some Blocked"
  shows "sched_wf (readied s tid)" "tid \<notin> set (rq_queue (sch_ready s))"
  using assms wake_to_ready_wf [OF assms(1), of tid]
  by (auto simp: readied_def state_Some valid_transition_from)

lemma state_readied:
  assumes "state s tid = Some Blocked"
  shows "state (readied s tid) = (state s)(tid \<mapsto> Ready)"
  using assms by (auto simp: readied_def state_Some task_put task_id state_def fun_eq_iff)

lemma readied_fields [simp]:
  "sch_current (readied s tid) = sch_current s"
  "sch_generations (readied s tid) = sch_generations s"
  "length (sch_tasks (readied s tid)) = length (sch_tasks s)"
  by (auto simp: readied_def split: option.split)

lemma ready_readied:
  "state s tid = Some Blocked \<Longrightarrow> rq_queue (sch_ready (readied s tid)) = rq_queue (sch_ready s) @ [tid]"
  by (auto simp: readied_def state_Some)

lemma wake_one_Nil: "wq_queue w = [] \<Longrightarrow> wake_one s w = (None, s, w)"
  by (cases w) (simp add: wake_one.simps wq_dequeue_def)

lemma wake_one_skip:
  assumes "wq_queue w = tid # ts" "state s tid \<noteq> Some Blocked"
  shows "wake_one s w = wake_one s (w\<lparr>wq_queue := ts\<rparr>)"
  using assms
  by (subst wake_one.simps) (auto simp: wq_dequeue_def state_def  split: option.split)

lemma wake_one_wake:
  assumes wf: "sched_wf s" and q: "wq_queue w = tid # ts" and b: "state s tid = Some Blocked"
  shows "wake_one s w = (Some tid, readied s tid, w\<lparr>wq_queue := ts\<rparr>)"
proof -
  obtain t where t: "task s tid = Some t" "tcb_state t = Blocked" using b by (auto simp: state_Some)
  then show ?thesis
    using q readied_wf(2) [OF wf b]
    by (simp add: wake_one.simps wq_dequeue_def transition_def Let_def rq_queue_push readied_def)
qed

lemma wake_one_spec:
  assumes wf: "sched_wf s"
  shows "wake_one s w =
    (case dropWhile (\<lambda>x. state s x \<noteq> Some Blocked) (wq_queue w) of
       [] \<Rightarrow> (None, s, w\<lparr>wq_queue := []\<rparr>)
     | tid # rest \<Rightarrow> (Some tid, readied s tid, w\<lparr>wq_queue := rest\<rparr>))"
proof (induction "wq_queue w" arbitrary: w)
  case Nil
  then show ?case using wake_one_Nil [of w] by (cases w) simp
next
  case (Cons tid ts)
  show ?case
  proof (cases "state s tid = Some Blocked")
    case True
    then show ?thesis using wake_one_wake [OF wf _ True, of w ts] by (simp flip: Cons.hyps(2))
  next
    case False
    then show ?thesis
      using wake_one_skip [of w tid ts s] Cons.hyps(1) [of "w\<lparr>wq_queue := ts\<rparr>"]
      by (simp flip: Cons.hyps(2) cong: list.case_cong)
  qed
qed

lemma wake_one_wf:
  assumes wf: "sched_wf s" shows "sched_wf (fst (snd (wake_one s w)))"
proof (cases "dropWhile (\<lambda>x. state s x \<noteq> Some Blocked) (wq_queue w)")
  case (Cons tid rest)
  then have "state s tid = Some Blocked"
    using hd_dropWhile [of "\<lambda>x. state s x \<noteq> Some Blocked" "wq_queue w"] by simp
  then show ?thesis unfolding wake_one_spec [OF wf] Cons by (simp add: readied_wf(1) [OF wf])
next
  case Nil
  show ?thesis unfolding wake_one_spec [OF wf] Nil by (simp add: wf)
qed

section \<open>Expiring sleepers\<close>

lemma wake_expired_Cons:
  assumes wf: "sched_wf s"
  shows "wake_expired s (tid # ts) =
    (if state s tid = Some Blocked
     then apfst ((#) tid) (wake_expired (readied s tid) ts) else wake_expired s ts)"
proof (cases "state s tid = Some Blocked")
  case True
  then obtain t where t: "task s tid = Some t" "tcb_state t = Blocked" by (auto simp: state_Some)
  then show ?thesis
    using readied_wf(2) [OF wf True] True
    by (simp add: transition_def Let_def rq_queue_push readied_def apfst_def map_prod_def)
next
  case False
  then show ?thesis by (auto simp: state_def split: option.split)
qed

lemma wake_expired_wf: "sched_wf s \<Longrightarrow> sched_wf (snd (wake_expired s ts))"
proof (induction ts arbitrary: s)
  case (Cons tid ts)
  then show ?case using readied_wf(1) [OF Cons.prems] by (simp add: wake_expired_Cons del: wake_expired.simps(2))
qed simp

lemma wake_expired_spec:
  assumes "sched_wf s" "distinct ts" "wake_expired s ts = (woken, s')"
  shows "woken = filter (\<lambda>x. state s x = Some Blocked) ts"
    and "rq_queue (sch_ready s') = rq_queue (sch_ready s) @ woken"
    and "state s' = (\<lambda>x. if x \<in> set woken then Some Ready else state s x)"
    and "sch_current s' = sch_current s"
proof -
  have "woken = filter (\<lambda>x. state s x = Some Blocked) ts \<and>
    rq_queue (sch_ready s') = rq_queue (sch_ready s) @ woken \<and>
    state s' = (\<lambda>x. if x \<in> set woken then Some Ready else state s x) \<and> sch_current s' = sch_current s"
    using assms
  proof (induction ts arbitrary: s woken)
    case (Cons tid ts)
    show ?case
    proof (cases "state s tid = Some Blocked")
      case False
      then show ?thesis
        using Cons.IH [of s woken] Cons.prems by (simp add: wake_expired_Cons del: wake_expired.simps(2))
    next
      case True
      then obtain w where w: "wake_expired (readied s tid) ts = (w, s')" "woken = tid # w"
        using Cons.prems
        by (cases "wake_expired (readied s tid) ts")
          (auto simp: wake_expired_Cons simp del: wake_expired.simps(2))
      have "filter (\<lambda>x. state (readied s tid) x = Some Blocked) ts = filter (\<lambda>x. state s x = Some Blocked) ts"
        using Cons.prems(2) by (intro filter_cong) (auto simp: state_readied [OF True])
      then show ?thesis
        using Cons.IH [OF readied_wf(1) [OF Cons.prems(1) True] _ w(1)] Cons.prems(2) True w(2)
        by (auto simp: ready_readied state_readied fun_eq_iff)
    qed
  qed auto
  then show "woken = filter (\<lambda>x. state s x = Some Blocked) ts"
    "rq_queue (sch_ready s') = rq_queue (sch_ready s) @ woken"
    "state s' = (\<lambda>x. if x \<in> set woken then Some Ready else state s x)"
    "sch_current s' = sch_current s" by blast+
qed

lemma expire_sleepers_wf: "sched_wf s \<Longrightarrow> sched_wf (fst (snd (expire_sleepers s now q)))"
  using wake_expired_wf [of s "fst (sq_expire_until q now)"]
  by (simp add: expire_sleepers_def case_prod_beta)

section \<open>Termination of the current task\<close>

lemma exit_current_cases:
  obtains (refused) "exit_current s = (False, s)"
  | (exited) tid t where "sch_current s = Some tid" "task s tid = Some t"
      "valid_transition (tcb_state t) Exited"
      "exit_current s = (True, (set_slot s (unat (task_index tid)) None)\<lparr>sch_current := None\<rparr>)"
proof (cases "sch_current s")
  case (Some tid)
  show ?thesis
  proof (cases "\<exists>t. task s tid = Some t \<and> valid_transition (tcb_state t) Exited")
    case True
    then obtain t where t: "task s tid = Some t" "valid_transition (tcb_state t) Exited" by blast
    then show ?thesis
      using exited [OF Some t] Some by (simp add: exit_current_def Let_def task_Some)
  next
    case False
    then have "exit_current s = (False, s)"
      using Some by (auto simp: exit_current_def Let_def task_Some split: option.split)
    then show ?thesis by (rule refused)
  qed
qed (use refused in \<open>simp add: exit_current_def\<close>)

lemma current_state:
  assumes "sched_wf s" "sch_current s = Some tid" "task s tid = Some t"
  shows "tcb_state t = Running \<or> tcb_state t = Ready"
  using queue_wf_current [OF sched_wf_queue [OF assms(1)] assms(2)] assms(3) by auto

lemma exit_current_wf:
  assumes wf: "sched_wf s" shows "sched_wf (snd (exit_current s))"
proof (cases rule: exit_current_cases [of s])
  case (exited tid t)
  then have "tcb_state t = Running"
    using current_state [OF wf exited(1,2)] by (auto simp: valid_transition_from)
  then have "queue_wf ((task s)(tid := None)) (rq_queue (sch_ready s)) None"
    using queue_wf_remove [OF sched_wf_queue [OF wf] exited(2)] exited(1) by simp
  then show ?thesis
    using exited sched_wf_table [OF wf] by (auto intro!: sched_wfI simp: task_clear)
qed (use wf in simp)

lemma task_index_neq:
  "task s a = Some t \<Longrightarrow> task s b = Some u \<Longrightarrow> a \<noteq> b \<Longrightarrow> task_index a \<noteq> task_index b"
  by (metis task_Some option.inject)

lemma task_slot: "task s a = Some t \<Longrightarrow> slot_at s (unat (task_index a)) = Some t"
  by (simp add: task_Some)

lemma slot_at_ready [simp]: "slot_at (s\<lparr>sch_ready := q\<rparr>) = slot_at s"
  by (simp add: slot_at_def fun_eq_iff)

lemma terminate_current_to_switched:
  assumes c: "sch_current s = Some cur" and ne: "cur \<noteq> nxt"
    and tu: "task s cur = Some t" "tcb_state t = Running" "task s nxt = Some u" "tcb_state u = Ready"
    and q: "rq_queue (sch_ready s) = nxt # q"
  shows "terminate_current_to s nxt =
        (Inr nxt, (put_task ((set_slot s (unat (task_index cur)) None)
            \<lparr>sch_ready := (sch_ready s)\<lparr>rq_queue := q\<rparr>\<rparr>) nxt (u\<lparr>tcb_state := Running\<rparr>))
            \<lparr>sch_current := Some nxt\<rparr>)"
proof -
  note slots = task_slot [OF tu(1)] task_slot [OF tu(3)] task_id [OF tu(1)] task_id [OF tu(3)]
  have "task_index cur \<noteq> task_index nxt" using task_index_neq [OF tu(1,3) ne] .
  then show ?thesis
    by (simp add: terminate_current_to_def c ne tu q slots state_def rq_peek_def
        transition_def rq_pop_def slot_at_set_slot put_task_def)
qed

lemma terminate_current_to_cases:
  obtains (error) e where "terminate_current_to s nxt = (Inl e, s)"
  | (switched) cur t u q where "sch_current s = Some cur" "cur \<noteq> nxt"
      "task s cur = Some t" "tcb_state t = Running" "task s nxt = Some u" "tcb_state u = Ready"
      "rq_queue (sch_ready s) = nxt # q"
      "terminate_current_to s nxt =
        (Inr nxt, (put_task ((set_slot s (unat (task_index cur)) None)
            \<lparr>sch_ready := (sch_ready s)\<lparr>rq_queue := q\<rparr>\<rparr>) nxt (u\<lparr>tcb_state := Running\<rparr>))
            \<lparr>sch_current := Some nxt\<rparr>)"
proof (cases "sch_current s")
  case None
  then show ?thesis using error by (simp add: terminate_current_to_def)
next
  case (Some cur)
  show ?thesis
  proof (cases "cur \<noteq> nxt \<and> front (rq_queue (sch_ready s)) = Some nxt \<and> state s nxt = Some Ready \<and>
      state s cur = Some Running")
    case True
    then obtain t u q where tu: "task s cur = Some t" "tcb_state t = Running"
      "task s nxt = Some u" "tcb_state u = Ready" and q: "rq_queue (sch_ready s) = nxt # q"
      and ne: "cur \<noteq> nxt"
      by (auto simp: state_Some front_Some)
    then show ?thesis using switched [OF Some ne tu q terminate_current_to_switched [OF Some ne tu q]] by blast
  next
    case False
    have "\<exists>e. terminate_current_to s nxt = (Inl e, s)"
    proof (cases "cur \<noteq> nxt \<and> front (rq_queue (sch_ready s)) = Some nxt \<and> state s nxt = Some Ready")
      case True
      then have "state s cur \<noteq> Some Running" using False by blast
      then have "\<not> (case slot_at s (unat (task_index cur)) of
          Some t \<Rightarrow> tcb_id t = cur \<and> tcb_state t = Running | None \<Rightarrow> False)"
        by (auto simp: state_def task_def split: option.splits)
      then show ?thesis using True Some by (simp add: terminate_current_to_def rq_peek_def Let_def)
    qed (use Some in \<open>auto simp: terminate_current_to_def rq_peek_def\<close>)
    then show ?thesis using error by blast
  qed
qed

lemma terminate_current_to_wf:
  assumes wf: "sched_wf s" shows "sched_wf (snd (terminate_current_to s nxt))"
proof (cases rule: terminate_current_to_cases [of s nxt])
  case (switched cur t u q)
  let ?m = "(task s)(cur := None)"
  let ?s1 = "(set_slot s (unat (task_index cur)) None)\<lparr>sch_ready := (sch_ready s)\<lparr>rq_queue := q\<rparr>\<rparr>"
  have m: "task ?s1 = ?m" using task_clear [OF switched(3)] by simp
  have w: "queue_wf ?m (nxt # q) None"
    using queue_wf_remove [OF sched_wf_queue [OF wf] switched(3)] switched by simp
  have run: "tcb_state v \<noteq> Running" if "?m x = Some v" for x v
    using queue_wf_running [OF w that] by auto
  have "queue_wf (?m(nxt \<mapsto> u\<lparr>tcb_state := Running\<rparr>)) q (Some nxt)"
    using queue_wf_run [OF w _ run] switched by simp
  moreover have "task ?s1 nxt = Some u" "tcb_id u = nxt"
    using switched m task_id by auto
  ultimately show ?thesis
    using switched m sched_wf_table [OF wf] by (auto intro!: sched_wfI simp: task_put)
qed (use wf in simp)

end
