(* ===== verification/Generations.thy ===== *)
theory Generations
  imports Main
begin

text \<open>
  The contract of a slot table with generation counters, shared by the task table of the
  scheduler and the process registry: the counter of a slot never decreases, a live
  identifier carries the counter of its slot, and an identifier can only become live when
  the counter is raised. A handle that has become stale then stays stale.
\<close>

locale generational_table =
  fixes invar :: "'s \<Rightarrow> bool"
    and step :: "'s \<Rightarrow> 's \<Rightarrow> bool"
    and live :: "'s \<Rightarrow> 'i \<Rightarrow> bool"
    and generation :: "'i \<Rightarrow> nat"
    and counter :: "'s \<Rightarrow> 'i \<Rightarrow> nat"
  assumes invar_step: "invar s \<Longrightarrow> step s s' \<Longrightarrow> invar s'"
    and live_counter: "invar s \<Longrightarrow> live s i \<Longrightarrow> counter s i = generation i"
    and counter_mono: "invar s \<Longrightarrow> step s s' \<Longrightarrow> counter s i \<le> counter s' i"
    and born: "invar s \<Longrightarrow> step s s' \<Longrightarrow> \<not> live s i \<Longrightarrow> live s' i \<Longrightarrow> counter s i < counter s' i"
begin

lemma invar_steps: "step\<^sup>*\<^sup>* s s' \<Longrightarrow> invar s \<Longrightarrow> invar s'"
  by (induction rule: rtranclp_induct) (auto intro: invar_step)

lemma stale_step:
  assumes "invar s" "step s s'" "\<not> live s i" "generation i \<le> counter s i"
  shows "\<not> live s' i \<and> generation i \<le> counter s' i"
  using assms born [OF assms(1,2,3)] counter_mono [OF assms(1,2), of i]
    live_counter [OF invar_step [OF assms(1,2)], of i]
  by fastforce

lemma stale_steps:
  "step\<^sup>*\<^sup>* s s' \<Longrightarrow> invar s \<Longrightarrow> \<not> live s i \<Longrightarrow> generation i \<le> counter s i \<Longrightarrow>
     \<not> live s' i \<and> generation i \<le> counter s' i"
  by (induction rule: rtranclp_induct) (auto dest: stale_step invar_steps)

lemma stale_forever:
  assumes "invar s" "live s i" "step\<^sup>*\<^sup>* s s'" "\<not> live s' i" "step\<^sup>*\<^sup>* s' s''"
  shows "\<not> live s'' i"
proof -
  have mono: "step\<^sup>*\<^sup>* s s' \<Longrightarrow> counter s i \<le> counter s' i"
    by (induction rule: rtranclp_induct)
      (auto dest: counter_mono [OF invar_steps [OF _ assms(1)]] intro: order_trans)
  have "generation i \<le> counter s' i"
    using mono [OF assms(3)] live_counter [OF assms(1,2)] by simp
  then show ?thesis
    using stale_steps [OF assms(5)] invar_steps [OF assms(3,1)] assms(4) by blast
qed

end

end
