(* ===== verification/Scheduler_Reach.thy ===== *)
theory Scheduler_Reach
  imports Scheduler_Waking Generations
begin

text \<open>
  The step relation of the scheduler over all its operations, the invariant in every
  reachable state, generational identifiers as an instance of \<open>generational_table\<close>, and
  the round-robin behaviour of \<open>schedule_next\<close>.
\<close>

section \<open>Steps\<close>

text \<open>
  One step is one call of an operation of \<open>impl Scheduler\<close>, with arbitrary arguments.
  Creation is bounded: the index of a new slot is cast to \<open>u32\<close>, so the table must have
  fewer than $2^{32}$ slots.
\<close>

inductive sched_step :: "Scheduler \<Rightarrow> Scheduler \<Rightarrow> bool" where
  step_create: "length (sch_tasks s) < 2 ^ 32 \<Longrightarrow> create_task_with_kind s p k = Some (tid, s') \<Longrightarrow>
     sched_step s s'"
| step_attach: "sched_step s (snd (attach_execution s tid))"
| step_destroy: "sched_step s (snd (destroy_created s tid))"
| step_make_ready: "sched_step s (snd (make_ready s tid))"
| step_schedule_next: "sched_step s (snd (schedule_next s))"
| step_terminate: "sched_step s (snd (terminate_current_to s tid))"
| step_block_on: "sched_step s (fst (snd (block_current_on s w)))"
| step_block: "sched_step s (snd (block_current s))"
| step_wake_one: "sched_step s (fst (snd (wake_one s w)))"
| step_sleep: "sched_step s (fst (snd (sleep_current_until s d q)))"
| step_expire: "sched_step s (fst (snd (expire_sleepers s now q)))"
| step_exit: "sched_step s (snd (exit_current s))"

definition sched_reachable :: "Scheduler \<Rightarrow> bool" where
  "sched_reachable s \<longleftrightarrow> sched_step\<^sup>*\<^sup>* Scheduler_new s"

lemma Scheduler_new_wf: "sched_wf Scheduler_new"
  by (auto intro!: sched_wfI queue_wfI
      simp: Scheduler_new_def RunQueue_new_def table_wf_def task_def slot_at_def vec_get_def)

lemmas sched_op_wf = create_wf attach_execution_wf destroy_created_wf make_ready_wf schedule_next_wf
  terminate_current_to_wf block_current_on_wf block_current_wf wake_one_wf sleep_current_until_wf
  expire_sleepers_wf exit_current_wf

lemma sched_step_wf: "sched_step s s' \<Longrightarrow> sched_wf s \<Longrightarrow> sched_wf s'"
  by (induction rule: sched_step.induct) (blast intro: sched_op_wf)+

lemma sched_reachable_wf: "sched_reachable s \<Longrightarrow> sched_wf s"
proof -
  have "sched_step\<^sup>*\<^sup>* s0 s \<Longrightarrow> sched_wf s0 \<Longrightarrow> sched_wf s" for s0
    by (induction rule: rtranclp_induct) (auto intro: sched_step_wf)
  then show "sched_reachable s \<Longrightarrow> sched_wf s"
    by (simp add: sched_reachable_def Scheduler_new_wf)
qed

section \<open>Identifiers\<close>

text \<open>Every operation but creation keeps the generations and resolves no new identifier.\<close>

definition no_birth :: "Scheduler \<Rightarrow> Scheduler \<Rightarrow> bool" where
  "no_birth s s' \<longleftrightarrow> sch_generations s' = sch_generations s \<and> dom (task s') \<subseteq> dom (task s)"

lemma no_birth_refl [simp]: "no_birth s s"
  by (simp add: no_birth_def)

lemma no_birth_trans: "no_birth s s' \<Longrightarrow> no_birth s' s'' \<Longrightarrow> no_birth s s''"
  unfolding no_birth_def by (blast intro: trans)

lemma no_birth_fields [simp]:
  "no_birth s (s'\<lparr>sch_ready := q\<rparr>) = no_birth s s'"
  "no_birth s (s'\<lparr>sch_current := c\<rparr>) = no_birth s s'"
  by (simp_all add: no_birth_def)

lemma no_birth_put: "task s tid = Some t \<Longrightarrow> tcb_id t' = tid \<Longrightarrow> no_birth s (put_task s tid t')"
  by (auto simp: no_birth_def task_put)

lemma no_birth_clear: "task s tid = Some t \<Longrightarrow> no_birth s (set_slot s (unat (task_index tid)) None)"
  by (auto simp: no_birth_def task_clear)

lemma no_birth_readied: "no_birth s (readied s tid)"
  by (auto simp: readied_def no_birth_put task_id split: option.split)

lemma no_birth_wake_expired: "sched_wf s \<Longrightarrow> no_birth s (snd (wake_expired s ts))"
proof (induction ts arbitrary: s)
  case (Cons tid ts)
  show ?case
  proof (cases "state s tid = Some Blocked")
    case True
    then have "no_birth s (snd (wake_expired (readied s tid) ts))"
      using Cons.IH [OF readied_wf(1) [OF Cons.prems True]] no_birth_trans [OF no_birth_readied] by blast
    then show ?thesis using True Cons.prems by (simp add: wake_expired_Cons del: wake_expired.simps(2))
  qed (use Cons in \<open>simp add: wake_expired_Cons del: wake_expired.simps(2)\<close>)
qed simp

lemma no_birth_wake_one:
  assumes "sched_wf s" shows "no_birth s (fst (snd (wake_one s w)))"
  unfolding wake_one_spec [OF assms] by (simp add: no_birth_readied split: list.split)

lemma no_birth_attach: "no_birth s (snd (attach_execution s tid))"
  by (auto simp: attach_execution_def tcb_attach_execution_def Let_def no_birth_put task_id
      split: option.split)

lemma no_birth_schedule_next:
  assumes wf: "sched_wf s" shows "no_birth s (snd (schedule_next s))"
proof -
  have "no_birth s (requeue_previous s)"
    by (auto simp: requeue_previous_def Let_def no_birth_put task_id split: option.split)
  moreover have "no_birth s' (dispatch_head s')" if wf': "sched_wf s'" for s'
  proof (cases "rq_queue (sch_ready s')")
    case (Cons tid q)
    obtain t where "task s' tid = Some t" "dispatch_head s' =
        (put_task (s'\<lparr>sch_ready := (sch_ready s')\<lparr>rq_queue := q\<rparr>\<rparr>) tid (t\<lparr>tcb_state := Running\<rparr>))
          \<lparr>sch_current := Some tid\<rparr>"
      using dispatch_head_next [OF wf' Cons] by blast
    then show ?thesis
      using no_birth_put [of "s'\<lparr>sch_ready := (sch_ready s')\<lparr>rq_queue := q\<rparr>\<rparr>" tid t "t\<lparr>tcb_state := Running\<rparr>"]
      by (simp add: task_id no_birth_def)
  qed (simp add: dispatch_head_empty)
  ultimately show ?thesis
    using no_birth_trans requeue_previous_wf(1) [OF wf] by (simp add: schedule_next_state [OF wf])
qed

lemma no_birth_terminate: "no_birth s (snd (terminate_current_to s nxt))"
proof (cases rule: terminate_current_to_cases [of s nxt])
  case (switched cur t u q)
  let ?s1 = "(set_slot s (unat (task_index cur)) None)\<lparr>sch_ready := (sch_ready s)\<lparr>rq_queue := q\<rparr>\<rparr>"
  have "no_birth s ?s1" using no_birth_clear [OF switched(3)] by simp
  moreover have "task ?s1 nxt = Some u" using switched by (simp add: task_clear)
  moreover have "tcb_id u = nxt" using task_id [OF switched(5)] .
  ultimately have "no_birth s (put_task ?s1 nxt (u\<lparr>tcb_state := Running\<rparr>))"
    by (intro no_birth_trans [OF _ no_birth_put]) simp_all
  then show ?thesis using switched by simp
qed simp

lemma sched_step_cases:
  assumes "sched_step s s'" "sched_wf s"
  obtains (birth) p k tid where "length (sch_tasks s) < 2 ^ 32"
      "create_task_with_kind s p k = Some (tid, s')"
  | (other) "no_birth s s'"
  using assms
proof (cases rule: sched_step.cases)
  case (step_create p k tid)
  then show ?thesis using birth by blast
next
  case (step_destroy tid)
  then show ?thesis
    by (cases rule: destroy_created_cases [of s tid]) (auto intro: other simp: no_birth_clear)
next
  case (step_make_ready tid)
  then show ?thesis
    by (cases rule: make_ready_cases [OF assms(2), of tid])
      (auto intro!: other simp: no_birth_put task_id)
next
  case (step_block_on w)
  then show ?thesis
    by (cases rule: block_current_on_cases [of s w]) (auto intro!: other simp: no_birth_put task_id)
next
  case step_block
  show ?thesis
  proof (cases "sch_current s")
    case (Some tid)
    then show ?thesis
      using step_block by (cases rule: task_transition_cases [of s tid Blocked])
        (auto intro!: other simp: block_current_def no_birth_put task_id)
  qed (use other step_block in \<open>auto simp: block_current_def\<close>)
next
  case (step_sleep d q)
  then show ?thesis
    by (cases rule: sleep_current_until_cases [of s d q]) (auto intro!: other simp: no_birth_put task_id)
next
  case step_exit
  then show ?thesis
    by (cases rule: exit_current_cases [of s]) (auto intro: other simp: no_birth_clear)
qed (use other assms(2) in \<open>auto simp: no_birth_attach no_birth_schedule_next no_birth_terminate
      no_birth_wake_one expire_sleepers_def case_prod_beta no_birth_wake_expired\<close>)

definition slot_counter :: "Scheduler \<Rightarrow> TaskId \<Rightarrow> nat" where
  "slot_counter s tid =
     (case vec_get (sch_generations s) (unat (task_index tid)) of None \<Rightarrow> 0 | Some g \<Rightarrow> unat g)"

lemma slot_counter_create:
  assumes wf: "table_wf s" and len: "length (sch_tasks s) < 2 ^ 32"
    and c: "create_task_with_kind s p k = Some (tid, s')"
  shows "slot_counter s x \<le> slot_counter s' x"
    and "task_index x = task_index tid \<Longrightarrow> slot_counter s x < slot_counter s' x"
proof -
  have gl: "length (sch_generations s) = length (sch_tasks s)" using wf by (simp add: table_wf_def)
  have "slot_counter s x \<le> slot_counter s' x \<and>
    (task_index x = task_index tid \<longrightarrow> slot_counter s x < slot_counter s' x)"
    using wf c
  proof (cases rule: create_cases)
    case (reuse i)
    have "unat (sch_generations s ! i + 1) = unat (sch_generations s ! i) + 1"
      using checked_add_one_u32 [OF reuse(3)] by (simp add: checked_add_eq_Some)
    moreover have "unat (of_nat i :: u32) = i" using reuse(1) len by (simp add: length_less_two_power)
    ultimately show ?thesis using reuse gl
      by (auto simp: slot_counter_def vec_get_def nth_list_update)
  next
    case grow
    have "unat (of_nat (length (sch_tasks s)) :: u32) = length (sch_tasks s)"
      using len by (simp add: length_less_two_power)
    then show ?thesis using grow gl
      by (auto simp: slot_counter_def vec_get_append vec_get_def nth_append)
  qed
  then show "slot_counter s x \<le> slot_counter s' x"
    and "task_index x = task_index tid \<Longrightarrow> slot_counter s x < slot_counter s' x" by blast+
qed

interpretation task_ids: generational_table sched_wf sched_step
  "\<lambda>s tid. task s tid \<noteq> None" "\<lambda>tid. unat (task_generation tid)" slot_counter
proof (unfold_locales, goal_cases)
  case (1 s s')
  then show ?case by (blast intro: sched_step_wf)
next
  case (2 s i)
  then obtain t where t: "task s i = Some t" by blast
  have "unat (task_index i) < length (sch_generations s)"
    using t sched_wf_table [OF 2(1)] by (simp add: task_Some slot_at_Some table_wf_def)
  then show ?case
    using table_wf_generation [OF sched_wf_table [OF 2(1)] t] by (simp add: slot_counter_def vec_get_def)
next
  case (3 s s' i)
  from 3(2,1) show ?case
  proof (cases rule: sched_step_cases)
    case (birth p k tid)
    then show ?thesis by (rule slot_counter_create(1) [OF sched_wf_table [OF 3(1)]])
  next
    case other
    then show ?thesis by (simp add: no_birth_def slot_counter_def)
  qed
next
  case (4 s s' i)
  from 4(2,1) show ?case
  proof (cases rule: sched_step_cases)
    case (birth p k tid)
    note tab = create_table [OF sched_wf_table [OF 4(1)] birth]
    have "i = tid" using 4(3,4) tab(2) by (auto split: if_splits)
    then show ?thesis
      using slot_counter_create(2) [OF sched_wf_table [OF 4(1)] birth] by blast
  next
    case other
    then show ?thesis using 4(3,4) unfolding no_birth_def by blast
  qed
qed

section \<open>Round robin\<close>

text \<open>The abstract scheduler: lifecycle states, the ready list and the current task.\<close>

record AbsSched =
  abs_state :: "TaskId \<Rightarrow> TaskState option"
  abs_ready :: "TaskId list"
  abs_current :: "TaskId option"

definition abs_sched :: "Scheduler \<Rightarrow> AbsSched" where
  "abs_sched s =
     \<lparr>abs_state = state s, abs_ready = rq_queue (sch_ready s), abs_current = sch_current s\<rparr>"

definition abs_preempt :: "AbsSched \<Rightarrow> AbsSched" where
  "abs_preempt a =
     (case abs_current a of
        None \<Rightarrow> a
      | Some c \<Rightarrow>
          if abs_state a c = Some Running
          then a\<lparr>abs_state := (abs_state a)(c \<mapsto> Ready), abs_ready := abs_ready a @ [c]\<rparr> else a)"

definition abs_dispatch :: "AbsSched \<Rightarrow> AbsSched" where
  "abs_dispatch a =
     (case abs_ready a of
        [] \<Rightarrow> a\<lparr>abs_current := None\<rparr>
      | x # xs \<Rightarrow> a\<lparr>abs_state := (abs_state a)(x \<mapsto> Running), abs_ready := xs, abs_current := Some x\<rparr>)"

lemma state_put:
  "task s tid = Some t \<Longrightarrow> tcb_id t' = tid \<Longrightarrow> state (put_task s tid t') = (state s)(tid \<mapsto> tcb_state t')"
  by (auto simp: state_def task_put fun_eq_iff)

lemma state_fields [simp]:
  "state (s\<lparr>sch_ready := q\<rparr>) = state s" "state (s\<lparr>sch_current := c\<rparr>) = state s"
  by (simp_all add: state_def fun_eq_iff)

lemma abs_requeue_previous:
  assumes wf: "sched_wf s"
  shows "abs_sched (requeue_previous s) = abs_preempt (abs_sched s)"
proof (cases "\<exists>tid t. sch_current s = Some tid \<and> task s tid = Some t \<and> tcb_state t = Running")
  case True
  then obtain tid t where c: "sch_current s = Some tid" "task s tid = Some t" "tcb_state t = Running"
    by blast
  have "state s tid = Some Running" using c by (simp add: state_def)
  then show ?thesis
    using c requeue_previous_running(1) [OF wf c] task_id [OF c(2)]
    by (simp add: abs_sched_def abs_preempt_def state_put)
next
  case False
  then have "\<And>tid. sch_current s = Some tid \<Longrightarrow> state s tid \<noteq> Some Running"
    unfolding state_Some by blast
  then show ?thesis
    using requeue_previous_idle(1) [OF wf]
    by (simp add: abs_sched_def abs_preempt_def split: option.split)
qed

lemma abs_dispatch_head:
  assumes wf: "sched_wf s"
  shows "abs_sched (dispatch_head s) = abs_dispatch (abs_sched s)"
proof (cases "rq_queue (sch_ready s)")
  case Nil
  then show ?thesis by (simp add: dispatch_head_empty abs_sched_def abs_dispatch_def)
next
  case (Cons tid q)
  obtain t where "task s tid = Some t" "dispatch_head s =
      (put_task (s\<lparr>sch_ready := (sch_ready s)\<lparr>rq_queue := q\<rparr>\<rparr>) tid (t\<lparr>tcb_state := Running\<rparr>))
        \<lparr>sch_current := Some tid\<rparr>"
    using dispatch_head_next [OF wf Cons] by blast
  then show ?thesis
    using Cons by (simp add: abs_sched_def abs_dispatch_def state_put task_id)
qed

lemma abs_schedule_next:
  "sched_wf s \<Longrightarrow> abs_sched (snd (schedule_next s)) = abs_dispatch (abs_preempt (abs_sched s))"
  by (simp add: schedule_next_state abs_dispatch_head abs_requeue_previous requeue_previous_wf)

text \<open>
  A dispatcher that runs the head of its queue and only ever appends to the rest serves every
  queued task after as many rounds as there are tasks before it.
\<close>

locale fifo_dispatcher =
  fixes invar :: "'s \<Rightarrow> bool"
    and dispatch :: "'s \<Rightarrow> 's"
    and queue :: "'s \<Rightarrow> 'a list"
    and running :: "'s \<Rightarrow> 'a option"
  assumes invar_dispatch: "invar s \<Longrightarrow> invar (dispatch s)"
    and head_runs: "invar s \<Longrightarrow> queue s = x # xs \<Longrightarrow> running (dispatch s) = Some x"
    and tail_kept: "invar s \<Longrightarrow> queue s = x # xs \<Longrightarrow> \<exists>ys. queue (dispatch s) = xs @ ys"
begin

lemma served: "invar s \<Longrightarrow> k < length (queue s) \<Longrightarrow> running ((dispatch ^^ Suc k) s) = Some (queue s ! k)"
proof (induction k arbitrary: s)
  case 0
  then show ?case by (cases "queue s") (simp_all add: head_runs)
next
  case (Suc k)
  then obtain x xs where q: "queue s = x # xs" by (cases "queue s") simp_all
  obtain ys where ys: "queue (dispatch s) = xs @ ys" using tail_kept [OF Suc.prems(1) q] by blast
  have "running ((dispatch ^^ Suc k) (dispatch s)) = Some (queue (dispatch s) ! k)"
    using Suc.prems q ys by (intro Suc.IH) (simp_all add: invar_dispatch)
  then show ?case using Suc.prems q ys by (simp add: funpow_swap1 nth_append)
qed

end

interpretation rr: fifo_dispatcher sched_wf "\<lambda>s. snd (schedule_next s)"
  "\<lambda>s. rq_queue (sch_ready s)" sch_current
proof (unfold_locales, goal_cases)
  case (1 s)
  then show ?case by (rule schedule_next_wf)
next
  case (2 s x xs)
  then show ?case
    using arg_cong [OF abs_schedule_next [OF 2(1)], of abs_current]
    by (simp add: abs_sched_def abs_dispatch_def abs_preempt_def split: option.splits if_splits)
next
  case (3 s x xs)
  then show ?case
    using arg_cong [OF abs_schedule_next [OF 3(1)], of abs_ready]
    by (simp add: abs_sched_def abs_dispatch_def abs_preempt_def split: option.splits if_splits)
qed

end
