(* ===== verification/Scheduler_Properties.thy ===== *)
theory Scheduler_Properties
  imports Scheduler_Reach
begin

text \<open>
  The properties of the scheduler: its invariant in every reachable state, identifiers that
  never come back, round-robin dispatch, atomic termination, and the behaviour of the wait,
  sleep and ready queues.
\<close>

section \<open>A concrete run\<close>

text \<open>Two tasks are created and queued, and the first one is dispatched.\<close>

definition demo_created :: Scheduler where
  "demo_created =
     snd (the (create_user_task (snd (the (create_task Scheduler_new Priority_DEFAULT))) Priority_DEFAULT))"

definition demo_running :: Scheduler where
  "demo_running =
     snd (schedule_next (snd (make_ready (snd (make_ready demo_created (TaskId 0 1))) (TaskId 1 1))))"

definition demo_blocked :: Scheduler where
  "demo_blocked = fst (snd (block_current_on demo_running WaitQueue_new))"

definition demo_tcb :: "u32 \<Rightarrow> TaskKind \<Rightarrow> TaskState \<Rightarrow> TaskControlBlock" where
  "demo_tcb i k st =
     \<lparr>tcb_id = TaskId i 1, tcb_kind = k, tcb_state = st, tcb_priority = Priority 128, tcb_execution = None\<rparr>"

definition demo_exited :: Scheduler where
  "demo_exited = snd (exit_current demo_running)"

definition demo_reused :: Scheduler where
  "demo_reused = snd (the (create_task demo_exited Priority_DEFAULT))"

definition demo_waiters :: WaitQueue where
  "demo_waiters = \<lparr>wq_queue = [TaskId 7 7, TaskId 1 1, TaskId 0 1]\<rparr>"

definition demo_sleepers :: SleepQueue where
  "demo_sleepers =
     snd (sq_insert (snd (sq_insert (snd (sq_insert SleepQueue_new (SleepEntry_new 30 (TaskId 1 1))))
       (SleepEntry_new 10 (TaskId 0 1)))) (SleepEntry_new 20 (TaskId 7 7)))"

lemma demo_created_eq:
  "demo_created =
     \<lparr>sch_tasks = [Some (demo_tcb 0 KernelTask Created), Some (demo_tcb 1 UserspaceTask Created)],
      sch_generations = [1, 1], sch_ready = \<lparr>rq_queue = []\<rparr>, sch_current = None\<rparr>"
  by code_simp

lemma demo_running_eq:
  "demo_running =
     \<lparr>sch_tasks = [Some (demo_tcb 0 KernelTask Running), Some (demo_tcb 1 UserspaceTask Ready)],
      sch_generations = [1, 1], sch_ready = \<lparr>rq_queue = [TaskId 1 1]\<rparr>, sch_current = Some (TaskId 0 1)\<rparr>"
  by code_simp

lemma demo_blocked_eq:
  "demo_blocked =
     \<lparr>sch_tasks = [Some (demo_tcb 0 KernelTask Blocked), Some (demo_tcb 1 UserspaceTask Ready)],
      sch_generations = [1, 1], sch_ready = \<lparr>rq_queue = [TaskId 1 1]\<rparr>, sch_current = None\<rparr>"
  by code_simp

lemma reach_step: "sched_reachable s \<Longrightarrow> sched_step s s' \<Longrightarrow> sched_reachable s'"
  unfolding sched_reachable_def by (rule rtranclp.rtrancl_into_rtrancl)

lemma reach_create:
  assumes "sched_reachable s" "length (sch_tasks s) < 2 ^ 32"
  shows "sched_reachable (snd (the (create_task_with_kind s p k)))"
proof -
  obtain tid s' where "create_task_with_kind s p k = Some (tid, s')"
    using create_total [OF sched_wf_table [OF sched_reachable_wf [OF assms(1)]], of p k] by auto
  then show ?thesis using reach_step [OF assms(1) step_create [OF assms(2)]] by simp
qed

lemma demo_created_reachable: "sched_reachable demo_created"
proof -
  have new: "sched_reachable Scheduler_new" by (simp add: sched_reachable_def)
  have one: "sched_reachable (snd (the (create_task Scheduler_new Priority_DEFAULT)))"
    unfolding create_task_def by (rule reach_create [OF new]) (simp add: Scheduler_new_def)
  have "sch_tasks (snd (the (create_task Scheduler_new Priority_DEFAULT))) =
      [Some (demo_tcb 0 KernelTask Created)]" by code_simp
  then show ?thesis unfolding demo_created_def create_user_task_def by (intro reach_create [OF one]) simp
qed

lemma demo_running_reachable: "sched_reachable demo_running"
  unfolding demo_running_def
  by (intro reach_step [OF _ step_schedule_next] reach_step [OF _ step_make_ready] demo_created_reachable)

lemma demo_blocked_reachable: "sched_reachable demo_blocked"
  unfolding demo_blocked_def by (rule reach_step [OF demo_running_reachable step_block_on])

lemmas demo_wf = sched_reachable_wf [OF demo_created_reachable]
  sched_reachable_wf [OF demo_running_reachable] sched_reachable_wf [OF demo_blocked_reachable]

section \<open>Invariant\<close>

text \<open>
  C1: in every state the scheduler can reach from \<open>Scheduler::new\<close> by any sequence of its
  operations, the ready queue lists exactly the ready tasks and each once, at most one task
  runs and it is the current one, the current task is running or ready, no live task is
  exited, and an execution handle names its own task.
\<close>

theorem scheduler_invariant:
  assumes "sched_reachable s"
  shows "distinct (rq_snapshot (sch_ready s))
    \<and> (\<forall>tid. tid \<in> set (rq_snapshot (sch_ready s)) \<longleftrightarrow> state s tid = Some Ready)
    \<and> (\<forall>tid. state s tid = Some Running \<longrightarrow> sch_current s = Some tid)
    \<and> (\<forall>tid. sch_current s = Some tid \<longrightarrow> state s tid \<in> {Some Running, Some Ready})
    \<and> (\<forall>tid. state s tid \<noteq> Some Exited)
    \<and> (\<forall>tid h. execution s tid = Some h \<longrightarrow> handle_task_id h = tid)"
proof -
  note wf = sched_wf_queue [OF sched_reachable_wf [OF assms]]
  have "handle_task_id h = tid" if "execution s tid = Some h" for tid h
  proof -
    obtain t where t: "task s tid = Some t" "tcb_execution t = Some h"
      using \<open>execution s tid = Some h\<close> by (auto simp: execution_def bind_eq_Some_conv)
    then show ?thesis using queue_wf_ok [OF wf t(1)] task_id [OF t(1)] by (auto simp: task_ok_def for_task_def)
  qed
  then show ?thesis
    using queue_wf_distinct [OF wf] queue_wf_mem [OF wf] queue_wf_running [OF wf]
      queue_wf_current [OF wf] queue_wf_ok [OF wf]
    unfolding insert_iff empty_iff state_Some rq_snapshot_def task_ok_def by blast
qed

theorem scheduler_invariant_witness:
  "sched_reachable demo_running \<and> distinct (rq_snapshot (sch_ready demo_running))"
  using scheduler_invariant [OF demo_running_reachable] demo_running_reachable by blast

text \<open>
  C2: a task identifier that has stopped resolving never resolves again, whatever operations
  follow and however often its slot is reused.
\<close>

theorem stale_task_id:
  assumes "sched_reachable s" "task s tid \<noteq> None"
    and "sched_step\<^sup>*\<^sup>* s s'" "task s' tid = None"
    and "sched_step\<^sup>*\<^sup>* s' s''"
  shows "task s'' tid = None"
  using task_ids.stale_forever [OF sched_reachable_wf [OF assms(1)] assms(2,3) _ assms(5)] assms(4) by simp

theorem stale_task_id_witness:
  "task demo_running (TaskId 0 1) \<noteq> None \<and> task demo_exited (TaskId 0 1) = None \<and>
   task demo_reused (TaskId 0 2) \<noteq> None \<and> task demo_reused (TaskId 0 1) = None"
proof -
  have "sched_step\<^sup>*\<^sup>* demo_running demo_exited"
    unfolding demo_exited_def by (intro r_into_rtranclp step_exit)
  moreover have "create_task_with_kind demo_exited Priority_DEFAULT KernelTask =
      Some (TaskId 0 2, demo_reused)" by code_simp
  moreover have "length (sch_tasks demo_exited) < 2 ^ 32"
    by (simp add: demo_exited_def demo_running_eq exit_current_def slot_at_def vec_get_def demo_tcb_def)
  ultimately have steps: "sched_step\<^sup>*\<^sup>* demo_running demo_exited" "sched_step\<^sup>*\<^sup>* demo_exited demo_reused"
    by (blast intro: step_create)+
  have live: "task demo_running (TaskId 0 1) \<noteq> None" by code_simp
  have gone: "task demo_exited (TaskId 0 1) = None" by code_simp
  have "task demo_reused (TaskId 0 2) \<noteq> None" by code_simp
  with stale_task_id [OF demo_running_reachable live steps(1) gone steps(2)] live gone
  show ?thesis by blast
qed

section \<open>Dispatch\<close>

text \<open>
  C3: \<open>schedule_next\<close> refines the abstract round robin: the running task goes to the back of
  the ready list and the head of the list becomes the running, current task; with no other
  ready task the running task keeps the processor and the decision names no next task.
\<close>

theorem schedule_next_refines:
  assumes "sched_wf s"
  shows "abs_sched (snd (schedule_next s)) = abs_dispatch (abs_preempt (abs_sched s))
    \<and> previous (fst (schedule_next s)) = sch_current s
    \<and> next_task (fst (schedule_next s)) =
        (if sch_current s \<noteq> None \<and> abs_ready (abs_preempt (abs_sched s)) = [the (sch_current s)]
         then None else sch_current (snd (schedule_next s)))"
proof -
  have "abs_ready (abs_preempt (abs_sched s)) = rq_queue (sch_ready (requeue_previous s))"
    using arg_cong [OF abs_requeue_previous [OF assms], of abs_ready] by (simp add: abs_sched_def)
  then show ?thesis
    using abs_schedule_next [OF assms]
    by (auto simp: schedule_next_def Let_def rq_len_def rq_peek_def front_Some length_Suc_conv
        split: option.split)
qed

theorem schedule_next_refines_witness:
  "sched_wf demo_running \<and> sch_current (snd (schedule_next demo_running)) = Some (TaskId 1 1)
   \<and> next_task (fst (schedule_next demo_running)) = Some (TaskId 1 1)"
  using schedule_next_refines [OF demo_wf(2)] demo_wf(2)
  by (simp add: demo_running_eq abs_sched_def abs_preempt_def abs_dispatch_def state_def task_def
      slot_at_def vec_get_def demo_tcb_def)

text \<open>
  C4: no ready task starves under round robin: the task at position \<open>k\<close> of the ready queue is
  the current task after \<open>k + 1\<close> calls of \<open>schedule_next\<close>.
\<close>

theorem ready_task_served:
  assumes "sched_wf s" "k < length (rq_snapshot (sch_ready s))"
  shows "sch_current (((\<lambda>s. snd (schedule_next s)) ^^ Suc k) s) = Some (rq_snapshot (sch_ready s) ! k)"
  using rr.served [OF assms(1)] assms(2) by (simp add: rq_snapshot_def)

theorem ready_task_served_witness:
  "sch_current (((\<lambda>s. snd (schedule_next s)) ^^ Suc 0) demo_running) = Some (TaskId 1 1)"
  using ready_task_served [OF demo_wf(2), of 0] by (simp add: demo_running_eq)

text \<open>
  \<open>terminate_current_to\<close> is atomic: an error leaves the scheduler as it was; on success the
  old current task no longer resolves, the successor is the running current task, it has left
  the head of the ready queue, and every other task is unchanged.
\<close>

theorem terminate_current_to_atomic:
  "case terminate_current_to s successor of
     (Inl e, s') \<Rightarrow> s' = s
   | (Inr r, s') \<Rightarrow>
       r = successor \<and> sch_current s' = Some successor
       \<and> rq_snapshot (sch_ready s) = successor # rq_snapshot (sch_ready s')
       \<and> (\<exists>cur. sch_current s = Some cur \<and> state s cur = Some Running \<and> state s successor = Some Ready
            \<and> state s' = (state s)(cur := None, successor \<mapsto> Running))"
proof (cases rule: terminate_current_to_cases [of s successor])
  case (switched cur t u q)
  let ?s1 = "(set_slot s (unat (task_index cur)) None)\<lparr>sch_ready := (sch_ready s)\<lparr>rq_queue := q\<rparr>\<rparr>"
  have "task ?s1 successor = Some u" using switched by (simp add: task_clear)
  then have "state (put_task ?s1 successor (u\<lparr>tcb_state := Running\<rparr>)) = (state ?s1)(successor \<mapsto> Running)"
    using task_id [OF switched(5)] by (simp add: state_put)
  moreover have "state ?s1 = (state s)(cur := None)"
    using task_clear [OF switched(3)] by (simp add: state_def fun_eq_iff)
  ultimately show ?thesis using switched by (simp add: state_def)
qed simp

section \<open>Creation\<close>

text \<open>
  In a well-formed table with a free \<open>u32\<close> index, creating a task never panics; the new
  identifier was not in use, resolves to a task in state Created of the requested kind and
  priority with no execution handle, and every other identifier resolves as before.
\<close>

theorem create_task_fresh:
  assumes "sched_wf s" "length (sch_tasks s) < 2 ^ 32"
  shows "\<exists>tid s'. create_task_with_kind s priority kind = Some (tid, s') \<and> task s tid = None
    \<and> task s' = (task s)(tid \<mapsto> \<lparr>tcb_id = tid, tcb_kind = kind, tcb_state = Created,
         tcb_priority = priority, tcb_execution = None\<rparr>)
    \<and> sch_ready s' = sch_ready s \<and> sch_current s' = sch_current s"
proof -
  note wf = sched_wf_table [OF assms(1)]
  obtain tid s' where c: "create_task_with_kind s priority kind = Some (tid, s')"
    using create_total [OF wf, of priority kind] by auto
  have "tcb_of_kind kind tid priority = \<lparr>tcb_id = tid, tcb_kind = kind, tcb_state = Created,
         tcb_priority = priority, tcb_execution = None\<rparr>"
    by (cases kind) (simp_all add: tcb_new_def tcb_new_userspace_def)
  then show ?thesis using c create_table [OF wf assms(2) c] by auto
qed

theorem create_task_fresh_witness:
  "\<exists>tid s'. create_task_with_kind demo_running Priority_MAX UserspaceTask = Some (tid, s') \<and>
     task demo_running tid = None \<and> task s' tid \<noteq> None"
proof -
  have "length (sch_tasks demo_running) < 2 ^ 32" by (simp add: demo_running_eq)
  from create_task_fresh [OF demo_wf(2) this, of Priority_MAX UserspaceTask] show ?thesis by auto
qed

section \<open>Waking\<close>

text \<open>
  \<open>wake_one\<close> terminates and wakes the first waiter that is still a blocked task: waiters
  before it that exited or are not blocked are dropped from the wait queue, the woken task
  becomes ready at the back of the ready queue, and with no blocked waiter the scheduler is
  unchanged and the wait queue is empty.
\<close>

theorem wake_one_first_blocked:
  assumes "sched_wf s"
  shows "case wake_one s waiters of (woken, s', waiters') \<Rightarrow>
    (case dropWhile (\<lambda>tid. state s tid \<noteq> Some Blocked) (wq_snapshot waiters) of
       [] \<Rightarrow> woken = None \<and> s' = s \<and> wq_snapshot waiters' = []
     | tid # rest \<Rightarrow> woken = Some tid \<and> state s tid = Some Blocked \<and> wq_snapshot waiters' = rest
         \<and> state s' = (state s)(tid \<mapsto> Ready) \<and> sch_current s' = sch_current s
         \<and> rq_snapshot (sch_ready s') = rq_snapshot (sch_ready s) @ [tid])"
proof (cases "dropWhile (\<lambda>tid. state s tid \<noteq> Some Blocked) (wq_queue waiters)")
  case Nil
  show ?thesis unfolding wake_one_spec [OF assms] wq_snapshot_def Nil by simp
next
  case (Cons tid rest)
  then have b: "state s tid = Some Blocked"
    using hd_dropWhile [of "\<lambda>tid. state s tid \<noteq> Some Blocked" "wq_queue waiters"] by simp
  show ?thesis unfolding wake_one_spec [OF assms] wq_snapshot_def Cons
    using b by (simp add: state_readied ready_readied)
qed

theorem wake_one_first_blocked_witness:
  "sched_wf demo_blocked \<and> fst (wake_one demo_blocked demo_waiters) = Some (TaskId 0 1)"
proof -
  have "dropWhile (\<lambda>tid. state demo_blocked tid \<noteq> Some Blocked) (wq_snapshot demo_waiters) = [TaskId 0 1]"
    by code_simp
  then show ?thesis
    using wake_one_first_blocked [OF demo_wf(3), of demo_waiters] demo_wf(3) by (auto split: prod.splits)
qed

text \<open>
  C5: \<open>expire_sleepers\<close> on an ordered sleep queue removes exactly the entries whose deadline
  has passed, makes ready exactly those of them that are blocked tasks, in deadline order, at
  the back of the ready queue, and reports them; every other task is unchanged.
\<close>

theorem expire_sleepers_exact:
  assumes "sched_wf s" "sq_wf sleepers"
    and "expire_sleepers s now sleepers = (woken, s', sleepers')"
  shows "woken = filter (\<lambda>tid. state s tid = Some Blocked)
           (map sleep_task (filter (\<lambda>e. sleep_deadline e \<le> now) (sq_entries sleepers)))
    \<and> sq_entries sleepers' = filter (\<lambda>e. now < sleep_deadline e) (sq_entries sleepers)
    \<and> rq_snapshot (sch_ready s') = rq_snapshot (sch_ready s) @ woken
    \<and> (\<forall>tid. state s' tid = (if tid \<in> set woken then Some Ready else state s tid))
    \<and> sch_current s' = sch_current s"
proof -
  let ?ts = "map sleep_task (filter (\<lambda>e. sleep_deadline e \<le> now) (sq_entries sleepers))"
  have d: "distinct ?ts" using assms(2) by (simp add: sq_wf_def distinct_map_filter)
  have w: "wake_expired s ?ts = (woken, s')"
    and q: "sq_entries sleepers' = filter (\<lambda>e. now < sleep_deadline e) (sq_entries sleepers)"
    using assms(3) by (auto simp: expire_sleepers_def sq_expire_exact [OF assms(2)] not_le split: prod.splits)
  show ?thesis using wake_expired_spec [OF assms(1) d w] q by simp
qed

theorem expire_sleepers_exact_witness:
  "sched_wf demo_blocked \<and> sq_wf demo_sleepers \<and>
   fst (expire_sleepers demo_blocked 20 demo_sleepers) = [TaskId 0 1]"
proof -
  have q: "sq_wf demo_sleepers" unfolding demo_sleepers_def by (intro sq_wf_insert sq_wf_new)
  have eq: "expire_sleepers demo_blocked 20 demo_sleepers = (fst (expire_sleepers demo_blocked 20 demo_sleepers),
    fst (snd (expire_sleepers demo_blocked 20 demo_sleepers)),
    snd (snd (expire_sleepers demo_blocked 20 demo_sleepers)))" by simp
  have "filter (\<lambda>tid. state demo_blocked tid = Some Blocked)
      (map sleep_task (filter (\<lambda>e. sleep_deadline e \<le> 20) (sq_entries demo_sleepers))) = [TaskId 0 1]"
    by code_simp
  then show ?thesis using expire_sleepers_exact [OF demo_wf(3) q eq] q demo_wf(3) by simp
qed

text \<open>
  The deadline queue stays ordered by deadline and then task, with one entry per task,
  under insertion, expiry and removal, so every \<open>partition_point\<close> it computes is on a
  partitioned slice; an insertion is refused exactly when the task is already queued.
\<close>

theorem sleep_queue_ordered:
  assumes "sq_wf q"
  shows "sq_wf (snd (sq_insert q e)) \<and> sq_wf (snd (sq_expire_until q now)) \<and> sq_wf (snd (sq_remove q tid))
    \<and> (fst (sq_insert q e) \<longleftrightarrow> \<not> sq_contains q (sleep_task e))
    \<and> (fst (sq_insert q e) \<longrightarrow> set (sq_entries (snd (sq_insert q e))) = insert e (set (sq_entries q)))
    \<and> partitioned (\<lambda>c. sleep_key c \<le> sleep_key e) (sq_entries q)
    \<and> partitioned (\<lambda>c. sleep_deadline c \<le> now) (sq_entries q)"
proof -
  have "fst (sq_insert q e) \<longleftrightarrow> \<not> sq_contains q (sleep_task e)"
    by (simp add: sq_insert_def sq_contains_def Let_def)
  moreover have "fst (sq_insert q e) \<Longrightarrow> set (sq_entries (snd (sq_insert q e))) = insert e (set (sq_entries q))"
    by (simp add: sq_insert_def Let_def split: if_splits)
  ultimately show ?thesis
    using sq_wf_insert [OF assms] sq_wf_expire [OF assms] sq_wf_remove [OF assms]
      expire_partitioned [OF assms] insert_partitioned [OF assms] by blast
qed

theorem sleep_queue_ordered_witness:
  "sq_wf SleepQueue_new \<and> sq_wf (snd (sq_insert SleepQueue_new (SleepEntry_new 30 (TaskId 1 1))))"
  using sleep_queue_ordered [OF sq_wf_new, of "SleepEntry_new 30 (TaskId 1 1)"] sq_wf_new by blast

text \<open>
  The ready queue and the wait queue are first-in first-out: tasks that were not queued
  and are pushed in some order come out after those already queued, in that order.
\<close>

theorem queues_fifo:
  assumes "distinct ts" "set ts \<inter> set (rq_snapshot q) = {}" "set ts \<inter> set (wq_snapshot w) = {}"
  shows "pops rq_pop (rq_len q + length ts) (pushes rq_push q ts) = map Some (rq_snapshot q @ ts)
    \<and> pops wq_dequeue (wq_len w + length ts) (pushes (\<lambda>q t. apfst is_ok (wq_enqueue q t)) w ts)
        = map Some (wq_snapshot w @ ts)"
  using rq.fifo [OF assms(1,2)] wq.fifo [OF assms(1,3)] by (simp add: rq_len_def wq_len_def)

theorem queues_fifo_witness:
  "pops rq_pop 2 (pushes rq_push RunQueue_new [TaskId 3 1, TaskId 2 1]) = [Some (TaskId 3 1), Some (TaskId 2 1)]"
  using queues_fifo [of "[TaskId 3 1, TaskId 2 1]" RunQueue_new WaitQueue_new]
  by (simp add: RunQueue_new_def WaitQueue_new_def rq_len_def numeral_2_eq_2)

end
