(* ===== verification/Abi.thy ===== *)
theory Abi
  imports Prelude
begin

text \<open>
  The contract shared by the kernel and its programs (\<open>abi/src/lib.rs\<close>): system call numbers,
  error codes and their encoding in the return register, and the pointer/length pair.
\<close>

datatype Syscall = Write | Exit | Yield

fun syscall_number :: "Syscall \<Rightarrow> u64" where
  "syscall_number Write = 0"
| "syscall_number Exit = 1"
| "syscall_number Yield = 2"

definition syscall_from_number :: "u64 \<Rightarrow> Syscall option" where
  "syscall_from_number number =
     (if number = 0 then Some Write
      else if number = 1 then Some Exit
      else if number = 2 then Some Yield
      else None)"

datatype AbiSyscallError =
    AbiUnknownSyscall
  | AbiNotImplemented
  | AbiInvalidArguments
  | AbiInvalidUserRange
  | AbiInvalidUserMemory
  | AbiWriteFailed

fun abi_error_code :: "AbiSyscallError \<Rightarrow> u64" where
  "abi_error_code AbiUnknownSyscall = 1"
| "abi_error_code AbiNotImplemented = 2"
| "abi_error_code AbiInvalidArguments = 3"
| "abi_error_code AbiInvalidUserRange = 4"
| "abi_error_code AbiInvalidUserMemory = 5"
| "abi_error_code AbiWriteFailed = 6"

definition return_value :: "AbiSyscallError \<Rightarrow> u64" where
  "return_value e = 0 - abi_error_code e"

definition from_return_value :: "u64 \<Rightarrow> AbiSyscallError option" where
  "from_return_value value =
     (let code = 0 - value
      in if code = 1 then Some AbiUnknownSyscall
         else if code = 2 then Some AbiNotImplemented
         else if code = 3 then Some AbiInvalidArguments
         else if code = 4 then Some AbiInvalidUserRange
         else if code = 5 then Some AbiInvalidUserMemory
         else if code = 6 then Some AbiWriteFailed
         else None)"

record UserSlice =
  slice_ptr :: u64
  slice_len :: u64

definition slice_empty :: UserSlice where
  "slice_empty = \<lparr>slice_ptr = 0, slice_len = 0\<rparr>"

definition slice_is_empty :: "UserSlice \<Rightarrow> bool" where
  "slice_is_empty s \<longleftrightarrow> slice_len s = 0"

section \<open>Lemmas\<close>

lemma syscall_number_roundtrip: "syscall_from_number n = Some c \<longleftrightarrow> n = syscall_number c"
  by (cases c) (auto simp: syscall_from_number_def)

lemma return_value_roundtrip: "from_return_value v = Some e \<longleftrightarrow> v = return_value e"
proof
  assume "from_return_value v = Some e"
  then have "0 - v = abi_error_code e"
    by (auto simp: from_return_value_def Let_def split: if_splits)
  then have "v = 0 - abi_error_code e"
    by (metis diff_0 minus_equation_iff)
  then show "v = return_value e" by (simp add: return_value_def)
next
  assume "v = return_value e"
  then show "from_return_value v = Some e"
    by (cases e) (simp_all add: return_value_def from_return_value_def)
qed

end
