(* ===== verification/Memory_Ranges.thy ===== *)
theory Memory_Ranges
  imports Abi
begin

text \<open>
  Address ranges, pages and the user address-space layout
  (\<open>kernel/src/memory/region.rs\<close>, \<open>address_space.rs\<close>, \<open>page.rs\<close>, \<open>page_table.rs\<close>,
  \<open>physical.rs\<close>, \<open>boot.rs\<close>, \<open>user.rs\<close>, \<open>user_stack.rs\<close>): the values the memory policy
  is made of, and the validation of user pointers.
\<close>

unbundle bit_operations_syntax

section \<open>Virtual ranges and the address-space layout\<close>

definition USER_SPACE_START :: u64 where "USER_SPACE_START = 0x10000"

definition KERNEL_SPACE_START :: u64 where "KERNEL_SPACE_START = 0xFFFF800000000000"

definition LAYOUT_STACK_SIZE :: u64 where "LAYOUT_STACK_SIZE = 16 * 4096"

definition LAYOUT_STACK_GUARD_SIZE :: u64 where "LAYOUT_STACK_GUARD_SIZE = 4096"

definition LAYOUT_STACK_TOP :: u64 where "LAYOUT_STACK_TOP = KERNEL_SPACE_START - 0x100000"

definition USER_IMAGE_BASE :: u64 where "USER_IMAGE_BASE = USER_SPACE_START + 0x100000"

record VirtRange =
  vr_start :: u64
  vr_end :: u64

definition VirtRange_new :: "u64 \<Rightarrow> u64 \<Rightarrow> VirtRange option" where
  "VirtRange_new s e = (if s \<le> e then Some \<lparr>vr_start = s, vr_end = e\<rparr> else None)"

definition vr_len :: "VirtRange \<Rightarrow> u64" where
  "vr_len r = vr_end r - vr_start r"

definition vr_is_empty :: "VirtRange \<Rightarrow> bool" where
  "vr_is_empty r \<longleftrightarrow> vr_start r = vr_end r"

definition vr_contains :: "VirtRange \<Rightarrow> u64 \<Rightarrow> bool" where
  "vr_contains r address \<longleftrightarrow> address \<ge> vr_start r \<and> address < vr_end r"

definition vr_is_user :: "VirtRange \<Rightarrow> bool" where
  "vr_is_user r \<longleftrightarrow> vr_start r \<ge> USER_SPACE_START \<and> vr_end r \<le> KERNEL_SPACE_START"

definition vr_is_kernel :: "VirtRange \<Rightarrow> bool" where
  "vr_is_kernel r \<longleftrightarrow> vr_start r \<ge> KERNEL_SPACE_START"

record UserAddressSpaceLayout =
  layout_user :: VirtRange
  layout_stack :: VirtRange
  layout_guard :: VirtRange
  layout_image_base :: u64

definition default_layout :: UserAddressSpaceLayout where
  "default_layout =
     (let stack_start = LAYOUT_STACK_TOP - LAYOUT_STACK_SIZE;
          guard_start = stack_start - LAYOUT_STACK_GUARD_SIZE
      in \<lparr>layout_user = \<lparr>vr_start = USER_SPACE_START, vr_end = KERNEL_SPACE_START\<rparr>,
          layout_stack = \<lparr>vr_start = stack_start, vr_end = LAYOUT_STACK_TOP\<rparr>,
          layout_guard = \<lparr>vr_start = guard_start, vr_end = stack_start\<rparr>,
          layout_image_base = USER_IMAGE_BASE\<rparr>)"

section \<open>Physical ranges\<close>

record PhysRange =
  pr_start :: u64
  pr_end :: u64

definition PhysRange_new :: "u64 \<Rightarrow> u64 \<Rightarrow> PhysRange option" where
  "PhysRange_new s e = (if s \<le> e then Some \<lparr>pr_start = s, pr_end = e\<rparr> else None)"

definition pr_len :: "PhysRange \<Rightarrow> u64" where
  "pr_len r = pr_end r - pr_start r"

definition pr_contains :: "PhysRange \<Rightarrow> u64 \<Rightarrow> bool" where
  "pr_contains r address \<longleftrightarrow> address \<ge> pr_start r \<and> address < pr_end r"

definition page_count_4k :: "PhysRange \<Rightarrow> u64 option" where
  "page_count_4k r =
     (if pr_start r mod 4096 \<noteq> 0 \<or> pr_end r mod 4096 \<noteq> 0 then None else Some (pr_len r div 4096))"

record PhysicalMemoryMapping =
  phys_offset :: u64

definition phys_translate :: "PhysicalMemoryMapping \<Rightarrow> u64 \<Rightarrow> u64 option" where
  "phys_translate m physical_address = checked_add (phys_offset m) physical_address"

definition phys_translate_range :: "PhysicalMemoryMapping \<Rightarrow> PhysRange \<Rightarrow> VirtRange option" where
  "phys_translate_range m r =
     (case phys_translate m (pr_start r) of
        None \<Rightarrow> None
      | Some s \<Rightarrow> (case phys_translate m (pr_end r) of None \<Rightarrow> None | Some e \<Rightarrow> VirtRange_new s e))"

text \<open>
  A bootloader memory region as the kernel reads it: its start, its end, and whether its kind
  is \<open>Usable\<close>.
\<close>

type_synonym boot_region = "u64 \<times> u64 \<times> bool"

record MemorySummary =
  usable_bytes :: u64
  reserved_bytes :: u64
  malformed_regions :: u64

definition account_region :: "MemorySummary \<Rightarrow> boot_region \<Rightarrow> MemorySummary" where
  "account_region summary region =
     (case region of (s, e, usable) \<Rightarrow>
        (case PhysRange_new s e of
           None \<Rightarrow> summary\<lparr>malformed_regions := saturating_add (malformed_regions summary) 1\<rparr>
         | Some rng \<Rightarrow>
             if usable
             then summary\<lparr>usable_bytes := saturating_add (usable_bytes summary) (pr_len rng)\<rparr>
             else summary\<lparr>reserved_bytes := saturating_add (reserved_bytes summary) (pr_len rng)\<rparr>))"

definition summarize :: "boot_region list \<Rightarrow> MemorySummary" where
  "summarize regions =
     foldl account_region \<lparr>usable_bytes = 0, reserved_bytes = 0, malformed_regions = 0\<rparr> regions"

section \<open>Pages and mapping flags\<close>

definition PAGE_SIZE_4K :: u64 where "PAGE_SIZE_4K = 4096"

datatype Page4K = Page4K (page_start_address: u64)

definition Page4K_from_start_address :: "u64 \<Rightarrow> Page4K option" where
  "Page4K_from_start_address address =
     (if address mod PAGE_SIZE_4K = 0 then Some (Page4K address) else None)"

definition page_end_address :: "Page4K \<Rightarrow> u64 option" where
  "page_end_address p = checked_add (page_start_address p) PAGE_SIZE_4K"

definition page_range :: "Page4K \<Rightarrow> VirtRange option" where
  "page_range p =
     (case page_end_address p of None \<Rightarrow> None | Some e \<Rightarrow> VirtRange_new (page_start_address p) e)"

datatype MappingError =
    InvalidVirtualAddress
  | InvalidPhysicalAddress
  | OutsideAddressSpace
  | AlreadyMapped
  | NotMapped
  | ParentEntryHugePage
  | FrameAllocationFailed
  | InvalidMappedFrame
  | BackendFailure

datatype MappingFlags = MappingFlags (flag_bits: u8)

definition flags_read_only :: MappingFlags where "flags_read_only = MappingFlags 1"

definition flags_read_write :: MappingFlags where "flags_read_write = MappingFlags (or 1 2)"

definition flags_read_execute :: MappingFlags where "flags_read_execute = MappingFlags (or 1 4)"

definition flags_read_write_execute :: MappingFlags where
  "flags_read_write_execute = MappingFlags (or (or 1 2) 4)"

definition flags_readable :: "MappingFlags \<Rightarrow> bool" where
  "flags_readable f \<longleftrightarrow> and (flag_bits f) 1 \<noteq> 0"

definition flags_writable :: "MappingFlags \<Rightarrow> bool" where
  "flags_writable f \<longleftrightarrow> and (flag_bits f) 2 \<noteq> 0"

definition flags_executable :: "MappingFlags \<Rightarrow> bool" where
  "flags_executable f \<longleftrightarrow> and (flag_bits f) 4 \<noteq> 0"

definition flags_writable_executable :: "MappingFlags \<Rightarrow> bool" where
  "flags_writable_executable f \<longleftrightarrow> flags_writable f \<and> flags_executable f"

record PageAccess =
  acc_mapped :: bool
  acc_user :: bool
  acc_readable :: bool
  acc_writable :: bool
  acc_executable :: bool

definition access_unmapped :: PageAccess where
  "access_unmapped = \<lparr>acc_mapped = False, acc_user = False, acc_readable = False,
     acc_writable = False, acc_executable = False\<rparr>"

definition access_user_read_only :: PageAccess where
  "access_user_read_only = \<lparr>acc_mapped = True, acc_user = True, acc_readable = True,
     acc_writable = False, acc_executable = False\<rparr>"

definition access_user_read_write :: PageAccess where
  "access_user_read_write = \<lparr>acc_mapped = True, acc_user = True, acc_readable = True,
     acc_writable = True, acc_executable = False\<rparr>"

definition access_user_read_execute :: PageAccess where
  "access_user_read_execute = \<lparr>acc_mapped = True, acc_user = True, acc_readable = True,
     acc_writable = False, acc_executable = True\<rparr>"

section \<open>User ranges and the user stack\<close>

datatype UserRangeError = NullPointer | AddressOverflow | OutsideUserSpace

text \<open>The outer option is the panic of \<open>expect\<close> on an empty range.\<close>

definition validate_slice :: "UserSlice \<Rightarrow> (UserRangeError + VirtRange) option" where
  "validate_slice us =
     (if slice_len us = 0
      then (case VirtRange_new (slice_ptr us) (slice_ptr us) of
              None \<Rightarrow> None | Some r \<Rightarrow> Some (Inr r))
      else if slice_ptr us = 0 then Some (Inl NullPointer)
      else case checked_add (slice_ptr us) (slice_len us) of
             None \<Rightarrow> Some (Inl AddressOverflow)
           | Some e \<Rightarrow>
               (case VirtRange_new (slice_ptr us) e of
                  None \<Rightarrow> Some (Inl AddressOverflow)
                | Some rng \<Rightarrow>
                    if vr_start rng < USER_SPACE_START \<or> vr_end rng > KERNEL_SPACE_START
                    then Some (Inl OutsideUserSpace)
                    else Some (Inr rng)))"

definition USER_STACK_PAGES :: u64 where "USER_STACK_PAGES = 16"

definition USER_STACK_SIZE :: u64 where "USER_STACK_SIZE = USER_STACK_PAGES * PAGE_SIZE_4K"

definition USER_STACK_TOP :: u64 where "USER_STACK_TOP = KERNEL_SPACE_START - 0x1000"

definition USER_STACK_GUARD_SIZE :: u64 where "USER_STACK_GUARD_SIZE = PAGE_SIZE_4K"

definition user_stack_range :: "VirtRange option" where
  "user_stack_range =
     (case checked_sub USER_STACK_TOP USER_STACK_SIZE of
        None \<Rightarrow> None
      | Some data_start \<Rightarrow> VirtRange_new data_start USER_STACK_TOP)"

definition user_stack_guard_range :: "VirtRange option" where
  "user_stack_guard_range =
     (case user_stack_range of
        None \<Rightarrow> None
      | Some rng \<Rightarrow>
          (case checked_sub (vr_start rng) USER_STACK_GUARD_SIZE of
             None \<Rightarrow> None
           | Some guard_start \<Rightarrow> VirtRange_new guard_start (vr_start rng)))"

definition is_valid_user_stack_pointer :: "u64 \<Rightarrow> bool" where
  "is_valid_user_stack_pointer rsp \<longleftrightarrow>
     (case user_stack_range of
        None \<Rightarrow> False
      | Some rng \<Rightarrow> rsp \<ge> vr_start rng \<and> rsp \<le> vr_end rng \<and> rsp mod 16 = 0)"

section \<open>Lemmas\<close>

named_theorems layout \<open>the constants of the address-space layout\<close>

declare USER_SPACE_START_def [layout] KERNEL_SPACE_START_def [layout] PAGE_SIZE_4K_def [layout]
  USER_STACK_PAGES_def [layout] USER_STACK_SIZE_def [layout] USER_STACK_TOP_def [layout]
  USER_STACK_GUARD_SIZE_def [layout] LAYOUT_STACK_TOP_def [layout] LAYOUT_STACK_SIZE_def [layout]
  LAYOUT_STACK_GUARD_SIZE_def [layout] USER_IMAGE_BASE_def [layout]

lemma VirtRange_new_Some:
  "VirtRange_new s e = Some r \<longleftrightarrow> s \<le> e \<and> r = \<lparr>vr_start = s, vr_end = e\<rparr>"
  by (auto simp: VirtRange_new_def)

lemma PhysRange_new_Some:
  "PhysRange_new s e = Some r \<longleftrightarrow> s \<le> e \<and> r = \<lparr>pr_start = s, pr_end = e\<rparr>"
  by (auto simp: PhysRange_new_def)

lemma unat_layout [simp]:
  "unat USER_SPACE_START = 65536"
  "unat KERNEL_SPACE_START = 18446603336221196288"
  "unat PAGE_SIZE_4K = 4096"
  by (simp_all add: layout)

definition page_of :: "u64 \<Rightarrow> u64" where
  "page_of a = a div PAGE_SIZE_4K * PAGE_SIZE_4K"

lemma unat_page_of: "unat (page_of a) = unat a div 4096 * 4096"
proof -
  have "unat a div 4096 * 4096 < 2 ^ 64"
    using unat_u64_less [of a] div_times_less_eq_dividend [of "unat a" 4096] by simp
  then show ?thesis by (simp add: page_of_def unat_mult_lem [THEN iffD1] unat_div layout)
qed

lemma unat_and_not_4095: "unat ((a::u64) AND NOT 4095) = unat a div 4096 * 4096"
proof -
  have m: "(4095::u64) = mask 12" by (simp add: mask_eq_exp_minus_1)
  have "a AND NOT 4095 = push_bit 12 (drop_bit 12 a)"
    unfolding m by (rule bit_eqI) (auto simp: bit_simps)
  then have "a AND NOT 4095 = page_of a"
    by (simp add: push_bit_eq_mult drop_bit_eq_div page_of_def layout)
  then show ?thesis by (simp add: unat_page_of)
qed

lemma aligned_iff: "(a::u64) mod PAGE_SIZE_4K = 0 \<longleftrightarrow> unat a mod 4096 = 0"
  by (simp add: word_unat_eq_iff unat_mod)

lemma user_stack_range_eq:
  "user_stack_range = Some \<lparr>vr_start = 0xFFFF7FFFFFFEF000, vr_end = 0xFFFF7FFFFFFFF000\<rparr>"
  by code_simp

lemma user_stack_guard_range_eq:
  "user_stack_guard_range = Some \<lparr>vr_start = 0xFFFF7FFFFFFEE000, vr_end = 0xFFFF7FFFFFFEF000\<rparr>"
  by code_simp

lemma validate_slice_total: "validate_slice us \<noteq> None"
  by (auto simp: validate_slice_def VirtRange_new_def split: option.split)

lemma validate_slice_Inr:
  "validate_slice us = Some (Inr r) \<longleftrightarrow>
     (if slice_len us = 0 then r = \<lparr>vr_start = slice_ptr us, vr_end = slice_ptr us\<rparr>
      else vr_start r = slice_ptr us \<and> unat (vr_end r) = unat (slice_ptr us) + unat (slice_len us)
        \<and> 65536 \<le> unat (slice_ptr us)
        \<and> unat (slice_ptr us) + unat (slice_len us) \<le> unat KERNEL_SPACE_START)"
proof (cases "slice_len us = 0")
  case True
  then show ?thesis by (auto simp: validate_slice_def VirtRange_new_def)
next
  case False
  let ?p = "slice_ptr us" and ?l = "slice_len us"
  show ?thesis
  proof (cases "checked_add ?p ?l")
    case None
    then have "validate_slice us \<noteq> Some (Inr r)" using False by (simp add: validate_slice_def)
    moreover have "\<not> unat ?p + unat ?l \<le> unat KERNEL_SPACE_START"
      using None by (simp add: checked_add_eq_None)
    ultimately show ?thesis using False by simp
  next
    case (Some e)
    then have e: "unat e = unat ?p + unat ?l" by (simp add: checked_add_eq_Some)
    then have "?p \<le> e" by (simp add: word_le_nat_alt)
    then show ?thesis
      using False Some e
      by (cases r) (auto simp: validate_slice_def VirtRange_new_def word_less_nat_alt not_less
          word_unat_eq_iff split: if_splits)
  qed
qed

lemma validate_slice_accepts:
  "(\<exists>r. validate_slice us = Some (Inr r)) \<longleftrightarrow>
     slice_len us = 0 \<or> 65536 \<le> unat (slice_ptr us) \<and>
       unat (slice_ptr us) + unat (slice_len us) \<le> unat KERNEL_SPACE_START" (is "?L \<longleftrightarrow> ?R")
proof
  assume ?R
  show ?L
  proof (cases "slice_len us = 0")
    case True
    then show ?thesis by (simp add: validate_slice_Inr)
  next
    case False
    let ?r = "\<lparr>vr_start = slice_ptr us, vr_end = slice_ptr us + slice_len us\<rparr>"
    have "unat (slice_ptr us + slice_len us) = unat (slice_ptr us) + unat (slice_len us)"
      using \<open>?R\<close> False by (simp add: unat_word_ariths)
    then have "validate_slice us = Some (Inr ?r)"
      using \<open>?R\<close> False by (simp add: validate_slice_Inr)
    then show ?thesis by blast
  qed
qed (auto simp: validate_slice_Inr)

end
