(* ===== verification/User_Copy.thy ===== *)
theory User_Copy
  imports Memory_Ranges
begin

text \<open>
  Reading user memory (\<open>kernel/src/memory/user_copy.rs\<close> and its x86_64 backend
  \<open>kernel/src/arch/x86_64/user_copy.rs\<close>): the page-by-page validation of a range, the checked
  copy, and the backend that copies through the direct map.

  The page-table view is a parameter: \<open>page_access\<close> and \<open>translate\<close> of the trait
  \<open>UserMemoryView\<close>. So is the memory behind a kernel address, a function from addresses to
  bytes. The copy contract is the locale \<open>user_copy_backend\<close>.
\<close>

section \<open>Validation\<close>

datatype UserReadError =
    InvalidRange UserRangeError
  | PageAddressOverflow
  | InvalidPageAddress
  | Unmapped
  | NotUserAccessible
  | NotReadable
  | ReadBackendFailure

function readable_pages :: "(u64 \<Rightarrow> PageAccess) \<Rightarrow> u64 \<Rightarrow> u64 \<Rightarrow> UserReadError + unit" where
  "readable_pages page_access range_end page_start =
     (case Page4K_from_start_address page_start of
        None \<Rightarrow> Inl InvalidPageAddress
      | Some page \<Rightarrow>
          let a = page_access (page_start_address page)
          in if \<not> acc_mapped a then Inl Unmapped
             else if \<not> acc_user a then Inl NotUserAccessible
             else if \<not> acc_readable a then Inl NotReadable
             else
               (case checked_add page_start PAGE_SIZE_4K of
                  None \<Rightarrow> Inl PageAddressOverflow
                | Some next \<Rightarrow>
                    if next \<ge> range_end then Inr ()
                    else readable_pages page_access range_end next))"
  by pat_completeness auto

termination readable_pages
proof (relation "measure (\<lambda>(_, e, p). unat e - unat p)")
qed (auto simp: checked_add_eq_Some word_le_nat_alt)

declare readable_pages.simps [simp del]

text \<open>The outer option is the panic of \<open>validate_slice\<close>.\<close>

definition validate_readable_range ::
  "(u64 \<Rightarrow> PageAccess) \<Rightarrow> UserSlice \<Rightarrow> (UserReadError + unit) option" where
  "validate_readable_range page_access us =
     (case validate_slice us of
        None \<Rightarrow> None
      | Some (Inl e) \<Rightarrow> Some (Inl (InvalidRange e))
      | Some (Inr rng) \<Rightarrow>
          if vr_is_empty rng then Some (Inr ())
          else Some (readable_pages page_access (vr_end rng)
                 (vr_start rng div PAGE_SIZE_4K * PAGE_SIZE_4K)))"

text \<open>
  The destination slice is given by its length; the result carries the bytes written to it.
\<close>

definition copy_from_user ::
  "(u64 \<Rightarrow> PageAccess) \<Rightarrow> (u64 \<Rightarrow> nat \<Rightarrow> UserReadError + u8 list) \<Rightarrow> UserSlice \<Rightarrow> nat \<Rightarrow>
   (UserReadError + u8 list) option" where
  "copy_from_user page_access backend us dst_len =
     (if slice_len us \<noteq> of_nat dst_len then Some (Inl (InvalidRange AddressOverflow))
      else case validate_readable_range page_access us of
             None \<Rightarrow> None
           | Some (Inl e) \<Rightarrow> Some (Inl e)
           | Some (Inr _) \<Rightarrow> Some (backend (slice_ptr us) dst_len))"

section \<open>The x86_64 backend\<close>

text \<open>
  \<open>X86UserCopyBackend::copy_from_user\<close>: \<open>byte\<close> is the memory behind a kernel address, and
  \<open>copied\<close> the number of bytes already written. Every round copies at least one byte.
\<close>

function x86_copy_loop ::
  "(u64 \<Rightarrow> u64 option) \<Rightarrow> PhysicalMemoryMapping \<Rightarrow> (u64 \<Rightarrow> u8) \<Rightarrow> u64 \<Rightarrow> nat \<Rightarrow> nat \<Rightarrow>
   UserReadError + u8 list" where
  "x86_copy_loop translate mapping byte src dst_len copied =
     (if copied < dst_len then
        (case checked_add src (of_nat copied) of
           None \<Rightarrow> Inl PageAddressOverflow
         | Some virtual_address \<Rightarrow>
             (case translate virtual_address of
                None \<Rightarrow> Inl Unmapped
              | Some physical_address \<Rightarrow>
                  (case phys_translate mapping physical_address of
                     None \<Rightarrow> Inl ReadBackendFailure
                   | Some kernel_address \<Rightarrow>
                       let page_offset = unat (virtual_address mod PAGE_SIZE_4K);
                           remaining_in_page = 4096 - page_offset;
                           chunk_len = min remaining_in_page (dst_len - copied);
                           chunk = map (\<lambda>i. byte (kernel_address + of_nat i)) [0..<chunk_len]
                       in (case x86_copy_loop translate mapping byte src dst_len (copied + chunk_len) of
                             Inl e \<Rightarrow> Inl e
                           | Inr rest \<Rightarrow> Inr (chunk @ rest)))))
      else Inr [])"
  by pat_completeness auto

lemma page_offset_less: "unat ((a::u64) mod PAGE_SIZE_4K) < 4096"
  using word_mod_less_divisor [of PAGE_SIZE_4K a] by (simp add: word_less_nat_alt)

termination x86_copy_loop
proof (relation "measure (\<lambda>(_, _, _, _, n, c). n - c)", goal_cases)
  case (2 translate mapping byte src dst_len copied va pa ka)
  have "0 < min (4096 - unat (va mod PAGE_SIZE_4K)) (dst_len - copied)"
    using 2(1) page_offset_less [of va] by simp
  then show ?case using 2 by simp
qed simp

declare x86_copy_loop.simps [simp del]

definition x86_copy_from_user ::
  "(u64 \<Rightarrow> u64 option) \<Rightarrow> PhysicalMemoryMapping \<Rightarrow> (u64 \<Rightarrow> u8) \<Rightarrow> u64 \<Rightarrow> nat \<Rightarrow> UserReadError + u8 list" where
  "x86_copy_from_user translate mapping byte src dst_len =
     x86_copy_loop translate mapping byte src dst_len 0"

section \<open>What validation means\<close>

definition page_ok :: "(u64 \<Rightarrow> PageAccess) \<Rightarrow> u64 \<Rightarrow> bool" where
  "page_ok page_access p \<longleftrightarrow>
     acc_mapped (page_access p) \<and> acc_user (page_access p) \<and> acc_readable (page_access p)"

lemma readable_pages_iff:
  assumes "unat p mod 4096 = 0" "unat p < unat e" "unat e \<le> unat KERNEL_SPACE_START"
  shows "readable_pages acc e p = Inr () \<longleftrightarrow>
    (\<forall>q. unat q mod 4096 = 0 \<longrightarrow> unat p \<le> unat q \<longrightarrow> unat q < unat e \<longrightarrow> page_ok acc q)"
  using assms
proof (induction acc e p rule: readable_pages.induct)
  case (1 acc e p)
  have page: "Page4K_from_start_address p = Some (Page4K p)"
    using 1 by (simp add: Page4K_from_start_address_def aligned_iff)
  obtain n where n: "checked_add p PAGE_SIZE_4K = Some n" "unat n = unat p + 4096"
    using 1 by (cases "checked_add p PAGE_SIZE_4K") (auto simp: rust_arith)
  show ?case
  proof (cases "page_ok acc p")
    case False
    then have "readable_pages acc e p \<noteq> Inr ()"
      using page by (subst readable_pages.simps) (auto simp: page_ok_def Let_def)
    then show ?thesis using False "1.prems" by (auto intro!: exI [of _ p])
  next
    case True
    then have step: "readable_pages acc e p = (if n \<ge> e then Inr () else readable_pages acc e n)"
      using page n by (subst readable_pages.simps) (simp add: page_ok_def Let_def)
    show ?thesis
    proof (cases "n \<ge> e")
      case last: True
      have "page_ok acc q" if q: "unat q mod 4096 = 0" "unat p \<le> unat q" "unat q < unat e" for q
      proof -
        have "unat q < unat p + 4096" using last n q by (simp add: word_le_nat_alt)
        then have "unat q = unat p" by (rule aligned_same [OF "1.prems"(1) q(1,2)])
        then show ?thesis using True by (simp add: word_unat_eq_iff [symmetric])
      qed
      then show ?thesis using step last by auto
    next
      case more: False
      have rec: "readable_pages acc e n = Inr () \<longleftrightarrow>
        (\<forall>q. unat q mod 4096 = 0 \<longrightarrow> unat n \<le> unat q \<longrightarrow> unat q < unat e \<longrightarrow> page_ok acc q)"
        using 1 page True n more by (intro "1.IH") (auto simp: page_ok_def word_le_nat_alt)
      have iff: "(\<forall>q. unat q mod 4096 = 0 \<longrightarrow> unat n \<le> unat q \<longrightarrow> unat q < unat e \<longrightarrow> page_ok acc q) \<longleftrightarrow>
        (\<forall>q. unat q mod 4096 = 0 \<longrightarrow> unat p \<le> unat q \<longrightarrow> unat q < unat e \<longrightarrow> page_ok acc q)"
        (is "(\<forall>q. ?N q) \<longleftrightarrow> (\<forall>q. ?P q)")
      proof (intro iffI allI)
        fix q assume N: "\<forall>q. ?N q"
        show "?P q"
        proof (intro impI)
          assume q: "unat q mod 4096 = 0" "unat p \<le> unat q" "unat q < unat e"
          then have "unat q = unat p \<or> unat n \<le> unat q"
            using aligned_next [OF "1.prems"(1) q(1,2)] n(2) by simp
          then show "page_ok acc q" using N q True by (auto simp: word_unat_eq_iff [symmetric])
        qed
      next
        fix q assume P: "\<forall>q. ?P q"
        show "?N q" using spec [OF P, of q] n(2) by auto
      qed
      show ?thesis by (simp only: step more if_False rec iff)
    qed
  qed
qed

lemma readable_range_pages:
  assumes "unat s < unat e"
  shows "(\<forall>q. unat q mod 4096 = 0 \<longrightarrow> unat (page_of s) \<le> unat q \<longrightarrow> unat q < unat e \<longrightarrow> P q) \<longleftrightarrow>
    (\<forall>a. unat s \<le> unat a \<longrightarrow> unat a < unat e \<longrightarrow> P (page_of a))"
proof (intro iffI allI impI)
  fix a :: u64
  assume P: "\<forall>q. unat q mod 4096 = 0 \<longrightarrow> unat (page_of s) \<le> unat q \<longrightarrow> unat q < unat e \<longrightarrow> P q"
    and a: "unat s \<le> unat a" "unat a < unat e"
  have "unat s div 4096 * 4096 \<le> unat a div 4096 * 4096" using a(1) by (intro mult_le_mono1 div_le_mono)
  moreover have "unat a div 4096 * 4096 < unat e" using a(2) by (meson div_times_less_eq_dividend le_less_trans)
  ultimately show "P (page_of a)" using P by (simp add: unat_page_of)
next
  fix q :: u64
  assume P: "\<forall>a. unat s \<le> unat a \<longrightarrow> unat a < unat e \<longrightarrow> P (page_of a)"
    and q: "unat q mod 4096 = 0" "unat (page_of s) \<le> unat q" "unat q < unat e"
  have aligned: "page_of q = q"
    using q(1) by (auto simp: word_unat_eq_iff unat_page_of)
  show "P q"
  proof (cases "unat s \<le> unat q")
    case True
    then show ?thesis using P [rule_format, OF True q(3)] aligned by simp
  next
    case False
    have b: "unat s div 4096 * 4096 \<le> unat s" "unat s < unat s div 4096 * 4096 + 4096"
      "unat s div 4096 * 4096 mod 4096 = 0"
      using align_down_bounds [OF zero_less_numeral, of "unat s"] by blast+
    have "unat q < unat s div 4096 * 4096 + 4096" using False b(2) by linarith
    then have "unat q = unat s div 4096 * 4096"
      by (rule aligned_same [OF b(3) q(1) q(2) [unfolded unat_page_of]])
    then have "q = page_of s" by (simp add: word_unat_eq_iff unat_page_of)
    then show ?thesis using P [rule_format, of s] assms by simp
  qed
qed

lemma range_bytes:
  assumes "unat p + unat (l::u64) \<le> unat KERNEL_SPACE_START"
  shows "(\<forall>a. unat p \<le> unat a \<longrightarrow> unat a < unat p + unat l \<longrightarrow> P a) \<longleftrightarrow>
    (\<forall>i<unat l. P ((p::u64) + of_nat i))"
proof -
  have sum: "unat (p + of_nat i) = unat p + i" if "i < unat l" for i
  proof -
    have "unat p + i < 2 ^ 64" using assms that by simp
    then show ?thesis
      using length_less_two_power [where 'a = 64, of i] by (simp add: unat_word_ariths)
  qed
  show ?thesis
  proof (intro iffI allI impI)
    fix a :: u64 assume P: "\<forall>i<unat l. P (p + of_nat i)" and a: "unat p \<le> unat a" "unat a < unat p + unat l"
    have i: "unat a - unat p < unat l" using a by simp
    have "a = p + of_nat (unat a - unat p)"
      using sum [OF i] a by (simp add: word_unat_eq_iff)
    then show "P a" using P [rule_format, OF i] by simp
  next
    fix i assume P: "\<forall>a. unat p \<le> unat a \<longrightarrow> unat a < unat p + unat l \<longrightarrow> P a" and i: "i < unat l"
    show "P (p + of_nat i)" using P [rule_format, of "p + of_nat i"] i by (simp add: sum)
  qed
qed

lemma validate_readable_iff:
  "validate_readable_range acc us = Some (Inr ()) \<longleftrightarrow>
     slice_len us = 0 \<or>
     (65536 \<le> unat (slice_ptr us) \<and> unat (slice_ptr us) + unat (slice_len us) \<le> unat KERNEL_SPACE_START \<and>
      (\<forall>i<unat (slice_len us). page_ok acc (page_of (slice_ptr us + of_nat i))))"
proof (cases "\<exists>r. validate_slice us = Some (Inr r)")
  case False
  then obtain e where e: "validate_slice us = Some (Inl e)"
    using validate_slice_total [of us] by (metis not_None_eq sum.exhaust)
  then show ?thesis
    using False unfolding validate_slice_accepts by (auto simp: validate_readable_range_def)
next
  case True
  then obtain r where r: "validate_slice us = Some (Inr r)" by blast
  show ?thesis
  proof (cases "slice_len us = 0")
    case True
    then have "vr_is_empty r" using r by (simp add: validate_slice_Inr vr_is_empty_def)
    then show ?thesis using r True by (simp add: validate_readable_range_def)
  next
    case False
    let ?p = "slice_ptr us" and ?l = "slice_len us"
    have rr: "vr_start r = ?p" "unat (vr_end r) = unat ?p + unat ?l" "65536 \<le> unat ?p"
      "unat ?p + unat ?l \<le> unat KERNEL_SPACE_START"
      using r False by (simp_all add: validate_slice_Inr)
    have pos: "0 < unat ?l" using False by (simp add: unat_gt_0)
    then have ne: "\<not> vr_is_empty r" using rr by (auto simp: vr_is_empty_def word_unat_eq_iff)
    have "validate_readable_range acc us = Some (readable_pages acc (vr_end r) (page_of ?p))"
      using r ne rr(1) by (simp add: validate_readable_range_def page_of_def)
    moreover have "readable_pages acc (vr_end r) (page_of ?p) = Inr () \<longleftrightarrow>
        (\<forall>i<unat ?l. page_ok acc (page_of (?p + of_nat i)))"
    proof -
      have lt: "unat (page_of ?p) < unat (vr_end r)" "unat ?p < unat (vr_end r)"
        using rr pos div_times_less_eq_dividend [of "unat ?p" 4096] unfolding unat_page_of by linarith+
      have "readable_pages acc (vr_end r) (page_of ?p) = Inr () \<longleftrightarrow>
          (\<forall>q. unat q mod 4096 = 0 \<longrightarrow> unat (page_of ?p) \<le> unat q \<longrightarrow> unat q < unat (vr_end r) \<longrightarrow> page_ok acc q)"
        by (rule readable_pages_iff) (use lt rr in \<open>simp_all add: unat_page_of\<close>)
      then show ?thesis
        unfolding readable_range_pages [OF lt(2)] using range_bytes [OF rr(4), of "\<lambda>a. page_ok acc (page_of a)"]
        by (simp add: rr(2))
    qed
    ultimately show ?thesis using False rr by simp
  qed
qed

section \<open>The copy contract\<close>

text \<open>
  What a client relies on: copying a mapped range returns its bytes in order, and a part of a
  mapped range is mapped.
\<close>

locale user_copy_backend =
  fixes copy :: "u64 \<Rightarrow> nat \<Rightarrow> UserReadError + u8 list"
    and mapped :: "u64 \<Rightarrow> nat \<Rightarrow> bool"
    and byte_at :: "u64 \<Rightarrow> u8"
  assumes copy_contents:
      "mapped src n \<Longrightarrow> copy src n = Inr (map (\<lambda>i. byte_at (src + of_nat i)) [0..<n])"
    and mapped_part: "mapped src n \<Longrightarrow> k + m \<le> n \<Longrightarrow> mapped (src + of_nat k) m"
begin

lemma copy_part:
  assumes "mapped src n" "k + m \<le> n"
  shows "copy (src + of_nat k) m = Inr (map (\<lambda>i. byte_at (src + of_nat i)) [k..<k + m])"
proof -
  have "map (\<lambda>i. byte_at (src + of_nat i)) [k..<k + m] =
      map (\<lambda>i. byte_at (src + of_nat k + of_nat i)) [0..<m]"
    by (simp add: map_upt_shift add.assoc)
  then show ?thesis using copy_contents [OF mapped_part [OF assms]] by simp
qed

end

text \<open>
  For the x86_64 backend a range is mapped when every byte translates into the direct map and
  the translation is linear inside a page.
\<close>

definition x86_mapped ::
  "(u64 \<Rightarrow> u64 option) \<Rightarrow> PhysicalMemoryMapping \<Rightarrow> u64 \<Rightarrow> nat \<Rightarrow> bool" where
  "x86_mapped translate mapping src n \<longleftrightarrow>
     unat src + n < 2 ^ 64 \<and>
     (\<forall>i<n. \<exists>pa. translate (src + of_nat i) = Some pa \<and> phys_translate mapping pa \<noteq> None) \<and>
     (\<forall>i<n. \<forall>d. i + d < n \<longrightarrow> unat (src + of_nat i) mod 4096 + d < 4096 \<longrightarrow>
        translate (src + of_nat (i + d)) = map_option (\<lambda>pa. pa + of_nat d) (translate (src + of_nat i)))"

definition x86_byte :: "(u64 \<Rightarrow> u64 option) \<Rightarrow> PhysicalMemoryMapping \<Rightarrow> (u64 \<Rightarrow> u8) \<Rightarrow> u64 \<Rightarrow> u8" where
  "x86_byte translate mapping byte a = byte (phys_offset mapping + the (translate a))"

lemma x86_copy_loop_contents:
  assumes m: "x86_mapped translate mapping src n"
  shows "c \<le> n \<Longrightarrow> x86_copy_loop translate mapping byte src n c =
    Inr (map (\<lambda>i. x86_byte translate mapping byte (src + of_nat i)) [c..<n])"
proof (induction "n - c" arbitrary: c rule: less_induct)
  case less
  show ?case
  proof (cases "c < n")
    case False
    then show ?thesis by (simp add: x86_copy_loop.simps)
  next
    case True
    let ?va = "src + of_nat c"
    have n64: "unat src + n < 2 ^ 64" using m by (simp add: x86_mapped_def)
    then have uc: "unat (of_nat c :: u64) = c" using True by (simp add: length_less_two_power)
    then have va: "checked_add src (of_nat c) = Some ?va"
      using n64 True by (simp add: checked_add_def)
    obtain pa ka where pa: "translate ?va = Some pa" and ka: "phys_translate mapping pa = Some ka"
      using m True unfolding x86_mapped_def by blast
    then have off: "ka = phys_offset mapping + pa"
      by (auto simp: phys_translate_def checked_add_def split: if_splits)
    define k where "k = min (4096 - unat (?va mod PAGE_SIZE_4K)) (n - c)"
    have md: "unat (?va mod PAGE_SIZE_4K) = unat ?va mod 4096" by (simp add: unat_mod)
    have k: "0 < k" "c + k \<le> n" "unat ?va mod 4096 + k \<le> 4096"
      using True page_offset_less [of ?va] unfolding k_def md by auto
    have "byte (ka + of_nat i) = x86_byte translate mapping byte (src + of_nat (c + i))" if "i < k" for i
    proof -
      have "translate (src + of_nat (c + i)) = Some (pa + of_nat i)"
        using m True that k pa unfolding x86_mapped_def by simp
      then show ?thesis by (simp add: x86_byte_def off ac_simps)
    qed
    then have chunk: "map (\<lambda>i. byte (ka + of_nat i)) [0..<k] =
        map (\<lambda>i. x86_byte translate mapping byte (src + of_nat i)) [c..<c + k]"
      unfolding map_upt_shift by (intro map_cong) simp_all
    have rest: "x86_copy_loop translate mapping byte src n (c + k) =
        Inr (map (\<lambda>i. x86_byte translate mapping byte (src + of_nat i)) [c + k..<n])"
      using less.hyps [of "c + k"] k True by simp
    have "[c..<n] = [c..<c + k] @ [c + k..<n]" using k upt_add_eq_append [of c "c + k" "n - (c + k)"] by simp
    then show ?thesis
      using True va pa ka chunk rest
      by (subst x86_copy_loop.simps) (simp add: Let_def k_def [symmetric])
  qed
qed

interpretation x86_copy: user_copy_backend "x86_copy_from_user translate mapping byte"
  "x86_mapped translate mapping" "x86_byte translate mapping byte" for translate mapping byte
proof (unfold_locales, goal_cases)
  case (1 src n)
  then show ?case by (simp add: x86_copy_from_user_def x86_copy_loop_contents)
next
  case (2 src n k m)
  have n64: "unat src + n < 2 ^ 64" using 2 by (simp add: x86_mapped_def)
  then have "unat (src + of_nat k) + m < 2 ^ 64"
    using 2(2) length_less_two_power [where 'a = 64, of k] by (simp add: unat_word_ariths)
  moreover have shift: "src + of_nat k + of_nat i = src + of_nat (k + i)" for i by simp
  moreover have "\<exists>pa. translate (src + of_nat (k + i)) = Some pa \<and> phys_translate mapping pa \<noteq> None"
    if "i < m" for i
    using 2 that unfolding x86_mapped_def by (meson add_less_cancel_left less_le_trans)
  moreover have "translate (src + of_nat (k + (i + d))) =
      map_option (\<lambda>pa. pa + of_nat d) (translate (src + of_nat (k + i)))"
    if "i < m" "i + d < m" "unat (src + of_nat (k + i)) mod 4096 + d < 4096" for i d
  proof -
    have "k + i < n" "k + i + d < n" using 2(2) that by simp_all
    then have "translate (src + of_nat (k + i + d)) =
        map_option (\<lambda>pa. pa + of_nat d) (translate (src + of_nat (k + i)))"
      using 2(1) that(3) unfolding x86_mapped_def by blast
    then show ?thesis by (simp only: add.assoc)
  qed
  ultimately show ?case unfolding x86_mapped_def shift by blast
qed

end
