(* ===== verification/Syscall_Model.thy ===== *)
theory Syscall_Model
  imports User_Copy
begin

text \<open>
  System call dispatch (\<open>kernel/src/syscall.rs\<close>). The traits of the source are parameters:
  the page-table view and the copy backend of \<open>User_Copy\<close>, the write sink (a function from
  the sink's state and the bytes to a result and the new state), and the process control
  object with its \<open>exit\<close> and \<open>yield_now\<close>.
\<close>

section \<open>Data\<close>

record SyscallRequest =
  req_number :: u64
  req_arg0 :: u64
  req_arg1 :: u64
  req_arg2 :: u64

datatype SyscallError =
    UnknownNumber
  | NotImplemented
  | InvalidArguments
  | InvalidUserRange UserRangeError
  | InvalidUserMemory UserReadError
  | WriteFailed

datatype SyscallReturnAction = Return | Reschedule | Terminate

type_synonym SyscallResult = "SyscallError + u64"

record SyscallDispatch =
  disp_result :: SyscallResult
  disp_action :: SyscallReturnAction

definition SyscallRequest_new :: "u64 \<Rightarrow> u64 \<Rightarrow> u64 \<Rightarrow> u64 \<Rightarrow> SyscallRequest" where
  "SyscallRequest_new n a0 a1 a2 = \<lparr>req_number = n, req_arg0 = a0, req_arg1 = a1, req_arg2 = a2\<rparr>"

definition request_write :: "UserSlice \<Rightarrow> SyscallRequest" where
  "request_write us = SyscallRequest_new (syscall_number Write) (slice_ptr us) (slice_len us) 0"

definition request_exit_code :: "u64 \<Rightarrow> SyscallRequest" where
  "request_exit_code code = SyscallRequest_new (syscall_number Exit) code 0 0"

definition request_yield :: SyscallRequest where
  "request_yield = SyscallRequest_new (syscall_number Yield) 0 0 0"

definition request_syscall :: "SyscallRequest \<Rightarrow> Syscall option" where
  "request_syscall r = syscall_from_number (req_number r)"

definition user_slice :: "SyscallRequest \<Rightarrow> UserSlice" where
  "user_slice r = \<lparr>slice_ptr = req_arg0 r, slice_len = req_arg1 r\<rparr>"

fun abi_error :: "SyscallError \<Rightarrow> AbiSyscallError" where
  "abi_error UnknownNumber = AbiUnknownSyscall"
| "abi_error NotImplemented = AbiNotImplemented"
| "abi_error InvalidArguments = AbiInvalidArguments"
| "abi_error (InvalidUserRange _) = AbiInvalidUserRange"
| "abi_error (InvalidUserMemory _) = AbiInvalidUserMemory"
| "abi_error WriteFailed = AbiWriteFailed"

definition abi_return_value :: "SyscallError \<Rightarrow> u64" where
  "abi_return_value e = return_value (abi_error e)"

fun syscall_result_abi_value :: "SyscallResult \<Rightarrow> u64" where
  "syscall_result_abi_value (Inr value) = value"
| "syscall_result_abi_value (Inl e) = abi_return_value e"

definition disp_returned :: "SyscallResult \<Rightarrow> SyscallDispatch" where
  "disp_returned r = \<lparr>disp_result = r, disp_action = Return\<rparr>"

definition disp_reschedule :: "u64 \<Rightarrow> SyscallDispatch" where
  "disp_reschedule value = \<lparr>disp_result = Inr value, disp_action = Reschedule\<rparr>"

definition disp_terminate :: "u64 \<Rightarrow> SyscallDispatch" where
  "disp_terminate value = \<lparr>disp_result = Inr value, disp_action = Terminate\<rparr>"

section \<open>Write\<close>

type_synonym 'k sink = "'k \<Rightarrow> u8 list \<Rightarrow> (SyscallError + unit) \<times> 'k"

text \<open>
  The loop of \<open>sys_write_with_memory\<close>. A panic of the validation is \<open>None\<close>; the sink's state is
  returned on every path, because an error leaves the chunks already written.
\<close>

function sys_write_loop ::
  "(u64 \<Rightarrow> PageAccess) \<Rightarrow> (u64 \<Rightarrow> nat \<Rightarrow> UserReadError + u8 list) \<Rightarrow> 'k sink \<Rightarrow> UserSlice \<Rightarrow>
   u64 \<Rightarrow> 'k \<Rightarrow> (SyscallResult \<times> 'k) option" where
  "sys_write_loop page_access backend write us offset k =
     (if offset < slice_len us then
        let remaining = slice_len us - offset;
            chunk_len = unat (min remaining 256)
        in (case checked_add (slice_ptr us) offset of
              None \<Rightarrow> Some (Inl (InvalidUserRange AddressOverflow), k)
            | Some chunk_ptr \<Rightarrow>
                (case copy_from_user page_access backend
                        \<lparr>slice_ptr = chunk_ptr, slice_len = of_nat chunk_len\<rparr> chunk_len of
                   None \<Rightarrow> None
                 | Some (Inl e) \<Rightarrow> Some (Inl (InvalidUserMemory e), k)
                 | Some (Inr bytes) \<Rightarrow>
                     (case write k bytes of
                        (Inl e, k') \<Rightarrow> Some (Inl e, k')
                      | (Inr _, k') \<Rightarrow>
                          (case checked_add offset (of_nat chunk_len) of
                             None \<Rightarrow> Some (Inl InvalidArguments, k')
                           | Some offset' \<Rightarrow>
                               sys_write_loop page_access backend write us offset' k'))))
      else Some (Inr (slice_len us), k))"
  by pat_completeness auto

lemma chunk_positive:
  assumes "(offset::u64) < len" shows "0 < unat (min (len - offset) 256)"
proof -
  have "len - offset \<noteq> 0" using assms by auto
  then show ?thesis by (auto simp: min_def unat_gt_0)
qed

termination sys_write_loop
proof (relation "measure (\<lambda>(_, _, _, us, off, _). unat (slice_len us) - unat off)", goal_cases)
  case (2 page_access backend wr us offset k remaining chunk_len chunk_ptr res bytes r k' u offset')
  have "0 < chunk_len" using chunk_positive [OF 2(1)] 2(2,3) by simp
  moreover have "unat (of_nat chunk_len :: u64) = chunk_len" using 2(3) by simp
  ultimately have "unat offset < unat offset'" using 2 by (simp add: checked_add_eq_Some)
  then show ?case using 2(1) by (simp add: word_less_nat_alt)
qed simp

declare sys_write_loop.simps [simp del]

definition sys_write_with_memory ::
  "UserSlice \<Rightarrow> (u64 \<Rightarrow> PageAccess) \<Rightarrow> (u64 \<Rightarrow> nat \<Rightarrow> UserReadError + u8 list) \<Rightarrow> 'k sink \<Rightarrow> 'k \<Rightarrow>
   (SyscallResult \<times> 'k) option" where
  "sys_write_with_memory us page_access backend write k =
     (case validate_slice us of
        None \<Rightarrow> None
      | Some (Inl e) \<Rightarrow> Some (Inl (InvalidUserRange e), k)
      | Some (Inr _) \<Rightarrow>
          if slice_is_empty us then Some (Inr 0, k)
          else sys_write_loop page_access backend write us 0 k)"

section \<open>Dispatch\<close>

definition dispatch :: "SyscallRequest \<Rightarrow> SyscallResult option" where
  "dispatch request =
     (case validate_slice (user_slice request) of
        None \<Rightarrow> None
      | Some (Inl e) \<Rightarrow> Some (Inl (InvalidUserRange e))
      | Some (Inr _) \<Rightarrow>
          (case request_syscall request of
             None \<Rightarrow> Some (Inl UnknownNumber)
           | Some _ \<Rightarrow> Some (Inl NotImplemented)))"

record 'c ProcessSyscallControl =
  ctl_exit :: "'c \<Rightarrow> u64 \<Rightarrow> (SyscallError + unit) \<times> 'c"
  ctl_yield_now :: "'c \<Rightarrow> (SyscallError + unit) \<times> 'c"

definition dispatch_exit :: "'c ProcessSyscallControl \<Rightarrow> 'c \<Rightarrow> u64 \<Rightarrow> SyscallDispatch \<times> 'c" where
  "dispatch_exit ctl c code =
     (case ctl_exit ctl c code of
        (Inr _, c') \<Rightarrow> (disp_terminate 0, c')
      | (Inl e, c') \<Rightarrow> (disp_returned (Inl e), c'))"

definition dispatch_yield :: "'c ProcessSyscallControl \<Rightarrow> 'c \<Rightarrow> SyscallDispatch \<times> 'c" where
  "dispatch_yield ctl c =
     (case ctl_yield_now ctl c of
        (Inr _, c') \<Rightarrow> (disp_reschedule 0, c')
      | (Inl e, c') \<Rightarrow> (disp_returned (Inl e), c'))"

definition dispatch_with_control_action ::
  "SyscallRequest \<Rightarrow> 'c ProcessSyscallControl \<Rightarrow> 'c \<Rightarrow> SyscallDispatch \<times> 'c" where
  "dispatch_with_control_action request ctl c =
     (case request_syscall request of
        None \<Rightarrow> (disp_returned (Inl UnknownNumber), c)
      | Some Exit \<Rightarrow> dispatch_exit ctl c (req_arg0 request)
      | Some Yield \<Rightarrow> dispatch_yield ctl c
      | Some Write \<Rightarrow> (disp_returned (Inl NotImplemented), c))"

definition dispatch_with_control ::
  "SyscallRequest \<Rightarrow> 'c ProcessSyscallControl \<Rightarrow> 'c \<Rightarrow> SyscallResult \<times> 'c" where
  "dispatch_with_control request ctl c =
     (let (d, c') = dispatch_with_control_action request ctl c in (disp_result d, c'))"

definition dispatch_with_memory_and_control_action ::
  "SyscallRequest \<Rightarrow> (u64 \<Rightarrow> PageAccess) \<Rightarrow> (u64 \<Rightarrow> nat \<Rightarrow> UserReadError + u8 list) \<Rightarrow> 'k sink \<Rightarrow>
   'c ProcessSyscallControl \<Rightarrow> 'k \<Rightarrow> 'c \<Rightarrow> (SyscallDispatch \<times> 'k \<times> 'c) option" where
  "dispatch_with_memory_and_control_action request page_access backend write ctl k c =
     (case request_syscall request of
        None \<Rightarrow> Some (disp_returned (Inl UnknownNumber), k, c)
      | Some Write \<Rightarrow>
          if req_arg2 request \<noteq> 0 then Some (disp_returned (Inl InvalidArguments), k, c)
          else map_option (\<lambda>(r, k'). (disp_returned r, k', c))
                 (sys_write_with_memory (user_slice request) page_access backend write k)
      | Some Exit \<Rightarrow> (let (d, c') = dispatch_exit ctl c (req_arg0 request) in Some (d, k, c'))
      | Some Yield \<Rightarrow> (let (d, c') = dispatch_yield ctl c in Some (d, k, c')))"

definition dispatch_with_memory_and_control ::
  "SyscallRequest \<Rightarrow> (u64 \<Rightarrow> PageAccess) \<Rightarrow> (u64 \<Rightarrow> nat \<Rightarrow> UserReadError + u8 list) \<Rightarrow> 'k sink \<Rightarrow>
   'c ProcessSyscallControl \<Rightarrow> 'k \<Rightarrow> 'c \<Rightarrow> (SyscallResult \<times> 'k \<times> 'c) option" where
  "dispatch_with_memory_and_control request page_access backend write ctl k c =
     map_option (\<lambda>(d, k', c'). (disp_result d, k', c'))
       (dispatch_with_memory_and_control_action request page_access backend write ctl k c)"

definition dispatch_with_memory ::
  "SyscallRequest \<Rightarrow> (u64 \<Rightarrow> PageAccess) \<Rightarrow> (u64 \<Rightarrow> nat \<Rightarrow> UserReadError + u8 list) \<Rightarrow> 'k sink \<Rightarrow> 'k \<Rightarrow>
   (SyscallResult \<times> 'k) option" where
  "dispatch_with_memory request page_access backend write k =
     (case request_syscall request of
        None \<Rightarrow> Some (Inl UnknownNumber, k)
      | Some Write \<Rightarrow>
          if req_arg2 request \<noteq> 0 then Some (Inl InvalidArguments, k)
          else sys_write_with_memory (user_slice request) page_access backend write k
      | Some _ \<Rightarrow> Some (Inl NotImplemented, k))"

end
