(* ===== verification/Syscall_Properties.thy ===== *)
theory Syscall_Properties
  imports Syscall_Model
begin

text \<open>
  The properties of user-pointer validation and system calls: what a validated slice and a
  validated range guarantee, that \<open>sys_write\<close> delivers exactly the user's bytes, the
  actions of dispatch, and the encoding of results in the return register.
\<close>

section \<open>The write loop\<close>

lemma unat_chunk:
  assumes "offset \<le> (len::u64)"
  shows "unat (min (len - offset) 256) = min (unat len - unat offset) 256"
  using assms by (auto simp: min_def word_le_nat_alt unat_sub)

lemma unat_add_of_nat:
  "unat (p::u64) + i < 2 ^ 64 \<Longrightarrow> unat (p + of_nat i) = unat p + i"
  using length_less_two_power [where 'a = 64, of i] by (simp add: unat_word_ariths)

lemma validated_part:
  assumes v: "validate_readable_range acc us = Some (Inr ())"
    and part: "k + m \<le> unat (slice_len us)"
  shows "validate_readable_range acc
    \<lparr>slice_ptr = slice_ptr us + of_nat k, slice_len = of_nat m\<rparr> = Some (Inr ())"
proof (cases "m = 0")
  case True
  then show ?thesis by (simp add: validate_readable_iff)
next
  case False
  then have l: "slice_len us \<noteq> 0" using part by auto
  have v': "65536 \<le> unat (slice_ptr us)" "unat (slice_ptr us) + unat (slice_len us) \<le> unat KERNEL_SPACE_START"
    "\<forall>i<unat (slice_len us). page_ok acc (page_of (slice_ptr us + of_nat i))"
    using v l unfolding validate_readable_iff by blast+
  have m: "unat (of_nat m :: u64) = m"
    using part unat_u64_less [of "slice_len us"] by (simp add: length_less_two_power)
  have p: "unat (slice_ptr us + of_nat k) = unat (slice_ptr us) + k"
    using v'(2) part by (intro unat_add_of_nat) simp
  have "page_ok acc (page_of (slice_ptr us + of_nat k + of_nat i))" if "i < m" for i
  proof -
    have "k + i < unat (slice_len us)" using part that by simp
    then show ?thesis using v'(3) [rule_format, of "k + i"] by (simp add: add.assoc)
  qed
  then show ?thesis using v' p m part unfolding validate_readable_iff by simp
qed

text \<open>A sink that appends what it is given.\<close>

definition append_sink :: "u8 list sink" where
  "append_sink k bytes = (Inr (), k @ bytes)"

lemma sys_write_step:
  assumes "offset < slice_len us" "unat (min (slice_len us - offset) 256) = c"
    and "checked_add (slice_ptr us) offset = Some p"
  shows "sys_write_loop acc backend wr us offset k =
    (case copy_from_user acc backend \<lparr>slice_ptr = p, slice_len = of_nat c\<rparr> c of
       None \<Rightarrow> None
     | Some (Inl e) \<Rightarrow> Some (Inl (InvalidUserMemory e), k)
     | Some (Inr bytes) \<Rightarrow>
         (case wr k bytes of
            (Inl e, k') \<Rightarrow> Some (Inl e, k')
          | (Inr _, k') \<Rightarrow>
              (case checked_add offset (of_nat c) of
                 None \<Rightarrow> Some (Inl InvalidArguments, k')
               | Some offset' \<Rightarrow> sys_write_loop acc backend wr us offset' k')))"
  by (subst sys_write_loop.simps) (simp only: assms if_True Let_def option.case)

context user_copy_backend
begin

lemma sys_write_loop_delivers:
  assumes v: "validate_readable_range acc us = Some (Inr ())"
    and m: "mapped (slice_ptr us) (unat (slice_len us))"
  shows "offset \<le> slice_len us \<Longrightarrow> sys_write_loop acc copy append_sink us offset k =
    Some (Inr (slice_len us),
      k @ map (\<lambda>i. byte_at (slice_ptr us + of_nat i)) [unat offset..<unat (slice_len us)])"
proof (induction "unat (slice_len us) - unat offset" arbitrary: offset k rule: less_induct)
  case less
  let ?n = "unat (slice_len us)" and ?o = "unat offset"
  show ?case
  proof (cases "offset < slice_len us")
    case False
    then show ?thesis using less.prems by (subst sys_write_loop.simps) (simp add: word_le_nat_alt)
  next
    case True
    define c where "c = min (?n - ?o) 256"
    have c: "0 < c" "?o + c \<le> ?n" using True by (auto simp: c_def word_less_nat_alt)
    have chunk: "unat (min (slice_len us - offset) 256) = c"
      using unat_chunk [OF less.prems] by (simp add: c_def)
    have uc: "unat (of_nat c :: u64) = c"
      using c unat_u64_less [of "slice_len us"] by (simp add: length_less_two_power)
    have "slice_len us \<noteq> 0" using True by auto
    then have bound: "unat (slice_ptr us) + ?n \<le> unat KERNEL_SPACE_START"
      using v unfolding validate_readable_iff by blast
    have ptr: "checked_add (slice_ptr us) offset = Some (slice_ptr us + of_nat ?o)"
      using bound True by (simp add: checked_add_def word_less_nat_alt)
    have copy: "copy_from_user acc copy \<lparr>slice_ptr = slice_ptr us + of_nat ?o, slice_len = of_nat c\<rparr> c =
        Some (Inr (map (\<lambda>i. byte_at (slice_ptr us + of_nat i)) [?o..<?o + c]))"
      unfolding copy_from_user_def validated_part [OF v c(2)] copy_part [OF m c(2)] UserSlice.select_convs
      by (simp add: copy_part [OF m c(2), simplified])
    obtain offset' where o': "checked_add offset (of_nat c) = Some offset'" "unat offset' = ?o + c"
      using c uc unat_u64_less [of "slice_len us"]
      by (cases "checked_add offset (of_nat c)") (auto simp: rust_arith)
    have "sys_write_loop acc copy append_sink us offset k = sys_write_loop acc copy append_sink us offset'
        (k @ map (\<lambda>i. byte_at (slice_ptr us + of_nat i)) [?o..<?o + c])"
      unfolding sys_write_step [OF True chunk ptr] copy by (simp add: append_sink_def o'(1))
    also have "\<dots> = Some (Inr (slice_len us),
        (k @ map (\<lambda>i. byte_at (slice_ptr us + of_nat i)) [?o..<?o + c]) @
        map (\<lambda>i. byte_at (slice_ptr us + of_nat i)) [?o + c..<?n])"
      using less.hyps [of offset'] o' c by (simp add: word_le_nat_alt)
    finally show ?thesis
      using upt_add_eq_append [of ?o "?o + c" "?n - (?o + c)"] c by simp
  qed
qed

lemma sys_write_delivers:
  assumes v: "validate_readable_range acc us = Some (Inr ())"
    and m: "mapped (slice_ptr us) (unat (slice_len us))"
  shows "sys_write_with_memory us acc copy append_sink k =
    Some (Inr (slice_len us), k @ map (\<lambda>i. byte_at (slice_ptr us + of_nat i)) [0..<unat (slice_len us)])"
proof -
  obtain r where r: "validate_slice us = Some (Inr r)"
    using v validate_slice_accepts [of us] unfolding validate_readable_iff by blast
  show ?thesis
  proof (cases "slice_len us = 0")
    case True
    then show ?thesis using r by (simp add: sys_write_with_memory_def slice_is_empty_def)
  next
    case False
    then show ?thesis
      using r sys_write_loop_delivers [OF v m, of 0 k]
      by (simp add: sys_write_with_memory_def slice_is_empty_def)
  qed
qed

end

lemma sys_write_loop_sound:
  assumes "sys_write_loop acc backend wr us offset k = Some (Inr n, k')"
    and "unat (slice_ptr us) + unat (slice_len us) \<le> unat KERNEL_SPACE_START"
  shows "n = slice_len us \<and>
    (\<forall>i. unat offset \<le> i \<longrightarrow> i < unat (slice_len us) \<longrightarrow> page_ok acc (page_of (slice_ptr us + of_nat i)))"
  using assms
proof (induction "unat (slice_len us) - unat offset" arbitrary: offset k rule: less_induct)
  case less
  show ?case
  proof (cases "offset < slice_len us")
    case False
    then show ?thesis using less.prems(1) by (subst (asm) sys_write_loop.simps) (auto simp: word_less_nat_alt)
  next
    case True
    define c where "c = min (unat (slice_len us) - unat offset) 256"
    have c: "0 < c" "unat offset + c \<le> unat (slice_len us)" using True by (auto simp: c_def word_less_nat_alt)
    have chunk: "unat (min (slice_len us - offset) 256) = c"
      using unat_chunk [of offset "slice_len us"] True by (simp add: c_def)
    have uc: "unat (of_nat c :: u64) = c"
      using c unat_u64_less [of "slice_len us"] by (simp add: length_less_two_power)
    have ptr: "checked_add (slice_ptr us) offset = Some (slice_ptr us + offset)"
      using less.prems(2) True by (simp add: checked_add_def word_less_nat_alt)
    from less.prems(1) obtain bytes k1 offset' where
      v: "validate_readable_range acc \<lparr>slice_ptr = slice_ptr us + offset, slice_len = of_nat c\<rparr> = Some (Inr ())"
      and o': "checked_add offset (of_nat c) = Some offset'"
      and rest: "sys_write_loop acc backend wr us offset' k1 = Some (Inr n, k')"
      unfolding sys_write_step [OF True chunk ptr]
      by (auto simp: copy_from_user_def split: option.splits sum.splits prod.splits if_splits)
    have u': "unat offset' = unat offset + c" using o' uc by (simp add: checked_add_eq_Some)
    have IH: "n = slice_len us" "\<And>i. unat offset + c \<le> i \<Longrightarrow> i < unat (slice_len us) \<Longrightarrow>
        page_ok acc (page_of (slice_ptr us + of_nat i))"
      using less.hyps [OF _ rest less.prems(2)] u' c by auto
    have "of_nat c \<noteq> (0::u64)" using uc c(1) by (metis less_irrefl unsigned_0)
    then have here: "page_ok acc (page_of (slice_ptr us + offset + of_nat i))" if "i < c" for i
      using v that uc unfolding validate_readable_iff by simp
    have "page_ok acc (page_of (slice_ptr us + of_nat i))"
      if i: "unat offset \<le> i" "i < unat (slice_len us)" for i
    proof (cases "i < unat offset + c")
      case True
      have "(of_nat i :: u64) = offset + of_nat (i - unat offset)"
        using i(1) by (simp add: of_nat_diff)
      then show ?thesis using here [of "i - unat offset"] True i(1) by (simp add: add.assoc)
    qed (use IH i in auto)
    then show ?thesis using IH(1) by blast
  qed
qed

section \<open>Properties\<close>

text \<open>
  \<open>validate_slice\<close> never panics, and accepts a pointer and length exactly when the length
  is zero or the whole range lies, without wrap-around, between the start of user space and
  the start of kernel space; the accepted range is the one asked for.
\<close>

theorem validate_slice_exact:
  "validate_slice us \<noteq> None
   \<and> ((\<exists>r. validate_slice us = Some (Inr r)) \<longleftrightarrow>
        slice_len us = 0 \<or> unat USER_SPACE_START \<le> unat (slice_ptr us) \<and>
          unat (slice_ptr us) + unat (slice_len us) \<le> unat KERNEL_SPACE_START)
   \<and> (\<forall>r. validate_slice us = Some (Inr r) \<longrightarrow>
        vr_start r = slice_ptr us \<and> unat (vr_end r) = unat (slice_ptr us) + unat (slice_len us))"
  using validate_slice_total [of us] validate_slice_accepts [of us]
  by (auto simp: validate_slice_Inr split: if_splits)

theorem validate_slice_exact_witness:
  "\<exists>r. validate_slice \<lparr>slice_ptr = 0x10000, slice_len = 8\<rparr> = Some (Inr r) \<and> vr_start r = 0x10000"
  using validate_slice_exact [of "\<lparr>slice_ptr = 0x10000, slice_len = 8\<rparr>"] by auto

text \<open>
  \<open>validate_readable_range\<close> terminates, and succeeds exactly when the range is empty or
  lies in user space and every page that holds a byte of it is mapped, user accessible and
  readable.
\<close>

theorem validate_readable_exact:
  "validate_readable_range acc us = Some (Inr ()) \<longleftrightarrow>
     slice_len us = 0 \<or>
     (unat USER_SPACE_START \<le> unat (slice_ptr us) \<and>
      unat (slice_ptr us) + unat (slice_len us) \<le> unat KERNEL_SPACE_START \<and>
      (\<forall>i<unat (slice_len us).
         let a = acc ((slice_ptr us + of_nat i) div PAGE_SIZE_4K * PAGE_SIZE_4K)
         in acc_mapped a \<and> acc_user a \<and> acc_readable a))"
  unfolding validate_readable_iff page_ok_def page_of_def Let_def unat_layout ..

theorem validate_readable_exact_witness:
  "validate_readable_range (\<lambda>p. if p = 0x11000 then access_unmapped else access_user_read_only)
     \<lparr>slice_ptr = 0x10ff8, slice_len = 9\<rparr> \<noteq> Some (Inr ())"
proof -
  have "\<not> (\<forall>i<unat (9::u64). let a = (\<lambda>p. if p = 0x11000 then access_unmapped else access_user_read_only)
      ((0x10ff8 + of_nat i) div PAGE_SIZE_4K * PAGE_SIZE_4K) in acc_mapped a \<and> acc_user a \<and> acc_readable a)"
    by (simp add: access_unmapped_def layout exI [of _ 8])
  then show ?thesis unfolding validate_readable_exact by simp
qed

text \<open>
  C6: a \<open>write\<close> system call on a validated range through the x86_64 copy backend delivers to
  an appending sink exactly the bytes of the user's range, in order, across the 256-byte
  chunks and across page boundaries, and returns the length.
\<close>

theorem sys_write_exact:
  assumes "validate_readable_range acc us = Some (Inr ())"
    and "x86_mapped translate mapping (slice_ptr us) (unat (slice_len us))"
  shows "sys_write_with_memory us acc (x86_copy_from_user translate mapping byte) append_sink k =
    Some (Inr (slice_len us),
      k @ map (\<lambda>i. x86_byte translate mapping byte (slice_ptr us + of_nat i)) [0..<unat (slice_len us)])"
  by (rule x86_copy.sys_write_delivers [OF assms])

theorem sys_write_exact_witness:
  "sys_write_with_memory \<lparr>slice_ptr = 0x10000, slice_len = 2\<rparr> (\<lambda>_. access_user_read_only)
     (x86_copy_from_user Some \<lparr>phys_offset = 0\<rparr> ucast) append_sink [] = Some (Inr 2, [0, 1])"
proof -
  have v: "validate_readable_range (\<lambda>_. access_user_read_only) \<lparr>slice_ptr = 0x10000, slice_len = 2\<rparr> =
      Some (Inr ())"
    unfolding validate_readable_iff by (simp add: page_ok_def access_user_read_only_def)
  have m: "x86_mapped Some \<lparr>phys_offset = 0\<rparr> (slice_ptr \<lparr>slice_ptr = 0x10000, slice_len = 2\<rparr>)
      (unat (slice_len \<lparr>slice_ptr = 0x10000, slice_len = 2\<rparr>))"
    by (simp add: x86_mapped_def phys_translate_def checked_add_def unat_u64_less)
  show ?thesis
    using sys_write_exact [OF v m, of ucast "[]"] by (simp add: x86_byte_def upt_rec)
qed

text \<open>
  A \<open>write\<close> that succeeds, with any copy backend and any sink, returns the requested
  length, and every byte of the range was in a page that is mapped, user accessible and
  readable: no kernel or unmapped page is ever read on the way to success.
\<close>

theorem sys_write_sound:
  assumes "sys_write_with_memory us acc backend wr k = Some (Inr n, k')"
  shows "n = slice_len us \<and>
    (\<forall>i<unat (slice_len us).
       unat USER_SPACE_START \<le> unat (slice_ptr us) + i \<and> unat (slice_ptr us) + i < unat KERNEL_SPACE_START
       \<and> page_ok acc (page_of (slice_ptr us + of_nat i)))"
proof (cases "slice_len us = 0")
  case True
  then show ?thesis using assms
    by (auto simp: sys_write_with_memory_def slice_is_empty_def split: option.splits sum.splits)
next
  case False
  then have "\<exists>r. validate_slice us = Some (Inr r)"
    and l: "sys_write_loop acc backend wr us 0 k = Some (Inr n, k')"
    using assms by (auto simp: sys_write_with_memory_def slice_is_empty_def split: option.splits sum.splits)
  then have b: "65536 \<le> unat (slice_ptr us)"
    "unat (slice_ptr us) + unat (slice_len us) \<le> unat KERNEL_SPACE_START"
    using False unfolding validate_slice_accepts by blast+
  show ?thesis using sys_write_loop_sound [OF l b(2)] b by auto
qed

theorem sys_write_sound_witness:
  "\<exists>n k'. sys_write_with_memory slice_empty (\<lambda>_. access_unmapped) (\<lambda>_ _. Inl Unmapped) append_sink [] =
     Some (Inr n, k') \<and> n = 0"
proof -
  have "sys_write_with_memory slice_empty (\<lambda>_. access_unmapped) (\<lambda>_ _. Inl Unmapped) append_sink [] =
      Some (Inr 0, [])"
    by (simp add: sys_write_with_memory_def slice_empty_def slice_is_empty_def validate_slice_def VirtRange_new_def)
  with sys_write_sound [OF this] show ?thesis by blast
qed

text \<open>
  Dispatch asks for termination exactly for an \<open>exit\<close> that the process control accepted,
  and for a reschedule exactly for an accepted \<open>yield\<close>; an error never changes the return
  action, and a \<open>write\<close> or an unknown number never touches the process control.
\<close>

theorem dispatch_actions:
  assumes "dispatch_with_memory_and_control_action request acc backend wr ctl k c = Some (d, k', c')"
  shows "(disp_action d = Terminate \<longleftrightarrow>
            request_syscall request = Some Exit \<and> is_ok (fst (ctl_exit ctl c (req_arg0 request))))
    \<and> (disp_action d = Reschedule \<longleftrightarrow>
            request_syscall request = Some Yield \<and> is_ok (fst (ctl_yield_now ctl c)))
    \<and> (\<not> is_ok (disp_result d) \<longrightarrow> disp_action d = Return)
    \<and> (request_syscall request \<in> {None, Some Write} \<longrightarrow> c' = c)
    \<and> (request_syscall request \<noteq> Some Write \<longrightarrow> k' = k)"
  using assms
  by (auto simp: dispatch_with_memory_and_control_action_def dispatch_exit_def dispatch_yield_def
      disp_returned_def disp_terminate_def disp_reschedule_def
      split: option.splits Syscall.splits if_splits prod.splits sum.splits)

theorem dispatch_actions_witness:
  "\<exists>d k' c'. dispatch_with_memory_and_control_action (request_exit_code 7) (\<lambda>_. access_unmapped)
     (\<lambda>_ _. Inl Unmapped) append_sink \<lparr>ctl_exit = (\<lambda>c code. (Inr (), code)), ctl_yield_now = (\<lambda>c. (Inl NotImplemented, c))\<rparr>
     [] 0 = Some (d, k', c') \<and> disp_action d = Terminate \<and> c' = 7"
proof -
  let ?ctl = "\<lparr>ctl_exit = (\<lambda>c code. (Inr (), code)), ctl_yield_now = (\<lambda>c. (Inl NotImplemented, c))\<rparr>"
  have sc: "request_syscall (request_exit_code 7) = Some Exit"
    by (simp add: request_syscall_def request_exit_code_def SyscallRequest_new_def syscall_from_number_def)
  have a0: "req_arg0 (request_exit_code 7) = 7"
    by (simp add: request_exit_code_def SyscallRequest_new_def)
  have "dispatch_with_memory_and_control_action (request_exit_code 7) (\<lambda>_. access_unmapped)
      (\<lambda>_ _. Inl Unmapped) append_sink ?ctl [] 0 = Some (disp_terminate 0, [], 7)"
    by (simp add: dispatch_with_memory_and_control_action_def sc dispatch_exit_def a0)
  with dispatch_actions [OF this] sc show ?thesis by auto
qed

text \<open>
  The error encoding of the ABI is a bijection between error codes and their return
  values, which are the six largest 64-bit values, and every kernel error is decoded by a
  program as its ABI error; system call numbers decode to the call they encode.
\<close>

theorem abi_roundtrip:
  "(from_return_value v = Some e \<longleftrightarrow> v = return_value e)
   \<and> from_return_value (syscall_result_abi_value (Inl err)) = Some (abi_error err)
   \<and> unat (syscall_result_abi_value (Inl err)) \<ge> 2 ^ 64 - 6
   \<and> (syscall_from_number num = Some call \<longleftrightarrow> num = syscall_number call)"
proof -
  have "unat (return_value e') \<ge> 2 ^ 64 - 6" for e'
    by (cases e') (simp_all add: return_value_def)
  then show ?thesis
    by (simp add: return_value_roundtrip abi_return_value_def syscall_number_roundtrip)
qed

end
