(* ===== verification/Elf_Image.thy ===== *)
theory Elf_Image
  imports Memory_Ranges
begin

text \<open>
  The ELF64 reader (\<open>kernel/src/process/image.rs\<close>): little-endian field access with bounds
  checks, and the validation of the header and of the loadable program headers.

  The fixed array of eight optional segments with its counter is the list of the segments
  stored so far; the counter is its length.
\<close>

unbundle bit_operations_syntax

section \<open>Data\<close>

definition ELF_MAGIC :: "u8 list" where "ELF_MAGIC = [0x7f, 0x45, 0x4c, 0x46]"

definition ELFCLASS64 :: u8 where "ELFCLASS64 = 2"

definition ELFDATA2LSB :: u8 where "ELFDATA2LSB = 1"

definition ET_EXEC :: u16 where "ET_EXEC = 2"

definition EM_X86_64 :: u16 where "EM_X86_64 = 62"

definition PT_LOAD :: u32 where "PT_LOAD = 1"

definition PF_X :: u32 where "PF_X = 1"

definition PF_W :: u32 where "PF_W = 2"

definition PF_R :: u32 where "PF_R = 4"

datatype ElfError =
    TooSmall
  | BadMagic
  | UnsupportedClass
  | UnsupportedEndian
  | UnsupportedType
  | UnsupportedMachine
  | InvalidProgramTable
  | InvalidSegmentRange
  | InvalidSegmentPermissions
  | InvalidEntry

record LoadSegment =
  ls_virtual_range :: VirtRange
  ls_flags :: u32
  ls_file_offset :: u64
  ls_file_size :: u64
  ls_memory_size :: u64

definition ls_executable :: "LoadSegment \<Rightarrow> bool" where
  "ls_executable s \<longleftrightarrow> ls_flags s AND PF_X \<noteq> 0"

definition ls_writable :: "LoadSegment \<Rightarrow> bool" where
  "ls_writable s \<longleftrightarrow> ls_flags s AND PF_W \<noteq> 0"

definition ls_readable :: "LoadSegment \<Rightarrow> bool" where
  "ls_readable s \<longleftrightarrow> ls_flags s AND PF_R \<noteq> 0"

record ElfImage =
  elf_bytes :: "u8 list"
  elf_entry :: u64
  elf_segments :: "LoadSegment list"

definition elf_segment_count :: "ElfImage \<Rightarrow> nat" where
  "elf_segment_count i = length (elf_segments i)"

definition elf_segment :: "ElfImage \<Rightarrow> nat \<Rightarrow> LoadSegment option" where
  "elf_segment i index =
     (if index \<ge> elf_segment_count i then None else Some (elf_segments i ! index))"

section \<open>Field access\<close>

fun from_le_bytes :: "u8 list \<Rightarrow> 'a::len word" where
  "from_le_bytes [] = 0"
| "from_le_bytes (b # bs) = ucast b OR push_bit 8 (from_le_bytes bs)"

text \<open>\<open>bytes.get(offset..offset + n)\<close> with the checked end.\<close>

definition get_bytes :: "u8 list \<Rightarrow> usize \<Rightarrow> usize \<Rightarrow> u8 list option" where
  "get_bytes bytes offset n =
     (case checked_add offset n of
        None \<Rightarrow> None
      | Some e \<Rightarrow>
          if unat e \<le> length bytes then Some (take (unat n) (drop (unat offset) bytes)) else None)"

definition read_u16 :: "u8 list \<Rightarrow> usize \<Rightarrow> u16 option" where
  "read_u16 bytes offset = map_option from_le_bytes (get_bytes bytes offset 2)"

definition read_u32 :: "u8 list \<Rightarrow> usize \<Rightarrow> u32 option" where
  "read_u32 bytes offset = map_option from_le_bytes (get_bytes bytes offset 4)"

definition read_u64 :: "u8 list \<Rightarrow> usize \<Rightarrow> u64 option" where
  "read_u64 bytes offset = map_option from_le_bytes (get_bytes bytes offset 8)"

section \<open>Parsing\<close>

text \<open>One program header: the stored segment, or \<open>None\<close> for one that is not loadable.\<close>

definition parse_header :: "u8 list \<Rightarrow> usize \<Rightarrow> ElfError + LoadSegment option" where
  "parse_header bytes base =
     and_then (ok_or (read_u32 bytes base) InvalidProgramTable) (\<lambda>kind.
     if kind \<noteq> PT_LOAD then Inr None
     else
       and_then (ok_or (read_u32 bytes (base + 4)) InvalidProgramTable) (\<lambda>flags.
       and_then (ok_or (read_u64 bytes (base + 8)) InvalidSegmentRange) (\<lambda>file_offset.
       and_then (ok_or (read_u64 bytes (base + 16)) InvalidSegmentRange) (\<lambda>virtual_address.
       and_then (ok_or (read_u64 bytes (base + 32)) InvalidSegmentRange) (\<lambda>file_size.
       and_then (ok_or (read_u64 bytes (base + 40)) InvalidSegmentRange) (\<lambda>memory_size.
       if flags AND PF_W \<noteq> 0 \<and> flags AND PF_X \<noteq> 0 then Inl InvalidSegmentPermissions
       else if memory_size < file_size then Inl InvalidSegmentRange
       else
         and_then (ok_or (checked_add file_offset file_size) InvalidSegmentRange) (\<lambda>file_end.
         if file_end > of_nat (length bytes) then Inl InvalidSegmentRange
         else
           and_then (ok_or (checked_add virtual_address memory_size) InvalidSegmentRange) (\<lambda>virtual_end.
           and_then (ok_or (VirtRange_new virtual_address virtual_end) InvalidSegmentRange) (\<lambda>rng.
           if vr_len rng = 0 \<or> \<not> vr_is_user rng then Inl InvalidSegmentRange
           else Inr (Some \<lparr>ls_virtual_range = rng, ls_flags = flags, ls_file_offset = file_offset,
                           ls_file_size = file_size, ls_memory_size = memory_size\<rparr>))))))))))"

text \<open>The loop over the program headers, with the segments stored and the entry flag.\<close>

fun parse_headers ::
  "u8 list \<Rightarrow> u64 \<Rightarrow> usize \<Rightarrow> usize \<Rightarrow> nat list \<Rightarrow> LoadSegment list \<Rightarrow> bool \<Rightarrow>
   ElfError + LoadSegment list \<times> bool" where
  "parse_headers bytes entry phoff phentsize [] segments entry_is_loaded =
     Inr (segments, entry_is_loaded)"
| "parse_headers bytes entry phoff phentsize (index # rest) segments entry_is_loaded =
     and_then (parse_header bytes (phoff + of_nat index * phentsize)) (\<lambda>parsed.
     case parsed of
       None \<Rightarrow> parse_headers bytes entry phoff phentsize rest segments entry_is_loaded
     | Some segment \<Rightarrow>
         parse_headers bytes entry phoff phentsize rest (segments @ [segment])
           (vr_contains (ls_virtual_range segment) entry \<or> entry_is_loaded))"

definition elf_parse :: "u8 list \<Rightarrow> ElfError + ElfImage" where
  "elf_parse bytes =
     (if length bytes < 64 then Inl TooSmall
      else if take 4 bytes \<noteq> ELF_MAGIC then Inl BadMagic
      else if bytes ! 4 \<noteq> ELFCLASS64 then Inl UnsupportedClass
      else if bytes ! 5 \<noteq> ELFDATA2LSB then Inl UnsupportedEndian
      else
        and_then (ok_or (read_u16 bytes 16) TooSmall) (\<lambda>kind.
        if kind \<noteq> ET_EXEC then Inl UnsupportedType
        else
          and_then (ok_or (read_u16 bytes 18) TooSmall) (\<lambda>machine.
          if machine \<noteq> EM_X86_64 then Inl UnsupportedMachine
          else
            and_then (ok_or (read_u64 bytes 24) TooSmall) (\<lambda>entry.
            and_then (ok_or (read_u64 bytes 32) TooSmall) (\<lambda>phoff.
            and_then (ok_or (read_u16 bytes 54) TooSmall) (\<lambda>phentsize16.
            and_then (ok_or (read_u16 bytes 56) TooSmall) (\<lambda>phnum16.
            let phentsize = (ucast phentsize16 :: usize);
                phnum = (ucast phnum16 :: usize)
            in if phentsize < 56 \<or> phnum = 0 \<or> phnum > 8 then Inl InvalidProgramTable
               else
                 and_then (ok_or (checked_mul phentsize phnum) InvalidProgramTable) (\<lambda>table_size.
                 and_then (ok_or (checked_add phoff table_size) InvalidProgramTable) (\<lambda>table_end.
                 if unat table_end > length bytes then Inl InvalidProgramTable
                 else
                   and_then (parse_headers bytes entry phoff phentsize [0..<unat phnum] [] False)
                     (\<lambda>(segments, entry_is_loaded).
                       if length segments = 0 \<or> \<not> entry_is_loaded then Inl InvalidEntry
                       else Inr \<lparr>elf_bytes = bytes, elf_entry = entry, elf_segments = segments\<rparr>))))))))))"

section \<open>Soundness of the parser\<close>

definition segment_ok :: "u8 list \<Rightarrow> LoadSegment \<Rightarrow> bool" where
  "segment_ok bytes s \<longleftrightarrow>
     \<not> (ls_writable s \<and> ls_executable s)
     \<and> unat (ls_file_size s) \<le> unat (ls_memory_size s)
     \<and> unat (ls_file_offset s) + unat (ls_file_size s) < 2 ^ 64
     \<and> ls_file_offset s + ls_file_size s \<le> of_nat (length bytes)
     \<and> unat (vr_end (ls_virtual_range s)) = unat (vr_start (ls_virtual_range s)) + unat (ls_memory_size s)
     \<and> 0 < unat (ls_memory_size s)
     \<and> vr_is_user (ls_virtual_range s)"

lemma parse_header_ok:
  assumes "parse_header bytes base = Inr (Some s)"
  shows "segment_ok bytes s"
proof -
  obtain fe ve where "checked_add (ls_file_offset s) (ls_file_size s) = Some fe" "\<not> fe > of_nat (length bytes)"
    "checked_add (vr_start (ls_virtual_range s)) (ls_memory_size s) = Some ve"
    "vr_end (ls_virtual_range s) = ve" "vr_len (ls_virtual_range s) \<noteq> 0" "vr_is_user (ls_virtual_range s)"
    "\<not> (ls_flags s AND PF_W \<noteq> 0 \<and> ls_flags s AND PF_X \<noteq> 0)" "\<not> ls_memory_size s < ls_file_size s"
    using assms
    by (auto simp: parse_header_def and_then_eq_Inr VirtRange_new_Some split: if_splits)
  moreover from this have "ls_memory_size s \<noteq> 0"
    by (auto simp: vr_len_def checked_add_def split: if_splits)
  moreover have "fe = ls_file_offset s + ls_file_size s" "unat (ls_file_offset s) + unat (ls_file_size s) < 2 ^ 64"
    using \<open>checked_add _ (ls_file_size s) = Some fe\<close> by (auto simp: checked_add_def split: if_splits)
  ultimately show ?thesis
    by (auto simp: segment_ok_def ls_writable_def ls_executable_def checked_add_eq_Some word_le_nat_alt
        word_less_nat_alt unat_gt_0)
qed

lemma parse_headers_ok:
  assumes "parse_headers bytes entry phoff sz idx segs loaded = Inr (segs', loaded')"
    and "\<And>s. s \<in> set segs \<Longrightarrow> segment_ok bytes s"
    and "loaded \<longleftrightarrow> (\<exists>s\<in>set segs. vr_contains (ls_virtual_range s) entry)"
  shows "(\<forall>s\<in>set segs'. segment_ok bytes s) \<and> length segs' \<le> length segs + length idx
    \<and> (loaded' \<longleftrightarrow> (\<exists>s\<in>set segs'. vr_contains (ls_virtual_range s) entry))"
  using assms
proof (induction bytes entry phoff sz idx segs loaded rule: parse_headers.induct)
  case (2 bytes entry phoff sz i idx segs loaded)
  then obtain parsed where p: "parse_header bytes (phoff + of_nat i * sz) = Inr parsed"
    by (auto simp: and_then_eq_Inr)
  show ?case
  proof (cases parsed)
    case None
    then show ?thesis using 2 p by auto
  next
    case (Some s)
    have "(\<forall>s\<in>set segs'. segment_ok bytes s) \<and> length segs' \<le> length (segs @ [s]) + length idx
      \<and> (loaded' \<longleftrightarrow> (\<exists>s\<in>set segs'. vr_contains (ls_virtual_range s) entry))"
      by (rule "2.IH"(2))
        (use 2 p Some parse_header_ok [of bytes _ s] in auto)
    then show ?thesis by simp
  qed
qed auto

definition image_ok :: "ElfImage \<Rightarrow> bool" where
  "image_ok i \<longleftrightarrow>
     0 < length (elf_segments i) \<and> length (elf_segments i) \<le> 8
     \<and> (\<forall>s\<in>set (elf_segments i). segment_ok (elf_bytes i) s)
     \<and> (\<exists>s\<in>set (elf_segments i). vr_contains (ls_virtual_range s) (elf_entry i))"

lemma elf_parse_ok:
  assumes "elf_parse bytes = Inr i"
  shows "image_ok i \<and> elf_bytes i = bytes"
proof -
  obtain entry phoff sz phnum segs where phnum: "\<not> phnum > (8::usize)"
    and hs: "parse_headers bytes entry phoff sz [0..<unat phnum] [] False = Inr (segs, True)"
    and i: "i = \<lparr>elf_bytes = bytes, elf_entry = entry, elf_segments = segs\<rparr>" "segs \<noteq> []"
    using assms
    by (auto simp: elf_parse_def and_then_eq_Inr Let_def split: if_splits)
  have "unat phnum \<le> 8" using phnum by (simp add: word_less_nat_alt)
  then show ?thesis using parse_headers_ok [OF hs] i by (auto simp: image_ok_def)
qed

end
