(* ===== verification/Process_Image.thy ===== *)
theory Process_Image
  imports Elf_Image
begin

text \<open>
  From an ELF image to a validated process image (\<open>kernel/src/process/address_space.rs\<close>,
  \<open>load_plan.rs\<close>, \<open>stack.rs\<close>, \<open>initial_context.rs\<close>, \<open>image_state.rs\<close>,
  \<open>loaded_address_space.rs\<close>, \<open>ramdisk_image.rs\<close>): the page-granular mapping plan, the user
  stack plan and the initial context.
\<close>

section \<open>Address-space policy\<close>

datatype AddressSpaceId = AddressSpaceId (address_space_raw: u64)

definition AddressSpaceId_new :: "u64 \<Rightarrow> AddressSpaceId option" where
  "AddressSpaceId_new raw = (if raw = 0 then None else Some (AddressSpaceId raw))"

record AddressSpaceSpec =
  spec_id :: AddressSpaceId
  spec_layout :: UserAddressSpaceLayout

datatype AddressSpaceError =
    SpaceInvalidUserRange
  | ImageOutsideUserSpace
  | StackOutsideUserSpace
  | StackOverlapsGuard

definition AddressSpaceSpec_new :: "AddressSpaceId \<Rightarrow> AddressSpaceSpec" where
  "AddressSpaceSpec_new i = \<lparr>spec_id = i, spec_layout = default_layout\<rparr>"

definition validate_user_range :: "AddressSpaceSpec \<Rightarrow> VirtRange \<Rightarrow> AddressSpaceError + unit" where
  "validate_user_range spec rng =
     (if \<not> vr_is_user rng then Inl SpaceInvalidUserRange
      else if vr_start rng < vr_start (layout_user (spec_layout spec))
              \<or> vr_end rng > vr_end (layout_user (spec_layout spec))
      then Inl SpaceInvalidUserRange
      else if vr_end rng > vr_start (layout_guard (spec_layout spec))
              \<and> vr_start rng < vr_end (layout_guard (spec_layout spec))
      then Inl StackOverlapsGuard
      else Inr ())"

definition validate_image_range :: "AddressSpaceSpec \<Rightarrow> VirtRange \<Rightarrow> AddressSpaceError + unit" where
  "validate_image_range spec rng =
     and_then (validate_user_range spec rng) (\<lambda>_.
     if vr_start rng < layout_image_base (spec_layout spec)
        \<or> vr_start rng \<ge> vr_start (layout_stack (spec_layout spec))
     then Inl ImageOutsideUserSpace
     else Inr ())"

definition validate_stack_range :: "AddressSpaceSpec \<Rightarrow> VirtRange \<Rightarrow> AddressSpaceError + unit" where
  "validate_stack_range spec rng =
     (if \<not> vr_is_user rng
         \<or> vr_start rng < vr_start (layout_stack (spec_layout spec))
         \<or> vr_end rng > vr_end (layout_stack (spec_layout spec))
      then Inl StackOutsideUserSpace
      else Inr ())"

section \<open>Load plan\<close>

datatype LoadPlanError =
    PlanAddressSpace AddressSpaceError
  | SegmentOverlap
  | WritableExecutableSegment
  | PlanInvalidEntry
  | TooManySegments

record SegmentMapping =
  sm_virtual_range :: VirtRange
  sm_flags :: u32

record LoadPlan =
  plan_entry :: u64
  plan_segments :: "SegmentMapping list"

definition plan_count :: "LoadPlan \<Rightarrow> nat" where
  "plan_count p = length (plan_segments p)"

definition plan_segment :: "LoadPlan \<Rightarrow> nat \<Rightarrow> SegmentMapping option" where
  "plan_segment p index = (if index \<ge> plan_count p then None else Some (plan_segments p ! index))"

definition page_mask :: u64 where
  "page_mask = NOT (PAGE_SIZE_4K - 1)"

definition map_span :: "LoadSegment \<Rightarrow> LoadPlanError + VirtRange" where
  "map_span segment =
     (let rng = ls_virtual_range segment;
          s = vr_start rng AND page_mask
      in and_then (ok_or (map_option (\<lambda>value. value AND page_mask)
                     (checked_add (vr_end rng) (PAGE_SIZE_4K - 1))) (PlanAddressSpace SpaceInvalidUserRange)) (\<lambda>e.
         ok_or (VirtRange_new s e) (PlanAddressSpace SpaceInvalidUserRange)))"

definition ranges_overlap :: "VirtRange \<Rightarrow> VirtRange \<Rightarrow> bool" where
  "ranges_overlap left right \<longleftrightarrow> vr_start left < vr_end right \<and> vr_start right < vr_end left"

fun build_segments ::
  "AddressSpaceSpec \<Rightarrow> ElfImage \<Rightarrow> nat list \<Rightarrow> SegmentMapping list \<Rightarrow> bool \<Rightarrow>
   LoadPlanError + SegmentMapping list \<times> bool" where
  "build_segments spec img [] segments entry_executable = Inr (segments, entry_executable)"
| "build_segments spec img (index # rest) segments entry_executable =
     and_then (ok_or (elf_segment img index) TooManySegments) (\<lambda>segment.
     and_then (map_span segment) (\<lambda>mapped.
     and_then (map_err PlanAddressSpace (validate_image_range spec mapped)) (\<lambda>_.
     if ls_writable segment \<and> ls_executable segment then Inl WritableExecutableSegment
     else
       let entry_executable' =
             (entry_executable \<or> ls_executable segment \<and> vr_contains mapped (elf_entry img))
       in if list_ex (\<lambda>prior. ranges_overlap mapped (sm_virtual_range prior)) segments
          then Inl SegmentOverlap
          else build_segments spec img rest
                 (segments @ [\<lparr>sm_virtual_range = mapped, sm_flags = ls_flags segment\<rparr>])
                 entry_executable')))"

definition load_plan_build :: "AddressSpaceSpec \<Rightarrow> ElfImage \<Rightarrow> LoadPlanError + LoadPlan" where
  "load_plan_build spec img =
     (if elf_segment_count img > 8 then Inl TooManySegments
      else and_then (build_segments spec img [0..<elf_segment_count img] [] False)
             (\<lambda>(segments, entry_executable).
               if \<not> entry_executable then Inl PlanInvalidEntry
               else Inr \<lparr>plan_entry = elf_entry img, plan_segments = segments\<rparr>))"

section \<open>Stack plan and initial context\<close>

datatype StackPlanError = StackInvalidRange | StackInvalidPage

record UserStackPlan =
  stack_pages :: "Page4K list"
  stack_initial_rsp :: u64

definition stack_count :: "UserStackPlan \<Rightarrow> nat" where
  "stack_count p = length (stack_pages p)"

definition stack_page :: "UserStackPlan \<Rightarrow> nat \<Rightarrow> Page4K option" where
  "stack_page p index = (if index \<ge> stack_count p then None else Some (stack_pages p ! index))"

text \<open>
  The page loop of \<open>UserStackPlan::build\<close>; \<open>None\<close> is the panic of storing a seventeenth page
  into the array of \<open>USER_STACK_PAGES\<close> entries.
\<close>

function stack_page_loop :: "u64 \<Rightarrow> u64 \<Rightarrow> Page4K list \<Rightarrow> (StackPlanError + Page4K list) option" where
  "stack_page_loop range_end address pages =
     (if address < range_end then
        (case Page4K_from_start_address address of
           None \<Rightarrow> Some (Inl StackInvalidPage)
         | Some page \<Rightarrow>
             if length pages \<ge> unat USER_STACK_PAGES then None
             else (case checked_add address PAGE_SIZE_4K of
                     None \<Rightarrow> Some (Inl StackInvalidRange)
                   | Some address' \<Rightarrow> stack_page_loop range_end address' (pages @ [page])))
      else Some (Inr pages))"
  by pat_completeness auto

termination stack_page_loop
proof (relation "measure (\<lambda>(e, a, _). unat e - unat a)")
qed (auto simp: checked_add_eq_Some word_less_nat_alt)

declare stack_page_loop.simps [simp del]

definition stack_plan_build :: "(StackPlanError + UserStackPlan) option" where
  "stack_plan_build =
     (case user_stack_range of
        None \<Rightarrow> Some (Inl StackInvalidRange)
      | Some rng \<Rightarrow>
          (case stack_page_loop (vr_end rng) (vr_start rng) [] of
             None \<Rightarrow> None
           | Some (Inl e) \<Rightarrow> Some (Inl e)
           | Some (Inr pages) \<Rightarrow>
               if length pages \<noteq> unat USER_STACK_PAGES then Some (Inl StackInvalidRange)
               else Some (Inr \<lparr>stack_pages = pages, stack_initial_rsp = vr_end rng\<rparr>)))"

record InitialContext =
  ctx_entry :: u64
  ctx_stack_pointer :: u64

datatype InitialContextError = ContextInvalidEntry | InvalidStackPointer

definition InitialContext_new :: "u64 \<Rightarrow> u64 \<Rightarrow> InitialContextError + InitialContext" where
  "InitialContext_new entry stack_pointer =
     (if entry < USER_SPACE_START \<or> entry \<ge> KERNEL_SPACE_START then Inl ContextInvalidEntry
      else if \<not> is_valid_user_stack_pointer stack_pointer then Inl InvalidStackPointer
      else Inr \<lparr>ctx_entry = entry, ctx_stack_pointer = stack_pointer\<rparr>)"

section \<open>Process image\<close>

record ProcessImage =
  pi_address_space :: AddressSpaceSpec
  pi_load_plan :: LoadPlan
  pi_stack_plan :: UserStackPlan
  pi_context :: InitialContext

datatype ProcessImageError = InvalidContext

definition process_image_build ::
  "AddressSpaceSpec \<Rightarrow> LoadPlan \<Rightarrow> UserStackPlan \<Rightarrow> ProcessImageError + ProcessImage" where
  "process_image_build spec load_plan stack_plan =
     and_then (map_err (\<lambda>_. InvalidContext)
                 (InitialContext_new (plan_entry load_plan) (stack_initial_rsp stack_plan))) (\<lambda>context.
     Inr \<lparr>pi_address_space = spec, pi_load_plan = load_plan, pi_stack_plan = stack_plan,
          pi_context = context\<rparr>)"

datatype LoadedAddressSpaceError = LoadedAddressSpaceMismatch | ImageNotValidated

record LoadedAddressSpace =
  loaded_spec :: AddressSpaceSpec
  loaded_image :: ProcessImage

definition loaded_address_space_build ::
  "AddressSpaceSpec \<Rightarrow> ProcessImage \<Rightarrow> LoadedAddressSpaceError + LoadedAddressSpace" where
  "loaded_address_space_build spec img =
     (if spec_id (pi_address_space img) \<noteq> spec_id spec then Inl LoadedAddressSpaceMismatch
      else Inr \<lparr>loaded_spec = spec, loaded_image = img\<rparr>)"

datatype RamdiskImageError =
    RamElf ElfError
  | RamLoadPlan LoadPlanError
  | RamStack StackPlanError
  | RamImage ProcessImageError

definition build_process_image ::
  "u8 list \<Rightarrow> AddressSpaceSpec \<Rightarrow> (RamdiskImageError + ProcessImage) option" where
  "build_process_image bytes spec =
     (case map_err RamElf (elf_parse bytes) of
        Inl e \<Rightarrow> Some (Inl e)
      | Inr img \<Rightarrow>
          (case map_err RamLoadPlan (load_plan_build spec img) of
             Inl e \<Rightarrow> Some (Inl e)
           | Inr load_plan \<Rightarrow>
               (case stack_plan_build of
                  None \<Rightarrow> None
                | Some r \<Rightarrow>
                    (case map_err RamStack r of
                       Inl e \<Rightarrow> Some (Inl e)
                     | Inr stack_plan \<Rightarrow>
                         Some (map_err RamImage (process_image_build spec load_plan stack_plan))))))"

end
