(* ===== verification/Process_Image_Properties.thy ===== *)
theory Process_Image_Properties
  imports Process_Image
begin

text \<open>
  The properties of image construction: what an accepted ELF image guarantees, what an
  accepted load plan guarantees about the pages it will map, the user stack plan, and the
  whole path from ramdisk bytes to a process image.
\<close>

section \<open>Page rounding\<close>

lemma unat_page_mask: "unat ((a::u64) AND page_mask) = unat a div 4096 * 4096"
  using unat_and_not_4095 [of a] by (simp add: page_mask_def PAGE_SIZE_4K_def)

lemma map_span_Inr:
  assumes "map_span s = Inr r"
  shows "unat (vr_start r) = unat (vr_start (ls_virtual_range s)) div 4096 * 4096"
    and "unat (vr_end r) = align_up_nat (unat (vr_end (ls_virtual_range s)))"
proof -
  obtain e where e: "checked_add (vr_end (ls_virtual_range s)) (PAGE_SIZE_4K - 1) = Some e"
    and r: "r = \<lparr>vr_start = vr_start (ls_virtual_range s) AND page_mask, vr_end = e AND page_mask\<rparr>"
    using assms by (auto simp: map_span_def Let_def and_then_eq_Inr VirtRange_new_Some)
  have "unat (PAGE_SIZE_4K - 1) = 4095" by (simp add: layout)
  then have "unat e = unat (vr_end (ls_virtual_range s)) + 4095"
    using e by (simp add: checked_add_eq_Some)
  then show "unat (vr_start r) = unat (vr_start (ls_virtual_range s)) div 4096 * 4096"
    "unat (vr_end r) = align_up_nat (unat (vr_end (ls_virtual_range s)))"
    by (simp_all add: r unat_page_mask align_up_nat_def)
qed

section \<open>Load plans\<close>

text \<open>A mapping covers its segment: the page span of its range, with its flags.\<close>

definition covers :: "LoadSegment \<Rightarrow> SegmentMapping \<Rightarrow> bool" where
  "covers s m \<longleftrightarrow>
     unat (vr_start (sm_virtual_range m)) = unat (vr_start (ls_virtual_range s)) div 4096 * 4096
     \<and> unat (vr_end (sm_virtual_range m)) = align_up_nat (unat (vr_end (ls_virtual_range s)))
     \<and> sm_flags m = ls_flags s"

definition mapping_ok :: "AddressSpaceSpec \<Rightarrow> SegmentMapping \<Rightarrow> bool" where
  "mapping_ok spec m \<longleftrightarrow>
     validate_image_range spec (sm_virtual_range m) = Inr ()
     \<and> \<not> (sm_flags m AND PF_W \<noteq> 0 \<and> sm_flags m AND PF_X \<noteq> 0)"

definition disjoint_mappings :: "SegmentMapping list \<Rightarrow> bool" where
  "disjoint_mappings ms \<longleftrightarrow>
     sorted_wrt (\<lambda>a b. \<not> ranges_overlap (sm_virtual_range b) (sm_virtual_range a)) ms"

lemma build_segments_ok:
  assumes "build_segments spec img idx segs ex = Inr (segs', ex')"
    and "\<forall>m\<in>set segs. mapping_ok spec m" "disjoint_mappings segs"
    and "ex \<longrightarrow> (\<exists>m\<in>set segs. sm_flags m AND PF_X \<noteq> 0 \<and> vr_contains (sm_virtual_range m) (elf_entry img))"
  shows "(\<forall>m\<in>set segs'. mapping_ok spec m) \<and> disjoint_mappings segs'
    \<and> (ex' \<longrightarrow> (\<exists>m\<in>set segs'. sm_flags m AND PF_X \<noteq> 0 \<and> vr_contains (sm_virtual_range m) (elf_entry img)))
    \<and> (\<exists>ms. segs' = segs @ ms \<and> list_all2 (\<lambda>i m. \<exists>s. elf_segment img i = Some s \<and> covers s m) idx ms)"
  using assms
proof (induction spec img idx segs ex rule: build_segments.induct)
  case (2 spec img i idx segs ex)
  then obtain s r where s: "elf_segment img i = Some s" and r: "map_span s = Inr r"
    and v: "validate_image_range spec r = Inr ()" and wx: "\<not> (ls_writable s \<and> ls_executable s)"
    and no: "\<not> list_ex (\<lambda>prior. ranges_overlap r (sm_virtual_range prior)) segs"
    and rest: "build_segments spec img idx (segs @ [\<lparr>sm_virtual_range = r, sm_flags = ls_flags s\<rparr>])
      (ex \<or> ls_executable s \<and> vr_contains r (elf_entry img)) = Inr (segs', ex')"
    by (auto simp: and_then_eq_Inr Let_def split: if_splits)
  let ?m = "\<lparr>sm_virtual_range = r, sm_flags = ls_flags s\<rparr>"
  have ok: "mapping_ok spec ?m" using v wx by (simp add: mapping_ok_def ls_writable_def ls_executable_def)
  have dis: "disjoint_mappings (segs @ [?m])"
    using 2 no by (auto simp: disjoint_mappings_def sorted_wrt_append list_ex_iff)
  have cov: "covers s ?m" using map_span_Inr [OF r] by (simp add: covers_def)
  have IH: "(\<forall>m\<in>set segs'. mapping_ok spec m) \<and> disjoint_mappings segs'
    \<and> (ex' \<longrightarrow> (\<exists>m\<in>set segs'. sm_flags m AND PF_X \<noteq> 0 \<and> vr_contains (sm_virtual_range m) (elf_entry img)))
    \<and> (\<exists>ms. segs' = (segs @ [?m]) @ ms \<and>
         list_all2 (\<lambda>i m. \<exists>s. elf_segment img i = Some s \<and> covers s m) idx ms)"
    by (rule "2.IH"(1)) (use 2 s r v wx no rest ok dis in \<open>auto simp: ls_executable_def\<close>)
  then obtain ms where "segs' = segs @ ?m # ms"
    "list_all2 (\<lambda>i m. \<exists>s. elf_segment img i = Some s \<and> covers s m) idx ms" by auto
  then show ?case using IH s cov by (intro conjI exI [of _ "?m # ms"]) auto
qed auto

lemma load_plan_build_ok:
  assumes "load_plan_build spec img = Inr p"
  shows "(\<forall>m\<in>set (plan_segments p). mapping_ok spec m)" "disjoint_mappings (plan_segments p)"
    "\<exists>m\<in>set (plan_segments p). sm_flags m AND PF_X \<noteq> 0 \<and> vr_contains (sm_virtual_range m) (plan_entry p)"
    "list_all2 covers (elf_segments img) (plan_segments p)" "plan_entry p = elf_entry img"
proof -
  obtain segs where b: "build_segments spec img [0..<elf_segment_count img] [] False = Inr (segs, True)"
    and p: "p = \<lparr>plan_entry = elf_entry img, plan_segments = segs\<rparr>"
    using assms by (auto simp: load_plan_build_def and_then_eq_Inr split: if_splits)
  note ok = build_segments_ok [OF b]
  have "list_all2 (\<lambda>i m. \<exists>s. elf_segment img i = Some s \<and> covers s m) [0..<elf_segment_count img] segs"
    using ok by (auto simp: disjoint_mappings_def)
  then have "list_all2 covers (elf_segments img) segs"
    by (auto simp: list_all2_conv_all_nth elf_segment_def elf_segment_count_def)
  then show "(\<forall>m\<in>set (plan_segments p). mapping_ok spec m)" "disjoint_mappings (plan_segments p)"
    "\<exists>m\<in>set (plan_segments p). sm_flags m AND PF_X \<noteq> 0 \<and> vr_contains (sm_virtual_range m) (plan_entry p)"
    "list_all2 covers (elf_segments img) (plan_segments p)" "plan_entry p = elf_entry img"
    using ok p by (auto simp: disjoint_mappings_def)
qed

section \<open>Stack plan\<close>

text \<open>A minimal program: one readable and executable segment that covers the whole file.\<close>

definition demo_elf :: "u8 list" where
  "demo_elf =
     [0x7f, 0x45, 0x4c, 0x46, 2, 1, 1, 0] @ replicate 8 0 @
     [2, 0, 62, 0, 1, 0, 0, 0] @ [0, 0, 0x11, 0, 0, 0, 0, 0] @ [64, 0, 0, 0, 0, 0, 0, 0] @
     replicate 8 0 @ [0, 0, 0, 0, 64, 0, 56, 0, 1, 0, 0, 0, 0, 0, 0, 0] @
     [1, 0, 0, 0, 5, 0, 0, 0] @ replicate 8 0 @ [0, 0, 0x11, 0, 0, 0, 0, 0] @ replicate 8 0 @
     [120, 0, 0, 0, 0, 0, 0, 0] @ [120, 0, 0, 0, 0, 0, 0, 0] @ [0, 16, 0, 0, 0, 0, 0, 0]"

definition demo_segment :: LoadSegment where
  "demo_segment = \<lparr>ls_virtual_range = \<lparr>vr_start = 0x110000, vr_end = 0x110078\<rparr>, ls_flags = 5,
     ls_file_offset = 0, ls_file_size = 120, ls_memory_size = 120\<rparr>"

definition demo_image :: ElfImage where
  "demo_image = \<lparr>elf_bytes = demo_elf, elf_entry = 0x110000, elf_segments = [demo_segment]\<rparr>"

definition demo_spec :: AddressSpaceSpec where
  "demo_spec = AddressSpaceSpec_new (AddressSpaceId 1)"

definition demo_stack_pages :: "Page4K list" where
  "demo_stack_pages = map (\<lambda>k. Page4K (0xFFFF7FFFFFFEF000 + of_nat k * 4096)) [0..<16]"

lemma stack_page_loop_step:
  "a < e \<Longrightarrow> a mod PAGE_SIZE_4K = 0 \<Longrightarrow> length pages < 16 \<Longrightarrow> checked_add a PAGE_SIZE_4K = Some a' \<Longrightarrow>
     stack_page_loop e a pages = stack_page_loop e a' (pages @ [Page4K a])"
  by (subst stack_page_loop.simps) (simp add: Page4K_from_start_address_def USER_STACK_PAGES_def)

lemma stack_plan_build_eq:
  "stack_plan_build = Some (Inr \<lparr>stack_pages = demo_stack_pages, stack_initial_rsp = 0xFFFF7FFFFFFFF000\<rparr>)"
  by code_simp

lemma demo_elf_parse: "elf_parse demo_elf = Inr demo_image"
  by code_simp

definition demo_plan :: LoadPlan where
  "demo_plan = \<lparr>plan_entry = 0x110000,
     plan_segments = [\<lparr>sm_virtual_range = \<lparr>vr_start = 0x110000, vr_end = 0x111000\<rparr>, sm_flags = 5\<rparr>]\<rparr>"

lemma demo_load_plan: "load_plan_build demo_spec demo_image = Inr demo_plan"
  by code_simp

definition demo_process_image :: ProcessImage where
  "demo_process_image = \<lparr>pi_address_space = demo_spec, pi_load_plan = demo_plan,
     pi_stack_plan = \<lparr>stack_pages = demo_stack_pages, stack_initial_rsp = 0xFFFF7FFFFFFFF000\<rparr>,
     pi_context = \<lparr>ctx_entry = 0x110000, ctx_stack_pointer = 0xFFFF7FFFFFFFF000\<rparr>\<rparr>"

lemma demo_build: "build_process_image demo_elf demo_spec = Some (Inr demo_process_image)"
proof -
  have "process_image_build demo_spec demo_plan \<lparr>stack_pages = demo_stack_pages, stack_initial_rsp = 0xFFFF7FFFFFFFF000\<rparr>
      = Inr demo_process_image" by code_simp
  then show ?thesis
    by (simp add: build_process_image_def demo_elf_parse demo_load_plan stack_plan_build_eq)
qed

section \<open>Properties\<close>

text \<open>
  C7: an ELF image that the parser accepts has between one and eight loadable segments; each
  lies in user space without wrap-around, is not both writable and executable, reads only
  bytes of the file, and is at least as large in memory as in the file; and the entry point
  lies in one of them.
\<close>

theorem elf_parse_sound:
  assumes "elf_parse bytes = Inr img" "length bytes < 2 ^ 64"
  shows "elf_bytes img = bytes \<and> 1 \<le> elf_segment_count img \<and> elf_segment_count img \<le> 8
    \<and> (\<exists>s\<in>set (elf_segments img). vr_contains (ls_virtual_range s) (elf_entry img))
    \<and> (\<forall>s\<in>set (elf_segments img).
         \<not> (ls_writable s \<and> ls_executable s)
         \<and> unat (ls_file_offset s) + unat (ls_file_size s) \<le> length bytes
         \<and> unat (ls_file_size s) \<le> unat (ls_memory_size s)
         \<and> unat (vr_end (ls_virtual_range s)) =
             unat (vr_start (ls_virtual_range s)) + unat (ls_memory_size s)
         \<and> vr_start (ls_virtual_range s) < vr_end (ls_virtual_range s)
         \<and> vr_is_user (ls_virtual_range s))"
proof -
  have ok: "image_ok img" "elf_bytes img = bytes" using elf_parse_ok [OF assms(1)] by auto
  have len: "unat (of_nat (length bytes) :: u64) = length bytes"
    using assms(2) by (simp add: length_less_two_power)
  have "unat (ls_file_offset s) + unat (ls_file_size s) \<le> length bytes
      \<and> vr_start (ls_virtual_range s) < vr_end (ls_virtual_range s)"
    if s: "segment_ok bytes s" for s
  proof -
    have "unat (ls_file_offset s + ls_file_size s) = unat (ls_file_offset s) + unat (ls_file_size s)"
      using s by (simp add: segment_ok_def unat_word_ariths)
    then show ?thesis using s len by (auto simp: segment_ok_def word_le_nat_alt word_less_nat_alt)
  qed
  then show ?thesis
    using ok unfolding image_ok_def elf_segment_count_def
    by (auto simp: segment_ok_def Suc_le_eq simp del: length_greater_0_conv)
qed

theorem elf_parse_sound_witness:
  "elf_parse demo_elf = Inr demo_image \<and> 1 \<le> elf_segment_count demo_image"
proof -
  have "length demo_elf < 2 ^ 64" by (simp add: demo_elf_def)
  from elf_parse_sound [OF demo_elf_parse this] demo_elf_parse show ?thesis by blast
qed

lemma mapping_bounds:
  assumes "mapping_ok (AddressSpaceSpec_new i) m"
  shows "USER_IMAGE_BASE \<le> vr_start (sm_virtual_range m)"
    and "vr_end (sm_virtual_range m) \<le> vr_start (layout_guard default_layout)"
proof -
  have gs: "vr_end (layout_guard default_layout) = vr_start (layout_stack default_layout)"
    by (simp add: default_layout_def Let_def)
  have ib: "layout_image_base default_layout = USER_IMAGE_BASE"
    by (simp add: default_layout_def Let_def)
  show "USER_IMAGE_BASE \<le> vr_start (sm_virtual_range m)"
    "vr_end (sm_virtual_range m) \<le> vr_start (layout_guard default_layout)"
    using assms gs ib
    by (auto simp: mapping_ok_def validate_image_range_def validate_user_range_def AddressSpaceSpec_new_def
        and_then_eq_Inr not_le not_less split: if_splits)
qed

lemma disjoint_mappings_nth:
  assumes "disjoint_mappings ms" "i < length ms" "j < length ms" "i \<noteq> j"
  shows "\<not> ranges_overlap (sm_virtual_range (ms ! i)) (sm_virtual_range (ms ! j))"
proof -
  have sym: "ranges_overlap a b = ranges_overlap b a" for a b by (auto simp: ranges_overlap_def)
  show ?thesis
  proof (cases "i < j")
    case True
    then show ?thesis using assms sym unfolding disjoint_mappings_def sorted_wrt_iff_nth_less by metis
  next
    case False
    then have "j < i" using assms(4) by simp
    then show ?thesis using assms unfolding disjoint_mappings_def sorted_wrt_iff_nth_less by metis
  qed
qed

text \<open>
  An accepted load plan maps one page-aligned span per segment that covers it with its
  permissions; the spans start at or above the image base, end at or below the stack guard,
  never overlap one another, and are never writable and executable; the entry point lies in
  an executable span.
\<close>

theorem load_plan_sound:
  assumes "load_plan_build (AddressSpaceSpec_new space) img = Inr plan"
  shows "plan_entry plan = elf_entry img
    \<and> list_all2 covers (elf_segments img) (plan_segments plan)
    \<and> (\<forall>m\<in>set (plan_segments plan).
         unat (vr_start (sm_virtual_range m)) mod 4096 = 0
         \<and> unat (vr_end (sm_virtual_range m)) mod 4096 = 0
         \<and> USER_IMAGE_BASE \<le> vr_start (sm_virtual_range m)
         \<and> vr_end (sm_virtual_range m) \<le> vr_start (layout_guard default_layout)
         \<and> \<not> (sm_flags m AND PF_W \<noteq> 0 \<and> sm_flags m AND PF_X \<noteq> 0))
    \<and> (\<forall>i<plan_count plan. \<forall>j<plan_count plan. i \<noteq> j \<longrightarrow>
         \<not> ranges_overlap (sm_virtual_range (plan_segments plan ! i)) (sm_virtual_range (plan_segments plan ! j)))
    \<and> (\<exists>m\<in>set (plan_segments plan).
         sm_flags m AND PF_X \<noteq> 0 \<and> vr_contains (sm_virtual_range m) (plan_entry plan))"
proof -
  note ok = load_plan_build_ok [OF assms]
  have "unat (vr_start (sm_virtual_range m)) mod 4096 = 0 \<and> unat (vr_end (sm_virtual_range m)) mod 4096 = 0"
    if m: "m \<in> set (plan_segments plan)" for m
  proof -
    obtain s where "covers s m" using ok(4) m by (auto simp: list_all2_conv_all_nth in_set_conv_nth)
    then show ?thesis by (simp add: covers_def align_up_nat_bounds(3))
  qed
  then show ?thesis
    using ok mapping_bounds disjoint_mappings_nth [OF ok(2)]
    unfolding plan_count_def by (auto simp: mapping_ok_def)
qed

theorem load_plan_sound_witness:
  "load_plan_build (AddressSpaceSpec_new (AddressSpaceId 1)) demo_image = Inr demo_plan \<and>
   plan_entry demo_plan = elf_entry demo_image"
  using load_plan_sound [of "AddressSpaceId 1" demo_image demo_plan] demo_load_plan
  by (simp add: demo_spec_def)

text \<open>
  The user stack plan always builds, without panicking: sixteen consecutive pages that
  fill the stack range exactly, from above the guard page to the initial stack pointer, which
  is 16-byte aligned.
\<close>

theorem stack_plan_exact:
  "\<exists>plan rng guard. stack_plan_build = Some (Inr plan) \<and> user_stack_range = Some rng
     \<and> user_stack_guard_range = Some guard \<and> vr_end guard = vr_start rng
     \<and> stack_pages plan = map (\<lambda>k. Page4K (vr_start rng + of_nat k * PAGE_SIZE_4K)) [0..<16]
     \<and> vr_start rng + 16 * PAGE_SIZE_4K = vr_end rng
     \<and> stack_initial_rsp plan = vr_end rng \<and> is_valid_user_stack_pointer (stack_initial_rsp plan)"
proof -
  have "is_valid_user_stack_pointer 0xFFFF7FFFFFFFF000" by code_simp
  then show ?thesis
    by (simp add: stack_plan_build_eq user_stack_range_eq user_stack_guard_range_eq demo_stack_pages_def layout)
qed



end
