(* ===== verification/Process_Manager.thy ===== *)
theory Process_Manager
  imports Process_Image Scheduler_Reach
begin

text \<open>
  The process registry (\<open>process/manager.rs\<close>) with process identities and execution bindings
  (\<open>process/identity.rs\<close>), the typed lifecycle (\<open>process/state.rs\<close>) and the construction
  boundary to the scheduler (\<open>process/scheduler_binding.rs\<close>). The fixed array of slots is a
  list; the registry invariant states its length.
\<close>

section \<open>Identity and lifecycle\<close>

datatype ProcessId = ProcessId (process_index: u32) (process_generation: u32)

record ProcessExecutionBinding =
  bind_process :: ProcessId
  bind_task :: TaskId
  bind_execution :: ExecutionHandle
  bind_address_space :: AddressSpaceId

definition ProcessExecutionBinding_new ::
  "ProcessId \<Rightarrow> TaskId \<Rightarrow> ExecutionHandle \<Rightarrow> AddressSpaceId \<Rightarrow> ProcessExecutionBinding option" where
  "ProcessExecutionBinding_new process tid handle space =
     (let execution_task = handle_task_id handle
      in if task_index execution_task \<noteq> task_index tid
            \<or> task_generation execution_task \<noteq> task_generation tid
         then None
         else Some \<lparr>bind_process = process, bind_task = tid, bind_execution = handle,
                    bind_address_space = space\<rparr>)"

datatype ProcessState = Constructing | ProcessReady | ProcessRunning | ProcessExited

datatype ProcessTransitionError = InvalidProcessTransition

record ReadyProcess =
  ready_image :: ProcessImage
  ready_state :: ProcessState

record RunningProcess =
  running_image :: ProcessImage
  running_state :: ProcessState

record ExitedProcess =
  exited_image :: ProcessImage
  exited_state :: ProcessState

definition ready_from_image :: "ProcessImage \<Rightarrow> ReadyProcess" where
  "ready_from_image img = \<lparr>ready_image = img, ready_state = ProcessReady\<rparr>"

definition ready_start :: "ReadyProcess \<Rightarrow> ProcessTransitionError + RunningProcess" where
  "ready_start p =
     (if ready_state p \<noteq> ProcessReady then Inl InvalidProcessTransition
      else Inr \<lparr>running_image = ready_image p, running_state = ProcessRunning\<rparr>)"

definition running_exit :: "RunningProcess \<Rightarrow> ExitedProcess" where
  "running_exit p = \<lparr>exited_image = running_image p, exited_state = ProcessExited\<rparr>"

section \<open>Registry\<close>

definition MAX_PROCESSES :: nat where
  "MAX_PROCESSES = 256"

datatype ProcessManagerError =
    Full
  | InvalidProcess
  | InvalidTransition
  | GenerationExhausted
  | AlreadyBound
  | BindingMismatch

record Slot =
  slot_generation :: u32
  slot_image :: "ProcessImage option"
  slot_state :: "ProcessState option"
  slot_binding :: "ProcessExecutionBinding option"
  slot_exit_code :: "u64 option"

definition Slot_EMPTY :: Slot where
  "Slot_EMPTY = \<lparr>slot_generation = 0, slot_image = None, slot_state = None, slot_binding = None,
     slot_exit_code = None\<rparr>"

record SpawnedProcess =
  spawned_id :: ProcessId
  spawned_binding :: ProcessExecutionBinding

record ReapedProcess =
  reaped_id :: ProcessId
  reaped_image :: ProcessImage
  reaped_binding :: "ProcessExecutionBinding option"
  reaped_exit_code :: u64

record ProcessManager =
  pm_slots :: "Slot list"
  pm_next_hint :: nat

definition ProcessManager_new :: ProcessManager where
  "ProcessManager_new = \<lparr>pm_slots = replicate MAX_PROCESSES Slot_EMPTY, pm_next_hint = 0\<rparr>"

text \<open>\<open>slot\<close> and \<open>slot_mut\<close>; the write through the mutable reference is \<open>pm_put\<close>.\<close>

definition pm_slot :: "ProcessManager \<Rightarrow> ProcessId \<Rightarrow> ProcessManagerError + Slot" where
  "pm_slot pm pid =
     and_then (ok_or (vec_get (pm_slots pm) (unat (process_index pid))) InvalidProcess) (\<lambda>slot.
     if slot_generation slot \<noteq> process_generation pid \<or> slot_state slot = None
     then Inl InvalidProcess else Inr slot)"

definition pm_put :: "ProcessManager \<Rightarrow> ProcessId \<Rightarrow> Slot \<Rightarrow> ProcessManager" where
  "pm_put pm pid slot = pm\<lparr>pm_slots := (pm_slots pm)[unat (process_index pid) := slot]\<rparr>"

fun register_loop ::
  "nat list \<Rightarrow> ProcessManager \<Rightarrow> ProcessImage \<Rightarrow> (ProcessManagerError + ProcessId) \<times> ProcessManager" where
  "register_loop [] pm img = (Inl Full, pm)"
| "register_loop (off # offs) pm img =
     (let index = (pm_next_hint pm + off) mod MAX_PROCESSES
      in if slot_state (pm_slots pm ! index) \<noteq> None then register_loop offs pm img
         else case checked_add (slot_generation (pm_slots pm ! index)) 1 of
                None \<Rightarrow> (Inl GenerationExhausted, pm)
              | Some generation \<Rightarrow>
                  (Inr (ProcessId (of_nat index) generation),
                   pm\<lparr>pm_slots := (pm_slots pm)[index :=
                          \<lparr>slot_generation = generation, slot_image = Some img,
                           slot_state = Some ProcessReady, slot_binding = None,
                           slot_exit_code = None\<rparr>],
                      pm_next_hint := (index + 1) mod MAX_PROCESSES\<rparr>))"

definition register_ready ::
  "ProcessManager \<Rightarrow> ProcessImage \<Rightarrow> (ProcessManagerError + ProcessId) \<times> ProcessManager" where
  "register_ready pm img = register_loop [0..<MAX_PROCESSES] pm img"

definition pm_state :: "ProcessManager \<Rightarrow> ProcessId \<Rightarrow> ProcessManagerError + ProcessState" where
  "pm_state pm pid = and_then (pm_slot pm pid) (\<lambda>slot. ok_or (slot_state slot) InvalidProcess)"

definition pm_image :: "ProcessManager \<Rightarrow> ProcessId \<Rightarrow> ProcessManagerError + ProcessImage" where
  "pm_image pm pid = and_then (pm_slot pm pid) (\<lambda>slot. ok_or (slot_image slot) InvalidProcess)"

definition pm_binding ::
  "ProcessManager \<Rightarrow> ProcessId \<Rightarrow> ProcessManagerError + ProcessExecutionBinding option" where
  "pm_binding pm pid = and_then (pm_slot pm pid) (\<lambda>slot. Inr (slot_binding slot))"

definition pm_exit_code :: "ProcessManager \<Rightarrow> ProcessId \<Rightarrow> ProcessManagerError + u64 option" where
  "pm_exit_code pm pid = and_then (pm_slot pm pid) (\<lambda>slot. Inr (slot_exit_code slot))"

definition pm_contains :: "ProcessManager \<Rightarrow> ProcessId \<Rightarrow> bool" where
  "pm_contains pm pid = is_ok (pm_slot pm pid)"

definition pm_attach_execution ::
  "ProcessManager \<Rightarrow> ProcessId \<Rightarrow> TaskId \<Rightarrow> ExecutionHandle \<Rightarrow> AddressSpaceId \<Rightarrow>
     (ProcessManagerError + ProcessExecutionBinding) \<times> ProcessManager" where
  "pm_attach_execution pm pid tid handle space =
     (case pm_slot pm pid of
        Inl e \<Rightarrow> (Inl e, pm)
      | Inr slot \<Rightarrow>
          if slot_binding slot \<noteq> None then (Inl AlreadyBound, pm)
          else case slot_image slot of
                 None \<Rightarrow> (Inl InvalidProcess, pm)
               | Some img \<Rightarrow>
                   if spec_id (pi_address_space img) \<noteq> space then (Inl BindingMismatch, pm)
                   else case ProcessExecutionBinding_new pid tid handle space of
                          None \<Rightarrow> (Inl BindingMismatch, pm)
                        | Some binding \<Rightarrow>
                            (Inr binding, pm_put pm pid (slot\<lparr>slot_binding := Some binding\<rparr>)))"

definition remove_registered ::
  "ProcessManager \<Rightarrow> ProcessId \<Rightarrow> (ProcessManagerError + unit) \<times> ProcessManager" where
  "remove_registered pm pid =
     (case pm_slot pm pid of
        Inl e \<Rightarrow> (Inl e, pm)
      | Inr slot \<Rightarrow> (Inr (), pm_put pm pid (Slot_EMPTY\<lparr>slot_generation := slot_generation slot\<rparr>)))"

definition spawn_ready ::
  "ProcessManager \<Rightarrow> ProcessImage \<Rightarrow> TaskId \<Rightarrow> ExecutionHandle \<Rightarrow> AddressSpaceId \<Rightarrow>
     (ProcessManagerError + SpawnedProcess) \<times> ProcessManager" where
  "spawn_ready pm img tid handle space =
     (case register_ready pm img of
        (Inl e, pm1) \<Rightarrow> (Inl e, pm1)
      | (Inr pid, pm1) \<Rightarrow>
          (case pm_attach_execution pm1 pid tid handle space of
             (Inr binding, pm2) \<Rightarrow> (Inr \<lparr>spawned_id = pid, spawned_binding = binding\<rparr>, pm2)
           | (Inl e, pm2) \<Rightarrow> (Inl e, snd (remove_registered pm2 pid))))"

definition pm_start :: "ProcessManager \<Rightarrow> ProcessId \<Rightarrow> (ProcessManagerError + unit) \<times> ProcessManager" where
  "pm_start pm pid =
     (case pm_slot pm pid of
        Inl e \<Rightarrow> (Inl e, pm)
      | Inr slot \<Rightarrow>
          if slot_state slot \<noteq> Some ProcessReady then (Inl InvalidTransition, pm)
          else if slot_binding slot = None then (Inl BindingMismatch, pm)
          else (Inr (), pm_put pm pid (slot\<lparr>slot_state := Some ProcessRunning\<rparr>)))"

text \<open>\<open>self.slots[index].state = Some(state)\<close>\<close>

definition set_process_state :: "ProcessManager \<Rightarrow> nat \<Rightarrow> ProcessState \<Rightarrow> ProcessManager" where
  "set_process_state pm index st =
     pm\<lparr>pm_slots := (pm_slots pm)[index := (pm_slots pm ! index)\<lparr>slot_state := Some st\<rparr>]\<rparr>"

definition pm_yield_to ::
  "ProcessManager \<Rightarrow> ProcessId \<Rightarrow> ProcessId \<Rightarrow> (ProcessManagerError + unit) \<times> ProcessManager" where
  "pm_yield_to pm cur successor =
     (if cur = successor then (Inl InvalidTransition, pm)
      else
        let current_index = unat (process_index cur);
            successor_index = unat (process_index successor)
        in case pm_state pm cur of
             Inl e \<Rightarrow> (Inl e, pm)
           | Inr current_state \<Rightarrow>
          (case pm_state pm successor of
             Inl e \<Rightarrow> (Inl e, pm)
           | Inr successor_state \<Rightarrow>
               if current_state \<noteq> ProcessRunning \<or> successor_state \<noteq> ProcessReady
               then (Inl InvalidTransition, pm)
               else case pm_binding pm cur of
                      Inl e \<Rightarrow> (Inl e, pm)
                    | Inr None \<Rightarrow> (Inl BindingMismatch, pm)
                    | Inr (Some _) \<Rightarrow>
                   (case pm_binding pm successor of
                      Inl e \<Rightarrow> (Inl e, pm)
                    | Inr None \<Rightarrow> (Inl BindingMismatch, pm)
                    | Inr (Some _) \<Rightarrow>
                        let pm1 = set_process_state pm current_index ProcessReady
                        in if slot_state (pm_slots pm1 ! successor_index) \<noteq> Some ProcessReady
                           then (Inl InvalidTransition, set_process_state pm1 current_index ProcessRunning)
                           else (Inr (), set_process_state pm1 successor_index ProcessRunning))))"

definition request_exit ::
  "ProcessManager \<Rightarrow> ProcessId \<Rightarrow> u64 \<Rightarrow> (ProcessManagerError + unit) \<times> ProcessManager" where
  "request_exit pm pid code =
     (case pm_slot pm pid of
        Inl e \<Rightarrow> (Inl e, pm)
      | Inr slot \<Rightarrow>
          if slot_state slot \<noteq> Some ProcessReady \<and> slot_state slot \<noteq> Some ProcessRunning
          then (Inl InvalidTransition, pm)
          else (Inr (), pm_put pm pid (slot\<lparr>slot_state := Some ProcessExited,
                                            slot_exit_code := Some code\<rparr>)))"

definition pm_exit :: "ProcessManager \<Rightarrow> ProcessId \<Rightarrow> (ProcessManagerError + unit) \<times> ProcessManager" where
  "pm_exit pm pid = request_exit pm pid 0"

definition reap ::
  "ProcessManager \<Rightarrow> ProcessId \<Rightarrow> (ProcessManagerError + ReapedProcess) \<times> ProcessManager" where
  "reap pm pid =
     (case pm_slot pm pid of
        Inl e \<Rightarrow> (Inl e, pm)
      | Inr slot \<Rightarrow>
          if slot_state slot \<noteq> Some ProcessExited then (Inl InvalidTransition, pm)
          else case slot_image slot of
                 None \<Rightarrow> (Inl InvalidProcess, pm)
               | Some img \<Rightarrow>
                   (case slot_exit_code slot of
                      None \<Rightarrow> (Inl InvalidProcess, pm)
                    | Some code \<Rightarrow>
                        (Inr \<lparr>reaped_id = pid, reaped_image = img, reaped_binding = slot_binding slot,
                              reaped_exit_code = code\<rparr>,
                         (pm_put pm pid (Slot_EMPTY\<lparr>slot_generation := slot_generation slot\<rparr>))
                           \<lparr>pm_next_hint := unat (process_index pid)\<rparr>)))"

definition abort_ready :: "ProcessManager \<Rightarrow> ProcessId \<Rightarrow> (ProcessManagerError + unit) \<times> ProcessManager" where
  "abort_ready pm pid =
     (case pm_slot pm pid of
        Inl e \<Rightarrow> (Inl e, pm)
      | Inr slot \<Rightarrow>
          if slot_state slot \<noteq> Some ProcessReady then (Inl InvalidTransition, pm)
          else remove_registered pm pid)"

section \<open>Binding a process to a scheduler task\<close>

datatype ProcessSchedulerBindError =
    BindProcess ProcessManagerError
  | BindScheduler SchedulerError
  | CleanupFailed

definition cleanup_created_task ::
  "Scheduler \<Rightarrow> TaskId \<Rightarrow> (ProcessSchedulerBindError + unit) \<times> Scheduler" where
  "cleanup_created_task s tid =
     (case destroy_created s tid of
        (Inl _, s') \<Rightarrow> (Inl CleanupFailed, s')
      | (Inr _, s') \<Rightarrow> (Inr (), s'))"

text \<open>
  The outer option is a panic of \<open>create_task\<close>. After a failed cleanup the error of the cleanup
  is returned, otherwise the error that led to it.
\<close>

definition bind_and_ready ::
  "ProcessManager \<Rightarrow> Scheduler \<Rightarrow> ProcessId \<Rightarrow> Priority \<Rightarrow>
     ((ProcessSchedulerBindError + TaskId) \<times> ProcessManager \<times> Scheduler) option" where
  "bind_and_ready pm s process priority =
     (case pm_image pm process of
        Inl e \<Rightarrow> Some (Inl (BindProcess e), pm, s)
      | Inr img \<Rightarrow>
          (case create_task s priority of
             None \<Rightarrow> None
           | Some (tid, s1) \<Rightarrow>
               (case attach_execution s1 tid of
                  (Inl e, s2) \<Rightarrow>
                    (case cleanup_created_task s2 tid of
                       (Inl c, s3) \<Rightarrow> Some (Inl c, pm, s3)
                     | (Inr _, s3) \<Rightarrow> Some (Inl (BindScheduler e), pm, s3))
                | (Inr handle, s2) \<Rightarrow>
                    (case pm_attach_execution pm process tid handle (spec_id (pi_address_space img)) of
                       (Inl e, pm1) \<Rightarrow>
                         (case cleanup_created_task s2 tid of
                            (Inl c, s3) \<Rightarrow> Some (Inl c, pm1, s3)
                          | (Inr _, s3) \<Rightarrow> Some (Inl (BindProcess e), pm1, s3))
                     | (Inr _, pm1) \<Rightarrow>
                         (case make_ready s2 tid of
                            (True, s3) \<Rightarrow> Some (Inr tid, pm1, s3)
                          | (False, s3) \<Rightarrow>
                              let pm2 = snd (pm_exit pm1 process)
                              in (case cleanup_created_task s3 tid of
                                    (Inl c, s4) \<Rightarrow> Some (Inl c, pm2, s4)
                                  | (Inr _, s4) \<Rightarrow> Some (Inl CleanupFailed, pm2, s4)))))))"

end
