(* ===== verification/Process_Registry.thy ===== *)
theory Process_Registry
  imports Process_Manager
begin

text \<open>
  The invariant of the process registry, that every operation keeps it, and its identifiers
  as a second instance of \<open>generational_table\<close>.
\<close>

section \<open>Slots\<close>

lemma pm_slot_eq:
  "pm_slot pm pid =
     (if unat (process_index pid) < length (pm_slots pm)
        \<and> slot_generation (pm_slots pm ! unat (process_index pid)) = process_generation pid
        \<and> slot_state (pm_slots pm ! unat (process_index pid)) \<noteq> None
      then Inr (pm_slots pm ! unat (process_index pid)) else Inl InvalidProcess)"
  by (simp add: pm_slot_def vec_get_def)

lemma pm_slot_Inr:
  "pm_slot pm pid = Inr slot \<longleftrightarrow>
     unat (process_index pid) < length (pm_slots pm) \<and> pm_slots pm ! unat (process_index pid) = slot
     \<and> slot_generation slot = process_generation pid \<and> slot_state slot \<noteq> None"
  by (auto simp: pm_slot_eq split: if_splits)

lemma pm_slot_Inl: "pm_slot pm pid = Inl e \<Longrightarrow> e = InvalidProcess"
  by (auto simp: pm_slot_eq split: if_splits)

lemma process_id_eq:
  "process_index p = process_index q \<Longrightarrow> process_generation p = process_generation q \<Longrightarrow> p = q"
  by (rule ProcessId.expand) simp

lemma pm_slot_put:
  assumes "pm_slot pm pid = Inr slot" "slot_generation slot' = slot_generation slot"
  shows "pm_slot (pm_put pm pid slot') p =
    (if p = pid then (if slot_state slot' = None then Inl InvalidProcess else Inr slot') else pm_slot pm p)"
proof (cases "process_index p = process_index pid")
  case True
  then show ?thesis
    using assms process_id_eq [of p pid]
    by (auto simp: pm_slot_eq pm_put_def split: if_splits)
next
  case False
  then have "unat (process_index pid) \<noteq> unat (process_index p)" "p \<noteq> pid"
    by (auto simp: word_unat_eq_iff)
  then show ?thesis by (simp add: pm_slot_eq pm_put_def)
qed

lemma pm_slot_hint [simp]: "pm_slot (pm\<lparr>pm_next_hint := h\<rparr>) p = pm_slot pm p"
  by (simp add: pm_slot_def)

definition slot_wf :: "nat \<Rightarrow> Slot \<Rightarrow> bool" where
  "slot_wf i sl \<longleftrightarrow>
     (case slot_state sl of
        None \<Rightarrow> slot_image sl = None \<and> slot_binding sl = None \<and> slot_exit_code sl = None
      | Some st \<Rightarrow> slot_image sl \<noteq> None \<and> slot_generation sl \<noteq> 0 \<and> st \<noteq> Constructing
          \<and> (st = ProcessRunning \<longrightarrow> slot_binding sl \<noteq> None)
          \<and> (st = ProcessExited \<longleftrightarrow> slot_exit_code sl \<noteq> None))
     \<and> (\<forall>b. slot_binding sl = Some b \<longrightarrow>
          bind_process b = ProcessId (of_nat i) (slot_generation sl)
          \<and> handle_task_id (bind_execution b) = bind_task b
          \<and> map_option (\<lambda>img. spec_id (pi_address_space img)) (slot_image sl) = Some (bind_address_space b))"

definition pm_wf :: "ProcessManager \<Rightarrow> bool" where
  "pm_wf pm \<longleftrightarrow> length (pm_slots pm) = MAX_PROCESSES \<and> pm_next_hint pm < MAX_PROCESSES
     \<and> (\<forall>i<MAX_PROCESSES. slot_wf i (pm_slots pm ! i))"

lemma pm_wf_slot:
  assumes "pm_wf pm" "pm_slot pm pid = Inr slot"
  shows "slot_wf (unat (process_index pid)) slot" "unat (process_index pid) < MAX_PROCESSES"
  using assms by (auto simp: pm_wf_def pm_slot_Inr)

lemma pm_wf_put:
  assumes "pm_wf pm" "slot_wf (unat (process_index pid)) slot'"
  shows "pm_wf (pm_put pm pid slot')"
  using assms by (auto simp: pm_wf_def pm_put_def nth_update_if)

lemma pm_wf_hint: "pm_wf pm \<Longrightarrow> h < MAX_PROCESSES \<Longrightarrow> pm_wf (pm\<lparr>pm_next_hint := h\<rparr>)"
  by (simp add: pm_wf_def)

lemma slot_wf_cleared: "slot_wf i (Slot_EMPTY\<lparr>slot_generation := g\<rparr>)"
  by (simp add: slot_wf_def Slot_EMPTY_def)

lemma ProcessManager_new_wf: "pm_wf ProcessManager_new"
  by (simp add: pm_wf_def ProcessManager_new_def slot_wf_def Slot_EMPTY_def MAX_PROCESSES_def)

section \<open>Registration\<close>

lemma register_loop_cases:
  obtains (full) "register_loop offs pm img = (Inl Full, pm)"
      "\<And>off. off \<in> set offs \<Longrightarrow> slot_state (pm_slots pm ! ((pm_next_hint pm + off) mod MAX_PROCESSES)) \<noteq> None"
  | (exhausted) i where "register_loop offs pm img = (Inl GenerationExhausted, pm)"
      "i < MAX_PROCESSES" "slot_state (pm_slots pm ! i) = None" "slot_generation (pm_slots pm ! i) = u32_MAX"
  | (registered) i where "i < MAX_PROCESSES" "slot_state (pm_slots pm ! i) = None"
      "slot_generation (pm_slots pm ! i) \<noteq> u32_MAX"
      "register_loop offs pm img =
         (Inr (ProcessId (of_nat i) (slot_generation (pm_slots pm ! i) + 1)),
          pm\<lparr>pm_slots := (pm_slots pm)[i := \<lparr>slot_generation = slot_generation (pm_slots pm ! i) + 1,
                slot_image = Some img, slot_state = Some ProcessReady, slot_binding = None,
                slot_exit_code = None\<rparr>],
             pm_next_hint := (i + 1) mod MAX_PROCESSES\<rparr>)"
proof (induction offs arbitrary: thesis)
  case Nil
  then show ?case by simp
next
  case (Cons off offs)
  let ?i = "(pm_next_hint pm + off) mod MAX_PROCESSES"
  have i: "?i < MAX_PROCESSES" by (simp add: MAX_PROCESSES_def)
  show ?case
  proof (cases "slot_state (pm_slots pm ! ?i) = None")
    case True
    then show ?thesis
      using Cons.prems(2) [OF _ i] Cons.prems(3) [OF i True]
      by (cases "slot_generation (pm_slots pm ! ?i) = u32_MAX") (auto simp: Let_def checked_add_one_u32 checked_add_MAX_u32)
  next
    case False
    then have step: "register_loop (off # offs) pm img = register_loop offs pm img"
      by (simp add: Let_def)
    show ?thesis
      by (rule Cons.IH) (use Cons.prems False step in \<open>auto simp del: register_loop.simps\<close>)
  qed
qed

lemma offsets_cover:
  assumes "i < MAX_PROCESSES" "h < MAX_PROCESSES"
  shows "\<exists>off\<in>set [0..<MAX_PROCESSES]. (h + off) mod MAX_PROCESSES = i"
proof (rule bexI)
  show "(h + (if h \<le> i then i - h else i + MAX_PROCESSES - h)) mod MAX_PROCESSES = i"
    using assms by auto
  show "(if h \<le> i then i - h else i + MAX_PROCESSES - h) \<in> set [0..<MAX_PROCESSES]"
    using assms by auto
qed

lemma register_ready_cases:
  assumes "pm_wf pm"
  obtains (full) "register_ready pm img = (Inl Full, pm)"
      "\<And>i. i < MAX_PROCESSES \<Longrightarrow> slot_state (pm_slots pm ! i) \<noteq> None"
  | (exhausted) i where "register_ready pm img = (Inl GenerationExhausted, pm)"
      "i < MAX_PROCESSES" "slot_state (pm_slots pm ! i) = None" "slot_generation (pm_slots pm ! i) = u32_MAX"
  | (registered) i where "i < MAX_PROCESSES" "slot_state (pm_slots pm ! i) = None"
      "slot_generation (pm_slots pm ! i) \<noteq> u32_MAX"
      "register_ready pm img =
         (Inr (ProcessId (of_nat i) (slot_generation (pm_slots pm ! i) + 1)),
          pm\<lparr>pm_slots := (pm_slots pm)[i := \<lparr>slot_generation = slot_generation (pm_slots pm ! i) + 1,
                slot_image = Some img, slot_state = Some ProcessReady, slot_binding = None,
                slot_exit_code = None\<rparr>],
             pm_next_hint := (i + 1) mod MAX_PROCESSES\<rparr>)"
proof (cases rule: register_loop_cases [of "[0..<MAX_PROCESSES]" pm img])
  case full
  have "slot_state (pm_slots pm ! i) \<noteq> None" if "i < MAX_PROCESSES" for i
    using offsets_cover [OF that, of "pm_next_hint pm"] assms full(2) by (auto simp: pm_wf_def)
  then show ?thesis using that(1) full by (simp add: register_ready_def)
next
  case (exhausted i)
  then show ?thesis using that(2) [of i] by (simp add: register_ready_def)
next
  case (registered i)
  then show ?thesis using that(3) [of i] by (simp add: register_ready_def)
qed

lemma register_ready_slot:
  assumes wf: "pm_wf pm" and r: "register_ready pm img = (Inr pid, pm')"
  shows "pm_slot pm pid = Inl InvalidProcess"
    and "pm_slot pm' p = (if p = pid
      then Inr \<lparr>slot_generation = process_generation pid, slot_image = Some img,
             slot_state = Some ProcessReady, slot_binding = None, slot_exit_code = None\<rparr>
      else pm_slot pm p)"
    and "pm_wf pm'"
    and "process_generation pid = slot_generation (pm_slots pm ! unat (process_index pid)) + 1"
    and "slot_generation (pm_slots pm ! unat (process_index pid)) \<noteq> u32_MAX"
proof -
  obtain i where i: "i < MAX_PROCESSES" "slot_state (pm_slots pm ! i) = None"
      "slot_generation (pm_slots pm ! i) \<noteq> u32_MAX"
      "pid = ProcessId (of_nat i) (slot_generation (pm_slots pm ! i) + 1)"
      "pm' = pm\<lparr>pm_slots := (pm_slots pm)[i := \<lparr>slot_generation = process_generation pid,
                slot_image = Some img, slot_state = Some ProcessReady, slot_binding = None,
                slot_exit_code = None\<rparr>],
             pm_next_hint := (i + 1) mod MAX_PROCESSES\<rparr>"
    by (rule register_ready_cases [OF wf, of img]) (use r in auto)
  have ix: "unat (process_index pid) = i"
    using i(1,4) by (simp add: MAX_PROCESSES_def unat_of_nat)
  have len: "length (pm_slots pm) = MAX_PROCESSES" using wf by (simp add: pm_wf_def)
  show old: "pm_slot pm pid = Inl InvalidProcess" using i(2) ix by (simp add: pm_slot_eq)
  show "process_generation pid = slot_generation (pm_slots pm ! unat (process_index pid)) + 1"
    and "slot_generation (pm_slots pm ! unat (process_index pid)) \<noteq> u32_MAX"
    using i ix by simp_all
  show "pm_slot pm' p = (if p = pid
      then Inr \<lparr>slot_generation = process_generation pid, slot_image = Some img,
             slot_state = Some ProcessReady, slot_binding = None, slot_exit_code = None\<rparr>
      else pm_slot pm p)"
  proof (cases "unat (process_index p) = i")
    case True
    then have "p = pid \<longleftrightarrow> process_generation p = process_generation pid"
      using ix process_id_eq [of p pid] by (auto simp: word_unat_eq_iff)
    then show ?thesis using i ix len True by (auto simp: pm_slot_eq)
  next
    case False
    then show ?thesis using i ix len by (auto simp: pm_slot_eq)
  qed
  have "slot_generation (pm_slots pm ! i) + 1 \<noteq> 0" using i(3) by (simp add: add_eq_0_iff2)
  then have "slot_wf i \<lparr>slot_generation = process_generation pid, slot_image = Some img,
      slot_state = Some ProcessReady, slot_binding = None, slot_exit_code = None\<rparr>"
    using i(4) by (simp add: slot_wf_def)
  then show "pm_wf pm'"
    using wf i(1,5) by (auto simp: pm_wf_def nth_update_if MAX_PROCESSES_def)
qed

section \<open>Operations\<close>

text \<open>
  Every other operation either fails and leaves the registry, or rewrites live slots and
  keeps their generation.
\<close>

lemma attach_cases:
  obtains (error) e where "pm_attach_execution pm pid tid handle space = (Inl e, pm)"
  | (bound) slot img where "pm_slot pm pid = Inr slot" "slot_binding slot = None" "slot_image slot = Some img"
      "spec_id (pi_address_space img) = space" "handle_task_id handle = tid"
      "pm_attach_execution pm pid tid handle space =
         (Inr \<lparr>bind_process = pid, bind_task = tid, bind_execution = handle, bind_address_space = space\<rparr>,
          pm_put pm pid (slot\<lparr>slot_binding := Some \<lparr>bind_process = pid, bind_task = tid,
             bind_execution = handle, bind_address_space = space\<rparr>\<rparr>))"
proof (cases "pm_slot pm pid")
  case (Inr slot)
  have "ProcessExecutionBinding_new pid tid handle space = (if handle_task_id handle = tid
      then Some \<lparr>bind_process = pid, bind_task = tid, bind_execution = handle, bind_address_space = space\<rparr>
      else None)"
    by (cases "handle_task_id handle"; cases tid) (simp add: ProcessExecutionBinding_new_def)
  then show ?thesis
    using Inr error bound [OF Inr]
    by (cases "slot_binding slot"; cases "slot_image slot"; cases "handle_task_id handle = tid";
        cases "spec_id (pi_address_space (the (slot_image slot))) = space")
      (simp_all add: pm_attach_execution_def)
qed (use error in \<open>simp add: pm_attach_execution_def\<close>)

lemma start_cases:
  obtains (error) e where "pm_start pm pid = (Inl e, pm)"
  | (started) slot where "pm_slot pm pid = Inr slot" "slot_state slot = Some ProcessReady"
      "slot_binding slot \<noteq> None"
      "pm_start pm pid = (Inr (), pm_put pm pid (slot\<lparr>slot_state := Some ProcessRunning\<rparr>))"
proof (cases "pm_slot pm pid")
  case (Inr slot)
  then show ?thesis
    using error started [OF Inr]
    by (cases "slot_state slot = Some ProcessReady"; cases "slot_binding slot") (simp_all add: pm_start_def)
qed (use error in \<open>simp add: pm_start_def\<close>)

lemma request_exit_cases:
  obtains (error) e where "request_exit pm pid code = (Inl e, pm)"
  | (exited) slot where "pm_slot pm pid = Inr slot"
      "slot_state slot \<in> {Some ProcessReady, Some ProcessRunning}"
      "request_exit pm pid code = (Inr (), pm_put pm pid
         (slot\<lparr>slot_state := Some ProcessExited, slot_exit_code := Some code\<rparr>))"
proof (cases "pm_slot pm pid")
  case (Inr slot)
  then show ?thesis
    using error exited [OF Inr]
    by (cases "slot_state slot \<in> {Some ProcessReady, Some ProcessRunning}") (simp_all add: request_exit_def)
qed (use error in \<open>simp add: request_exit_def\<close>)

lemma remove_cases:
  obtains (error) e where "remove_registered pm pid = (Inl e, pm)"
  | (removed) slot where "pm_slot pm pid = Inr slot"
      "remove_registered pm pid = (Inr (), pm_put pm pid (Slot_EMPTY\<lparr>slot_generation := slot_generation slot\<rparr>))"
  by (cases "pm_slot pm pid") (auto simp: remove_registered_def)

lemma reap_cases:
  obtains (error) e where "reap pm pid = (Inl e, pm)"
  | (reaped) slot img code where "pm_slot pm pid = Inr slot" "slot_state slot = Some ProcessExited"
      "slot_image slot = Some img" "slot_exit_code slot = Some code"
      "reap pm pid = (Inr \<lparr>reaped_id = pid, reaped_image = img, reaped_binding = slot_binding slot,
                            reaped_exit_code = code\<rparr>,
         (pm_put pm pid (Slot_EMPTY\<lparr>slot_generation := slot_generation slot\<rparr>))
           \<lparr>pm_next_hint := unat (process_index pid)\<rparr>)"
proof (cases "pm_slot pm pid")
  case (Inr slot)
  then show ?thesis
    using error reaped [OF Inr]
    by (cases "slot_state slot = Some ProcessExited"; cases "slot_image slot"; cases "slot_exit_code slot")
      (simp_all add: reap_def)
qed (use error in \<open>simp add: reap_def\<close>)

lemma abort_cases:
  obtains (error) e where "abort_ready pm pid = (Inl e, pm)"
  | (removed) "abort_ready pm pid = remove_registered pm pid"
  by (cases "pm_slot pm pid"; cases "slot_state (projr (pm_slot pm pid)) = Some ProcessReady")
    (simp_all add: abort_ready_def)

lemma yield_to_yielded:
  assumes cs: "pm_slot pm cur = Inr c" "slot_state c = Some ProcessRunning" "slot_binding c \<noteq> None"
    "pm_slot pm successor = Inr s" "slot_state s = Some ProcessReady" "slot_binding s \<noteq> None"
  shows "cur \<noteq> successor" "process_index cur \<noteq> process_index successor"
    "pm_yield_to pm cur successor = (Inr (), pm_put (pm_put pm cur (c\<lparr>slot_state := Some ProcessReady\<rparr>)) successor
       (s\<lparr>slot_state := Some ProcessRunning\<rparr>))"
proof -
  show ne: "cur \<noteq> successor" using cs by auto
  then show ix: "process_index cur \<noteq> process_index successor"
    using cs process_id_eq [of cur successor] by (auto simp: pm_slot_Inr)
  then have "unat (process_index cur) \<noteq> unat (process_index successor)" by (simp add: word_unat_eq_iff)
  moreover have "pm_slots pm ! unat (process_index cur) = c" "pm_slots pm ! unat (process_index successor) = s"
    using cs by (simp_all add: pm_slot_Inr)
  ultimately show "pm_yield_to pm cur successor = (Inr (),
      pm_put (pm_put pm cur (c\<lparr>slot_state := Some ProcessReady\<rparr>)) successor (s\<lparr>slot_state := Some ProcessRunning\<rparr>))"
    using ne cs by (auto simp: pm_yield_to_def pm_state_def pm_binding_def set_process_state_def pm_put_def Let_def)
qed

lemma yield_to_cases:
  obtains (error) e where "pm_yield_to pm cur successor = (Inl e, pm)"
  | (yielded) c s where "cur \<noteq> successor" "process_index cur \<noteq> process_index successor"
      "pm_slot pm cur = Inr c" "slot_state c = Some ProcessRunning" "slot_binding c \<noteq> None"
      "pm_slot pm successor = Inr s" "slot_state s = Some ProcessReady" "slot_binding s \<noteq> None"
      "pm_yield_to pm cur successor = (Inr (),
         pm_put (pm_put pm cur (c\<lparr>slot_state := Some ProcessReady\<rparr>)) successor
           (s\<lparr>slot_state := Some ProcessRunning\<rparr>))"
proof (cases "cur = successor \<or> pm_slot pm cur = Inl InvalidProcess \<or> pm_slot pm successor = Inl InvalidProcess")
  case True
  then have "\<exists>e. pm_yield_to pm cur successor = (Inl e, pm)"
    by (auto simp: pm_yield_to_def pm_state_def Let_def split: sum.split)
  then show ?thesis using error by blast
next
  case False
  then obtain c s where cs: "pm_slot pm cur = Inr c" "pm_slot pm successor = Inr s"
    by (cases "pm_slot pm cur"; cases "pm_slot pm successor") (auto dest: pm_slot_Inl)
  obtain sc ss where st: "slot_state c = Some sc" "slot_state s = Some ss"
    using cs by (auto simp: pm_slot_Inr)
  show ?thesis
  proof (cases "sc = ProcessRunning \<and> ss = ProcessReady \<and> slot_binding c \<noteq> None \<and> slot_binding s \<noteq> None")
    case True
    then show ?thesis
      using yielded [OF yield_to_yielded(1,2) cs(1) _ _ cs(2)] yield_to_yielded [OF cs(1) _ _ cs(2)] cs st by simp
  next
    case False
    then have "\<exists>e. pm_yield_to pm cur successor = (Inl e, pm)"
      using cs st by (auto simp: pm_yield_to_def pm_state_def pm_binding_def Let_def split: option.split)
    then show ?thesis using error by blast
  qed
qed

section \<open>The invariant in every reachable state\<close>

text \<open>
  One step is one call of an operation that changes the registry. \<open>spawn_ready\<close> is a sequence
  of such calls, so the private \<open>remove_registered\<close> is a step as well.
\<close>

inductive pm_step :: "ProcessManager \<Rightarrow> ProcessManager \<Rightarrow> bool" where
  step_register: "pm_step pm (snd (register_ready pm img))"
| step_bind: "pm_step pm (snd (pm_attach_execution pm pid tid handle space))"
| step_start: "pm_step pm (snd (pm_start pm pid))"
| step_yield_to: "pm_step pm (snd (pm_yield_to pm cur successor))"
| step_request_exit: "pm_step pm (snd (request_exit pm pid code))"
| step_reap: "pm_step pm (snd (reap pm pid))"
| step_abort: "pm_step pm (snd (abort_ready pm pid))"
| step_remove: "pm_step pm (snd (remove_registered pm pid))"

definition pm_reachable :: "ProcessManager \<Rightarrow> bool" where
  "pm_reachable pm \<longleftrightarrow> pm_step\<^sup>*\<^sup>* ProcessManager_new pm"

lemma spawn_ready_steps: "pm_step\<^sup>*\<^sup>* pm (snd (spawn_ready pm img tid handle space))"
proof -
  obtain r pm1 where r: "register_ready pm img = (r, pm1)" by fastforce
  obtain b pm2 where b: "pm_attach_execution pm1 (projr r) tid handle space = (b, pm2)" by fastforce
  have s1: "pm_step\<^sup>*\<^sup>* pm pm1" using step_register [of pm img] r by auto
  have s2: "pm_step\<^sup>*\<^sup>* pm pm2"
    using rtranclp.rtrancl_into_rtrancl [OF s1 step_bind [of pm1 "projr r" tid handle space]] b by simp
  have "pm_step\<^sup>*\<^sup>* pm (snd (remove_registered pm2 (projr r)))"
    using rtranclp.rtrancl_into_rtrancl [OF s2 step_remove] .
  then show ?thesis using r b s1 s2 by (cases r; cases b) (simp_all add: spawn_ready_def)
qed

lemma remove_wf: "pm_wf pm \<Longrightarrow> pm_wf (snd (remove_registered pm pid))"
  by (rule remove_cases [of pm pid]) (simp_all add: pm_wf_put slot_wf_cleared)

lemma register_wf:
  assumes "pm_wf pm" shows "pm_wf (snd (register_ready pm img))"
  using register_ready_slot(3) [OF assms, of img] assms
  by (rule_tac register_ready_cases [OF assms, of img]) auto

lemma attach_wf:
  assumes wf: "pm_wf pm" shows "pm_wf (snd (pm_attach_execution pm pid tid handle space))"
proof (cases rule: attach_cases [of pm pid tid handle space])
  case (bound slot img)
  then have "process_generation pid = slot_generation slot" by (simp add: pm_slot_Inr)
  then have "pid = ProcessId (of_nat (unat (process_index pid))) (slot_generation slot)"
    by (simp add: ProcessId.expand)
  then show ?thesis
    using bound pm_wf_slot [OF wf bound(1)] by (auto intro!: pm_wf_put [OF wf] simp: slot_wf_def split: option.splits)
qed (use wf in simp)

lemma start_wf:
  assumes wf: "pm_wf pm" shows "pm_wf (snd (pm_start pm pid))"
proof (cases rule: start_cases [of pm pid])
  case (started slot)
  then show ?thesis
    using pm_wf_slot [OF wf started(1)] by (auto intro!: pm_wf_put [OF wf] simp: slot_wf_def)
qed (use wf in simp)

lemma request_exit_wf:
  assumes wf: "pm_wf pm" shows "pm_wf (snd (request_exit pm pid code))"
proof (cases rule: request_exit_cases [of pm pid code])
  case (exited slot)
  then show ?thesis
    using pm_wf_slot [OF wf exited(1)] by (auto intro!: pm_wf_put [OF wf] simp: slot_wf_def)
qed (use wf in simp)

lemma yield_to_wf:
  assumes wf: "pm_wf pm" shows "pm_wf (snd (pm_yield_to pm cur successor))"
proof (cases rule: yield_to_cases [of pm cur successor])
  case (yielded c s)
  then show ?thesis
    using pm_wf_slot [OF wf yielded(3)] pm_wf_slot [OF wf yielded(6)]
    by (auto intro!: pm_wf_put wf simp: slot_wf_def)
qed (use wf in simp)

lemma reap_wf:
  assumes wf: "pm_wf pm" shows "pm_wf (snd (reap pm pid))"
proof (cases rule: reap_cases [of pm pid])
  case (reaped slot img code)
  then show ?thesis
    using pm_wf_slot [OF wf reaped(1)] by (simp add: pm_wf_hint pm_wf_put wf slot_wf_cleared)
qed (use wf in simp)

lemma abort_wf: "pm_wf pm \<Longrightarrow> pm_wf (snd (abort_ready pm pid))"
  by (rule abort_cases [of pm pid]) (simp_all add: remove_wf)

lemmas pm_op_wf = register_wf attach_wf start_wf yield_to_wf request_exit_wf reap_wf abort_wf remove_wf

lemma pm_step_wf: "pm_step pm pm' \<Longrightarrow> pm_wf pm \<Longrightarrow> pm_wf pm'"
  by (induction rule: pm_step.induct) (blast intro: pm_op_wf)+

lemma pm_reachable_wf: "pm_reachable pm \<Longrightarrow> pm_wf pm"
proof -
  have "pm_step\<^sup>*\<^sup>* pm0 pm \<Longrightarrow> pm_wf pm0 \<Longrightarrow> pm_wf pm" for pm0
    by (induction rule: rtranclp_induct) (auto intro: pm_step_wf)
  then show "pm_reachable pm \<Longrightarrow> pm_wf pm"
    by (simp add: pm_reachable_def ProcessManager_new_wf)
qed

section \<open>Identifiers\<close>

definition process_counter :: "ProcessManager \<Rightarrow> ProcessId \<Rightarrow> nat" where
  "process_counter pm pid =
     (case vec_get (pm_slots pm) (unat (process_index pid)) of
        None \<Rightarrow> 0 | Some slot \<Rightarrow> unat (slot_generation slot))"

definition no_new_process :: "ProcessManager \<Rightarrow> ProcessManager \<Rightarrow> bool" where
  "no_new_process pm pm' \<longleftrightarrow> process_counter pm' = process_counter pm
     \<and> (\<forall>p. pm_contains pm' p \<longrightarrow> pm_contains pm p)"

lemma no_new_refl [simp]: "no_new_process pm pm"
  by (simp add: no_new_process_def)

lemma no_new_trans: "no_new_process pm pm' \<Longrightarrow> no_new_process pm' pm'' \<Longrightarrow> no_new_process pm pm''"
  by (simp add: no_new_process_def)

lemma no_new_hint [simp]: "no_new_process pm (pm'\<lparr>pm_next_hint := h\<rparr>) = no_new_process pm pm'"
  by (simp add: no_new_process_def process_counter_def pm_contains_def fun_eq_iff)

lemma no_new_put:
  assumes "pm_slot pm pid = Inr slot" "slot_generation slot' = slot_generation slot"
  shows "no_new_process pm (pm_put pm pid slot')"
proof -
  have "process_counter (pm_put pm pid slot') = process_counter pm"
    using assms
    by (auto simp: fun_eq_iff process_counter_def pm_put_def vec_get_def nth_update_if pm_slot_Inr)
  moreover have "pm_contains (pm_put pm pid slot') p \<Longrightarrow> pm_contains pm p" for p
    using assms by (simp add: pm_contains_def pm_slot_put split: if_splits)
  ultimately show ?thesis by (simp add: no_new_process_def)
qed

lemma no_new_remove: "no_new_process pm (snd (remove_registered pm pid))"
  by (rule remove_cases [of pm pid]) (simp_all add: no_new_put)

lemma no_new_yield_to: "no_new_process pm (snd (pm_yield_to pm cur successor))"
proof (cases rule: yield_to_cases [of pm cur successor])
  case (yielded c s)
  let ?pm1 = "pm_put pm cur (c\<lparr>slot_state := Some ProcessReady\<rparr>)"
  have "pm_slot ?pm1 successor = Inr s" using yielded by (simp add: pm_slot_put)
  then show ?thesis
    using no_new_trans [OF no_new_put [OF yielded(3)] no_new_put, of _ successor s] yielded(9) by simp
qed simp

lemma no_new_attach: "no_new_process pm (snd (pm_attach_execution pm pid tid handle space))"
  by (rule attach_cases [of pm pid tid handle space]) (simp_all add: no_new_put)

lemma no_new_start: "no_new_process pm (snd (pm_start pm pid))"
  by (rule start_cases [of pm pid]) (simp_all add: no_new_put)

lemma no_new_request_exit: "no_new_process pm (snd (request_exit pm pid code))"
  by (rule request_exit_cases [of pm pid code]) (simp_all add: no_new_put)

lemma no_new_reap: "no_new_process pm (snd (reap pm pid))"
  by (rule reap_cases [of pm pid]) (simp_all add: no_new_put)

lemma no_new_abort: "no_new_process pm (snd (abort_ready pm pid))"
  by (rule abort_cases [of pm pid]) (simp_all add: no_new_remove)

lemmas no_new_ops = no_new_attach no_new_start no_new_request_exit no_new_reap no_new_abort no_new_remove
  no_new_yield_to

lemma register_counter:
  assumes "pm_wf pm" "register_ready pm img = (Inr pid, pm')"
  shows "process_counter pm p \<le> process_counter pm' p"
    and "process_index p = process_index pid \<Longrightarrow> process_counter pm p < process_counter pm' p"
proof -
  note r = register_ready_slot [OF assms]
  let ?g = "slot_generation (pm_slots pm ! unat (process_index pid))"
  have succ: "unat (process_generation pid) = unat ?g + 1"
    using checked_add_one_u32 [OF r(5)] r(4) by (simp add: checked_add_eq_Some)
  have "pm_slot pm' pid \<noteq> Inl InvalidProcess" by (simp add: r(2))
  then have new: "slot_generation (pm_slots pm' ! unat (process_index pid)) = process_generation pid"
    "unat (process_index pid) < length (pm_slots pm')"
    by (auto simp: pm_slot_eq split: if_splits)
  have len: "length (pm_slots pm') = length (pm_slots pm)" using r(3) assms(1) by (simp add: pm_wf_def)
  have same: "pm_slots pm' ! i = pm_slots pm ! i" if "i \<noteq> unat (process_index pid)" for i
    using assms(2) that
    by (rule_tac register_ready_cases [OF assms(1), of img]) (auto simp: unat_of_nat MAX_PROCESSES_def)
  show "process_counter pm p \<le> process_counter pm' p"
    using succ new len same [of "unat (process_index p)"]
    by (cases "process_index p = process_index pid")
      (auto simp: process_counter_def vec_get_def word_unat_eq_iff)
  show "process_index p = process_index pid \<Longrightarrow> process_counter pm p < process_counter pm' p"
    using succ new len by (simp add: process_counter_def vec_get_def)
qed

lemma register_born:
  assumes "pm_wf pm"
  shows "process_counter pm p \<le> process_counter (snd (register_ready pm img)) p"
    and "\<not> pm_contains pm p \<Longrightarrow> pm_contains (snd (register_ready pm img)) p \<Longrightarrow>
      process_counter pm p < process_counter (snd (register_ready pm img)) p"
proof -
  obtain r pm' where r: "register_ready pm img = (r, pm')" by fastforce
  have err: "pm' = pm" if "r = Inl e" for e
    using r that by (rule_tac register_ready_cases [OF assms, of img]) auto
  show "process_counter pm p \<le> process_counter (snd (register_ready pm img)) p"
    using r err register_counter(1) [OF assms, of img] by (cases r) auto
  show "process_counter pm p < process_counter (snd (register_ready pm img)) p"
    if "\<not> pm_contains pm p" "pm_contains (snd (register_ready pm img)) p"
  proof (cases r)
    case (Inr pid)
    then have "p = pid"
      using that r register_ready_slot(2) [OF assms, of img pid pm'] by (auto simp: pm_contains_def split: if_splits)
    then show ?thesis using r Inr register_counter(2) [OF assms, of img pid pm'] by simp
  qed (use r err that in auto)
qed

interpretation process_ids: generational_table pm_wf pm_step pm_contains "\<lambda>p. unat (process_generation p)" process_counter
proof
  fix pm pm' p
  assume wf: "pm_wf pm"
  show "pm_contains pm p \<Longrightarrow> process_counter pm p = unat (process_generation p)"
    by (auto simp: pm_contains_def process_counter_def vec_get_def pm_slot_eq split: if_splits)
  assume st: "pm_step pm pm'"
  then show "pm_wf pm'" using wf pm_step_wf by blast
  have "no_new_process pm pm' \<or> (\<exists>img. pm' = snd (register_ready pm img))"
    using st by (cases rule: pm_step.cases) (auto simp: no_new_ops)
  then show "process_counter pm p \<le> process_counter pm' p"
    and "\<not> pm_contains pm p \<Longrightarrow> pm_contains pm' p \<Longrightarrow> process_counter pm p < process_counter pm' p"
    using register_born [OF wf] by (auto simp: no_new_process_def)
qed

end
