(* ===== verification/Process_Properties.thy ===== *)
theory Process_Properties
  imports Process_Registry Process_Image_Properties
begin

text \<open>
  The properties of the process registry: its invariant, stale process identifiers, atomic
  failures, the life of an exit code, generation exhaustion, and the binding of a process to
  a scheduler task.
\<close>

section \<open>Exit codes\<close>

text \<open>\<open>exited_with pm pid img code\<close>: the terminal record of \<open>pid\<close> as \<open>reap\<close> will find it.\<close>

definition exited_with :: "ProcessManager \<Rightarrow> ProcessId \<Rightarrow> u64 \<Rightarrow> bool" where
  "exited_with pm pid code \<longleftrightarrow> (\<exists>slot. pm_slot pm pid = Inr slot \<and> slot_state slot = Some ProcessExited
     \<and> slot_exit_code slot = Some code)"

text \<open>The record is kept until the identifier goes stale.\<close>

definition exit_kept :: "ProcessId \<Rightarrow> u64 \<Rightarrow> ProcessManager \<Rightarrow> bool" where
  "exit_kept pid code pm \<longleftrightarrow> exited_with pm pid code \<or> \<not> pm_contains pm pid"

lemma exit_keptI [simp]: "exited_with pm pid code \<Longrightarrow> exit_kept pid code pm"
  by (simp add: exit_kept_def)

lemma exited_with_put:
  assumes "exited_with pm pid code" "pm_slot pm p = Inr slot" "slot_generation slot' = slot_generation slot"
    and "p = pid \<Longrightarrow> slot_state slot = Some ProcessExited \<Longrightarrow> slot_state slot' = None \<or>
      slot_state slot' = Some ProcessExited \<and> slot_exit_code slot' = slot_exit_code slot"
  shows "exit_kept pid code (pm_put pm p slot')"
  using assms by (auto simp: exit_kept_def exited_with_def pm_contains_def pm_slot_put)

lemma exited_with_hint [simp]:
  "exited_with (pm\<lparr>pm_next_hint := h\<rparr>) pid code = exited_with pm pid code"
  "exit_kept pid code (pm\<lparr>pm_next_hint := h\<rparr>) = exit_kept pid code pm"
  by (simp_all add: exit_kept_def exited_with_def pm_contains_def)

lemma exited_with_remove:
  "exited_with pm pid code \<Longrightarrow> exit_kept pid code (snd (remove_registered pm p))"
  by (rule remove_cases [of pm p]) (auto intro!: exited_with_put simp: Slot_EMPTY_def)

lemma exited_with_yield_to:
  assumes e: "exited_with pm pid code"
  shows "exited_with (snd (pm_yield_to pm cur successor)) pid code"
proof (cases rule: yield_to_cases [of pm cur successor])
  case (yielded c s)
  then have "pid \<noteq> cur" "pid \<noteq> successor" using e by (auto simp: exited_with_def)
  moreover have "pm_slot (pm_put pm cur (c\<lparr>slot_state := Some ProcessReady\<rparr>)) successor = Inr s"
    using yielded by (simp add: pm_slot_put)
  ultimately show ?thesis using e yielded by (auto simp: exited_with_def pm_slot_put)
qed (use e in simp)

lemma exited_with_step:
  assumes "pm_step pm pm'" "pm_wf pm" "exited_with pm pid code"
  shows "exit_kept pid code pm'"
  using assms(1)
proof (cases rule: pm_step.cases)
  case (step_register img)
  obtain r pm1 where r: "register_ready pm img = (r, pm1)" by fastforce
  show ?thesis
  proof (cases r)
    case (Inl e)
    then have "pm1 = pm" using r by (rule_tac register_ready_cases [OF assms(2), of img]) auto
    then show ?thesis using step_register r assms(3) by simp
  next
    case (Inr p)
    then show ?thesis
      using step_register r assms(3) register_ready_slot [OF assms(2), of img p pm1]
      by (auto simp: exit_kept_def exited_with_def)
  qed
next
  case (step_bind p tid handle space)
  then show ?thesis
    by (rule_tac attach_cases [of pm p tid handle space])
      (use assms(3) in \<open>auto intro!: exited_with_put\<close>)
next
  case (step_start p)
  then show ?thesis
    by (rule_tac start_cases [of pm p]) (use assms(3) in \<open>auto intro!: exited_with_put\<close>)
next
  case (step_yield_to cur successor)
  then show ?thesis using exited_with_yield_to [OF assms(3)] by simp
next
  case (step_request_exit p c)
  then show ?thesis
    by (rule_tac request_exit_cases [of pm p c]) (use assms(3) in \<open>auto intro!: exited_with_put\<close>)
next
  case (step_reap p)
  then show ?thesis
    by (rule_tac reap_cases [of pm p])
      (use assms(3) in \<open>auto intro!: exited_with_put simp: Slot_EMPTY_def\<close>)
next
  case (step_abort p)
  then show ?thesis
    by (rule_tac abort_cases [of pm p]) (use assms(3) exited_with_remove [OF assms(3), of p] in auto)
next
  case (step_remove p)
  then show ?thesis using exited_with_remove [OF assms(3)] by blast
qed

lemma pm_wf_steps: "pm_step\<^sup>*\<^sup>* pm pm' \<Longrightarrow> pm_wf pm \<Longrightarrow> pm_wf pm'"
  by (induction rule: rtranclp_induct) (auto intro: pm_step_wf)

lemma exited_with_steps:
  assumes "pm_step\<^sup>*\<^sup>* pm pm'" "pm_wf pm" "exited_with pm pid code"
  shows "exit_kept pid code pm'"
  using assms(1)
proof (induction rule: rtranclp_induct)
  case (step pm1 pm2)
  have wf: "pm_wf pm1" using pm_wf_steps [OF step(1) assms(2)] .
  have live: "pm_contains pm pid" using assms(3) by (auto simp: exited_with_def pm_contains_def)
  show ?case
  proof (cases "pm_contains pm1 pid")
    case True
    then show ?thesis using step exited_with_step [OF step(2) wf] by (auto simp: exit_kept_def)
  next
    case False
    then show ?thesis
      using process_ids.stale_forever [OF assms(2) live step(1) False r_into_rtranclp [of pm_step, OF step(2)]]
      by (simp add: exit_kept_def)
  qed
qed (use assms in simp)

section \<open>Generation exhaustion\<close>

text \<open>The empty registry after slot 0 has been used \<open>g\<close> times.\<close>

definition used_registry :: "u32 \<Rightarrow> ProcessManager" where
  "used_registry g = \<lparr>pm_slots = Slot_EMPTY\<lparr>slot_generation := g\<rparr> # replicate 255 Slot_EMPTY, pm_next_hint = 0\<rparr>"

lemma register_loop_first: "register_ready pm img = register_loop (0 # [1..<MAX_PROCESSES]) pm img"
  by (simp add: register_ready_def upt_rec [of 0] MAX_PROCESSES_def)

lemma used_registry_register:
  "register_ready (used_registry g) img =
     (if g = u32_MAX then (Inl GenerationExhausted, used_registry g)
      else (Inr (ProcessId 0 (g + 1)),
            \<lparr>pm_slots = \<lparr>slot_generation = g + 1, slot_image = Some img, slot_state = Some ProcessReady,
                slot_binding = None, slot_exit_code = None\<rparr> # replicate 255 Slot_EMPTY, pm_next_hint = 1\<rparr>))"
  by (simp add: register_loop_first used_registry_def Slot_EMPTY_def checked_add_one_u32 checked_add_MAX_u32
      MAX_PROCESSES_def)

lemma used_registry_cycle:
  assumes "g \<noteq> u32_MAX" shows "pm_step\<^sup>*\<^sup>* (used_registry g) (used_registry (g + 1))"
proof -
  let ?pid = "ProcessId 0 (g + 1)"
  let ?live = "\<lambda>st code. \<lparr>pm_slots = \<lparr>slot_generation = g + 1, slot_image = Some demo_process_image,
     slot_state = Some st, slot_binding = None, slot_exit_code = code\<rparr> # replicate 255 Slot_EMPTY, pm_next_hint = 1\<rparr>"
  have "snd (register_ready (used_registry g) demo_process_image) = ?live ProcessReady None"
    using assms by (simp add: used_registry_register)
  moreover have "snd (request_exit (?live ProcessReady None) ?pid 0) = ?live ProcessExited (Some 0)"
    by (simp add: request_exit_def pm_slot_eq pm_put_def)
  moreover have "snd (reap (?live ProcessExited (Some 0)) ?pid) = used_registry (g + 1)"
    by (simp add: reap_def pm_slot_eq pm_put_def used_registry_def Slot_EMPTY_def)
  ultimately have "pm_step (used_registry g) (?live ProcessReady None)"
    "pm_step (?live ProcessReady None) (?live ProcessExited (Some 0))"
    "pm_step (?live ProcessExited (Some 0)) (used_registry (g + 1))"
    using step_register [of "used_registry g" demo_process_image] step_request_exit [of "?live ProcessReady None" ?pid 0]
      step_reap [of "?live ProcessExited (Some 0)" ?pid] by simp_all
  then show ?thesis by (meson rtranclp.rtrancl_refl rtranclp.rtrancl_into_rtrancl)
qed

lemma new_used_registry: "ProcessManager_new = used_registry 0"
proof -
  have m: "MAX_PROCESSES = Suc 255" by (simp add: MAX_PROCESSES_def)
  show ?thesis
    unfolding ProcessManager_new_def m replicate_Suc used_registry_def by (simp add: Slot_EMPTY_def)
qed

lemma used_registry_reachable: "n < 2 ^ 32 \<Longrightarrow> pm_reachable (used_registry (of_nat n))"
proof (induction n)
  case 0
  then show ?case by (simp add: pm_reachable_def new_used_registry)
next
  case (Suc n)
  have "of_nat n \<noteq> u32_MAX"
    using Suc.prems by (simp add: word_unat_eq_iff unat_of_nat)
  then show ?case
    using Suc used_registry_cycle [of "of_nat n"] by (simp add: pm_reachable_def add.commute)
qed

lemma used_registry_empty: "pm_slot (used_registry g) pid = Inl InvalidProcess"
proof -
  have "slot_state (pm_slots (used_registry g) ! i) = None" if "i < 256" for i
    using that by (cases i) (simp_all add: used_registry_def Slot_EMPTY_def)
  then show ?thesis by (simp add: pm_slot_eq used_registry_def)
qed

lemma used_registry_stuck: "pm_step (used_registry u32_MAX) pm' \<Longrightarrow> pm' = used_registry u32_MAX"
  by (cases rule: pm_step.cases)
    (auto simp: used_registry_register used_registry_empty pm_attach_execution_def pm_start_def pm_yield_to_def
      pm_state_def request_exit_def reap_def abort_ready_def remove_registered_def Let_def)

lemma used_registry_stuck_steps:
  "pm_step\<^sup>*\<^sup>* (used_registry u32_MAX) pm' \<Longrightarrow> pm' = used_registry u32_MAX"
  by (induction rule: rtranclp_induct) (auto dest: used_registry_stuck)

section \<open>Binding\<close>

text \<open>The control block of a process task that \<open>bind_and_ready\<close> has created, in state \<open>st\<close>.\<close>

definition bound_tcb :: "TaskId \<Rightarrow> Priority \<Rightarrow> TaskState \<Rightarrow> TaskControlBlock" where
  "bound_tcb tid priority st = \<lparr>tcb_id = tid, tcb_kind = KernelTask, tcb_state = st,
     tcb_priority = priority, tcb_execution = Some (for_task tid)\<rparr>"

lemma create_attached:
  assumes wf: "sched_wf s" "length (sch_tasks s) < 2 ^ 32"
  obtains tid s1 s2 where "create_task s priority = Some (tid, s1)" "task s tid = None"
    "attach_execution s1 tid = (Inr (for_task tid), s2)" "sched_wf s2"
    "task s2 = (task s)(tid \<mapsto> bound_tcb tid priority Created)"
    "sch_ready s2 = sch_ready s" "sch_current s2 = sch_current s"
proof -
  obtain tid s1 where c: "create_task_with_kind s priority KernelTask = Some (tid, s1)"
    using create_total [OF sched_wf_table [OF wf(1)], of priority KernelTask] by auto
  note n = create_table [OF sched_wf_table [OF wf(1)] wf(2) c]
  let ?s2 = "put_task s1 tid (bound_tcb tid priority Created)"
  have t1: "task s1 tid = Some (tcb_new tid priority)" by (simp add: n)
  have a: "attach_execution s1 tid = (Inr (for_task tid), ?s2)"
    by (simp add: attach_execution_def t1 tcb_attach_execution_def tcb_new_def bound_tcb_def Let_def)
  have "sched_wf ?s2" using attach_execution_wf [OF create_wf [OF wf c], of tid] a by simp
  moreover have "task ?s2 = (task s)(tid \<mapsto> bound_tcb tid priority Created)"
    using t1 by (simp add: task_put bound_tcb_def n)
  ultimately show ?thesis
    using that [of tid s1 ?s2] c a n by (simp add: create_task_def put_task_def set_slot_def)
qed

lemma destroy_bound:
  assumes "task s tid = Some (bound_tcb tid priority Created)"
  shows "cleanup_created_task s tid = (Inr (), set_slot s (unat (task_index tid)) None)"
proof -
  have "slot_at s (unat (task_index tid)) = Some (bound_tcb tid priority Created)"
    using assms by (simp add: task_def split: option.splits if_splits)
  then show ?thesis
    by (simp add: cleanup_created_task_def destroy_created_def Let_def bound_tcb_def tcb_detach_execution_def)
qed

lemma make_ready_bound:
  assumes "sched_wf s" "task s tid = Some (bound_tcb tid priority Created)"
  shows "make_ready s tid = (True, (put_task s tid (bound_tcb tid priority Ready))
     \<lparr>sch_ready := (sch_ready s)\<lparr>rq_queue := rq_queue (sch_ready s) @ [tid]\<rparr>\<rparr>)"
proof -
  have v: "valid_transition (tcb_state (bound_tcb tid priority Created)) Ready"
    by (simp add: bound_tcb_def)
  note w = wake_to_ready_wf(1) [OF assms v]
  show ?thesis
    using assms w
    by (simp add: make_ready_def task_transition_def transition_def bound_tcb_def rq_contains_def rq_push_def
        put_task_def set_slot_def)
qed

lemma attach_image:
  assumes "pm_wf pm" "pm_image pm pid = Inr img" "handle_task_id handle = tid"
  shows "pm_attach_execution pm pid tid handle (spec_id (pi_address_space img)) =
    (case pm_binding pm pid of
       Inr None \<Rightarrow>
         (let b = \<lparr>bind_process = pid, bind_task = tid, bind_execution = handle,
                   bind_address_space = spec_id (pi_address_space img)\<rparr>
          in (Inr b, pm_put pm pid ((projr (pm_slot pm pid))\<lparr>slot_binding := Some b\<rparr>)))
     | _ \<Rightarrow> (Inl AlreadyBound, pm))"
  using assms(2,3)
  by (cases "pm_slot pm pid"; cases "slot_image (projr (pm_slot pm pid))")
    (auto simp: pm_image_def pm_binding_def pm_attach_execution_def ProcessExecutionBinding_new_def
      Let_def split: option.split)

lemma bind_bound:
  assumes wf: "pm_wf pm" and swf: "sched_wf s" "length (sch_tasks s) < 2 ^ 32"
    and b: "pm_binding pm pid = Inr (Some b)"
  shows "\<exists>s'. bind_and_ready pm s pid priority = Some (Inl (BindProcess AlreadyBound), pm, s') \<and> sched_wf s'
    \<and> task s' = task s \<and> sch_ready s' = sch_ready s \<and> sch_current s' = sch_current s"
proof -
  obtain slot where s: "pm_slot pm pid = Inr slot" "slot_binding slot = Some b"
    using b by (cases "pm_slot pm pid") (auto simp: pm_binding_def)
  then obtain img where img: "pm_image pm pid = Inr img"
    using pm_wf_slot(1) [OF wf s(1)] by (auto simp: pm_image_def slot_wf_def split: option.splits)
  obtain tid s1 s2 where c: "create_task s priority = Some (tid, s1)" "task s tid = None"
    "attach_execution s1 tid = (Inr (for_task tid), s2)" "sched_wf s2"
    "task s2 = (task s)(tid \<mapsto> bound_tcb tid priority Created)"
    "sch_ready s2 = sch_ready s" "sch_current s2 = sch_current s"
    by (rule create_attached [OF swf])
  have t2: "task s2 tid = Some (bound_tcb tid priority Created)" by (simp add: c)
  have h: "handle_task_id (for_task tid) = tid" by (simp add: for_task_def)
  have "pm_attach_execution pm pid tid (for_task tid) (spec_id (pi_address_space img)) = (Inl AlreadyBound, pm)"
    using attach_image [OF wf img h] b by simp
  moreover have "task (set_slot s2 (unat (task_index tid)) None) = task s"
    using task_clear [OF t2] c(2,5) by (simp add: fun_upd_idem)
  moreover have "sched_wf (set_slot s2 (unat (task_index tid)) None)"
    using destroy_created_wf [OF c(4), of tid] destroy_bound [OF t2]
    by (auto simp: cleanup_created_task_def split: prod.splits sum.splits)
  ultimately show ?thesis
    using img c(1,3,6,7) destroy_bound [OF t2] by (simp add: bind_and_ready_def set_slot_def)
qed

lemma bind_unbound:
  assumes wf: "pm_wf pm" and swf: "sched_wf s" "length (sch_tasks s) < 2 ^ 32"
    and b: "pm_binding pm pid = Inr None"
  shows "\<exists>tid pm' s'. bind_and_ready pm s pid priority = Some (Inr tid, pm', s') \<and> sched_wf s' \<and> pm_wf pm'
    \<and> task s tid = None \<and> task s' = (task s)(tid \<mapsto> bound_tcb tid priority Ready)
    \<and> rq_snapshot (sch_ready s') = rq_snapshot (sch_ready s) @ [tid] \<and> sch_current s' = sch_current s
    \<and> map_option bind_task (projr (pm_binding pm' pid)) = Some tid
    \<and> (\<forall>p. p \<noteq> pid \<longrightarrow> pm_slot pm' p = pm_slot pm p)"
proof -
  obtain slot where s: "pm_slot pm pid = Inr slot" "slot_binding slot = None" "slot_state slot \<noteq> None"
    using b by (cases "pm_slot pm pid") (auto simp: pm_binding_def pm_slot_Inr)
  then obtain img where img: "pm_image pm pid = Inr img"
    using pm_wf_slot(1) [OF wf s(1)] by (auto simp: pm_image_def slot_wf_def split: option.splits)
  obtain tid s1 s2 where c: "create_task s priority = Some (tid, s1)" "task s tid = None"
    "attach_execution s1 tid = (Inr (for_task tid), s2)" "sched_wf s2"
    "task s2 = (task s)(tid \<mapsto> bound_tcb tid priority Created)"
    "sch_ready s2 = sch_ready s" "sch_current s2 = sch_current s"
    by (rule create_attached [OF swf])
  have t2: "task s2 tid = Some (bound_tcb tid priority Created)" by (simp add: c)
  let ?b = "\<lparr>bind_process = pid, bind_task = tid, bind_execution = for_task tid,
              bind_address_space = spec_id (pi_address_space img)\<rparr>"
  define pm' where "pm' = pm_put pm pid (slot\<lparr>slot_binding := Some ?b\<rparr>)"
  define s' where "s' = (put_task s2 tid (bound_tcb tid priority Ready))
        \<lparr>sch_ready := (sch_ready s2)\<lparr>rq_queue := rq_queue (sch_ready s2) @ [tid]\<rparr>\<rparr>"
  have h: "handle_task_id (for_task tid) = tid" by (simp add: for_task_def)
  have a: "pm_attach_execution pm pid tid (for_task tid) (spec_id (pi_address_space img)) = (Inr ?b, pm')"
    using attach_image [OF wf img h] b s by (simp add: pm'_def Let_def)
  have m: "make_ready s2 tid = (True, s')" unfolding s'_def by (rule make_ready_bound [OF c(4) t2])
  have "bind_and_ready pm s pid priority = Some (Inr tid, pm', s')"
    using img c(1,3) a m by (simp add: bind_and_ready_def)
  moreover have "sched_wf s'" using make_ready_wf [OF c(4), of tid] m by simp
  moreover have "pm_wf pm'" using attach_wf [OF wf] a by (metis snd_conv)
  moreover have "task s' = (task s)(tid \<mapsto> bound_tcb tid priority Ready)"
    using task_put [OF t2, of "bound_tcb tid priority Ready"] c(5) by (simp add: s'_def bound_tcb_def)
  moreover have "pm_slot pm' pid = Inr (slot\<lparr>slot_binding := Some ?b\<rparr>)"
    "\<And>p. p \<noteq> pid \<Longrightarrow> pm_slot pm' p = pm_slot pm p"
    using s by (auto simp: pm'_def pm_slot_put [OF s(1)])
  ultimately show ?thesis
    using c(2,6,7) by (simp add: pm_binding_def s'_def put_task_def set_slot_def)
qed

section \<open>Spawning\<close>

lemma spawn_ready_exact:
  assumes wf: "pm_wf pm"
  shows "case spawn_ready pm img tid handle space of
       (Inl _, pm') \<Rightarrow> pm_slot pm' = pm_slot pm
     | (Inr sp, pm') \<Rightarrow> \<not> pm_contains pm (spawned_id sp)
         \<and> pm_binding pm' (spawned_id sp) = Inr (Some (spawned_binding sp))"
proof -
  obtain r pm1 where r: "register_ready pm img = (r, pm1)" by fastforce
  show ?thesis
  proof (cases r)
    case (Inl e)
    then have "pm1 = pm" using r by (rule_tac register_ready_cases [OF wf, of img]) auto
    then show ?thesis using r Inl by (simp add: spawn_ready_def)
  next
    case (Inr pid)
    then have reg: "register_ready pm img = (Inr pid, pm1)" using r by simp
    note n = register_ready_slot [OF wf reg]
    have p: "pm_slot pm1 pid \<noteq> Inl e" for e by (simp add: n(2))
    show ?thesis
    proof (cases rule: attach_cases [of pm1 pid tid handle space])
      case (error e)
      then show ?thesis using reg n
        by (auto simp: spawn_ready_def remove_registered_def pm_slot_put Slot_EMPTY_def fun_eq_iff split: sum.split)
    next
      case (bound slot img')
      moreover from this(1) have "slot_state slot \<noteq> None" by (simp add: pm_slot_Inr)
      ultimately show ?thesis using reg n(1) by (simp add: spawn_ready_def pm_contains_def pm_binding_def pm_slot_put)
    qed
  qed
qed

section \<open>Properties\<close>

definition demo_pid :: ProcessId where
  "demo_pid = ProcessId 0 1"

definition demo_ready_slot :: Slot where
  "demo_ready_slot = \<lparr>slot_generation = 1, slot_image = Some demo_process_image,
     slot_state = Some ProcessReady, slot_binding = None, slot_exit_code = None\<rparr>"

definition demo_registry :: ProcessManager where
  "demo_registry = snd (register_ready ProcessManager_new demo_process_image)"

lemma demo_register:
  "register_ready ProcessManager_new demo_process_image = (Inr demo_pid, demo_registry)"
  "pm_slot demo_registry demo_pid = Inr demo_ready_slot"
  "pm_reachable demo_registry"
proof -
  show "register_ready ProcessManager_new demo_process_image = (Inr demo_pid, demo_registry)"
    "pm_slot demo_registry demo_pid = Inr demo_ready_slot"
    by (simp_all add: demo_registry_def new_used_registry used_registry_register demo_pid_def pm_slot_eq
        demo_ready_slot_def)
  show "pm_reachable demo_registry"
    unfolding pm_reachable_def demo_registry_def by (intro r_into_rtranclp step_register)
qed

text \<open>
  C9: in every registry reached from \<open>ProcessManager::new\<close>, a process that an identifier
  names has an image and is ready, running or exited (never constructing); it runs only when
  bound; it has an exit code exactly when it has exited; and its binding names this process,
  the task of its execution handle and the address space of its image.
\<close>

theorem process_registry_invariant:
  assumes "pm_reachable pm" "pm_contains pm pid"
  shows "\<exists>img. pm_image pm pid = Inr img
    \<and> pm_state pm pid \<in> {Inr ProcessReady, Inr ProcessRunning, Inr ProcessExited}
    \<and> (pm_state pm pid = Inr ProcessRunning \<longrightarrow> pm_binding pm pid \<noteq> Inr None)
    \<and> (pm_state pm pid = Inr ProcessExited \<longleftrightarrow> pm_exit_code pm pid \<noteq> Inr None)
    \<and> (\<forall>b. pm_binding pm pid = Inr (Some b) \<longrightarrow> bind_process b = pid
         \<and> handle_task_id (bind_execution b) = bind_task b
         \<and> bind_address_space b = spec_id (pi_address_space img))"
proof -
  obtain slot where s: "pm_slot pm pid = Inr slot"
    using assms(2) by (cases "pm_slot pm pid") (auto simp: pm_contains_def)
  have "ProcessId (of_nat (unat (process_index pid))) (slot_generation slot) = pid"
    and "slot_state slot \<noteq> None" using s by (simp_all add: pm_slot_Inr)
  then show ?thesis
    using pm_wf_slot(1) [OF pm_reachable_wf [OF assms(1)] s] s
    by (cases "slot_state slot"; cases "the (slot_state slot)")
      (auto simp: slot_wf_def pm_image_def pm_state_def pm_binding_def pm_exit_code_def)
qed

theorem process_registry_invariant_witness:
  "pm_reachable demo_registry \<and> pm_contains demo_registry demo_pid
   \<and> (\<exists>img. pm_image demo_registry demo_pid = Inr img)"
  using process_registry_invariant [OF demo_register(3), of demo_pid] demo_register
  by (auto simp: pm_contains_def)

text \<open>
  C10: a process identifier that has named a process and names none any more never names a
  process again, along every later run of the registry.
\<close>

theorem stale_process_id:
  assumes "pm_reachable pm" "pm_contains pm pid"
    and "pm_step\<^sup>*\<^sup>* pm pm'" "\<not> pm_contains pm' pid" "pm_step\<^sup>*\<^sup>* pm' pm''"
  shows "\<not> pm_contains pm'' pid"
  using process_ids.stale_forever [OF pm_reachable_wf [OF assms(1)] assms(2-5)] .

theorem stale_process_id_witness:
  "pm_contains demo_registry demo_pid \<and> \<not> pm_contains (snd (abort_ready demo_registry demo_pid)) demo_pid
   \<and> \<not> pm_contains (snd (register_ready (snd (abort_ready demo_registry demo_pid)) demo_process_image)) demo_pid"
proof -
  have live: "pm_contains demo_registry demo_pid" by (simp add: pm_contains_def demo_register)
  have gone: "\<not> pm_contains (snd (abort_ready demo_registry demo_pid)) demo_pid"
    by (simp add: pm_contains_def abort_ready_def remove_registered_def demo_register demo_ready_slot_def
        pm_slot_put [OF demo_register(2)] Slot_EMPTY_def)
  show ?thesis
    using live gone stale_process_id [OF demo_register(3) live r_into_rtranclp [of pm_step, OF step_abort] gone
        r_into_rtranclp [of pm_step, OF step_register]] by blast
qed

text \<open>
  \<open>register_ready\<close> returns an identifier that named no process, in state ready with the
  given image and no binding, and every other identifier keeps its record; it reports
  \<open>Full\<close> only when all slots are in use, \<open>GenerationExhausted\<close> only when some free slot has
  used up its generations, and a failure changes nothing.
\<close>

theorem register_ready_exact:
  assumes "pm_reachable pm"
  shows "case register_ready pm img of
      (Inr pid, pm') \<Rightarrow> \<not> pm_contains pm pid
        \<and> pm_slot pm' = (pm_slot pm)(pid := Inr \<lparr>slot_generation = process_generation pid,
             slot_image = Some img, slot_state = Some ProcessReady, slot_binding = None,
             slot_exit_code = None\<rparr>)
    | (Inl Full, pm') \<Rightarrow> pm' = pm \<and> (\<forall>i<MAX_PROCESSES. slot_state (pm_slots pm ! i) \<noteq> None)
    | (Inl GenerationExhausted, pm') \<Rightarrow> pm' = pm \<and> (\<exists>i<MAX_PROCESSES.
         slot_state (pm_slots pm ! i) = None \<and> slot_generation (pm_slots pm ! i) = u32_MAX)
    | (Inl _, pm') \<Rightarrow> False"
proof -
  note wf = pm_reachable_wf [OF assms]
  show ?thesis
  proof (cases rule: register_ready_cases [OF wf, of img])
    case (3 i)
    then show ?thesis
      using register_ready_slot(1,2) [OF wf 3(4)] by (auto simp: pm_contains_def fun_eq_iff)
  qed auto
qed

theorem register_ready_exact_witness:
  "pm_reachable ProcessManager_new \<and> \<not> pm_contains ProcessManager_new demo_pid
   \<and> pm_slot demo_registry demo_pid = Inr demo_ready_slot"
proof -
  have r: "pm_reachable ProcessManager_new" by (simp add: pm_reachable_def)
  show ?thesis
    using register_ready_exact [OF r, of demo_process_image] r demo_register by simp
qed

text \<open>
  C11: a slot that has used up its generations disables the registry: a reachable registry
  exists that holds no process, in which 255 slots have never been used, and from which every
  registration fails with \<open>GenerationExhausted\<close>, now and after any further operation. The
  search returns at the first exhausted free slot instead of trying the next one.
\<close>

theorem register_ready_exhausted:
  "\<exists>pm. pm_reachable pm \<and> {pid. pm_contains pm pid} = {}
     \<and> card {i. i < MAX_PROCESSES \<and> pm_slots pm ! i = Slot_EMPTY} = 255
     \<and> {pm'. pm_step\<^sup>*\<^sup>* pm pm'} = {pm}
     \<and> (\<forall>img. register_ready pm img = (Inl GenerationExhausted, pm))"
proof (intro exI conjI)
  let ?pm = "used_registry u32_MAX"
  have "of_nat (2 ^ 32 - 1) = u32_MAX" by (simp add: word_unat_eq_iff)
  moreover have "pm_reachable (used_registry (of_nat (2 ^ 32 - 1)))"
    by (rule used_registry_reachable) simp
  ultimately show "pm_reachable ?pm" by metis
  show "{pid. pm_contains ?pm pid} = {}" by (simp add: pm_contains_def used_registry_empty)
  have "pm_slots ?pm ! i = Slot_EMPTY \<longleftrightarrow> i \<noteq> 0" if "i < MAX_PROCESSES" for i
    using that by (cases i) (simp_all add: used_registry_def Slot_EMPTY_def MAX_PROCESSES_def)
  then have "{i. i < MAX_PROCESSES \<and> pm_slots ?pm ! i = Slot_EMPTY} = {1..<256}"
    by (auto simp: MAX_PROCESSES_def)
  then show "card {i. i < MAX_PROCESSES \<and> pm_slots ?pm ! i = Slot_EMPTY} = 255" by simp
  show "{pm'. pm_step\<^sup>*\<^sup>* ?pm pm'} = {?pm}" using used_registry_stuck_steps by blast
  show "\<forall>img. register_ready ?pm img = (Inl GenerationExhausted, ?pm)" by (simp add: used_registry_register)
qed

text \<open>
  An exit code is kept until it is reported: after a successful \<open>request_exit\<close>, as long as
  the identifier names the process, whatever other operations run, \<open>exit_code\<close> returns that
  code, and \<open>reap\<close> succeeds, returns it, and frees the identifier, so that it is reported
  exactly once.
\<close>

theorem exit_code_reported_once:
  assumes "pm_reachable pm" "request_exit pm pid code = (Inr (), pm1)"
    and "pm_step\<^sup>*\<^sup>* pm1 pm2" "pm_contains pm2 pid"
  shows "pm_exit_code pm2 pid = Inr (Some code)
    \<and> (case reap pm2 pid of
         (Inr r, pm3) \<Rightarrow> reaped_exit_code r = code \<and> reaped_id r = pid \<and> reap pm3 pid = (Inl InvalidProcess, pm3)
       | (Inl _, _) \<Rightarrow> False)"
proof -
  note wf = pm_reachable_wf [OF assms(1)]
  have wf1: "pm_wf pm1" using request_exit_wf [OF wf, of pid code] assms(2) by simp
  have "exited_with pm1 pid code"
    by (rule request_exit_cases [of pm pid code]) (use assms(2) in \<open>auto simp: exited_with_def pm_slot_put\<close>)
  then have "exited_with pm2 pid code"
    using exited_with_steps [OF assms(3) wf1] assms(4) by (auto simp: exit_kept_def)
  then obtain slot where s: "pm_slot pm2 pid = Inr slot" "slot_state slot = Some ProcessExited"
      "slot_exit_code slot = Some code"
    by (auto simp: exited_with_def)
  have "slot_image slot \<noteq> None"
    using pm_wf_slot(1) [OF pm_wf_steps [OF assms(3) wf1] s(1)] s(2) by (simp add: slot_wf_def)
  then obtain img where img: "slot_image slot = Some img" by auto
  have "pm_slot (snd (reap pm2 pid)) pid = Inl InvalidProcess"
    using s img by (simp add: reap_def pm_slot_put [OF s(1)] Slot_EMPTY_def)
  then have "reap (snd (reap pm2 pid)) pid = (Inl InvalidProcess, snd (reap pm2 pid))"
    by (simp add: reap_def [of "snd (reap pm2 pid)"])
  then show ?thesis using s img by (simp add: reap_def [of pm2] pm_exit_code_def)
qed

theorem exit_code_reported_once_witness:
  "pm_exit_code (snd (request_exit demo_registry demo_pid 7)) demo_pid = Inr (Some 7)"
proof -
  let ?pm1 = "snd (request_exit demo_registry demo_pid 7)"
  have r: "request_exit demo_registry demo_pid 7 = (Inr (), ?pm1)"
    by (simp add: request_exit_def demo_register demo_ready_slot_def)
  have "pm_contains ?pm1 demo_pid"
    by (simp add: request_exit_def demo_register demo_ready_slot_def pm_contains_def pm_slot_put [OF demo_register(2)])
  then show ?thesis using exit_code_reported_once [OF demo_register(3) r rtranclp.rtrancl_refl] by blast
qed





end
