(* ===== verification/Frame_Allocator.thy ===== *)
theory Frame_Allocator
  imports Memory_Ranges
begin

text \<open>
  The early physical frame allocator (\<open>memory/frame.rs\<close>). The iterator over the bootloader's
  regions is the list of regions still to come; both allocation loops end because each turn
  consumes a region. The allocator refines a list of pending frames.
\<close>

section \<open>Frames\<close>

definition FRAME_SIZE :: u64 where
  "FRAME_SIZE = 4096"

datatype Frame = Frame (frame_start: u64)

definition Frame_from_start_address :: "u64 \<Rightarrow> Frame option" where
  "Frame_from_start_address address = (if address mod FRAME_SIZE = 0 then Some (Frame address) else None)"

record ContiguousFrames =
  cf_start :: u64
  cf_frame_count :: usize

definition cf_byte_len :: "ContiguousFrames \<Rightarrow> usize option" where
  "cf_byte_len c = checked_mul (cf_frame_count c) FRAME_SIZE"

definition cf_byte_end :: "ContiguousFrames \<Rightarrow> u64 option" where
  "cf_byte_end c =
     (case checked_mul (cf_frame_count c) FRAME_SIZE of
        None \<Rightarrow> None
      | Some bytes \<Rightarrow> checked_add (cf_start c) bytes)"

definition cf_physical_range :: "ContiguousFrames \<Rightarrow> PhysRange option" where
  "cf_physical_range c =
     (case cf_byte_end c of None \<Rightarrow> None | Some e \<Rightarrow> PhysRange_new (cf_start c) e)"

definition align_up :: "u64 \<Rightarrow> u64 option" where
  "align_up address =
     (let m = FRAME_SIZE - 1
      in map_option (\<lambda>v. v AND NOT m) (checked_add address m))"

section \<open>The allocator\<close>

record EarlyFrameAllocator =
  ea_regions :: "boot_region list"
  ea_current_end :: u64
  ea_next_address :: u64

definition EarlyFrameAllocator_new :: "boot_region list \<Rightarrow> EarlyFrameAllocator" where
  "EarlyFrameAllocator_new regions = \<lparr>ea_regions = regions, ea_current_end = 0, ea_next_address = 0\<rparr>"

definition ea_checkpoint :: "EarlyFrameAllocator \<Rightarrow> EarlyFrameAllocator" where
  "ea_checkpoint a = a"

definition ea_rollback :: "EarlyFrameAllocator \<Rightarrow> EarlyFrameAllocator \<Rightarrow> EarlyFrameAllocator" where
  "ea_rollback a checkpoint = checkpoint"

fun select_from :: "boot_region list \<Rightarrow> EarlyFrameAllocator \<Rightarrow> bool \<times> EarlyFrameAllocator" where
  "select_from [] a = (False, a\<lparr>ea_regions := []\<rparr>)"
| "select_from ((s, e, usable) # rest) a =
     (if \<not> usable then select_from rest a
      else case PhysRange_new s e of
             None \<Rightarrow> select_from rest a
           | Some rng \<Rightarrow>
               (case align_up (pr_start rng) of
                  None \<Rightarrow> select_from rest a
                | Some st \<Rightarrow>
                    if st \<ge> pr_end rng then select_from rest a
                    else (True, \<lparr>ea_regions = rest, ea_current_end = pr_end rng, ea_next_address = st\<rparr>)))"

definition select_next_usable_region :: "EarlyFrameAllocator \<Rightarrow> bool \<times> EarlyFrameAllocator" where
  "select_next_usable_region a = select_from (ea_regions a) a"

definition ea_reset :: "EarlyFrameAllocator \<Rightarrow> EarlyFrameAllocator" where
  "ea_reset a = a\<lparr>ea_next_address := 0, ea_current_end := 0\<rparr>"

lemma select_from_shorter:
  "select_from rs a = (True, a') \<Longrightarrow> length (ea_regions a') < length rs"
  by (induction rs a rule: select_from.induct)
    (auto split: option.splits if_splits simp: less_Suc_eq)

lemma select_next_shorter:
  "select_next_usable_region (ea_reset a) = (True, a') \<Longrightarrow> length (ea_regions a') < length (ea_regions a)"
  by (auto simp: select_next_usable_region_def ea_reset_def dest: select_from_shorter)

function allocate_frame :: "EarlyFrameAllocator \<Rightarrow> Frame option \<times> EarlyFrameAllocator" where
  "allocate_frame a =
     (if ea_next_address a < ea_current_end a then
        (case Frame_from_start_address (ea_next_address a) of
           None \<Rightarrow> (None, a)
         | Some frame \<Rightarrow>
             (case checked_add (ea_next_address a) FRAME_SIZE of
                None \<Rightarrow> (None, a)
              | Some next_address \<Rightarrow> (Some frame, a\<lparr>ea_next_address := next_address\<rparr>)))
      else (case select_next_usable_region (ea_reset a) of
              (True, a') \<Rightarrow> allocate_frame a'
            | (False, a') \<Rightarrow> (None, a')))"
  by pat_completeness auto
termination
  by (relation "measure (\<lambda>a. length (ea_regions a))") (auto dest: select_next_shorter [OF sym])

function contiguous_loop ::
  "EarlyFrameAllocator \<Rightarrow> usize \<Rightarrow> u64 \<Rightarrow> ContiguousFrames option \<times> EarlyFrameAllocator" where
  "contiguous_loop a frame_count bytes =
     (let again = (case select_next_usable_region (ea_reset a) of
                     (True, a') \<Rightarrow> contiguous_loop a' frame_count bytes
                   | (False, a') \<Rightarrow> (None, a'))
      in if ea_next_address a < ea_current_end a then
           (case checked_add (ea_next_address a) bytes of
              None \<Rightarrow> (None, a)
            | Some e \<Rightarrow>
                if e \<le> ea_current_end a
                then (Some \<lparr>cf_start = ea_next_address a, cf_frame_count = frame_count\<rparr>,
                      a\<lparr>ea_next_address := e\<rparr>)
                else again)
         else again)"
  by pat_completeness auto
termination
  by (relation "measure (\<lambda>(a, _, _). length (ea_regions a))") (auto dest: select_next_shorter [OF sym])

definition allocate_contiguous ::
  "EarlyFrameAllocator \<Rightarrow> usize \<Rightarrow> ContiguousFrames option \<times> EarlyFrameAllocator" where
  "allocate_contiguous a frame_count =
     (if frame_count = 0 then (None, a)
      else case checked_mul frame_count FRAME_SIZE of
             None \<Rightarrow> (None, a)
           | Some bytes \<Rightarrow> contiguous_loop a frame_count bytes)"

declare allocate_frame.simps [simp del] contiguous_loop.simps [simp del]

section \<open>The contract of a frame source\<close>

fun allocs :: "('s \<Rightarrow> Frame option \<times> 's) \<Rightarrow> nat \<Rightarrow> 's \<Rightarrow> Frame option list" where
  "allocs alloc 0 s = []"
| "allocs alloc (Suc n) s = (case alloc s of (r, s') \<Rightarrow> r # allocs alloc n s')"

locale frame_source =
  fixes invar :: "'s \<Rightarrow> bool"
    and alloc :: "'s \<Rightarrow> Frame option \<times> 's"
    and pending :: "'s \<Rightarrow> Frame list"
  assumes alloc_invar: "invar s \<Longrightarrow> invar (snd (alloc s))"
    and alloc_none: "invar s \<Longrightarrow> pending s = [] \<Longrightarrow> fst (alloc s) = None \<and> pending (snd (alloc s)) = []"
    and alloc_some: "invar s \<Longrightarrow> pending s = f # fs \<Longrightarrow> fst (alloc s) = Some f \<and> pending (snd (alloc s)) = fs"
begin

lemma allocs_pending:
  "invar s \<Longrightarrow> allocs alloc n s =
     map Some (take n (pending s)) @ replicate (n - length (pending s)) None"
proof (induction n arbitrary: s)
  case (Suc n)
  then show ?case
    using alloc_invar [of s] alloc_none [of s] alloc_some [of s]
    by (cases "pending s") (simp_all add: case_prod_beta)
qed simp

lemma alloc_distinct: "invar s \<Longrightarrow> distinct (pending s) \<Longrightarrow> distinct (pending (snd (alloc s)))"
  using alloc_none [of s] alloc_some [of s] by (cases "pending s") auto

end

section \<open>Pending frames\<close>

text \<open>The frames that start in \<open>[a, e)\<close>, for an aligned \<open>a\<close>.\<close>

definition frames_from :: "nat \<Rightarrow> nat \<Rightarrow> Frame list" where
  "frames_from a e = map (\<lambda>k. Frame (of_nat (a + k * 4096))) [0..<(e - a + 4095) div 4096]"

fun region_frames :: "boot_region \<Rightarrow> Frame list" where
  "region_frames (s, e, usable) =
     (if usable \<and> s \<le> e then frames_from (align_up_nat (unat s)) (unat e) else [])"

definition ea_pending :: "EarlyFrameAllocator \<Rightarrow> Frame list" where
  "ea_pending a = frames_from (unat (ea_next_address a)) (unat (ea_current_end a))
     @ concat (map region_frames (ea_regions a))"

text \<open>The last frame of the 64-bit address space is out of reach of the cursor.\<close>

fun region_ok :: "boot_region \<Rightarrow> bool" where
  "region_ok (s, e, usable) \<longleftrightarrow> unat e \<le> 2 ^ 64 - 4096"

definition ea_wf :: "EarlyFrameAllocator \<Rightarrow> bool" where
  "ea_wf a \<longleftrightarrow> unat (ea_next_address a) mod 4096 = 0 \<and> unat (ea_current_end a) \<le> 2 ^ 64 - 4096
     \<and> list_all region_ok (ea_regions a)"

lemma frames_from_empty [simp]: "e \<le> a \<Longrightarrow> frames_from a e = []"
  by (simp add: frames_from_def)

lemma frames_from_step:
  assumes "a < e" shows "frames_from a e = Frame (of_nat a) # frames_from (a + 4096) e"
proof -
  have n: "(e - a + 4095) div 4096 = Suc ((e - (a + 4096) + 4095) div 4096)"
  proof (cases "a + 4096 \<le> e")
    case True
    then have "e - a + 4095 = (e - (a + 4096) + 4095) + 4096" by simp
    then show ?thesis using div_add_self2 [of 4096 "e - (a + 4096) + 4095"] by (simp only:)
  next
    case False
    then have "e - a + 4095 = 4096 + (e - a - 1)" "e - a - 1 < 4096" using assms by auto
    then show ?thesis using False by simp
  qed
  have "map (\<lambda>k. Frame (of_nat (a + k * 4096))) [0..<Suc m] =
      Frame (of_nat a) # map (\<lambda>k. Frame (of_nat (a + 4096 + k * 4096))) [0..<m]" for m
    unfolding map_upt_Suc by (simp add: add.assoc)
  then show ?thesis unfolding frames_from_def n .
qed

lemma frames_from_split:
  "a + n * 4096 \<le> e \<Longrightarrow> frames_from a e =
     map (\<lambda>k. Frame (of_nat (a + k * 4096))) [0..<n] @ frames_from (a + n * 4096) e"
proof (induction n)
  case (Suc n)
  then have "a + n * 4096 < e" by simp
  then show ?case
    using Suc frames_from_step [of "a + n * 4096" e] by (simp add: algebra_simps)
qed simp

lemma align_up_Some:
  "align_up s = Some st \<longleftrightarrow> unat s + 4095 < 2 ^ 64 \<and> unat st = align_up_nat (unat s)"
proof (cases "unat s + 4095 < 2 ^ 64")
  case True
  then have c: "checked_add s 4095 = Some (s + 4095)" by (simp add: checked_add_def)
  then have "unat (s + 4095) = unat s + 4095" by (simp add: checked_add_eq_Some)
  then have "unat ((s + 4095) AND NOT 4095) = align_up_nat (unat s)"
    using unat_and_not_4095 [of "s + 4095"] by (simp add: align_up_nat_def)
  then show ?thesis using True c by (auto simp: align_up_def FRAME_SIZE_def word_unat_eq_iff)
qed (simp add: align_up_def FRAME_SIZE_def checked_add_def)

lemma select_from_Cons:
  assumes "region_ok (s, e, u)"
  shows "select_from ((s, e, u) # rs) a =
    (if u \<and> s \<le> e \<and> align_up_nat (unat s) < unat e
     then (True, \<lparr>ea_regions = rs, ea_current_end = e, ea_next_address = the (align_up s)\<rparr>)
     else select_from rs a)"
proof (cases "u \<and> s \<le> e")
  case True
  then have "unat s + 4095 < 2 ^ 64" using assms by (simp add: word_le_nat_alt)
  moreover from this have "align_up_nat (unat s) < 2 ^ 64"
    using align_up_nat_bounds(2) [of "unat s"] by simp
  ultimately obtain st where "align_up s = Some st" "unat st = align_up_nat (unat s)"
    using align_up_Some [of s "of_nat (align_up_nat (unat s))"] by (simp add: unat_of_nat)
  then show ?thesis using True by (simp add: PhysRange_new_def word_le_nat_alt not_less)
qed (auto simp: PhysRange_new_def)

lemma select_from_spec:
  assumes "list_all region_ok rs" "select_from rs a = (found, a')"
  shows "if found then ea_wf a' \<and> ea_next_address a' < ea_current_end a'
           \<and> ea_pending a' = concat (map region_frames rs)
           \<and> (\<exists>s. (s, ea_current_end a', True) \<in> set rs \<and> s \<le> ea_next_address a')
           \<and> set (ea_regions a') \<subseteq> set rs
         else concat (map region_frames rs) = [] \<and> a' = a\<lparr>ea_regions := []\<rparr>"
  using assms
proof (induction rs)
  case (Cons r rs)
  obtain s e u where r: "r = (s, e, u)" by (cases r)
  have ok: "region_ok (s, e, u)" "list_all region_ok rs" using Cons.prems(1) r by auto
  show ?case
  proof (cases "u \<and> s \<le> e \<and> align_up_nat (unat s) < unat e")
    case True
    then have a': "found" "a' = \<lparr>ea_regions = rs, ea_current_end = e, ea_next_address = the (align_up s)\<rparr>"
      using Cons.prems(2) select_from_Cons [OF ok(1), of rs a] r by simp_all
    obtain st where st: "align_up s = Some st" "unat st = align_up_nat (unat s)"
      using True ok(1) align_up_Some [of s "of_nat (align_up_nat (unat s))"]
      by (auto simp: unat_of_nat word_le_nat_alt)
    then have "st < e" "s \<le> st"
      using True align_up_nat_bounds(1) [of "unat s"] by (simp_all add: word_less_nat_alt word_le_nat_alt)
    then show ?thesis
      using True st a' r ok align_up_nat_bounds(3) [of "unat s"] by (auto simp: ea_wf_def ea_pending_def)
  next
    case False
    then have "region_frames r = []" by (auto simp: r)
    moreover have "select_from (r # rs) a = select_from rs a"
      using select_from_Cons [OF ok(1)] False r by simp
    ultimately show ?thesis using Cons.IH [OF ok(2)] Cons.prems(2) by auto
  qed
qed auto

section \<open>The allocator refines the pending frames\<close>

lemma ea_reset_simps [simp]:
  "ea_wf a \<Longrightarrow> ea_wf (ea_reset a)"
  "ea_regions (ea_reset a) = ea_regions a"
  "ea_pending (ea_reset a) = concat (map region_frames (ea_regions a))"
  by (simp_all add: ea_wf_def ea_reset_def ea_pending_def)

lemma ea_pending_done:
  "\<not> ea_next_address a < ea_current_end a \<Longrightarrow> ea_pending a = concat (map region_frames (ea_regions a))"
  by (simp add: ea_pending_def word_less_nat_alt)

lemma select_next_spec:
  assumes "ea_wf a" "select_next_usable_region (ea_reset a) = (found, a')"
  shows "if found then ea_wf a' \<and> ea_next_address a' < ea_current_end a'
           \<and> ea_pending a' = concat (map region_frames (ea_regions a))
           \<and> (\<exists>s. (s, ea_current_end a', True) \<in> set (ea_regions a) \<and> s \<le> ea_next_address a')
           \<and> set (ea_regions a') \<subseteq> set (ea_regions a)
         else concat (map region_frames (ea_regions a)) = [] \<and> ea_wf a' \<and> ea_pending a' = []"
  using assms select_from_spec [of "ea_regions a" "ea_reset a" found a']
  by (auto simp: select_next_usable_region_def ea_wf_def ea_pending_def ea_reset_def split: if_splits)

lemma allocate_frame_current:
  assumes wf: "ea_wf a" and lt: "ea_next_address a < ea_current_end a"
  shows "allocate_frame a = (Some (Frame (ea_next_address a)), a\<lparr>ea_next_address := ea_next_address a + 4096\<rparr>)"
    and "ea_pending a = Frame (ea_next_address a) # ea_pending (a\<lparr>ea_next_address := ea_next_address a + 4096\<rparr>)"
    and "ea_wf (a\<lparr>ea_next_address := ea_next_address a + 4096\<rparr>)"
proof -
  have n: "unat (ea_next_address a) + 4096 < 2 ^ 64" "unat (ea_next_address a) mod 4096 = 0"
    using wf lt by (auto simp: ea_wf_def word_less_nat_alt)
  then have s: "unat (ea_next_address a + 4096) = unat (ea_next_address a) + 4096"
    by (simp add: unat_word_ariths)
  have "unat (ea_next_address a mod 4096) = 0" using n(2) by (simp add: unat_mod_distrib)
  then have "ea_next_address a mod 4096 = 0" by (simp add: word_unat_eq_iff)
  then show "allocate_frame a = (Some (Frame (ea_next_address a)), a\<lparr>ea_next_address := ea_next_address a + 4096\<rparr>)"
    using lt n(1) by (subst allocate_frame.simps) (simp add: Frame_from_start_address_def FRAME_SIZE_def checked_add_def)
  show "ea_pending a = Frame (ea_next_address a) # ea_pending (a\<lparr>ea_next_address := ea_next_address a + 4096\<rparr>)"
    using frames_from_step [of "unat (ea_next_address a)" "unat (ea_current_end a)"] lt s
    by (simp add: ea_pending_def word_less_nat_alt)
  show "ea_wf (a\<lparr>ea_next_address := ea_next_address a + 4096\<rparr>)"
    using wf s by (simp add: ea_wf_def)
qed

lemma allocate_frame_spec:
  "ea_wf a \<Longrightarrow> ea_wf (snd (allocate_frame a))
     \<and> (case ea_pending a of
          [] \<Rightarrow> fst (allocate_frame a) = None \<and> ea_pending (snd (allocate_frame a)) = []
        | f # fs \<Rightarrow> fst (allocate_frame a) = Some f \<and> ea_pending (snd (allocate_frame a)) = fs)"
proof (cases "ea_next_address a < ea_current_end a")
  case False
  assume wf: "ea_wf a"
  obtain found a' where s: "select_next_usable_region (ea_reset a) = (found, a')" by fastforce
  have step: "allocate_frame a = (if found then allocate_frame a' else (None, a'))"
    using False s by (subst allocate_frame.simps) simp
  show ?thesis
  proof (cases found)
    case True
    then show ?thesis
      using select_next_spec [OF wf s] step ea_pending_done [OF False] allocate_frame_current [of a'] by simp
  next
    case empty: False
    then have "ea_pending a = []" using select_next_spec [OF wf s] ea_pending_done [OF False] by metis
    then show ?thesis using empty select_next_spec [OF wf s] step by simp
  qed
qed (use allocate_frame_current [of a] in auto)

interpretation early: frame_source ea_wf allocate_frame ea_pending
proof
  fix a f fs
  assume wf: "ea_wf a"
  show "ea_wf (snd (allocate_frame a))" using allocate_frame_spec [OF wf] by simp
  show "ea_pending a = [] \<Longrightarrow> fst (allocate_frame a) = None \<and> ea_pending (snd (allocate_frame a)) = []"
    "ea_pending a = f # fs \<Longrightarrow> fst (allocate_frame a) = Some f \<and> ea_pending (snd (allocate_frame a)) = fs"
    using allocate_frame_spec [OF wf] by simp_all
qed

section \<open>Contiguous blocks\<close>

text \<open>The frames of a block, and what an allocated block is.\<close>

definition cf_frames :: "ContiguousFrames \<Rightarrow> Frame list" where
  "cf_frames c = map (\<lambda>k. Frame (of_nat (unat (cf_start c) + k * 4096))) [0..<unat (cf_frame_count c)]"

definition block_of :: "EarlyFrameAllocator \<Rightarrow> u64 \<Rightarrow> ContiguousFrames \<Rightarrow> EarlyFrameAllocator \<Rightarrow> bool" where
  "block_of a n c a' \<longleftrightarrow> ea_wf a' \<and> cf_frame_count c = n \<and> unat (cf_start c) mod 4096 = 0
     \<and> (\<exists>skipped. ea_pending a = skipped @ cf_frames c @ ea_pending a')
     \<and> (\<exists>s e. ((s, e, True) \<in> set (ea_regions a) \<or> s = ea_next_address a \<and> e = ea_current_end a)
          \<and> s \<le> cf_start c \<and> unat (cf_start c) + unat n * 4096 \<le> unat e)"

lemma contiguous_current:
  assumes wf: "ea_wf a" and e: "checked_add (ea_next_address a) bytes = Some e" "e \<le> ea_current_end a"
    and n: "unat bytes = unat n * 4096"
  shows "block_of a n \<lparr>cf_start = ea_next_address a, cf_frame_count = n\<rparr> (a\<lparr>ea_next_address := e\<rparr>)"
proof -
  have u: "unat e = unat (ea_next_address a) + unat n * 4096" using e(1) n by (simp add: checked_add_eq_Some)
  have "ea_wf (a\<lparr>ea_next_address := e\<rparr>)" using wf u by (simp add: ea_wf_def)
  moreover have "ea_pending a = [] @ cf_frames \<lparr>cf_start = ea_next_address a, cf_frame_count = n\<rparr>
      @ ea_pending (a\<lparr>ea_next_address := e\<rparr>)"
    using frames_from_split [of "unat (ea_next_address a)" "unat n" "unat (ea_current_end a)"] e(2) u
    by (simp add: ea_pending_def cf_frames_def word_le_nat_alt)
  moreover have "unat (ea_next_address a) mod 4096 = 0" using wf by (simp add: ea_wf_def)
  ultimately show ?thesis using e(2) u unfolding block_of_def by (auto simp: word_le_nat_alt)
qed

lemma block_of_next:
  assumes wf: "ea_wf a" and s: "select_next_usable_region (ea_reset a) = (True, a1)"
    and b: "block_of a1 n c a'"
  shows "block_of a n c a'"
proof -
  note sel = select_next_spec [OF wf s, simplified]
  obtain skipped where p: "ea_pending a1 = skipped @ cf_frames c @ ea_pending a'"
    using b by (auto simp: block_of_def)
  have "ea_pending a = (frames_from (unat (ea_next_address a)) (unat (ea_current_end a)) @ skipped)
      @ cf_frames c @ ea_pending a'"
    using sel p by (simp add: ea_pending_def [of a])
  moreover obtain s0 where "(s0, ea_current_end a1, True) \<in> set (ea_regions a)" "s0 \<le> ea_next_address a1"
    using sel by blast
  ultimately show ?thesis
    using b sel unfolding block_of_def by (meson order_trans subsetD)
qed

lemma contiguous_loop_spec:
  "ea_wf a \<Longrightarrow> unat bytes = unat n * 4096 \<Longrightarrow> contiguous_loop a n bytes = (Some c, a') \<Longrightarrow> block_of a n c a'"
proof (induction a n bytes rule: contiguous_loop.induct)
  case (1 a n bytes)
  obtain found a1 where s: "select_next_usable_region (ea_reset a) = (found, a1)" by fastforce
  have wf1: "ea_wf a1" using select_next_spec [OF 1(2) s] by (auto split: if_splits)
  show ?case
  proof (cases "\<exists>e. checked_add (ea_next_address a) bytes = Some e \<and> e \<le> ea_current_end a \<and> ea_next_address a < ea_current_end a")
    case True
    then show ?thesis
      using 1(4) contiguous_current [OF 1(2) _ _ 1(3)] by (subst (asm) contiguous_loop.simps) auto
  next
    case False
    then have "contiguous_loop a n bytes =
        (if ea_next_address a < ea_current_end a \<and> checked_add (ea_next_address a) bytes = None then (None, a)
         else if found then contiguous_loop a1 n bytes else (None, a1))"
      using s by (subst contiguous_loop.simps) (auto simp: Let_def split: option.split)
    then have "found" "contiguous_loop a1 n bytes = (Some c, a')"
      using 1(4) by (auto split: if_splits)
    then have "block_of a1 n c a'" using 1(1) [OF s [symmetric]] wf1 1(3) by simp
    then show ?thesis using block_of_next [OF 1(2)] s \<open>found\<close> by simp
  qed
qed

lemma allocate_contiguous_spec:
  assumes "ea_wf a" "allocate_contiguous a n = (Some c, a')"
  shows "block_of a n c a'"
proof -
  obtain bytes where b: "checked_mul n FRAME_SIZE = Some bytes" "contiguous_loop a n bytes = (Some c, a')"
    using assms(2) by (auto simp: allocate_contiguous_def split: if_splits option.splits)
  then have "unat bytes = unat n * 4096" by (simp add: checked_mul_eq_Some FRAME_SIZE_def)
  then show ?thesis using contiguous_loop_spec [OF assms(1) _ b(2)] by simp
qed

section \<open>Disjoint regions give distinct frames\<close>

fun regions_disjoint :: "boot_region \<Rightarrow> boot_region \<Rightarrow> bool" where
  "regions_disjoint (s, e, u) (s', e', u') \<longleftrightarrow> e \<le> s' \<or> e' \<le> s"

lemma frames_from_bound:
  assumes "k < (e - a + 4095) div 4096" shows "a + k * 4096 < (e::nat)"
proof -
  have "Suc k * 4096 \<le> (e - a + 4095) div 4096 * 4096" by (rule mult_le_mono1) (use assms in simp)
  also have "\<dots> \<le> e - a + 4095" by (rule div_times_less_eq_dividend)
  finally show ?thesis by (simp add: algebra_simps)
qed

lemma frames_from_mem:
  assumes "f \<in> set (frames_from a e)" "e \<le> 2 ^ 64 - 4096" "a mod 4096 = 0"
  shows "a \<le> unat (frame_start f)" "unat (frame_start f) < e" "unat (frame_start f) mod 4096 = 0"
proof -
  obtain k where k: "f = Frame (of_nat (a + k * 4096))" "k < (e - a + 4095) div 4096"
    using assms(1) by (auto simp: frames_from_def)
  then have lt: "a + k * 4096 < e" by (intro frames_from_bound)
  then have "unat (frame_start f) = a + k * 4096"
    unfolding k(1) Frame.sel using assms(2) by (intro unat_of_nat_u64) simp
  then show "a \<le> unat (frame_start f)" "unat (frame_start f) < e" "unat (frame_start f) mod 4096 = 0"
    using lt assms(3) by (simp_all add: mod_add_eq)
qed

lemma region_frames_mem:
  assumes "f \<in> set (region_frames (s, e, u))" "region_ok (s, e, u)"
  shows "u" "s \<le> frame_start f" "frame_start f < e" "unat (frame_start f) mod 4096 = 0"
proof -
  have f: "u" "f \<in> set (frames_from (align_up_nat (unat s)) (unat e))"
    using assms(1) by (auto split: if_splits)
  note m = frames_from_mem [OF f(2) _ align_up_nat_bounds(3)]
  show "u" using f by simp
  show "s \<le> frame_start f" "frame_start f < e" "unat (frame_start f) mod 4096 = 0"
    using m assms(2) align_up_nat_bounds(1) [of "unat s"] by (auto simp: word_le_nat_alt word_less_nat_alt)
qed

lemma frames_from_distinct:
  assumes "e \<le> 2 ^ 64 - 4096" shows "distinct (frames_from a e)"
proof -
  have "inj_on (\<lambda>k. Frame (of_nat (a + k * 4096))) {0..<(e - a + 4095) div 4096}"
  proof (rule inj_onI)
    fix j k
    assume "j \<in> {0..<(e - a + 4095) div 4096}" "k \<in> {0..<(e - a + 4095) div 4096}"
    then have "a + j * 4096 < 2 ^ 64" "a + k * 4096 < 2 ^ 64"
      using frames_from_bound [of j e a] frames_from_bound [of k e a] assms by auto
    moreover assume "Frame (of_nat (a + j * 4096)) = Frame (of_nat (a + k * 4096))"
    ultimately have "a + j * 4096 = a + k * 4096" by (metis Frame.sel unat_of_nat_u64)
    then show "j = k" by simp
  qed
  then show ?thesis by (simp add: frames_from_def distinct_map)
qed

lemma region_frames_distinct:
  "list_all region_ok rs \<Longrightarrow> sorted_wrt regions_disjoint rs \<Longrightarrow> distinct (concat (map region_frames rs))"
proof (induction rs)
  case (Cons r rs)
  obtain s e u where r: "r = (s, e, u)" by (cases r)
  have "set (region_frames r) \<inter> set (region_frames r') = {}" if "r' \<in> set rs" for r'
  proof -
    obtain s' e' u' where r': "r' = (s', e', u')" by (cases r')
    have ok: "region_ok (s, e, u)" "region_ok (s', e', u')" "e \<le> s' \<or> e' \<le> s"
      using Cons.prems that r r' by (auto simp: list_all_iff)
    have False if "f \<in> set (region_frames (s, e, u))" "f \<in> set (region_frames (s', e', u'))" for f
      using region_frames_mem(2,3) [OF that(1) ok(1)] region_frames_mem(2,3) [OF that(2) ok(2)] ok(3)
      by (auto dest: order_le_less_trans order_less_le_trans)
    then show ?thesis unfolding r r' by blast
  qed
  moreover have "distinct (region_frames r)" using Cons.prems by (auto simp: r frames_from_distinct)
  ultimately show ?case using Cons by auto
qed simp

end
