(* ===== verification/Frame_Properties.thy ===== *)
theory Frame_Properties
  imports Frame_Allocator
begin

text \<open>
  The properties of the early frame allocator: it hands out every aligned frame that starts in
  usable memory exactly once and in order, contiguous blocks lie in one usable region and are
  never handed out again, and single frames may reach past an unaligned region end.
\<close>

lemma frames_from_complete:
  assumes "a mod 4096 = 0" "unat x mod 4096 = 0" "a \<le> unat x" "unat x < e"
  shows "Frame x \<in> set (frames_from a e)"
proof -
  obtain k where k: "unat x = a + k * 4096"
    using assms(1-3) by (metis add_diff_inverse_nat dvd_def linorder_not_less mod_0_imp_dvd mod_eq_dvd_iff_nat mult.commute)
  then have "Suc k * 4096 \<le> e - a + 4095" using assms(4) by simp
  then have "k < (e - a + 4095) div 4096" by (simp add: less_eq_div_iff_mult_less_eq Suc_le_eq [symmetric])
  moreover have "x = of_nat (a + k * 4096)"
    unfolding k [symmetric] by simp
  ultimately show ?thesis unfolding frames_from_def by (auto intro!: image_eqI)
qed

lemma region_frames_iff:
  assumes "region_ok (s, e, u)"
  shows "Frame x \<in> set (region_frames (s, e, u)) \<longleftrightarrow> u \<and> unat x mod 4096 = 0 \<and> s \<le> x \<and> x < e"
proof
  assume "Frame x \<in> set (region_frames (s, e, u))"
  then show "u \<and> unat x mod 4096 = 0 \<and> s \<le> x \<and> x < e"
    using region_frames_mem [OF _ assms, of "Frame x"] by simp
next
  assume x: "u \<and> unat x mod 4096 = 0 \<and> s \<le> x \<and> x < e"
  have "align_up_nat (unat s) \<le> unat x"
    using aligned_next [of "unat x" 4096 "align_up_nat (unat s)"] align_up_nat_bounds(2,3) [of "unat s"] x
    by (cases "unat x \<le> align_up_nat (unat s)") (auto simp: word_le_nat_alt)
  then have "Frame x \<in> set (frames_from (align_up_nat (unat s)) (unat e))"
    using frames_from_complete [OF align_up_nat_bounds(3)] x by (simp add: word_less_nat_alt)
  then show "Frame x \<in> set (region_frames (s, e, u))" using x by (auto intro: order_trans)
qed

lemma new_wf: "list_all region_ok regions \<Longrightarrow> ea_wf (EarlyFrameAllocator_new regions)"
  "ea_pending (EarlyFrameAllocator_new regions) = concat (map region_frames regions)"
  by (simp_all add: ea_wf_def ea_pending_def EarlyFrameAllocator_new_def)



text \<open>
  C15: a block that \<open>allocate_contiguous\<close> returns has the requested number of frames, is
  aligned, lies completely inside one usable region (or the rest of the current one), its
  byte end does not overflow, and none of its frames is handed out by a later allocation.
\<close>

theorem allocate_contiguous_sound:
  assumes "ea_wf a" "distinct (ea_pending a)" "allocate_contiguous a n = (Some c, a')"
  shows "ea_wf a' \<and> distinct (ea_pending a') \<and> cf_frame_count c = n \<and> unat (cf_start c) mod 4096 = 0
    \<and> (\<exists>s e. ((s, e, True) \<in> set (ea_regions a) \<or> s = ea_next_address a \<and> e = ea_current_end a)
         \<and> s \<le> cf_start c \<and> (\<exists>b. cf_byte_end c = Some b \<and> b \<le> e))
    \<and> set (cf_frames c) \<inter> set (ea_pending a') = {}"
proof -
  note b = allocate_contiguous_spec [OF assms(1,3), unfolded block_of_def]
  then obtain s e where r: "(s, e, True) \<in> set (ea_regions a) \<or> s = ea_next_address a \<and> e = ea_current_end a"
      "s \<le> cf_start c" "unat (cf_start c) + unat n * 4096 \<le> unat e" by blast
  have "unat n * 4096 < 2 ^ 64" "unat (cf_start c) + unat n * 4096 < 2 ^ 64"
    using r(3) unat_u64_less [of e] by simp_all
  then have "cf_byte_end c = Some (cf_start c + n * 4096)" "unat (cf_start c + n * 4096) = unat (cf_start c) + unat n * 4096"
    using b by (simp_all add: cf_byte_end_def checked_mul_def checked_add_def FRAME_SIZE_def unat_word_ariths)
  then have "\<exists>b. cf_byte_end c = Some b \<and> b \<le> e" using r(3) by (simp add: word_le_nat_alt)
  moreover have "distinct (ea_pending a')" "set (cf_frames c) \<inter> set (ea_pending a') = {}"
    using b assms(2) by auto
  ultimately show ?thesis using b r by blast
qed

theorem allocate_contiguous_sound_witness:
  "\<exists>c a'. allocate_contiguous (EarlyFrameAllocator_new [(0x4000, 0x10000, True)]) 4 = (Some c, a')
     \<and> cf_frame_count c = 4 \<and> cf_byte_end c \<noteq> None"
proof -
  let ?rs = "[(0x4000, 0x10000, True)] :: boot_region list"
  let ?a = "EarlyFrameAllocator_new ?rs"
  have wf: "ea_wf ?a" "distinct (ea_pending ?a)"
    using new_wf [of ?rs] region_frames_distinct [of ?rs] by simp_all
  have "allocate_contiguous ?a 4 =
      (Some \<lparr>cf_start = 0x4000, cf_frame_count = 4\<rparr>, \<lparr>ea_regions = [], ea_current_end = 0x10000, ea_next_address = 0x8000\<rparr>)"
    by code_simp
  then show ?thesis using allocate_contiguous_sound [OF wf, of 4] by auto
qed

text \<open>
  A single frame may reach past the end of its usable region: in the memory map with
  usable bytes \<open>0x1000..0x1800\<close> and reserved bytes from \<open>0x1800\<close> on, \<open>allocate_frame\<close> returns the
  frame at \<open>0x1000\<close>, whose second half is reserved, while \<open>allocate_contiguous\<close> refuses a block
  of one frame there.
\<close>

theorem frame_past_region_end:
  "let a = EarlyFrameAllocator_new [(0x1000, 0x1800, True), (0x1800, 0x3000, False)]
   in fst (allocate_frame a) = Some (Frame 0x1000)
      \<and> pr_contains \<lparr>pr_start = 0x1800, pr_end = 0x3000\<rparr> (0x1000 + FRAME_SIZE - 1)
      \<and> fst (allocate_contiguous a 1) = None"
  by code_simp

end
