(* ===== verification/Loader.thy ===== *)
theory Loader
  imports Process_Image
begin

text \<open>
  The transactional segment mapper (\<open>process/loader.rs\<close>) and the construction of a process
  address space (\<open>process/address_space_builder.rs\<close>) over the page-table mapper interface of
  \<open>memory/page_table.rs\<close>. A mapper is a record of operations over its state; an outer \<open>None\<close> is
  a panic of the backend. TLB flushes have no effect on the tables and are not recorded.
\<close>

section \<open>The mapper interface\<close>

record 'm PageTableMapper =
  m_allocate_frame :: "'m \<Rightarrow> u64 option \<times> 'm"
  m_map_page :: "'m \<Rightarrow> Page4K \<Rightarrow> u64 \<Rightarrow> MappingFlags \<Rightarrow> ((MappingError + unit) \<times> 'm) option"
  m_unmap_page :: "'m \<Rightarrow> Page4K \<Rightarrow> ((MappingError + u64) \<times> 'm) option"
  m_page_access :: "'m \<Rightarrow> u64 \<Rightarrow> PageAccess option"

section \<open>Mapping a load plan\<close>

datatype LoadError =
    LoadInvalidPage
  | LoadMapping MappingError
  | TooManyPages
  | InvalidFlags
  | LoadRollbackFailed

definition MAX_MAPPED_PAGES :: nat where
  "MAX_MAPPED_PAGES = 128"

record MappedPage =
  mp_virtual_address :: u64
  mp_physical_address :: u64

text \<open>The page array and its count are a list.\<close>

record LoadResult =
  load_entry :: u64
  load_pages :: "MappedPage list"

definition load_mapped_pages :: "LoadResult \<Rightarrow> nat" where
  "load_mapped_pages r = length (load_pages r)"

definition load_page :: "LoadResult \<Rightarrow> nat \<Rightarrow> MappedPage option" where
  "load_page r index = (if index \<ge> load_mapped_pages r then None else Some (load_pages r ! index))"

definition load_page_base :: "u64 \<Rightarrow> u64 option" where
  "load_page_base virtual_address = Some (virtual_address AND NOT (PAGE_SIZE_4K - 1))"

definition contains_page :: "LoadResult \<Rightarrow> u64 \<Rightarrow> bool" where
  "contains_page r virtual_address =
     (case load_page_base virtual_address of
        None \<Rightarrow> False
      | Some page \<Rightarrow>
          list_ex (\<lambda>index. case load_page r index of
                             None \<Rightarrow> False
                           | Some mapped \<Rightarrow> mp_virtual_address mapped = page) [0..<load_mapped_pages r])"

definition flags_from_elf :: "u32 \<Rightarrow> MappingFlags option" where
  "flags_from_elf flags =
     (let writable = (flags AND 2 \<noteq> 0);
          executable = (flags AND 1 \<noteq> 0)
      in if writable \<and> executable then None
         else if \<not> writable \<and> \<not> executable then Some flags_read_only
         else if writable \<and> \<not> executable then Some flags_read_write
         else if \<not> writable \<and> executable then Some flags_read_execute
         else None)"

text \<open>\<open>rollback\<close> visits the pages from the last one back: it is called on the reversed list.\<close>

fun rollback_pages :: "'m PageTableMapper \<Rightarrow> MappedPage list \<Rightarrow> 'm \<Rightarrow> ((LoadError + unit) \<times> 'm) option" where
  "rollback_pages ops [] m = Some (Inr (), m)"
| "rollback_pages ops (mapped # rest) m =
     (case Page4K_from_start_address (mp_virtual_address mapped) of
        None \<Rightarrow> Some (Inl LoadInvalidPage, m)
      | Some page \<Rightarrow>
          (case m_unmap_page ops m page of
             None \<Rightarrow> None
           | Some (Inl _, m') \<Rightarrow> Some (Inl LoadRollbackFailed, m')
           | Some (Inr _, m') \<Rightarrow> rollback_pages ops rest m'))"

definition rollback :: "'m PageTableMapper \<Rightarrow> MappedPage list \<Rightarrow> 'm \<Rightarrow> ((LoadError + unit) \<times> 'm) option" where
  "rollback ops pages m = rollback_pages ops (rev pages) m"

text \<open>\<open>rollback(...)?; return Err(e)\<close>\<close>

definition fail_load ::
  "'m PageTableMapper \<Rightarrow> MappedPage list \<Rightarrow> LoadError \<Rightarrow> 'm \<Rightarrow> ((LoadError + 'a) \<times> 'm) option" where
  "fail_load ops pages e m =
     (case rollback ops pages m of
        None \<Rightarrow> None
      | Some (Inl r, m') \<Rightarrow> Some (Inl r, m')
      | Some (Inr _, m') \<Rightarrow> Some (Inl e, m'))"

function map_segment_pages ::
  "'m PageTableMapper \<Rightarrow> MappingFlags \<Rightarrow> u64 \<Rightarrow> u64 \<Rightarrow> MappedPage list \<Rightarrow> 'm \<Rightarrow>
     ((LoadError + MappedPage list) \<times> 'm) option" where
  "map_segment_pages ops flags e address pages m =
     (if address < e then
        if length pages = MAX_MAPPED_PAGES then fail_load ops pages TooManyPages m
        else (case Page4K_from_start_address address of
                None \<Rightarrow> fail_load ops pages LoadInvalidPage m
              | Some page \<Rightarrow>
             (case m_allocate_frame ops m of
                (None, m1) \<Rightarrow> fail_load ops pages (LoadMapping FrameAllocationFailed) m1
              | (Some frame, m1) \<Rightarrow>
             (case m_map_page ops m1 page frame flags of
                None \<Rightarrow> None
              | Some (Inl err, m2) \<Rightarrow> fail_load ops pages (LoadMapping err) m2
              | Some (Inr _, m2) \<Rightarrow>
                  let pages' = pages @ [\<lparr>mp_virtual_address = address, mp_physical_address = frame\<rparr>]
                  in (case checked_add address PAGE_SIZE_4K of
                        None \<Rightarrow> fail_load ops pages' LoadInvalidPage m2
                      | Some address' \<Rightarrow> map_segment_pages ops flags e address' pages' m2))))
      else Some (Inr pages, m))"
  by pat_completeness auto
termination
  by (relation "measure (\<lambda>(ops, flags, e, address, pages, m). unat e - unat address)")
    (auto simp: checked_add_eq_Some word_less_nat_alt layout)

declare map_segment_pages.simps [simp del]

fun map_segments ::
  "'m PageTableMapper \<Rightarrow> LoadPlan \<Rightarrow> nat list \<Rightarrow> MappedPage list \<Rightarrow> 'm \<Rightarrow>
     ((LoadError + MappedPage list) \<times> 'm) option" where
  "map_segments ops plan [] pages m = Some (Inr pages, m)"
| "map_segments ops plan (index # rest) pages m =
     (case plan_segment plan index of
        None \<Rightarrow> Some (Inl LoadInvalidPage, m)
      | Some segment \<Rightarrow>
     (case flags_from_elf (sm_flags segment) of
        None \<Rightarrow> Some (Inl InvalidFlags, m)
      | Some flags \<Rightarrow>
     (case map_segment_pages ops flags (vr_end (sm_virtual_range segment))
             (vr_start (sm_virtual_range segment)) pages m of
        None \<Rightarrow> None
      | Some (Inl e, m') \<Rightarrow> Some (Inl e, m')
      | Some (Inr pages', m') \<Rightarrow> map_segments ops plan rest pages' m')))"

definition map_load_plan :: "'m PageTableMapper \<Rightarrow> LoadPlan \<Rightarrow> 'm \<Rightarrow> ((LoadError + LoadResult) \<times> 'm) option" where
  "map_load_plan ops plan m =
     (case map_segments ops plan [0..<plan_count plan] [] m of
        None \<Rightarrow> None
      | Some (Inl e, m') \<Rightarrow> Some (Inl e, m')
      | Some (Inr pages, m') \<Rightarrow> Some (Inr \<lparr>load_entry = plan_entry plan, load_pages = pages\<rparr>, m'))"

section \<open>Building an address space\<close>

datatype AddressSpaceBuildError =
    BuildAddressSpaceMismatch
  | BuildImage LoadError
  | StackMappingFailed
  | EntryUnmapped
  | EntryNotExecutable
  | StackUnmapped
  | StackNotWritable
  | StackExecutable
  | InvalidStackPage
  | BuildRollbackFailed

record MappedStackPage =
  msp_virtual_page :: Page4K
  msp_physical_address :: u64

record BuiltAddressSpace =
  built_image :: ProcessImage
  built_load :: LoadResult
  built_stack_pages :: "MappedStackPage list"
  built_entry_executable :: bool
  built_stack_writable :: bool
  built_stack_executable :: bool

definition built_stack_count :: "BuiltAddressSpace \<Rightarrow> nat" where
  "built_stack_count b = length (built_stack_pages b)"

definition built_stack_page :: "BuiltAddressSpace \<Rightarrow> nat \<Rightarrow> MappedStackPage option" where
  "built_stack_page b index = (if index \<ge> built_stack_count b then None else Some (built_stack_pages b ! index))"

fun rollback_load ::
  "'m PageTableMapper \<Rightarrow> LoadResult \<Rightarrow> nat list \<Rightarrow> 'm \<Rightarrow> ((AddressSpaceBuildError + unit) \<times> 'm) option" where
  "rollback_load ops load [] m = Some (Inr (), m)"
| "rollback_load ops load (index # rest) m =
     (case load_page load index of
        None \<Rightarrow> Some (Inl BuildRollbackFailed, m)
      | Some mapped \<Rightarrow>
     (case Page4K_from_start_address (mp_virtual_address mapped) of
        None \<Rightarrow> Some (Inl BuildRollbackFailed, m)
      | Some page \<Rightarrow>
     (case m_unmap_page ops m page of
        None \<Rightarrow> None
      | Some (Inl _, m') \<Rightarrow> Some (Inl BuildRollbackFailed, m')
      | Some (Inr _, m') \<Rightarrow> rollback_load ops load rest m')))"

fun rollback_stack ::
  "'m PageTableMapper \<Rightarrow> MappedStackPage list \<Rightarrow> 'm \<Rightarrow> ((AddressSpaceBuildError + unit) \<times> 'm) option" where
  "rollback_stack ops [] m = Some (Inr (), m)"
| "rollback_stack ops (mapped # rest) m =
     (case m_unmap_page ops m (msp_virtual_page mapped) of
        None \<Rightarrow> None
      | Some (Inl _, m') \<Rightarrow> Some (Inl BuildRollbackFailed, m')
      | Some (Inr _, m') \<Rightarrow> rollback_stack ops rest m')"

text \<open>\<open>rollback_stack(...)?; rollback_load(...)?; return Err(e)\<close>\<close>

definition fail_build ::
  "'m PageTableMapper \<Rightarrow> LoadResult \<Rightarrow> MappedStackPage list \<Rightarrow> AddressSpaceBuildError \<Rightarrow> 'm \<Rightarrow>
     ((AddressSpaceBuildError + 'a) \<times> 'm) option" where
  "fail_build ops load spages e m =
     (case rollback_stack ops (rev spages) m of
        None \<Rightarrow> None
      | Some (Inl r, m1) \<Rightarrow> Some (Inl r, m1)
      | Some (Inr _, m1) \<Rightarrow>
          (case rollback_load ops load (rev [0..<load_mapped_pages load]) m1 of
             None \<Rightarrow> None
           | Some (Inl r, m2) \<Rightarrow> Some (Inl r, m2)
           | Some (Inr _, m2) \<Rightarrow> Some (Inl e, m2)))"

text \<open>A page beyond the fixed array of stack pages is an index panic.\<close>

fun map_stack ::
  "'m PageTableMapper \<Rightarrow> LoadResult \<Rightarrow> UserStackPlan \<Rightarrow> nat list \<Rightarrow> MappedStackPage list \<Rightarrow> 'm \<Rightarrow>
     ((AddressSpaceBuildError + MappedStackPage list) \<times> 'm) option" where
  "map_stack ops load stack [] spages m = Some (Inr spages, m)"
| "map_stack ops load stack (index # rest) spages m =
     (case stack_page stack index of
        None \<Rightarrow> Some (Inl InvalidStackPage, m)
      | Some page \<Rightarrow>
     (case m_allocate_frame ops m of
        (None, m1) \<Rightarrow> fail_build ops load spages StackMappingFailed m1
      | (Some frame, m1) \<Rightarrow>
     (case m_map_page ops m1 page frame flags_read_write of
        None \<Rightarrow> None
      | Some (Inl _, m2) \<Rightarrow> fail_build ops load spages StackMappingFailed m2
      | Some (Inr _, m2) \<Rightarrow>
          if length spages \<ge> unat USER_STACK_PAGES then None
          else map_stack ops load stack rest
                 (spages @ [\<lparr>msp_virtual_page = page, msp_physical_address = frame\<rparr>]) m2)))"

definition verify_built ::
  "'m PageTableMapper \<Rightarrow> ProcessImage \<Rightarrow> LoadResult \<Rightarrow> MappedStackPage list \<Rightarrow> 'm \<Rightarrow>
     ((AddressSpaceBuildError + BuiltAddressSpace) \<times> 'm) option" where
  "verify_built ops img load spages m =
     (case m_page_access ops m (load_entry load) of
        None \<Rightarrow> None
      | Some entry_access \<Rightarrow>
          if \<not> acc_mapped entry_access \<or> \<not> acc_user entry_access then fail_build ops load spages EntryUnmapped m
          else if \<not> acc_executable entry_access then fail_build ops load spages EntryNotExecutable m
          else (case checked_sub (stack_initial_rsp (pi_stack_plan img)) 1 of
                  None \<Rightarrow> Some (Inl StackUnmapped, m)
                | Some stack_top_minus_one \<Rightarrow>
               (case m_page_access ops m stack_top_minus_one of
                  None \<Rightarrow> None
                | Some stack_access \<Rightarrow>
                    if \<not> acc_mapped stack_access \<or> \<not> acc_user stack_access
                    then fail_build ops load spages StackUnmapped m
                    else if \<not> acc_writable stack_access then fail_build ops load spages StackNotWritable m
                    else if acc_executable stack_access then fail_build ops load spages StackExecutable m
                    else Some (Inr \<lparr>built_image = img, built_load = load, built_stack_pages = spages,
                           built_entry_executable = acc_executable entry_access,
                           built_stack_writable = acc_writable stack_access,
                           built_stack_executable = acc_executable stack_access\<rparr>, m))))"

definition build_address_space ::
  "'m PageTableMapper \<Rightarrow> AddressSpaceSpec \<Rightarrow> ProcessImage \<Rightarrow> 'm \<Rightarrow>
     ((AddressSpaceBuildError + BuiltAddressSpace) \<times> 'm) option" where
  "build_address_space ops spec img m =
     (if spec_id (pi_address_space img) \<noteq> spec_id spec then Some (Inl BuildAddressSpaceMismatch, m)
      else case map_load_plan ops (pi_load_plan img) m of
             None \<Rightarrow> None
           | Some (Inl e, m1) \<Rightarrow> Some (Inl (BuildImage e), m1)
           | Some (Inr load, m1) \<Rightarrow>
               (case map_stack ops load (pi_stack_plan img) [0..<stack_count (pi_stack_plan img)] [] m1 of
                  None \<Rightarrow> None
                | Some (Inl e, m2) \<Rightarrow> Some (Inl e, m2)
                | Some (Inr spages, m2) \<Rightarrow> verify_built ops img load spages m2))"

end
