(* ===== verification/Mapper_Contract.thy ===== *)
theory Mapper_Contract
  imports Loader
begin

text \<open>
  The contract of a page-table mapper and what the loader makes of it. A mapper has a view,
  the mapped pages with their frames and access rights, and a list of frames still available.
  The lemmas of the locale show that mapping a plan is a transaction: a failure restores the
  view, and a success maps exactly the planned pages on distinct frames.
\<close>

section \<open>Views\<close>

type_synonym page_view = "u64 \<rightharpoonup> u64 \<times> PageAccess"

definition access_of :: "MappingFlags \<Rightarrow> PageAccess" where
  "access_of fl = \<lparr>acc_mapped = True, acc_user = True, acc_readable = True,
     acc_writable = flags_writable fl, acc_executable = flags_executable fl\<rparr>"

text \<open>\<open>grown base ps v\<close>: the view \<open>v\<close> is \<open>base\<close> with the pages \<open>ps\<close>, all unmapped before, added.\<close>

inductive grown :: "('a \<rightharpoonup> 'b) \<Rightarrow> 'a list \<Rightarrow> ('a \<rightharpoonup> 'b) \<Rightarrow> bool" for base where
  grown_none: "grown base [] base"
| grown_page: "grown base ps v \<Longrightarrow> v p = None \<Longrightarrow> grown base (ps @ [p]) (v(p \<mapsto> x))"

inductive_cases grown_NilE: "grown base [] v"

lemma grown_outside: "grown base ps v \<Longrightarrow> x \<notin> set ps \<Longrightarrow> v x = base x"
  by (induction rule: grown.induct) auto

lemma grown_inside: "grown base ps v \<Longrightarrow> x \<in> set ps \<Longrightarrow> v x \<noteq> None \<and> base x = None"
proof (induction rule: grown.induct)
  case (grown_page ps v p y)
  then show ?case using grown_outside [OF grown_page(1), of x] by (cases "x \<in> set ps") auto
qed simp

lemma grown_distinct: "grown base ps v \<Longrightarrow> distinct ps"
  by (induction rule: grown.induct) (auto dest: grown_inside)

lemma grown_last:
  assumes "grown base (ps @ [p]) v"
  shows "v p \<noteq> None" "grown base ps (v(p := None))"
proof -
  obtain v0 x where v: "grown base ps v0" "v0 p = None" "v = v0(p \<mapsto> x)"
    using assms by (cases rule: grown.cases) auto
  then have "v(p := None) = v0" by (auto simp: fun_eq_iff)
  then show "v p \<noteq> None" "grown base ps (v(p := None))" using v by simp_all
qed

lemma flags_from_elf_access:
  assumes "flags_from_elf fl = Some flags"
  shows "acc_writable (access_of flags) \<longleftrightarrow> fl AND 2 \<noteq> 0" "acc_executable (access_of flags) \<longleftrightarrow> fl AND 1 \<noteq> 0"
    "\<not> (acc_writable (access_of flags) \<and> acc_executable (access_of flags))"
  using assms
  by (auto simp: flags_from_elf_def Let_def access_of_def flags_writable_def flags_executable_def
      flags_read_only_def flags_read_write_def flags_read_execute_def split: if_splits)

definition page_aligned :: "u64 \<Rightarrow> bool" where
  "page_aligned a \<longleftrightarrow> unat a mod 4096 = 0"

lemma page_from_address [simp]:
  "Page4K_from_start_address a = (if page_aligned a then Some (Page4K a) else None)"
  using aligned_iff [of a] by (simp add: Page4K_from_start_address_def page_aligned_def)

text \<open>What mapping the pages of \<open>[s, e)\<close> with one set of flags adds to the page list and the view.\<close>

definition span_mapped ::
  "MappingFlags \<Rightarrow> u64 \<Rightarrow> u64 \<Rightarrow> MappedPage list \<Rightarrow> page_view \<Rightarrow> MappedPage list \<Rightarrow> page_view \<Rightarrow> bool" where
  "span_mapped flags s e pages v pages' v' \<longleftrightarrow>
     (\<exists>added. pages' = pages @ added
        \<and> (\<forall>p\<in>set added. s \<le> mp_virtual_address p \<and> mp_virtual_address p < e
             \<and> v' (mp_virtual_address p) = Some (mp_physical_address p, access_of flags))
        \<and> (\<forall>x. s \<le> x \<and> x < e \<and> page_aligned x \<longrightarrow> x \<in> mp_virtual_address ` set added)
        \<and> (\<forall>x. x \<notin> mp_virtual_address ` set added \<longrightarrow> v' x = v x))"

lemma span_mapped_empty: "\<not> s < e \<Longrightarrow> span_mapped flags s e pages v pages v"
  by (auto simp: span_mapped_def)

lemma span_mapped_step:
  assumes "span_mapped flags s' e (pages @ [\<lparr>mp_virtual_address = s, mp_physical_address = f\<rparr>])
      (v(s \<mapsto> (f, access_of flags))) pages' v'"
    and s: "unat s' = unat s + 4096" "s < e" "page_aligned s"
  shows "span_mapped flags s e pages v pages' v'"
proof -
  let ?p = "\<lparr>mp_virtual_address = s, mp_physical_address = f\<rparr>"
  obtain added where n: "pages' = (pages @ [?p]) @ added"
    "\<forall>p\<in>set added. s' \<le> mp_virtual_address p \<and> mp_virtual_address p < e
       \<and> v' (mp_virtual_address p) = Some (mp_physical_address p, access_of flags)"
    "\<forall>x. s' \<le> x \<and> x < e \<and> page_aligned x \<longrightarrow> x \<in> mp_virtual_address ` set added"
    "\<forall>x. x \<notin> mp_virtual_address ` set added \<longrightarrow> v' x = (v(s \<mapsto> (f, access_of flags))) x"
    using assms(1) unfolding span_mapped_def by blast
  have lt: "s < s'" using s(1) by (simp add: word_less_nat_alt)
  then have "s \<notin> mp_virtual_address ` set added" using n(2) by force
  then have v: "v' s = Some (f, access_of flags)" using n(4) by simp
  have nxt: "x = s \<or> s' \<le> x" if "s \<le> x" "page_aligned x" for x
    using aligned_next [of "unat s" 4096 "unat x"] s that unfolding page_aligned_def
    by (auto simp: word_le_nat_alt word_unat_eq_iff)
  have "x \<in> mp_virtual_address ` set (?p # added)" if "s \<le> x \<and> x < e \<and> page_aligned x" for x
    using nxt [of x] n(3) [rule_format, of x] that by fastforce
  then have "\<forall>x. s \<le> x \<and> x < e \<and> page_aligned x \<longrightarrow> x \<in> mp_virtual_address ` set (?p # added)" by blast
  moreover have "\<forall>p\<in>set (?p # added). s \<le> mp_virtual_address p \<and> mp_virtual_address p < e
       \<and> v' (mp_virtual_address p) = Some (mp_physical_address p, access_of flags)"
    using n(2) v s(2) lt by (auto intro: order_trans less_imp_le)
  moreover have "\<forall>x. x \<notin> mp_virtual_address ` set (?p # added) \<longrightarrow> v' x = v x" using n(4) by auto
  ultimately show ?thesis using n(1) unfolding span_mapped_def by (intro exI [of _ "?p # added"]) simp
qed

text \<open>The same for a list of planned segments, each with the access rights of its ELF flags.\<close>

definition segment_access :: "SegmentMapping \<Rightarrow> PageAccess" where
  "segment_access s = access_of (the (flags_from_elf (sm_flags s)))"

definition plan_mapped ::
  "SegmentMapping list \<Rightarrow> MappedPage list \<Rightarrow> page_view \<Rightarrow> MappedPage list \<Rightarrow> page_view \<Rightarrow> bool" where
  "plan_mapped segs pages v pages' v' \<longleftrightarrow>
     (\<exists>added. pages' = pages @ added
        \<and> (\<forall>p\<in>set added. \<exists>s\<in>set segs. vr_contains (sm_virtual_range s) (mp_virtual_address p)
             \<and> v' (mp_virtual_address p) = Some (mp_physical_address p, segment_access s))
        \<and> (\<forall>s\<in>set segs. \<forall>x. vr_contains (sm_virtual_range s) x \<and> page_aligned x \<longrightarrow>
             x \<in> mp_virtual_address ` set added)
        \<and> (\<forall>x. x \<notin> mp_virtual_address ` set added \<longrightarrow> v' x = v x))"

lemma plan_mapped_Nil: "plan_mapped [] pages v pages v"
  by (simp add: plan_mapped_def)

lemma plan_mapped_Cons:
  assumes a: "span_mapped flags (vr_start (sm_virtual_range s)) (vr_end (sm_virtual_range s)) pages v pages1 v1"
    and b: "plan_mapped segs pages1 v1 pages' v'"
    and f: "flags_from_elf (sm_flags s) = Some flags"
    and d: "distinct (map mp_virtual_address pages')"
  shows "plan_mapped (s # segs) pages v pages' v'"
proof -
  have acc: "segment_access s = access_of flags" using f by (simp add: segment_access_def)
  obtain new1 where n1: "pages1 = pages @ new1"
    "\<forall>p\<in>set new1. vr_contains (sm_virtual_range s) (mp_virtual_address p)
        \<and> v1 (mp_virtual_address p) = Some (mp_physical_address p, segment_access s)"
    "\<forall>x. vr_contains (sm_virtual_range s) x \<and> page_aligned x \<longrightarrow> x \<in> mp_virtual_address ` set new1"
    "\<forall>x. x \<notin> mp_virtual_address ` set new1 \<longrightarrow> v1 x = v x"
    using a unfolding span_mapped_def vr_contains_def acc by auto
  obtain new2 where n2: "pages' = pages1 @ new2"
    "\<forall>p\<in>set new2. \<exists>s\<in>set segs. vr_contains (sm_virtual_range s) (mp_virtual_address p)
        \<and> v' (mp_virtual_address p) = Some (mp_physical_address p, segment_access s)"
    "\<forall>s\<in>set segs. \<forall>x. vr_contains (sm_virtual_range s) x \<and> page_aligned x \<longrightarrow> x \<in> mp_virtual_address ` set new2"
    "\<forall>x. x \<notin> mp_virtual_address ` set new2 \<longrightarrow> v' x = v1 x"
    using b unfolding plan_mapped_def by blast
  have "mp_virtual_address ` set new1 \<inter> mp_virtual_address ` set new2 = {}"
    using d n1(1) n2(1) by auto
  then have "v' (mp_virtual_address p) = v1 (mp_virtual_address p)" if "p \<in> set new1" for p
    using n2(4) that by (metis disjoint_iff imageI)
  then have "\<forall>p\<in>set new1. vr_contains (sm_virtual_range s) (mp_virtual_address p)
        \<and> v' (mp_virtual_address p) = Some (mp_physical_address p, segment_access s)"
    using n1(2) by simp
  then have "\<forall>p\<in>set (new1 @ new2). \<exists>s'\<in>set (s # segs). vr_contains (sm_virtual_range s') (mp_virtual_address p)
        \<and> v' (mp_virtual_address p) = Some (mp_physical_address p, segment_access s')"
    using n2(2) by auto
  moreover have "\<forall>s'\<in>set (s # segs). \<forall>x. vr_contains (sm_virtual_range s') x \<and> page_aligned x \<longrightarrow>
      x \<in> mp_virtual_address ` set (new1 @ new2)"
    using n1(3) n2(3) by (auto simp: image_Un)
  ultimately show ?thesis
    using n1(1,4) n2(1,4) unfolding plan_mapped_def
    by (intro exI [of _ "new1 @ new2"]) (simp add: image_Un)
qed

abbreviation stack_address :: "MappedStackPage \<Rightarrow> u64" where
  "stack_address p \<equiv> page_start_address (msp_virtual_page p)"

text \<open>A finished address space: what it adds to the view and the frames it uses.\<close>

definition built_over :: "ProcessImage \<Rightarrow> BuiltAddressSpace \<Rightarrow> page_view \<Rightarrow> page_view \<Rightarrow> bool" where
  "built_over img b v v' \<longleftrightarrow>
     built_image b = img \<and> load_entry (built_load b) = plan_entry (pi_load_plan img)
     \<and> plan_mapped (plan_segments (pi_load_plan img)) [] v' (load_pages (built_load b)) v'
     \<and> map msp_virtual_page (built_stack_pages b) = stack_pages (pi_stack_plan img)
     \<and> (\<forall>p\<in>set (built_stack_pages b).
          v' (stack_address p) = Some (msp_physical_address p, access_of flags_read_write))
     \<and> (\<forall>x. x \<notin> mp_virtual_address ` set (load_pages (built_load b)) \<union> stack_address ` set (built_stack_pages b)
          \<longrightarrow> v' x = v x)
     \<and> distinct (map mp_virtual_address (load_pages (built_load b)) @ map stack_address (built_stack_pages b))
     \<and> distinct (map mp_physical_address (load_pages (built_load b))
          @ map msp_physical_address (built_stack_pages b))
     \<and> (\<exists>f acc. v' (page_of (plan_entry (pi_load_plan img))) = Some (f, acc) \<and> acc_executable acc)"

lemma plan_mapped_later:
  assumes "plan_mapped segs [] v pages v1" "\<forall>p\<in>set pages. v2 (mp_virtual_address p) = v1 (mp_virtual_address p)"
  shows "plan_mapped segs [] v2 pages v2"
  using assms unfolding plan_mapped_def by auto

section \<open>The contract\<close>

locale page_table_mapper =
  fixes ops :: "'m PageTableMapper"
    and invar :: "'m \<Rightarrow> bool"
    and view :: "'m \<Rightarrow> page_view"
    and avail :: "'m \<Rightarrow> u64 list"
  assumes alloc_law: "invar m \<Longrightarrow> m_allocate_frame ops m = (r, m') \<Longrightarrow>
      invar m' \<and> view m' = view m \<and>
      (case r of None \<Rightarrow> avail m' = avail m | Some f \<Rightarrow> avail m = f # avail m')"
    and map_law: "invar m \<Longrightarrow> page_aligned (page_start_address p) \<Longrightarrow> m_map_page ops m p f fl = Some (res, m') \<Longrightarrow>
      invar m' \<and> (\<exists>taken. avail m = taken @ avail m') \<and>
      (case res of Inl e \<Rightarrow> view m' = view m
       | Inr _ \<Rightarrow> view m (page_start_address p) = None
           \<and> view m' = (view m)(page_start_address p \<mapsto> (f, access_of fl)))"
    and unmap_law: "invar m \<Longrightarrow> view m (page_start_address p) \<noteq> None \<Longrightarrow>
      \<exists>f m'. m_unmap_page ops m p = Some (Inr f, m') \<and> invar m'
        \<and> view m' = (view m)(page_start_address p := None) \<and> avail m' = avail m"
    and access_law: "invar m \<Longrightarrow> m_page_access ops m a = Some acc \<Longrightarrow>
      acc = (case view m (page_of a) of None \<Rightarrow> access_unmapped | Some (f, acc) \<Rightarrow> acc)"
begin

lemma rollback_restores:
  assumes "invar m" "grown base (map mp_virtual_address pages) (view m)"
    and "\<forall>p\<in>set pages. page_aligned (mp_virtual_address p)"
  shows "\<exists>m'. rollback ops pages m = Some (Inr (), m') \<and> invar m' \<and> view m' = base"
  using assms
proof (induction pages arbitrary: m rule: rev_induct)
  case Nil
  then show ?case by (auto simp: rollback_def elim: grown_NilE)
next
  case (snoc p pages)
  note last = grown_last [of base "map mp_virtual_address pages" "mp_virtual_address p" "view m"]
  obtain f m1 where u: "m_unmap_page ops m (Page4K (mp_virtual_address p)) = Some (Inr f, m1)" "invar m1"
      "view m1 = (view m)(mp_virtual_address p := None)"
    using unmap_law [OF snoc(2), of "Page4K (mp_virtual_address p)"] last(1) snoc(3) by auto
  then have "grown base (map mp_virtual_address pages) (view m1)" using last(2) snoc(3) by simp
  then have "\<exists>m'. rollback ops pages m1 = Some (Inr (), m') \<and> invar m' \<and> view m' = base"
    using snoc(1) [OF u(2)] snoc(4) by simp
  then show ?case using u(1) snoc(4) by (simp add: rollback_def)
qed

lemma fail_load_restores:
  assumes "invar m" "grown base (map mp_virtual_address pages) (view m)"
    and "\<forall>p\<in>set pages. page_aligned (mp_virtual_address p)"
  shows "\<exists>m'. fail_load ops pages e m = Some (Inl e, m') \<and> invar m' \<and> view m' = base"
  using rollback_restores [OF assms] by (auto simp: fail_load_def)

text \<open>The state between two pages of a transaction that started with the view \<open>base\<close>.\<close>

definition in_load :: "page_view \<Rightarrow> MappedPage list \<Rightarrow> 'm \<Rightarrow> bool" where
  "in_load base pages m \<longleftrightarrow> invar m \<and> grown base (map mp_virtual_address pages) (view m)
     \<and> (\<forall>p\<in>set pages. page_aligned (mp_virtual_address p))
     \<and> distinct (map mp_physical_address pages @ avail m)"

definition load_failed :: "page_view \<Rightarrow> LoadError \<Rightarrow> 'm \<Rightarrow> bool" where
  "load_failed base err m \<longleftrightarrow> invar m \<and> view m = base \<and> err \<noteq> LoadRollbackFailed"

lemma fail_load_in:
  assumes "in_load base pages m" "fail_load ops pages err m = Some (r, m')" "err \<noteq> LoadRollbackFailed"
  shows "r = Inl err \<and> load_failed base err m'"
proof -
  have "\<exists>m2. Some (r, m') = Some (Inl err, m2) \<and> invar m2 \<and> view m2 = base"
    unfolding assms(2) [symmetric] using assms(1) by (intro fail_load_restores) (simp_all add: in_load_def)
  then show ?thesis using assms(3) by (auto simp: load_failed_def)
qed

lemma in_load_alloc:
  assumes "in_load base pages m" "m_allocate_frame ops m = (r, m1)"
  shows "in_load base pages m1" "view m1 = view m"
    "r = Some f \<Longrightarrow> distinct (map mp_physical_address pages @ f # avail m1)"
  using alloc_law [of m r m1] assms by (auto simp: in_load_def split: option.splits)

lemma in_load_map:
  assumes "in_load base pages m" "page_aligned a" "distinct (map mp_physical_address pages @ f # avail m)"
    and "m_map_page ops m (Page4K a) f flags = Some (r, m')"
  shows "case r of
      Inl e \<Rightarrow> in_load base pages m'
    | Inr _ \<Rightarrow> in_load base (pages @ [\<lparr>mp_virtual_address = a, mp_physical_address = f\<rparr>]) m'
        \<and> view m' = (view m)(a \<mapsto> (f, access_of flags))"
proof -
  note l = map_law [OF _ _ assms(4)]
  obtain taken where "avail m = taken @ avail m'" using l assms(1,2) by (auto simp: in_load_def)
  then show ?thesis
    using l assms(1-3) grown_page [of base "map mp_virtual_address pages" "view m" a]
    by (auto simp: in_load_def split: sum.splits)
qed

lemma map_segment_pages_spec:
  assumes "in_load base pages m" "map_segment_pages ops flags e address pages m = Some (r, m')"
  shows "case r of
      Inl err \<Rightarrow> load_failed base err m'
    | Inr pages' \<Rightarrow> in_load base pages' m' \<and> span_mapped flags address e pages (view m) pages' (view m')"
  using assms
proof (induction "unat e - unat address" arbitrary: address pages m rule: less_induct)
  case less
  note unf = map_segment_pages.simps [of ops flags e address pages m]
  show ?case
  proof (cases "address < e \<and> length pages \<noteq> MAX_MAPPED_PAGES \<and> page_aligned address")
    case False
    then show ?thesis
      using less.prems
      by (auto simp: unf span_mapped_empty dest!: fail_load_in [OF less.prems(1)] split: if_splits option.splits)
  next
    case True
    obtain f m1 where a: "m_allocate_frame ops m = (f, m1)" by fastforce
    note al = in_load_alloc [OF less.prems(1) a]
    show ?thesis
    proof (cases f)
      case None
      then show ?thesis
        using less.prems(2) True a by (auto simp: unf dest!: fail_load_in [OF al(1)])
    next
      case (Some frame)
      let ?pages = "pages @ [\<lparr>mp_virtual_address = address, mp_physical_address = frame\<rparr>]"
      obtain res m2 where mp: "m_map_page ops m1 (Page4K address) frame flags = Some (res, m2)"
        using less.prems(2) True a Some by (auto simp: unf split: option.splits)
      have "page_aligned address" using True by simp
      note ml = in_load_map [OF al(1) this al(3) [OF Some] mp]
      show ?thesis
      proof (cases res)
        case (Inl err)
        then show ?thesis
          using less.prems(2) True a Some mp ml by (auto simp: unf dest!: fail_load_in)
      next
        case (Inr u)
        show ?thesis
        proof (cases "checked_add address PAGE_SIZE_4K")
          case None
          then show ?thesis
            using less.prems(2) True a \<open>f = Some frame\<close> mp Inr ml by (auto simp: unf dest!: fail_load_in)
        next
          case (Some address')
          then have s': "unat address' = unat address + 4096" by (simp add: checked_add_eq_Some)
          have "map_segment_pages ops flags e address' ?pages m2 = Some (r, m')"
            using less.prems(2) True a \<open>f = Some frame\<close> mp Inr Some by (simp add: unf)
          then show ?thesis
            using less.hyps [of address' ?pages m2] ml Inr al(2) s' True span_mapped_step [OF _ s', of flags e pages frame "view m"]
            by (auto simp: word_less_nat_alt split: sum.splits)
        qed
      qed
    qed
  qed
qed

lemma map_segments_spec:
  assumes "in_load base pages m" "map_segments ops plan idxs pages m = Some (r, m')"
    and "\<forall>i\<in>set idxs. i < plan_count plan \<and> flags_from_elf (sm_flags (plan_segments plan ! i)) \<noteq> None"
  shows "case r of
      Inl err \<Rightarrow> load_failed base err m'
    | Inr pages' \<Rightarrow> in_load base pages' m'
        \<and> plan_mapped (map (\<lambda>i. plan_segments plan ! i) idxs) pages (view m) pages' (view m')"
  using assms
proof (induction idxs arbitrary: pages m)
  case (Cons i idxs)
  let ?s = "plan_segments plan ! i"
  obtain flags where f: "flags_from_elf (sm_flags ?s) = Some flags" using Cons.prems(3) by auto
  have seg: "plan_segment plan i = Some ?s" using Cons.prems(3) by (simp add: plan_segment_def)
  obtain r1 m1 where s: "map_segment_pages ops flags (vr_end (sm_virtual_range ?s))
      (vr_start (sm_virtual_range ?s)) pages m = Some (r1, m1)"
    using Cons.prems(2) f seg by (auto split: option.splits)
  note sp = map_segment_pages_spec [OF Cons.prems(1) s]
  show ?case
  proof (cases r1)
    case (Inl err)
    then show ?thesis using Cons.prems(2) f seg s sp by auto
  next
    case (Inr pages1)
    then have "map_segments ops plan idxs pages1 m1 = Some (r, m')" using Cons.prems(2) f seg s by simp
    then have ih: "case r of Inl err \<Rightarrow> load_failed base err m'
      | Inr pages' \<Rightarrow> in_load base pages' m'
        \<and> plan_mapped (map (\<lambda>i. plan_segments plan ! i) idxs) pages1 (view m1) pages' (view m')"
      using Cons.IH [of pages1 m1] Cons.prems(3) sp Inr by simp
    show ?thesis
    proof (cases r)
      case (Inr pages')
      then have "distinct (map mp_virtual_address pages')"
        using ih grown_distinct by (auto simp: in_load_def)
      then show ?thesis using ih Inr sp \<open>r1 = Inr pages1\<close> plan_mapped_Cons [OF _ _ f] by auto
    qed (use ih in simp)
  qed
qed (auto simp: plan_mapped_Nil)

lemma map_load_plan_spec:
  assumes "invar m" "distinct (avail m)" "map_load_plan ops plan m = Some (r, m')"
    and "\<forall>s\<in>set (plan_segments plan). flags_from_elf (sm_flags s) \<noteq> None"
  shows "case r of
      Inl err \<Rightarrow> load_failed (view m) err m'
    | Inr load \<Rightarrow> load_entry load = plan_entry plan \<and> in_load (view m) (load_pages load) m'
        \<and> plan_mapped (plan_segments plan) [] (view m) (load_pages load) (view m')"
proof -
  have start: "in_load (view m) [] m" using assms(1,2) by (simp add: in_load_def grown_none)
  obtain r1 m1 where s: "map_segments ops plan [0..<plan_count plan] [] m = Some (r1, m1)"
    using assms(3) by (auto simp: map_load_plan_def split: option.splits)
  have "map (\<lambda>i. plan_segments plan ! i) [0..<plan_count plan] = plan_segments plan"
    by (simp add: plan_count_def map_nth)
  then show ?thesis
    using map_segments_spec [OF start s] assms(3,4) s
    by (auto simp: map_load_plan_def plan_count_def split: sum.splits)
qed

lemma rollback_stack_restores:
  assumes "invar m" "grown base (pre @ map stack_address spages) (view m)"
  shows "\<exists>m'. rollback_stack ops (rev spages) m = Some (Inr (), m') \<and> invar m' \<and> grown base pre (view m')"
  using assms
proof (induction spages arbitrary: m rule: rev_induct)
  case (snoc p spages)
  note last = grown_last [of base "pre @ map stack_address spages" "stack_address p" "view m"]
  obtain f m1 where u: "m_unmap_page ops m (msp_virtual_page p) = Some (Inr f, m1)" "invar m1"
      "view m1 = (view m)(stack_address p := None)"
    using unmap_law [OF snoc(2), of "msp_virtual_page p"] last(1) snoc(3) by auto
  then have "grown base (pre @ map stack_address spages) (view m1)" using last(2) snoc(3) by simp
  then show ?case using snoc(1) [OF u(2)] u(1) by simp
qed simp

lemma rollback_load_restores:
  assumes "n \<le> load_mapped_pages load" "invar m"
    and "grown base (map mp_virtual_address (take n (load_pages load))) (view m)"
    and "\<forall>p\<in>set (load_pages load). page_aligned (mp_virtual_address p)"
  shows "\<exists>m'. rollback_load ops load (rev [0..<n]) m = Some (Inr (), m') \<and> invar m' \<and> view m' = base"
  using assms
proof (induction n arbitrary: m)
  case 0
  then show ?case by (auto elim: grown_NilE)
next
  case (Suc n)
  let ?p = "load_pages load ! n"
  have n: "n < length (load_pages load)" using Suc.prems(1) by (simp add: load_mapped_pages_def)
  then have g: "grown base (map mp_virtual_address (take n (load_pages load)) @ [mp_virtual_address ?p]) (view m)"
    using Suc.prems(3) by (simp add: take_Suc_conv_app_nth)
  obtain f m1 where u: "m_unmap_page ops m (Page4K (mp_virtual_address ?p)) = Some (Inr f, m1)" "invar m1"
      "view m1 = (view m)(mp_virtual_address ?p := None)"
    using unmap_law [OF Suc.prems(2), of "Page4K (mp_virtual_address ?p)"] grown_last(1) [OF g] by auto
  then have "grown base (map mp_virtual_address (take n (load_pages load))) (view m1)"
    using grown_last(2) [OF g] by simp
  then have "\<exists>m'. rollback_load ops load (rev [0..<n]) m1 = Some (Inr (), m') \<and> invar m' \<and> view m' = base"
    using Suc.IH [OF _ u(2)] Suc.prems by simp
  then show ?case
    using u(1) n Suc.prems(4) by (simp add: load_page_def load_mapped_pages_def)
qed

definition in_build :: "page_view \<Rightarrow> LoadResult \<Rightarrow> MappedStackPage list \<Rightarrow> 'm \<Rightarrow> bool" where
  "in_build base load spages m \<longleftrightarrow> invar m
     \<and> grown base (map mp_virtual_address (load_pages load) @ map stack_address spages) (view m)
     \<and> (\<forall>p\<in>set (load_pages load). page_aligned (mp_virtual_address p))
     \<and> distinct (map mp_physical_address (load_pages load) @ map msp_physical_address spages @ avail m)"

definition build_failed :: "page_view \<Rightarrow> AddressSpaceBuildError \<Rightarrow> 'm \<Rightarrow> bool" where
  "build_failed base err m \<longleftrightarrow> invar m \<and> view m = base
     \<and> err \<notin> {BuildRollbackFailed, BuildImage LoadRollbackFailed, InvalidStackPage}"

lemma fail_build_in:
  assumes "in_build base load spages m" "fail_build ops load spages err m = Some (r, m')"
    and "err \<notin> {BuildRollbackFailed, BuildImage LoadRollbackFailed, InvalidStackPage}"
  shows "r = Inl err \<and> build_failed base err m'"
proof -
  obtain m1 where s: "rollback_stack ops (rev spages) m = Some (Inr (), m1)" "invar m1"
      "grown base (map mp_virtual_address (load_pages load)) (view m1)"
    using rollback_stack_restores [of m base "map mp_virtual_address (load_pages load)" spages] assms(1) by (auto simp: in_build_def)
  obtain m2 where "rollback_load ops load (rev [0..<load_mapped_pages load]) m1 = Some (Inr (), m2)"
      "invar m2" "view m2 = base"
    using rollback_load_restores [OF order_refl s(2), of base] s(3) assms(1)
    by (auto simp: in_build_def load_mapped_pages_def)
  then show ?thesis using assms(2,3) s by (simp add: fail_build_def build_failed_def)
qed

lemma in_build_alloc:
  assumes "in_build base load spages m" "m_allocate_frame ops m = (r, m1)"
  shows "in_build base load spages m1" "view m1 = view m"
    "r = Some f \<Longrightarrow> distinct (map mp_physical_address (load_pages load) @ map msp_physical_address spages @ f # avail m1)"
  using alloc_law [of m r m1] assms by (auto simp: in_build_def split: option.splits)

lemma in_build_map:
  assumes "in_build base load spages m" "page_aligned (page_start_address page)"
    and "distinct (map mp_physical_address (load_pages load) @ map msp_physical_address spages @ f # avail m)"
    and "m_map_page ops m page f flags_read_write = Some (r, m')"
  shows "case r of
      Inl e \<Rightarrow> in_build base load spages m'
    | Inr _ \<Rightarrow> in_build base load (spages @ [\<lparr>msp_virtual_page = page, msp_physical_address = f\<rparr>]) m'
        \<and> view m' = (view m)(page_start_address page \<mapsto> (f, access_of flags_read_write))"
proof -
  note l = map_law [OF _ assms(2,4)]
  obtain taken where "avail m = taken @ avail m'" using l assms(1) by (auto simp: in_build_def)
  then show ?thesis
    using l assms(1,3) grown_page [of base "map mp_virtual_address (load_pages load) @ map stack_address spages"
        "view m" "page_start_address page"]
    by (auto simp: in_build_def split: sum.splits)
qed

lemma map_stack_spec:
  assumes "in_build base load spages m" "map_stack ops load stack idxs spages m = Some (r, m')"
    and "\<forall>i\<in>set idxs. i < stack_count stack \<and> page_aligned (page_start_address (stack_pages stack ! i))"
  shows "case r of
      Inl err \<Rightarrow> build_failed base err m'
    | Inr spages' \<Rightarrow> in_build base load spages' m'
        \<and> (\<exists>added. spages' = spages @ added \<and> map msp_virtual_page added = map (\<lambda>i. stack_pages stack ! i) idxs
             \<and> (\<forall>p\<in>set added. view m' (stack_address p) = Some (msp_physical_address p, access_of flags_read_write))
             \<and> (\<forall>x. x \<notin> stack_address ` set added \<longrightarrow> view m' x = view m x))"
  using assms
proof (induction idxs arbitrary: spages m)
  case Nil
  then show ?case by auto
next
  case (Cons i idxs)
  let ?page = "stack_pages stack ! i"
  have pg: "stack_page stack i = Some ?page" using Cons.prems(3) by (simp add: stack_page_def)
  obtain f m1 where a: "m_allocate_frame ops m = (f, m1)" by fastforce
  note al = in_build_alloc [OF Cons.prems(1) a]
  show ?case
  proof (cases f)
    case None
    then show ?thesis using Cons.prems(2) pg a by (auto dest!: fail_build_in [OF al(1)])
  next
    case (Some frame)
    obtain res m2 where mp: "m_map_page ops m1 ?page frame flags_read_write = Some (res, m2)"
      using Cons.prems(2) pg a Some by (auto split: option.splits)
    have "page_aligned (page_start_address ?page)" using Cons.prems(3) by simp
    note ml = in_build_map [OF al(1) this al(3) [OF Some] mp]
    show ?thesis
    proof (cases res)
      case (Inl e)
      then show ?thesis using Cons.prems(2) pg a Some mp ml by (auto dest!: fail_build_in)
    next
      case (Inr u)
      let ?p = "\<lparr>msp_virtual_page = ?page, msp_physical_address = frame\<rparr>"
      have b: "in_build base load (spages @ [?p]) m2"
        and v: "view m2 = (view m)(stack_address ?p \<mapsto> (frame, access_of flags_read_write))"
        using ml Inr al(2) by simp_all
      have rest: "map_stack ops load stack idxs (spages @ [?p]) m2 = Some (r, m')"
        using Cons.prems(2) pg a Some mp Inr by (simp split: if_splits)
      note ih = Cons.IH [OF b rest]
      show ?thesis
      proof (cases r)
        case (Inr spages')
        then obtain added where d: "spages' = (spages @ [?p]) @ added"
          "map msp_virtual_page added = map (\<lambda>i. stack_pages stack ! i) idxs" "in_build base load spages' m'"
          "\<forall>p\<in>set added. view m' (stack_address p) = Some (msp_physical_address p, access_of flags_read_write)"
          "\<forall>x. x \<notin> stack_address ` set added \<longrightarrow> view m' x = view m2 x"
          using ih Cons.prems(3) by auto
        have "stack_address ?p \<notin> stack_address ` set added"
          using grown_distinct d(1,3) by (fastforce simp: in_build_def)
        then have "view m' (stack_address ?p) = Some (frame, access_of flags_read_write)" using d(5) v by simp
        then show ?thesis using Inr d v by (auto intro!: exI [of _ "?p # added"])
      qed (use ih Cons.prems(3) in simp)
    qed
  qed
qed

lemma verify_built_spec:
  assumes "in_build base load spages m" "verify_built ops img load spages m = Some (r, m')"
    and "stack_initial_rsp (pi_stack_plan img) \<noteq> 0"
  shows "case r of
      Inl err \<Rightarrow> build_failed base err m'
    | Inr b \<Rightarrow> m' = m \<and> built_image b = img \<and> built_load b = load \<and> built_stack_pages b = spages
        \<and> (\<exists>f acc. view m (page_of (load_entry load)) = Some (f, acc) \<and> acc_executable acc)"
proof -
  have inv: "invar m" using assms(1) by (simp add: in_build_def)
  obtain entry where e: "m_page_access ops m (load_entry load) = Some entry"
    using assms(2) by (cases "m_page_access ops m (load_entry load)") (auto simp: verify_built_def)
  have x: "\<exists>f acc. view m (page_of (load_entry load)) = Some (f, acc) \<and> acc_executable acc"
    if "acc_executable entry"
    using access_law [OF inv e] that by (auto simp: access_unmapped_def split: option.splits)
  have "checked_sub (stack_initial_rsp (pi_stack_plan img)) 1 \<noteq> None"
    using assms(3) by (simp add: checked_sub_def word_le_nat_alt word_unat_eq_iff Suc_le_eq)
  then show ?thesis
    using assms(2) e x by (auto simp: verify_built_def dest!: fail_build_in [OF assms(1)] split: option.splits if_splits)
qed

lemma built_overI:
  assumes "load_entry load = plan_entry (pi_load_plan img)"
    and plan: "plan_mapped (plan_segments (pi_load_plan img)) [] (view m) (load_pages load) (view m1)"
    and b: "in_build (view m) load spages m2"
    and pages: "map msp_virtual_page spages = map (\<lambda>i. stack_pages (pi_stack_plan img) ! i) [0..<stack_count (pi_stack_plan img)]"
    and stack: "\<forall>p\<in>set spages. view m2 (stack_address p) = Some (msp_physical_address p, access_of flags_read_write)"
    and other: "\<forall>x. x \<notin> stack_address ` set spages \<longrightarrow> view m2 x = view m1 x"
    and built: "built_image built = img" "built_load built = load" "built_stack_pages built = spages"
    and entry: "\<exists>f acc. view m2 (page_of (load_entry load)) = Some (f, acc) \<and> acc_executable acc"
  shows "built_over img built (view m) (view m2)"
proof -
  have g: "grown (view m) (map mp_virtual_address (load_pages load) @ map stack_address spages) (view m2)"
    using b by (simp add: in_build_def)
  note d = grown_distinct [OF g]
  have "\<forall>p\<in>set (load_pages load). view m2 (mp_virtual_address p) = view m1 (mp_virtual_address p)"
    using other d by auto
  then have "plan_mapped (plan_segments (pi_load_plan img)) [] (view m2) (load_pages load) (view m2)"
    by (rule plan_mapped_later [OF plan])
  moreover have "view m2 x = view m x"
    if "x \<notin> mp_virtual_address ` set (load_pages load) \<union> stack_address ` set spages" for x
    by (rule grown_outside [OF g]) (use that in auto)
  moreover have "map msp_virtual_page spages = stack_pages (pi_stack_plan img)"
    using pages by (simp add: stack_count_def map_nth)
  moreover have "distinct (map mp_physical_address (load_pages load) @ map msp_physical_address spages)"
    using b by (auto simp: in_build_def)
  ultimately show ?thesis
    using assms(1) stack built entry d unfolding built_over_def by simp
qed

lemma build_address_space_spec:
  assumes "invar m" "distinct (avail m)"
    and "build_address_space ops spec img m = Some (r, m')"
    and "\<forall>s\<in>set (plan_segments (pi_load_plan img)). flags_from_elf (sm_flags s) \<noteq> None"
    and "stack_initial_rsp (pi_stack_plan img) \<noteq> 0"
    and al: "\<forall>p\<in>set (stack_pages (pi_stack_plan img)). page_aligned (page_start_address p)"
  shows "case r of
      Inl err \<Rightarrow> build_failed (view m) err m'
    | Inr b \<Rightarrow> invar m' \<and> built_over img b (view m) (view m')
        \<and> distinct (map mp_physical_address (load_pages (built_load b))
             @ map msp_physical_address (built_stack_pages b) @ avail m')"
proof (cases "spec_id (pi_address_space img) = spec_id spec")
  case False
  then show ?thesis using assms by (auto simp: build_address_space_def build_failed_def)
next
  case True
  let ?idxs = "[0..<stack_count (pi_stack_plan img)]"
  obtain r1 m1 where l: "map_load_plan ops (pi_load_plan img) m = Some (r1, m1)"
    using True assms(3) by (auto simp: build_address_space_def split: option.splits)
  note ls = map_load_plan_spec [OF assms(1,2) l assms(4)]
  show ?thesis
  proof (cases r1)
    case (Inl e)
    then show ?thesis
      using True assms(3) l ls by (auto simp: build_address_space_def build_failed_def load_failed_def)
  next
    case (Inr load)
    have b0: "in_build (view m) load [] m1" using ls Inr by (simp add: in_build_def in_load_def)
    obtain r2 m2 where s: "map_stack ops load (pi_stack_plan img) ?idxs [] m1 = Some (r2, m2)"
      using True assms(3) l Inr by (auto simp: build_address_space_def split: option.splits)
    have "\<forall>i\<in>set ?idxs. i < stack_count (pi_stack_plan img)
        \<and> page_aligned (page_start_address (stack_pages (pi_stack_plan img) ! i))"
      using al by (simp add: stack_count_def)
    note st = map_stack_spec [OF b0 s this]
    show ?thesis
    proof (cases r2)
      case (Inl e)
      then show ?thesis using True assms(3) l s st \<open>r1 = Inr load\<close> by (auto simp: build_address_space_def)
    next
      case (Inr spages)
      then have v: "verify_built ops img load spages m2 = Some (r, m')"
        using True assms(3) l s \<open>r1 = Inr load\<close> by (simp add: build_address_space_def)
      have b: "in_build (view m) load spages m2" using st Inr by simp
      note vs = verify_built_spec [OF b v assms(5)]
      show ?thesis
      proof (cases r)
        case (Inr built)
        then show ?thesis
          using vs b ls \<open>r1 = Inr load\<close> st \<open>r2 = Inr spages\<close> built_overI [of load img m m1 spages m2 built]
          by (auto simp: in_build_def)
      qed (use vs in simp)
    qed
  qed
qed

end

end
