(* ===== verification/X86_Paging.thy ===== *)
theory X86_Paging
  imports Loader Frame_Allocator
begin

text \<open>
  The x86_64 page-table backend: the mapper of \<open>arch/x86_64/page_table.rs\<close>, the view of the
  active address space (\<open>user_memory.rs\<close>), and fresh user roots (\<open>address_space.rs\<close>). The crate
  \<open>x86_64\<close> is a record of operations: address and frame constructors, the indexes of a page, the
  entries of a table in memory, and the mapping operations of \<open>OffsetPageTable\<close>. An outer
  \<open>None\<close> is a panic.
\<close>

section \<open>The crate\<close>

record PageTableFlags =
  ptf_present :: bool
  ptf_writable :: bool
  ptf_user :: bool
  ptf_huge :: bool
  ptf_no_execute :: bool

record PageTableEntry =
  pte_flags :: PageTableFlags
  pte_addr :: u64

text \<open>The page tables in memory: the entry at an index of the table at an address.\<close>

type_synonym table_memory = "u64 \<Rightarrow> nat \<Rightarrow> PageTableEntry"

datatype MapToError = ToFrameAllocationFailed | ToParentEntryHugePage | ToPageAlreadyMapped

datatype UnmapError = UnParentEntryHugePage | UnPageNotMapped | UnInvalidFrameAddress

text \<open>
  \<open>crate_tables_ok\<close> is a ghost: the states of the tables that the mapper itself builds, on which
  the documented behaviour of the mapping operations is relied upon.
\<close>

record 'pt X86Crate =
  virt_addr_new :: "u64 \<Rightarrow> u64 option"
  phys_addr_new :: "u64 \<Rightarrow> u64 option"
  phys_frame_from_start :: "u64 \<Rightarrow> u64 option"
  page_index :: "u64 \<Rightarrow> nat \<Rightarrow> nat"
  level_4_table :: "'pt \<Rightarrow> u64"
  phys_offset_of :: "'pt \<Rightarrow> u64"
  table_entry :: "'pt \<Rightarrow> table_memory"
  offset_page_table_new :: "table_memory \<Rightarrow> u64 \<Rightarrow> u64 \<Rightarrow> 'pt"
  map_to :: "'pt \<Rightarrow> u64 \<Rightarrow> u64 \<Rightarrow> PageTableFlags \<Rightarrow>
    (EarlyFrameAllocator \<Rightarrow> (u64 option \<times> EarlyFrameAllocator) option) \<Rightarrow> EarlyFrameAllocator \<Rightarrow>
    ((MapToError + unit) \<times> 'pt \<times> EarlyFrameAllocator) option"
  unmap :: "'pt \<Rightarrow> u64 \<Rightarrow> (UnmapError + u64) \<times> 'pt"
  translate_addr :: "'pt \<Rightarrow> u64 \<Rightarrow> u64 option"
  crate_tables_ok :: "'pt \<Rightarrow> bool"

section \<open>The mapper\<close>

record 'pt X86PageTableMapper =
  xm_inner :: 'pt
  xm_frame_allocator :: EarlyFrameAllocator
  xm_address_space :: VirtRange

definition adapter_allocate_frame ::
  "'pt X86Crate \<Rightarrow> EarlyFrameAllocator \<Rightarrow> (u64 option \<times> EarlyFrameAllocator) option" where
  "adapter_allocate_frame C alloc =
     (case allocate_frame alloc of
        (None, alloc') \<Rightarrow> Some (None, alloc')
      | (Some frame, alloc') \<Rightarrow>
          (case phys_addr_new C (frame_start frame) of
             None \<Rightarrow> None
           | Some physical \<Rightarrow> Some (phys_frame_from_start C physical, alloc')))"

fun map_to_error :: "MapToError \<Rightarrow> MappingError" where
  "map_to_error ToFrameAllocationFailed = FrameAllocationFailed"
| "map_to_error ToParentEntryHugePage = ParentEntryHugePage"
| "map_to_error ToPageAlreadyMapped = AlreadyMapped"

fun unmap_error :: "UnmapError \<Rightarrow> MappingError" where
  "unmap_error UnParentEntryHugePage = ParentEntryHugePage"
| "unmap_error UnPageNotMapped = NotMapped"
| "unmap_error UnInvalidFrameAddress = InvalidMappedFrame"

definition new_for_root ::
  "'pt X86Crate \<Rightarrow> table_memory \<Rightarrow> u64 \<Rightarrow> u64 \<Rightarrow> EarlyFrameAllocator \<Rightarrow> VirtRange \<Rightarrow>
     (MappingError + 'pt X86PageTableMapper) option" where
  "new_for_root C mem physical_memory_offset root alloc space =
     (case checked_add root physical_memory_offset of
        None \<Rightarrow> Some (Inl BackendFailure)
      | Some root_virtual \<Rightarrow>
          (case virt_addr_new C physical_memory_offset of
             None \<Rightarrow> None
           | Some offset \<Rightarrow>
               Some (Inr \<lparr>xm_inner = offset_page_table_new C mem root_virtual offset,
                          xm_frame_allocator = alloc, xm_address_space = space\<rparr>)))"

fun mapped_flags_loop ::
  "'pt X86Crate \<Rightarrow> 'pt \<Rightarrow> u64 \<Rightarrow> nat list \<Rightarrow> u64 \<Rightarrow> bool \<Rightarrow> bool \<Rightarrow> bool \<Rightarrow> PageTableFlags option" where
  "mapped_flags_loop C pt page [] table_ptr effective_user effective_writable effective_nx = None"
| "mapped_flags_loop C pt page (level # levels) table_ptr effective_user effective_writable effective_nx =
     (let entry = table_entry C pt table_ptr (page_index C page level);
          flags = pte_flags entry
      in if \<not> ptf_present flags then None
         else
           let user = (effective_user \<and> ptf_user flags);
               writable = (effective_writable \<and> ptf_writable flags);
               nx = (effective_nx \<or> ptf_no_execute flags)
           in if level = 3 \<or> (level = 1 \<or> level = 2) \<and> ptf_huge flags
              then Some \<lparr>ptf_present = True, ptf_writable = writable, ptf_user = user,
                         ptf_huge = False, ptf_no_execute = nx\<rparr>
              else (case checked_add (phys_offset_of C pt) (pte_addr entry) of
                      None \<Rightarrow> None
                    | Some next_table \<Rightarrow> mapped_flags_loop C pt page levels next_table user writable nx))"

definition mapped_flags :: "'pt X86Crate \<Rightarrow> 'pt X86PageTableMapper \<Rightarrow> u64 \<Rightarrow> PageTableFlags option option" where
  "mapped_flags C m virtual_address =
     (if \<not> vr_contains (xm_address_space m) virtual_address then Some None
      else case virt_addr_new C virtual_address of
             None \<Rightarrow> None
           | Some page \<Rightarrow>
               Some (mapped_flags_loop C (xm_inner m) page [0..<4] (level_4_table C (xm_inner m))
                       True True False))"

definition translate_flags :: "MappingFlags \<Rightarrow> bool \<Rightarrow> PageTableFlags" where
  "translate_flags flags user =
     \<lparr>ptf_present = True, ptf_writable = flags_writable flags, ptf_user = user, ptf_huge = False,
      ptf_no_execute = \<not> flags_executable flags\<rparr>"

definition xm_translate :: "'pt X86Crate \<Rightarrow> 'pt X86PageTableMapper \<Rightarrow> u64 \<Rightarrow> u64 option option" where
  "xm_translate C m virtual_address =
     (if \<not> vr_contains (xm_address_space m) virtual_address then Some None
      else case virt_addr_new C virtual_address of
             None \<Rightarrow> None
           | Some address \<Rightarrow> Some (translate_addr C (xm_inner m) address))"

definition xm_page_access :: "'pt X86Crate \<Rightarrow> 'pt X86PageTableMapper \<Rightarrow> u64 \<Rightarrow> PageAccess option" where
  "xm_page_access C m virtual_address =
     (case mapped_flags C m virtual_address of
        None \<Rightarrow> None
      | Some None \<Rightarrow> Some access_unmapped
      | Some (Some flags) \<Rightarrow>
          Some \<lparr>acc_mapped = ptf_present flags, acc_user = ptf_user flags, acc_readable = ptf_present flags,
                acc_writable = ptf_writable flags, acc_executable = \<not> ptf_no_execute flags\<rparr>)"

definition xm_allocate_frame :: "'pt X86PageTableMapper \<Rightarrow> u64 option \<times> 'pt X86PageTableMapper" where
  "xm_allocate_frame m =
     (case allocate_frame (xm_frame_allocator m) of
        (frame, alloc) \<Rightarrow> (map_option frame_start frame, m\<lparr>xm_frame_allocator := alloc\<rparr>))"

definition outside_space :: "VirtRange \<Rightarrow> VirtRange \<Rightarrow> bool" where
  "outside_space rng space \<longleftrightarrow> vr_start rng < vr_start space \<or> vr_end rng > vr_end space"

definition xm_map_page ::
  "'pt X86Crate \<Rightarrow> 'pt X86PageTableMapper \<Rightarrow> Page4K \<Rightarrow> u64 \<Rightarrow> MappingFlags \<Rightarrow>
     ((MappingError + unit) \<times> 'pt X86PageTableMapper) option" where
  "xm_map_page C m page physical_address flags =
     (case page_range page of
        None \<Rightarrow> Some (Inl InvalidVirtualAddress, m)
      | Some rng \<Rightarrow>
          if outside_space rng (xm_address_space m) then Some (Inl OutsideAddressSpace, m)
          else if flags_writable_executable flags then Some (Inl BackendFailure, m)
          else (case phys_addr_new C physical_address of
                  None \<Rightarrow> None
                | Some physical \<Rightarrow>
               (case phys_frame_from_start C physical of
                  None \<Rightarrow> Some (Inl InvalidPhysicalAddress, m)
                | Some frame \<Rightarrow>
               (case virt_addr_new C (page_start_address page) of
                  None \<Rightarrow> None
                | Some target \<Rightarrow>
               (case map_to C (xm_inner m) target frame
                       (translate_flags flags (vr_is_user (xm_address_space m)))
                       (adapter_allocate_frame C) (xm_frame_allocator m) of
                  None \<Rightarrow> None
                | Some (r, pt, alloc) \<Rightarrow>
                    Some (map_err map_to_error r, m\<lparr>xm_inner := pt, xm_frame_allocator := alloc\<rparr>))))))"

definition xm_unmap_page ::
  "'pt X86Crate \<Rightarrow> 'pt X86PageTableMapper \<Rightarrow> Page4K \<Rightarrow>
     ((MappingError + u64) \<times> 'pt X86PageTableMapper) option" where
  "xm_unmap_page C m page =
     (case page_range page of
        None \<Rightarrow> Some (Inl InvalidVirtualAddress, m)
      | Some rng \<Rightarrow>
          if outside_space rng (xm_address_space m) then Some (Inl OutsideAddressSpace, m)
          else (case virt_addr_new C (page_start_address page) of
                  None \<Rightarrow> None
                | Some target \<Rightarrow>
                    (case unmap C (xm_inner m) target of
                       (r, pt) \<Rightarrow> Some (map_err unmap_error r, m\<lparr>xm_inner := pt\<rparr>))))"

definition x86_mapper :: "'pt X86Crate \<Rightarrow> 'pt X86PageTableMapper PageTableMapper" where
  "x86_mapper C = \<lparr>m_allocate_frame = xm_allocate_frame, m_map_page = xm_map_page C,
     m_unmap_page = xm_unmap_page C, m_page_access = xm_page_access C\<rparr>"

section \<open>The active address space\<close>

record X86ActiveUserMemory =
  ua_table :: u64
  ua_physical_offset :: u64
  ua_address_space :: VirtRange

definition ua_current :: "u64 \<Rightarrow> u64 \<Rightarrow> X86ActiveUserMemory option" where
  "ua_current cr3 physical_offset =
     (case checked_add cr3 physical_offset of
        None \<Rightarrow> None
      | Some table_address \<Rightarrow>
          (case VirtRange_new USER_SPACE_START KERNEL_SPACE_START of
             None \<Rightarrow> None
           | Some space \<Rightarrow>
               Some \<lparr>ua_table = table_address, ua_physical_offset = physical_offset, ua_address_space = space\<rparr>))"

fun ua_flags_loop ::
  "'pt X86Crate \<Rightarrow> table_memory \<Rightarrow> u64 \<Rightarrow> u64 \<Rightarrow> nat list \<Rightarrow> u64 \<Rightarrow> bool \<Rightarrow> bool \<Rightarrow> bool \<Rightarrow> PageTableFlags option" where
  "ua_flags_loop C mem offset page [] table user writable nx = None"
| "ua_flags_loop C mem offset page (level # levels) table user writable nx =
     (let entry = mem table (page_index C page level);
          flags = pte_flags entry
      in if \<not> ptf_present flags then None
         else
           let user = (user \<and> ptf_user flags);
               writable = (writable \<and> ptf_writable flags);
               nx = (nx \<or> ptf_no_execute flags)
           in if level = 3 \<or> (level = 1 \<or> level = 2) \<and> ptf_huge flags
              then Some \<lparr>ptf_present = True, ptf_writable = writable, ptf_user = user,
                         ptf_huge = False, ptf_no_execute = nx\<rparr>
              else (case checked_add offset (pte_addr entry) of
                      None \<Rightarrow> None
                    | Some next_table \<Rightarrow> ua_flags_loop C mem offset page levels next_table user writable nx))"

definition ua_flags ::
  "'pt X86Crate \<Rightarrow> table_memory \<Rightarrow> X86ActiveUserMemory \<Rightarrow> u64 \<Rightarrow> PageTableFlags option option" where
  "ua_flags C mem u virtual_address =
     (if \<not> vr_contains (ua_address_space u) virtual_address then Some None
      else case virt_addr_new C virtual_address of
             None \<Rightarrow> None
           | Some page \<Rightarrow>
               Some (ua_flags_loop C mem (ua_physical_offset u) page [0..<4] (ua_table u) True True False))"

fun ua_translate_loop ::
  "'pt X86Crate \<Rightarrow> table_memory \<Rightarrow> u64 \<Rightarrow> u64 \<Rightarrow> u64 \<Rightarrow> nat list \<Rightarrow> u64 \<Rightarrow> u64 option" where
  "ua_translate_loop C mem offset page virtual_address [] table = None"
| "ua_translate_loop C mem offset page virtual_address (level # levels) table =
     (let entry = mem table (page_index C page level)
      in if \<not> ptf_present (pte_flags entry) then None
         else if level = 3 then checked_add (pte_addr entry) (virtual_address AND 0xfff)
         else if (level = 1 \<or> level = 2) \<and> ptf_huge (pte_flags entry) then
           let page_size = (if level = 1 then push_bit 30 1 else push_bit 21 1) :: u64;
               m = page_size - 1
           in checked_add (pte_addr entry) (virtual_address AND m)
         else (case checked_add offset (pte_addr entry) of
                 None \<Rightarrow> None
               | Some next_table \<Rightarrow> ua_translate_loop C mem offset page virtual_address levels next_table))"

definition ua_translate ::
  "'pt X86Crate \<Rightarrow> table_memory \<Rightarrow> X86ActiveUserMemory \<Rightarrow> u64 \<Rightarrow> u64 option option" where
  "ua_translate C mem u virtual_address =
     (if \<not> vr_contains (ua_address_space u) virtual_address then Some None
      else case virt_addr_new C virtual_address of
             None \<Rightarrow> None
           | Some page \<Rightarrow>
               Some (ua_translate_loop C mem (ua_physical_offset u) page virtual_address [0..<4] (ua_table u)))"

definition ua_page_access :: "'pt X86Crate \<Rightarrow> table_memory \<Rightarrow> X86ActiveUserMemory \<Rightarrow> u64 \<Rightarrow> PageAccess option" where
  "ua_page_access C mem u virtual_address =
     (case ua_flags C mem u virtual_address of
        None \<Rightarrow> None
      | Some None \<Rightarrow> Some access_unmapped
      | Some (Some flags) \<Rightarrow>
          Some \<lparr>acc_mapped = True, acc_user = ptf_user flags, acc_readable = True,
                acc_writable = ptf_writable flags, acc_executable = \<not> ptf_no_execute flags\<rparr>)"

section \<open>Fresh user roots\<close>

definition KERNEL_P4_START :: nat where "KERNEL_P4_START = 256"

definition KERNEL_P4_END :: nat where "KERNEL_P4_END = 512"

datatype AddressSpaceRoot = AddressSpaceRoot (root_frame: u64)

datatype AddressSpaceRootError = Unaligned | AllocationFailed | PhysicalAddressOverflow

definition root_from_physical_address ::
  "'pt X86Crate \<Rightarrow> u64 \<Rightarrow> (AddressSpaceRootError + AddressSpaceRoot) option" where
  "root_from_physical_address C address =
     (case phys_addr_new C address of
        None \<Rightarrow> None
      | Some physical \<Rightarrow>
          Some (and_then (ok_or (phys_frame_from_start C physical) Unaligned) (\<lambda>frame.
                Inr (AddressSpaceRoot frame))))"

definition empty_entry :: PageTableEntry where
  "empty_entry = \<lparr>pte_flags = \<lparr>ptf_present = False, ptf_writable = False, ptf_user = False,
     ptf_huge = False, ptf_no_execute = False\<rparr>, pte_addr = 0\<rparr>"

text \<open>Zeroing the root table, then copying the kernel half of the active one.\<close>

definition init_root :: "table_memory \<Rightarrow> u64 \<Rightarrow> u64 \<Rightarrow> table_memory" where
  "init_root mem root_virtual active_virtual =
     (let mem1 = mem(root_virtual := (\<lambda>_. empty_entry))
      in mem1(root_virtual := (\<lambda>index.
           if KERNEL_P4_START \<le> index \<and> index < KERNEL_P4_END then mem1 active_virtual index
           else mem1 root_virtual index)))"

definition new_user_root ::
  "'pt X86Crate \<Rightarrow> u64 \<Rightarrow> u64 \<Rightarrow> EarlyFrameAllocator \<Rightarrow> table_memory \<Rightarrow>
     ((AddressSpaceRootError + AddressSpaceRoot) \<times> EarlyFrameAllocator \<times> table_memory) option" where
  "new_user_root C cr3 physical_memory_offset alloc mem =
     (case adapter_allocate_frame C alloc of
        None \<Rightarrow> None
      | Some (None, alloc') \<Rightarrow> Some (Inl AllocationFailed, alloc', mem)
      | Some (Some frame, alloc') \<Rightarrow>
          (case checked_add frame physical_memory_offset of
             None \<Rightarrow> Some (Inl PhysicalAddressOverflow, alloc', mem)
           | Some root_virtual \<Rightarrow>
               (case checked_add cr3 physical_memory_offset of
                  None \<Rightarrow> Some (Inl PhysicalAddressOverflow, alloc', mem)
                | Some active_virtual \<Rightarrow>
                    Some (Inr (AddressSpaceRoot frame), alloc', init_root mem root_virtual active_virtual))))"

end
