(* ===== verification/X86_Mapper.thy ===== *)
theory X86_Mapper
  imports Mapper_Contract X86_Paging
begin

text \<open>
  The documented behaviour of the crate that the x86_64 backend relies on, the page view that
  the tables give, and the proof that the backend implements the mapper contract.
\<close>

section \<open>Documented behaviour\<close>

definition canonical :: "u64 \<Rightarrow> bool" where
  "canonical a \<longleftrightarrow> unat a < 2 ^ 47 \<or> 2 ^ 64 - 2 ^ 47 \<le> unat a"

text \<open>The frames that the mapping operation may draw for intermediate tables.\<close>

inductive drawn ::
  "(EarlyFrameAllocator \<Rightarrow> (u64 option \<times> EarlyFrameAllocator) option) \<Rightarrow>
     EarlyFrameAllocator \<Rightarrow> EarlyFrameAllocator \<Rightarrow> bool" for alloc where
  drawn_none: "drawn alloc a a"
| drawn_one: "alloc a = Some (r, a1) \<Longrightarrow> drawn alloc a1 a2 \<Longrightarrow> drawn alloc a a2"

definition walk :: "'pt X86Crate \<Rightarrow> 'pt \<Rightarrow> u64 \<Rightarrow> PageTableFlags option" where
  "walk C pt a = mapped_flags_loop C pt a [0..<4] (level_4_table C pt) True True False"

text \<open>The 4 KiB mapping of an aligned canonical page: its frame and effective flags.\<close>

definition pt_view :: "'pt X86Crate \<Rightarrow> 'pt \<Rightarrow> u64 \<rightharpoonup> u64 \<times> PageTableFlags" where
  "pt_view C pt p =
     (if canonical p \<and> page_aligned p then
        (case walk C pt p of
           None \<Rightarrow> None
         | Some flags \<Rightarrow> map_option (\<lambda>f. (f, flags)) (translate_addr C pt p))
      else None)"

definition address_laws :: "'pt X86Crate \<Rightarrow> bool" where
  "address_laws C \<longleftrightarrow>
     (\<forall>a. virt_addr_new C a = (if canonical a then Some a else None))
     \<and> (\<forall>a. phys_addr_new C a = (if unat a < 2 ^ 52 then Some a else None))
     \<and> (\<forall>a. phys_frame_from_start C a = (if page_aligned a then Some a else None))
     \<and> (\<forall>a l. l < 4 \<longrightarrow> page_index C a l = unat a div 2 ^ (39 - 9 * l) mod 512)"

definition mapping_laws :: "'pt X86Crate \<Rightarrow> bool" where
  "mapping_laws C \<longleftrightarrow>
     (\<forall>pt p. crate_tables_ok C pt \<and> canonical p \<and> page_aligned p \<longrightarrow>
        (walk C pt p = None \<longleftrightarrow> translate_addr C pt p = None))
     \<and> (\<forall>pt p f fl alloc al r pt' al'.
        crate_tables_ok C pt \<and> canonical p \<and> page_aligned p \<and> page_aligned f
        \<and> ptf_present fl \<and> ptf_user fl \<and> \<not> ptf_huge fl
        \<and> map_to C pt p f fl alloc al = Some (r, pt', al') \<longrightarrow>
        crate_tables_ok C pt' \<and> drawn alloc al al'
        \<and> (case r of
             Inl _ \<Rightarrow> pt_view C pt' = pt_view C pt
           | Inr _ \<Rightarrow> pt_view C pt p = None \<and> pt_view C pt' = (pt_view C pt)(p \<mapsto> (f, fl))))
     \<and> (\<forall>pt p f fl. crate_tables_ok C pt \<and> pt_view C pt p = Some (f, fl) \<longrightarrow>
        (\<exists>pt'. unmap C pt p = (Inr f, pt') \<and> crate_tables_ok C pt'
           \<and> pt_view C pt' = (pt_view C pt)(p := None)))"

lemma address_lawsD:
  assumes "address_laws C"
  shows "virt_addr_new C a = (if canonical a then Some a else None)"
    and "phys_addr_new C a = (if unat a < 2 ^ 52 then Some a else None)"
    and "phys_frame_from_start C a = (if page_aligned a then Some a else None)"
    and "l < 4 \<Longrightarrow> page_index C a l = unat a div 2 ^ (39 - 9 * l) mod 512"
  using assms by (auto simp: address_laws_def)

lemma mapping_lawsD:
  assumes "mapping_laws C" "crate_tables_ok C pt"
  shows "canonical p \<Longrightarrow> page_aligned p \<Longrightarrow> walk C pt p = None \<longleftrightarrow> translate_addr C pt p = None"
    and "canonical p \<Longrightarrow> page_aligned p \<Longrightarrow> page_aligned f \<Longrightarrow> ptf_present fl \<Longrightarrow> ptf_user fl \<Longrightarrow> \<not> ptf_huge fl \<Longrightarrow>
      map_to C pt p f fl alloc al = Some (r, pt', al') \<Longrightarrow>
        crate_tables_ok C pt' \<and> drawn alloc al al'
        \<and> (case r of
             Inl _ \<Rightarrow> pt_view C pt' = pt_view C pt
           | Inr _ \<Rightarrow> pt_view C pt p = None \<and> pt_view C pt' = (pt_view C pt)(p \<mapsto> (f, fl)))"
    and "pt_view C pt p = Some (f, fl) \<Longrightarrow>
        \<exists>pt'. unmap C pt p = (Inr f, pt') \<and> crate_tables_ok C pt' \<and> pt_view C pt' = (pt_view C pt)(p := None)"
  using assms unfolding mapping_laws_def by blast+

section \<open>The view of the mapper\<close>

definition user_space :: VirtRange where
  "user_space = \<lparr>vr_start = USER_SPACE_START, vr_end = KERNEL_SPACE_START\<rparr>"

definition access_of_flags :: "PageTableFlags \<Rightarrow> PageAccess" where
  "access_of_flags fl = \<lparr>acc_mapped = ptf_present fl, acc_user = ptf_user fl, acc_readable = ptf_present fl,
     acc_writable = ptf_writable fl, acc_executable = \<not> ptf_no_execute fl\<rparr>"

definition x86_view :: "'pt X86Crate \<Rightarrow> 'pt X86PageTableMapper \<Rightarrow> page_view" where
  "x86_view C m p =
     (if vr_contains (xm_address_space m) p
      then map_option (\<lambda>(f, fl). (f, access_of_flags fl)) (pt_view C (xm_inner m) p) else None)"

definition x86_invar :: "'pt X86Crate \<Rightarrow> 'pt X86PageTableMapper \<Rightarrow> bool" where
  "x86_invar C m \<longleftrightarrow> address_laws C \<and> mapping_laws C \<and> crate_tables_ok C (xm_inner m)
     \<and> ea_wf (xm_frame_allocator m) \<and> xm_address_space m = user_space"

definition x86_avail :: "'pt X86PageTableMapper \<Rightarrow> u64 list" where
  "x86_avail m = map frame_start (ea_pending (xm_frame_allocator m))"

lemma access_translate_flags [simp]: "access_of_flags (translate_flags fl True) = access_of fl"
  by (simp add: access_of_flags_def translate_flags_def access_of_def)

lemma allocate_frame_pending:
  assumes "ea_wf a" "allocate_frame a = (r, a')"
  shows "ea_wf a' \<and> (case r of None \<Rightarrow> ea_pending a = [] \<and> ea_pending a' = []
    | Some f \<Rightarrow> ea_pending a = f # ea_pending a')"
  using allocate_frame_spec [OF assms(1)] assms(2) by (auto split: list.splits)

lemma drawn_adapter:
  "drawn (adapter_allocate_frame C) a a' \<Longrightarrow> ea_wf a \<Longrightarrow>
     ea_wf a' \<and> (\<exists>taken. ea_pending a = taken @ ea_pending a')"
proof (induction rule: drawn.induct)
  case (drawn_one a r a1 a2)
  obtain f where "allocate_frame a = (f, a1)"
    using drawn_one(1) by (auto simp: adapter_allocate_frame_def split: prod.splits option.splits)
  then show ?case
    using allocate_frame_pending [OF drawn_one(4)] drawn_one(3) by (cases f) auto
qed simp


section \<open>The backend implements the contract\<close>

lemma user_space_is_user [simp]: "vr_is_user user_space"
  by (simp add: user_space_def vr_is_user_def)

lemma vr_contains_user_space: "vr_contains user_space a \<longleftrightarrow> 0x10000 \<le> unat a \<and> unat a < 0xFFFF800000000000"
  by (simp add: vr_contains_def user_space_def USER_SPACE_START_def KERNEL_SPACE_START_def word_le_nat_alt
      word_less_nat_alt)

lemma outside_user_space:
  "outside_space rng user_space \<longleftrightarrow> unat (vr_start rng) < 0x10000 \<or> 0xFFFF800000000000 < unat (vr_end rng)"
  by (simp add: outside_space_def user_space_def USER_SPACE_START_def KERNEL_SPACE_START_def word_less_nat_alt)

text \<open>An aligned page lies in the user space exactly when its first byte does.\<close>

lemma page_below:
  fixes n b :: nat
  assumes "n mod 4096 = 0" "b mod 4096 = 0"
  shows "n < b \<longleftrightarrow> n + 4096 \<le> b"
proof -
  obtain i j where "n = 4096 * i" "b = 4096 * j" using assms by (metis mod_0_imp_dvd dvdE)
  then show ?thesis by auto
qed

lemma page_range_inside:
  assumes "page_aligned p"
  shows "vr_contains user_space p \<longleftrightarrow> (\<exists>rng. page_range (Page4K p) = Some rng \<and> \<not> outside_space rng user_space)"
proof (cases "unat p + 4096 < 2 ^ 64")
  case True
  then have e: "unat (p + 4096) = unat p + 4096" by (simp add: unat_word_ariths)
  then have "p \<le> p + 4096" by (simp add: word_le_nat_alt)
  then have "page_range (Page4K p) = Some \<lparr>vr_start = p, vr_end = p + 4096\<rparr>"
    using True by (simp add: page_range_def page_end_address_def checked_add_def VirtRange_new_def PAGE_SIZE_4K_def)
  moreover have "unat p < 0xFFFF800000000000 \<longleftrightarrow> unat p + 4096 \<le> 0xFFFF800000000000"
    using assms by (intro page_below) (simp_all add: page_aligned_def)
  ultimately show ?thesis
    using e by (simp add: vr_contains_user_space outside_user_space not_less)
next
  case False
  then show ?thesis
    by (auto simp: vr_contains_user_space page_range_def page_end_address_def checked_add_def PAGE_SIZE_4K_def)
qed

lemma page_of_same_space:
  "vr_contains user_space (page_of a) \<longleftrightarrow> vr_contains user_space a"
  "canonical (page_of a) \<longleftrightarrow> canonical a" "page_aligned (page_of a)"
proof -
  have b: "n div 4096 * 4096 < 4096 * k \<longleftrightarrow> n < 4096 * k" for n k :: nat
    by (metis div_less_iff_less_mult mult.commute mult_less_cancel2 zero_less_numeral)
  show "vr_contains user_space (page_of a) \<longleftrightarrow> vr_contains user_space a"
    using b [of "unat a" "0x10"] b [of "unat a" "0xFFFF800000000"]
    by (simp add: vr_contains_user_space unat_page_of not_less [symmetric])
  show "canonical (page_of a) \<longleftrightarrow> canonical a"
    using b [of "unat a" "2 ^ 35"] b [of "unat a" "2 ^ 52 - 2 ^ 35"]
    by (simp add: canonical_def unat_page_of not_less [symmetric])
  show "page_aligned (page_of a)" by (simp add: page_aligned_def unat_page_of)
qed

lemma index_page_of:
  assumes "address_laws C" "l < 4"
  shows "page_index C (page_of a) l = page_index C a l"
proof -
  have "39 - 9 * l = 12 + (27 - 9 * l)" using assms(2) by linarith
  then have "(2::nat) ^ (39 - 9 * l) = 4096 * 2 ^ (27 - 9 * l)" by (simp only: power_add) simp
  then have "unat a div 4096 * 4096 div 2 ^ (39 - 9 * l) = unat a div 2 ^ (39 - 9 * l)"
    by (simp add: div_mult2_eq)
  then show ?thesis using assms by (simp add: address_lawsD unat_page_of)
qed

lemma flags_loop_page_of:
  "address_laws C \<Longrightarrow> \<forall>l\<in>set levels. l < 4 \<Longrightarrow>
     mapped_flags_loop C pt (page_of a) levels t u w nx = mapped_flags_loop C pt a levels t u w nx"
  by (induction levels arbitrary: t u w nx)
     (auto simp: index_page_of Let_def cong: option.case_cong)

lemma walk_page_of: "address_laws C \<Longrightarrow> walk C pt (page_of a) = walk C pt a"
  by (simp add: walk_def flags_loop_page_of)


lemma x86_alloc_law:
  assumes "x86_invar C m" "m_allocate_frame (x86_mapper C) m = (r, m')"
  shows "x86_invar C m' \<and> x86_view C m' = x86_view C m
    \<and> (case r of None \<Rightarrow> x86_avail m' = x86_avail m | Some f \<Rightarrow> x86_avail m = f # x86_avail m')"
proof -
  obtain frame alloc where a: "allocate_frame (xm_frame_allocator m) = (frame, alloc)"
    "r = map_option frame_start frame" "m' = m\<lparr>xm_frame_allocator := alloc\<rparr>"
    using assms(2) by (auto simp: x86_mapper_def xm_allocate_frame_def split: prod.splits)
  have "ea_wf (xm_frame_allocator m)" using assms(1) by (simp add: x86_invar_def)
  note allocate_frame_pending [OF this a(1)]
  then show ?thesis
    using assms(1) a(2,3)
    by (auto simp: x86_invar_def x86_view_def x86_avail_def fun_eq_iff split: option.splits)
qed

lemma xm_map_page_cases:
  assumes "x86_invar C m" "page_aligned p" "xm_map_page C m (Page4K p) f fl = Some (res, m')"
  obtains (early) e where "res = Inl e" "m' = m"
  | (mapped) r pt alloc where "vr_contains user_space p" "canonical p" "page_aligned f"
      "map_to C (xm_inner m) p f (translate_flags fl True) (adapter_allocate_frame C) (xm_frame_allocator m)
         = Some (r, pt, alloc)"
      "res = map_err map_to_error r" "m' = m\<lparr>xm_inner := pt, xm_frame_allocator := alloc\<rparr>"
proof -
  have i: "address_laws C" "xm_address_space m = user_space" using assms(1) by (simp_all add: x86_invar_def)
  show thesis
  proof (cases "(\<exists>e. res = Inl e) \<and> m' = m")
    case True
    then show thesis using early by blast
  next
    case False
    then have "\<exists>r pt alloc. vr_contains user_space p \<and> canonical p \<and> page_aligned f
      \<and> map_to C (xm_inner m) p f (translate_flags fl True) (adapter_allocate_frame C) (xm_frame_allocator m)
         = Some (r, pt, alloc)
      \<and> res = map_err map_to_error r \<and> m' = m\<lparr>xm_inner := pt, xm_frame_allocator := alloc\<rparr>"
      using assms(3) page_range_inside [OF assms(2)] i
      by (auto simp: xm_map_page_def address_lawsD split: option.splits if_splits)
    then show thesis using mapped by blast
  qed
qed

lemma x86_map_law:
  assumes "x86_invar C m" "page_aligned (page_start_address p)" "m_map_page (x86_mapper C) m p f fl = Some (res, m')"
  shows "x86_invar C m' \<and> (\<exists>taken. x86_avail m = taken @ x86_avail m')
    \<and> (case res of Inl e \<Rightarrow> x86_view C m' = x86_view C m
        | Inr _ \<Rightarrow> x86_view C m (page_start_address p) = None
            \<and> x86_view C m' = (x86_view C m)(page_start_address p \<mapsto> (f, access_of fl)))"
proof -
  obtain a where p: "p = Page4K a" by (cases p)
  have al: "page_aligned a" and m: "xm_map_page C m (Page4K a) f fl = Some (res, m')"
    using assms(2,3) by (simp_all add: p x86_mapper_def)
  show ?thesis
  proof (cases rule: xm_map_page_cases [OF assms(1) al m])
    case (1 e)
    then show ?thesis using assms(1) by simp
  next
    case (2 r pt alloc)
    have i: "mapping_laws C" "crate_tables_ok C (xm_inner m)" "ea_wf (xm_frame_allocator m)"
      "xm_address_space m = user_space"
      using assms(1) by (simp_all add: x86_invar_def)
    have "ptf_present (translate_flags fl True)" "ptf_user (translate_flags fl True)"
      "\<not> ptf_huge (translate_flags fl True)" by (simp_all add: translate_flags_def)
    note law = mapping_lawsD(2) [OF i(1,2) 2(2) al 2(3) this 2(4)]
    then have d: "ea_wf alloc" "\<exists>taken. ea_pending (xm_frame_allocator m) = taken @ ea_pending alloc"
      using drawn_adapter i(3) by blast+
    show ?thesis
      using law d 2(1,5,6) assms(1) i(4)
      by (auto simp: p x86_invar_def x86_view_def x86_avail_def fun_eq_iff split: sum.splits)
  qed
qed


lemma pt_view_Some:
  "pt_view C pt p = Some x \<Longrightarrow> canonical p \<and> page_aligned p"
  by (simp add: pt_view_def split: if_splits)

lemma x86_unmap_law:
  assumes "x86_invar C m" "x86_view C m (page_start_address p) \<noteq> None"
  shows "\<exists>f m'. m_unmap_page (x86_mapper C) m p = Some (Inr f, m') \<and> x86_invar C m'
    \<and> x86_view C m' = (x86_view C m)(page_start_address p := None) \<and> x86_avail m' = x86_avail m"
proof -
  obtain a where p: "p = Page4K a" by (cases p)
  have i: "mapping_laws C" "crate_tables_ok C (xm_inner m)" "address_laws C" "xm_address_space m = user_space"
    using assms(1) by (simp_all add: x86_invar_def)
  obtain f fl where v: "pt_view C (xm_inner m) a = Some (f, fl)" and c: "vr_contains user_space a"
    using assms(2) i(4) by (auto simp: p x86_view_def split: if_splits)
  obtain pt' where u: "unmap C (xm_inner m) a = (Inr f, pt')" "crate_tables_ok C pt'"
    "pt_view C pt' = (pt_view C (xm_inner m))(a := None)"
    using mapping_lawsD(3) [OF i(1,2) v] by blast
  have "m_unmap_page (x86_mapper C) m p = Some (Inr f, m\<lparr>xm_inner := pt'\<rparr>)"
    using pt_view_Some [OF v] page_range_inside [of a] c i(3,4) u(1)
    by (auto simp: p x86_mapper_def xm_unmap_page_def address_lawsD split: option.splits)
  moreover have "x86_invar C (m\<lparr>xm_inner := pt'\<rparr>)" "x86_avail (m\<lparr>xm_inner := pt'\<rparr>) = x86_avail m"
    using assms(1) u(2) by (simp_all add: x86_invar_def x86_avail_def)
  moreover have "x86_view C (m\<lparr>xm_inner := pt'\<rparr>) = (x86_view C m)(page_start_address p := None)"
    using u(3) by (auto simp: p x86_view_def fun_eq_iff)
  ultimately show ?thesis by blast
qed

lemma x86_access_law:
  assumes "x86_invar C m" "m_page_access (x86_mapper C) m a = Some acc"
  shows "acc = (case x86_view C m (page_of a) of None \<Rightarrow> access_unmapped | Some (f, acc) \<Rightarrow> acc)"
proof -
  have i: "mapping_laws C" "crate_tables_ok C (xm_inner m)" "address_laws C" "xm_address_space m = user_space"
    using assms(1) by (simp_all add: x86_invar_def)
  have t: "walk C (xm_inner m) a = None \<longleftrightarrow> translate_addr C (xm_inner m) (page_of a) = None" if "canonical a"
    using mapping_lawsD(1) [OF i(1,2), of "page_of a"] that page_of_same_space [of a]
    by (simp add: walk_page_of [OF i(3)])
  show ?thesis
    using assms(2) t i(3,4) page_of_same_space [of a]
    by (auto simp: x86_mapper_def xm_page_access_def mapped_flags_def address_lawsD x86_view_def pt_view_def
        walk_page_of access_of_flags_def walk_def [symmetric] split: if_splits option.splits)
qed

interpretation x86: page_table_mapper "x86_mapper C" "x86_invar C" "x86_view C" x86_avail for C
proof unfold_locales
qed (fact x86_alloc_law x86_map_law x86_unmap_law x86_access_law)+

end
