(* ===== verification/Population.thy ===== *)
theory Population
  imports Loader
begin

text \<open>
  Population of a mapped address space: the segment copy of \<open>process/populate.rs\<close>, the stack pages
  of \<open>process/populated_address_space.rs\<close>, the launch plan of \<open>process/user_launch.rs\<close> and the
  x86_64 page writer \<open>arch/x86_64/image_writer.rs\<close>. A writer is a record of operations over its
  state; the state of the x86_64 writer holds the bytes behind kernel addresses.
\<close>

section \<open>Populating the image\<close>

datatype PopulateError =
    MissingMappedPage
  | SegmentOutsideMapping
  | FileRangeInvalid
  | PopulateAddressOverflow

record ('e, 'w) ImagePageWriter =
  w_copy_into_page :: "'w \<Rightarrow> u64 \<Rightarrow> nat \<Rightarrow> u8 list \<Rightarrow> ('e + unit) \<times> 'w"
  w_zero_page_range :: "'w \<Rightarrow> u64 \<Rightarrow> nat \<Rightarrow> nat \<Rightarrow> ('e + unit) \<times> 'w"

text \<open>\<open>bytes.get(start..end)\<close>.\<close>

definition get_range :: "'a list \<Rightarrow> nat \<Rightarrow> nat \<Rightarrow> 'a list option" where
  "get_range xs s e = (if s \<le> e \<and> e \<le> length xs then Some (take (e - s) (drop s xs)) else None)"

definition find_mapped_page :: "LoadResult \<Rightarrow> u64 \<Rightarrow> nat option" where
  "find_mapped_page loaded virtual_address =
     find (\<lambda>index. case load_page loaded index of
                     None \<Rightarrow> False
                   | Some page \<Rightarrow> mp_virtual_address page = virtual_address) [0..<load_mapped_pages loaded]"

text \<open>Clearing a page and copying the part of the file that falls into it.\<close>

definition write_chunk ::
  "('e, 'w) ImagePageWriter \<Rightarrow> u64 \<Rightarrow> nat \<Rightarrow> nat \<Rightarrow> u64 \<Rightarrow> u64 \<Rightarrow> u8 list \<Rightarrow> 'w \<Rightarrow> (PopulateError + unit) \<times> 'w" where
  "write_chunk W physical page_offset chunk offset file_size file_bytes w =
     (case w_zero_page_range W w physical 0 (unat PAGE_SIZE_4K) of
        (Inl _, w1) \<Rightarrow> (Inl FileRangeInvalid, w1)
      | (Inr _, w1) \<Rightarrow>
          let file_chunk_start = unat (min offset file_size);
              file_remaining = length file_bytes - file_chunk_start;
              copy_len = min file_remaining chunk
          in if copy_len \<noteq> 0 then
               if file_chunk_start + copy_len \<ge> 2 ^ 64 then (Inl FileRangeInvalid, w1)
               else (case w_copy_into_page W w1 physical page_offset
                            (take copy_len (drop file_chunk_start file_bytes)) of
                       (Inl _, w2) \<Rightarrow> (Inl FileRangeInvalid, w2)
                     | (Inr _, w2) \<Rightarrow> (Inr (), w2))
             else (Inr (), w1))"

function populate_pages ::
  "('e, 'w) ImagePageWriter \<Rightarrow> LoadResult \<Rightarrow> u64 \<Rightarrow> u64 \<Rightarrow> u64 \<Rightarrow> u64 \<Rightarrow> u64 \<Rightarrow> u8 list \<Rightarrow> u64 \<Rightarrow> 'w \<Rightarrow>
     (PopulateError + unit) \<times> 'w" where
  "populate_pages W loaded segment_start segment_end memory_size memory_end file_size file_bytes offset w =
     (if \<not> offset < memory_size then (Inr (), w)
      else case checked_add segment_start offset of
        None \<Rightarrow> (Inl PopulateAddressOverflow, w)
      | Some virtual_address \<Rightarrow>
          if virtual_address \<ge> segment_end \<or> virtual_address \<ge> memory_end then (Inl SegmentOutsideMapping, w)
          else
            let page_base = virtual_address AND NOT (PAGE_SIZE_4K - 1);
                page_offset = unat (virtual_address - page_base);
                remaining_memory = unat (memory_size - offset);
                page_room = unat PAGE_SIZE_4K - page_offset;
                chunk = min remaining_memory page_room
            in (case find_mapped_page loaded page_base of
                  None \<Rightarrow> (Inl MissingMappedPage, w)
                | Some mapped_index \<Rightarrow>
                    (case load_page loaded mapped_index of
                       None \<Rightarrow> (Inl MissingMappedPage, w)
                     | Some mapped \<Rightarrow>
                         (case write_chunk W (mp_physical_address mapped) page_offset chunk offset file_size file_bytes w of
                            (Inl e, w1) \<Rightarrow> (Inl e, w1)
                          | (Inr _, w1) \<Rightarrow>
                              (case checked_add offset (of_nat chunk) of
                                 None \<Rightarrow> (Inl PopulateAddressOverflow, w1)
                               | Some offset1 \<Rightarrow>
                                   populate_pages W loaded segment_start segment_end memory_size memory_end
                                     file_size file_bytes offset1 w1)))))"
  by pat_completeness auto

lemma and_page_mask: "(a::u64) AND NOT (PAGE_SIZE_4K - 1) = page_of a"
proof -
  have "PAGE_SIZE_4K - 1 = 4095" by (simp add: PAGE_SIZE_4K_def)
  moreover have "a AND NOT 4095 = page_of a"
    by (rule word_unat_eq_iff [THEN iffD2]) (unfold unat_and_not_4095 unat_page_of, rule refl)
  ultimately show ?thesis by (simp only:)
qed

lemma page_offset_unat: "unat (a - page_of a) = unat a mod 4096"
proof -
  have "page_of a \<le> a" by (simp add: word_le_nat_alt unat_page_of)
  then show ?thesis by (simp add: unat_sub unat_page_of minus_div_mult_eq_mod)
qed

lemma chunk_progress:
  assumes "(offset::u64) < memory_size"
    "checked_add offset (of_nat (min (unat (memory_size - offset)) (4096 - p))) = Some offset1" "p < 4096"
  shows "unat offset1 = unat offset + min (unat memory_size - unat offset) (4096 - p)" "offset < offset1"
    "offset1 \<le> memory_size"
proof -
  let ?c = "min (unat (memory_size - offset)) (4096 - p)"
  have s: "unat (memory_size - offset) = unat memory_size - unat offset"
    using assms(1) by (intro unat_sub) simp
  have "?c < 2 ^ 64" using unat_u64_less [of "memory_size - offset"] by simp
  then have "unat (of_nat ?c :: u64) = ?c" by (intro unat_of_nat_u64) simp
  then show u: "unat offset1 = unat offset + min (unat memory_size - unat offset) (4096 - p)"
    using assms(2) s by (simp add: checked_add_eq_Some)
  show "offset < offset1" "offset1 \<le> memory_size"
    using u assms(1,3) by (auto simp: word_less_nat_alt word_le_nat_alt)
qed

termination populate_pages
proof (relation "measure (\<lambda>(W, loaded, s, e, memory_size, me, fs, fb, offset, w). unat memory_size - unat offset)", goal_cases)
  case 1
  then show ?case by simp
next
  case prems: (2 W loaded s e memory_size me fs fb offset w va pb po rm pr c mi mapped r w1 u offset1)
  have "po = unat va mod 4096" using prems(4,5) by (simp only: and_page_mask page_offset_unat)
  then have po: "po < 4096" by simp
  have "checked_add offset (of_nat (min (unat (memory_size - offset)) (4096 - po))) = Some offset1"
    using prems by (simp add: PAGE_SIZE_4K_def)
  note chunk_progress(2) [OF _ this po]
  moreover have "offset < memory_size" using prems(1) by simp
  ultimately show ?case by (simp add: word_less_nat_alt word_le_nat_alt)
qed

declare populate_pages.simps [simp del]

text \<open>The segment loop.\<close>

fun populate_segments ::
  "('e, 'w) ImagePageWriter \<Rightarrow> u8 list \<Rightarrow> LoadResult \<Rightarrow> LoadSegment list \<Rightarrow> 'w \<Rightarrow> (PopulateError + unit) \<times> 'w" where
  "populate_segments W bytes loaded [] w = (Inr (), w)"
| "populate_segments W bytes loaded (segment # segments) w =
     (let segment_start = vr_start (ls_virtual_range segment);
          segment_end = vr_end (ls_virtual_range segment)
      in case checked_add (ls_file_offset segment) (ls_file_size segment) of
           None \<Rightarrow> (Inl FileRangeInvalid, w)
         | Some file_end \<Rightarrow>
             (case get_range bytes (unat (ls_file_offset segment)) (unat file_end) of
                None \<Rightarrow> (Inl FileRangeInvalid, w)
              | Some file_bytes \<Rightarrow>
                  (case checked_add segment_start (ls_memory_size segment) of
                     None \<Rightarrow> (Inl PopulateAddressOverflow, w)
                   | Some memory_end \<Rightarrow>
                       (case populate_pages W loaded segment_start segment_end (ls_memory_size segment)
                               memory_end (ls_file_size segment) file_bytes 0 w of
                          (Inl e, w1) \<Rightarrow> (Inl e, w1)
                        | (Inr _, w1) \<Rightarrow> populate_segments W bytes loaded segments w1))))"

definition populate_image ::
  "('e, 'w) ImagePageWriter \<Rightarrow> ElfImage \<Rightarrow> LoadResult \<Rightarrow> 'w \<Rightarrow> (PopulateError + unit) \<times> 'w" where
  "populate_image W img loaded w = populate_segments W (elf_bytes img) loaded (elf_segments img) w"

section \<open>The populated address space\<close>

datatype PopulationError = PopulationImage PopulateError | StackWriteFailed

datatype PopulatedAddressSpace = PopulatedAddressSpace (populated_built: BuiltAddressSpace)

definition populated_image :: "PopulatedAddressSpace \<Rightarrow> ProcessImage" where
  "populated_image p = built_image (populated_built p)"

fun zero_stack ::
  "('e, 'w) ImagePageWriter \<Rightarrow> BuiltAddressSpace \<Rightarrow> nat list \<Rightarrow> 'w \<Rightarrow> (PopulationError + unit) \<times> 'w" where
  "zero_stack W built [] w = (Inr (), w)"
| "zero_stack W built (index # rest) w =
     (case built_stack_page built index of
        None \<Rightarrow> (Inl StackWriteFailed, w)
      | Some mapped \<Rightarrow>
          (case w_zero_page_range W w (msp_physical_address mapped) 0 (unat PAGE_SIZE_4K) of
             (Inl _, w1) \<Rightarrow> (Inl StackWriteFailed, w1)
           | (Inr _, w1) \<Rightarrow> zero_stack W built rest w1))"

definition populate ::
  "('e, 'w) ImagePageWriter \<Rightarrow> ElfImage \<Rightarrow> BuiltAddressSpace \<Rightarrow> 'w \<Rightarrow> (PopulationError + PopulatedAddressSpace) \<times> 'w" where
  "populate W image_bytes built w =
     (case populate_image W image_bytes (built_load built) w of
        (Inl e, w1) \<Rightarrow> (Inl (PopulationImage e), w1)
      | (Inr _, w1) \<Rightarrow>
          (case zero_stack W built [0..<built_stack_count built] w1 of
             (Inl e, w2) \<Rightarrow> (Inl e, w2)
           | (Inr _, w2) \<Rightarrow> (Inr (PopulatedAddressSpace built), w2)))"

section \<open>The launch plan\<close>

datatype UserLaunchError =
    EntryOutsideImage
  | LaunchEntryNotExecutable
  | StackOutsideImage
  | LaunchStackNotWritable
  | LaunchStackExecutable

record UserLaunchPlan =
  ulp_address_space :: AddressSpaceId
  ulp_entry :: u64
  ulp_stack_pointer :: u64

definition stack_page_holds :: "u64 \<Rightarrow> MappedStackPage \<Rightarrow> bool" where
  "stack_page_holds stack_pointer page =
     (let s = page_start_address (msp_virtual_page page);
          e = (case page_end_address (msp_virtual_page page) of None \<Rightarrow> u64_MAX | Some e \<Rightarrow> e)
      in stack_pointer > s \<and> stack_pointer \<le> e \<and> e - s = PAGE_SIZE_4K)"

definition from_populated :: "PopulatedAddressSpace \<Rightarrow> UserLaunchError + UserLaunchPlan" where
  "from_populated img =
     (let context = pi_context (populated_image img);
          built = populated_built img;
          entry = ctx_entry context;
          stack_pointer = ctx_stack_pointer context;
          stack_ok = (stack_pointer \<noteq> 0 \<and>
            list_ex (\<lambda>index. case built_stack_page built index of
                               None \<Rightarrow> False
                             | Some page \<Rightarrow> stack_page_holds stack_pointer page) [0..<built_stack_count built])
      in if \<not> contains_page (built_load built) entry then Inl EntryOutsideImage
         else if \<not> built_entry_executable built then Inl LaunchEntryNotExecutable
         else if \<not> stack_ok then Inl StackOutsideImage
         else if \<not> built_stack_writable built then Inl LaunchStackNotWritable
         else if built_stack_executable built then Inl LaunchStackExecutable
         else Inr \<lparr>ulp_address_space = spec_id (pi_address_space (populated_image img)),
                   ulp_entry = entry, ulp_stack_pointer = stack_pointer\<rparr>)"

section \<open>The x86_64 page writer\<close>

datatype ImageWriteError = ImageAddressOverflow | EmptyRange

record X86ImagePageWriter =
  iw_mapping :: PhysicalMemoryMapping
  iw_memory :: "u64 \<Rightarrow> u8"

definition iw_mapped_address :: "PhysicalMemoryMapping \<Rightarrow> u64 \<Rightarrow> nat \<Rightarrow> nat \<Rightarrow> ImageWriteError + u64" where
  "iw_mapped_address mapping physical_address page_offset len =
     (if len = 0 then Inl EmptyRange
      else and_then (ok_or (checked_add physical_address (of_nat page_offset)) ImageAddressOverflow) (\<lambda>physical_start.
           and_then (ok_or (checked_add physical_start (of_nat len)) ImageAddressOverflow) (\<lambda>physical_end.
           and_then (ok_or (phys_translate mapping physical_start) ImageAddressOverflow) (\<lambda>virtual_start.
           and_then (ok_or (phys_translate mapping physical_end) ImageAddressOverflow) (\<lambda>virtual_end.
             if virtual_end < virtual_start \<or> virtual_start > u64_MAX
                \<or> virtual_end > saturating_add u64_MAX 1 then Inl ImageAddressOverflow
             else Inr virtual_start)))))"

text \<open>Writing consecutive bytes behind a kernel address.\<close>

definition write_bytes :: "(u64 \<Rightarrow> u8) \<Rightarrow> u64 \<Rightarrow> u8 list \<Rightarrow> u64 \<Rightarrow> u8" where
  "write_bytes mem destination bytes =
     (\<lambda>a. let i = unat (a - destination) in if i < length bytes then bytes ! i else mem a)"

definition iw_copy_into_page ::
  "X86ImagePageWriter \<Rightarrow> u64 \<Rightarrow> nat \<Rightarrow> u8 list \<Rightarrow> (ImageWriteError + unit) \<times> X86ImagePageWriter" where
  "iw_copy_into_page w physical_address page_offset bytes =
     (case iw_mapped_address (iw_mapping w) physical_address page_offset (length bytes) of
        Inl e \<Rightarrow> (Inl e, w)
      | Inr destination \<Rightarrow> (Inr (), w\<lparr>iw_memory := write_bytes (iw_memory w) destination bytes\<rparr>))"

definition iw_zero_page_range ::
  "X86ImagePageWriter \<Rightarrow> u64 \<Rightarrow> nat \<Rightarrow> nat \<Rightarrow> (ImageWriteError + unit) \<times> X86ImagePageWriter" where
  "iw_zero_page_range w physical_address page_offset len =
     (case iw_mapped_address (iw_mapping w) physical_address page_offset len of
        Inl e \<Rightarrow> (Inl e, w)
      | Inr destination \<Rightarrow> (Inr (), w\<lparr>iw_memory := write_bytes (iw_memory w) destination (replicate len 0)\<rparr>))"

definition x86_writer :: "(ImageWriteError, X86ImagePageWriter) ImagePageWriter" where
  "x86_writer = \<lparr>w_copy_into_page = iw_copy_into_page, w_zero_page_range = iw_zero_page_range\<rparr>"

end
