(* ===== verification/Population_Contract.thy ===== *)
theory Population_Contract
  imports Population Mapper_Contract
begin

text \<open>
  The contract of a page writer over the bytes of physical memory, what population writes under
  it, and the proof that the x86_64 writer implements it.
\<close>

section \<open>What population writes\<close>

text \<open>The byte that a segment \<open>[start, stop)\<close> with the given file contents has at an address.\<close>

definition seg_byte :: "u8 list \<Rightarrow> nat \<Rightarrow> nat \<Rightarrow> nat \<Rightarrow> u8" where
  "seg_byte fb start stop x =
     (if start \<le> x \<and> x < stop \<and> x - start < length fb then fb ! (x - start) else 0)"

definition in_frame :: "u64 \<Rightarrow> nat \<Rightarrow> bool" where
  "in_frame f a \<longleftrightarrow> unat f \<le> a \<and> a < unat f + 4096"

definition page_meets :: "MappedPage \<Rightarrow> nat \<Rightarrow> nat \<Rightarrow> bool" where
  "page_meets p lo hi \<longleftrightarrow> lo < hi \<and> unat (mp_virtual_address p) < hi \<and> lo < unat (mp_virtual_address p) + 4096"

definition pages_ok :: "MappedPage list \<Rightarrow> bool" where
  "pages_ok pages \<longleftrightarrow>
     distinct (map mp_virtual_address pages) \<and> distinct (map mp_physical_address pages)
     \<and> (\<forall>p\<in>set pages. page_aligned (mp_virtual_address p) \<and> page_aligned (mp_physical_address p))"

text \<open>
  The pages that meet \<open>[lo, stop)\<close> hold the bytes of the segment, zero outside its file contents,
  and no other byte changed.
\<close>

definition written :: "MappedPage list \<Rightarrow> u8 list \<Rightarrow> nat \<Rightarrow> nat \<Rightarrow> nat \<Rightarrow> (nat \<Rightarrow> u8) \<Rightarrow> (nat \<Rightarrow> u8) \<Rightarrow> bool" where
  "written pages fb start stop lo c c' \<longleftrightarrow>
     (\<forall>x. lo \<le> x \<and> x < stop \<longrightarrow> (\<exists>p\<in>set pages. unat (mp_virtual_address p) = x div 4096 * 4096))
     \<and> (\<forall>p\<in>set pages. page_meets p lo stop \<longrightarrow>
          (\<forall>a. in_frame (mp_physical_address p) a \<longrightarrow>
             c' a = seg_byte fb start stop (unat (mp_virtual_address p) + (a - unat (mp_physical_address p)))))
     \<and> (\<forall>a. (\<forall>p\<in>set pages. page_meets p lo stop \<longrightarrow> \<not> in_frame (mp_physical_address p) a) \<longrightarrow> c' a = c a)"

lemma page_alignedE:
  assumes "page_aligned a" obtains i where "unat a = 4096 * i"
  using assms by (auto simp: page_aligned_def mod_eq_0_iff_dvd elim: dvdE)

lemma in_frame_unique:
  assumes "page_aligned f" "page_aligned g" "in_frame f a" "in_frame g a"
  shows "f = g"
proof -
  obtain i j where ij: "unat f = 4096 * i" "unat g = 4096 * j"
    using page_alignedE [OF assms(1)] page_alignedE [OF assms(2)] by metis
  then have "i = a div 4096" "j = a div 4096" using assms(3,4) by (auto simp: in_frame_def div_nat_eqI)
  then show ?thesis using ij by (simp add: word_unat_eq_iff)
qed

lemma pages_ok_frame:
  assumes "pages_ok pages" "p \<in> set pages" "q \<in> set pages"
    "in_frame (mp_physical_address p) a" "in_frame (mp_physical_address q) a"
  shows "p = q"
proof -
  have "mp_physical_address p = mp_physical_address q"
    using assms by (auto simp: pages_ok_def intro: in_frame_unique)
  then show ?thesis using assms(1-3) by (auto simp: pages_ok_def distinct_map dest: inj_onD)
qed

lemma written_empty: "stop \<le> lo \<Longrightarrow> written pages fb start stop lo c c"
  by (auto simp: written_def page_meets_def)

lemma chunk_bytes:
  fixes i po off lo start ms :: nat
  assumes "i < 4096" "po = lo mod 4096" "lo = start + off" "off < ms" "off = 0 \<or> po = 0" "length fb \<le> ms"
    "fcs = min off (length fb)" "chunk = min (ms - off) (4096 - po)"
  shows "(if po \<le> i \<and> i < po + min (length fb - fcs) chunk then fb ! (fcs + (i - po)) else 0)
    = seg_byte fb start (start + ms) (lo div 4096 * 4096 + i)"
proof -
  have b: "lo div 4096 * 4096 + po = lo" using assms(2) by simp
  show ?thesis
  proof (cases "off = 0")
    case True
    then have s: "start = lo div 4096 * 4096 + po" using b assms(3) by simp
    show ?thesis
      unfolding seg_byte_def s using True assms(1,4,6,7,8) by auto
  next
    case False
    then have po: "po = 0" and e: "lo div 4096 * 4096 = start + off" using assms(3,5) b by auto
    show ?thesis
      unfolding seg_byte_def e po using assms(1,4,6,7,8) po by (auto simp: min_def)
  qed
qed


lemma chunk_end:
  fixes s off ms :: nat
  assumes "off < ms"
  shows "s + (off + min (ms - off) (4096 - (s + off) mod 4096)) = min (s + ms) ((s + off) div 4096 * 4096 + 4096)"
proof -
  obtain q r where q: "q = (s + off) div 4096 * 4096" "r = (s + off) mod 4096" by simp
  then have "s + off = q + r" "r < 4096" by simp_all
  then show ?thesis unfolding q [symmetric] using assms by linarith
qed

lemma find_mapped_page_sound:
  assumes "find_mapped_page loaded b = Some i" "load_page loaded i = Some p"
  shows "p \<in> set (load_pages loaded)" "mp_virtual_address p = b"
proof -
  have "i < load_mapped_pages loaded" and q: "case load_page loaded i of None \<Rightarrow> False | Some page \<Rightarrow> mp_virtual_address page = b"
    using assms(1) unfolding find_mapped_page_def find_Some_iff by auto
  then show "p \<in> set (load_pages loaded)" "mp_virtual_address p = b"
    using assms(2) by (auto simp: load_page_def load_mapped_pages_def)
qed

lemma find_mapped_page_complete:
  assumes "q \<in> set (load_pages loaded)" "mp_virtual_address q = b"
  shows "\<exists>i p. find_mapped_page loaded b = Some i \<and> load_page loaded i = Some p"
proof -
  obtain j where "j < length (load_pages loaded)" "load_pages loaded ! j = q"
    using assms(1) by (auto simp: in_set_conv_nth)
  then have "find_mapped_page loaded b \<noteq> None"
    using assms(2) unfolding find_mapped_page_def find_None_iff
    by (auto simp: load_page_def load_mapped_pages_def intro!: bexI [of _ j])
  then obtain i where i: "find_mapped_page loaded b = Some i" by blast
  then have "i < load_mapped_pages loaded" unfolding find_mapped_page_def find_Some_iff by auto
  then show ?thesis using i by (simp add: load_page_def)
qed

text \<open>One page of the loop: the page at \<open>lo\<close> is written, and the rest follows.\<close>

lemma written_step:
  assumes ok: "pages_ok pages" and p: "p \<in> set pages" "unat (mp_virtual_address p) = lo div 4096 * 4096"
    and lt: "lo < stop" and nx: "lo1 = min stop (lo div 4096 * 4096 + 4096)"
    and c1: "\<And>a. c1 a = (if in_frame (mp_physical_address p) a
        then seg_byte fb start stop (lo div 4096 * 4096 + (a - unat (mp_physical_address p))) else c a)"
    and rest: "written pages fb start stop lo1 c1 c'"
  shows "written pages fb start stop lo c c'"
proof -
  have lo1: "lo \<le> lo1" using lt nx div_mult_mod_eq [of lo 4096] by auto
  have away: "\<not> page_meets p lo1 stop" using nx p(2) by (auto simp: page_meets_def)
  have meets: "page_meets q lo stop \<Longrightarrow> q \<noteq> p \<Longrightarrow> page_meets q lo1 stop" if "q \<in> set pages" for q
  proof -
    assume m: "page_meets q lo stop" and "q \<noteq> p"
    then have "mp_virtual_address q \<noteq> mp_virtual_address p"
      using ok that p(1) by (auto simp: pages_ok_def distinct_map dest: inj_onD)
    moreover have "page_aligned (mp_virtual_address q)" using ok that by (simp add: pages_ok_def)
    then obtain i where "unat (mp_virtual_address q) = 4096 * i" by (rule page_alignedE)
    ultimately have "lo div 4096 < i" using m p(2) by (auto simp: page_meets_def word_unat_eq_iff)
    then show "page_meets q lo1 stop" using m nx \<open>unat (mp_virtual_address q) = 4096 * i\<close>
      by (auto simp: page_meets_def)
  qed
  have "\<exists>q\<in>set pages. unat (mp_virtual_address q) = x div 4096 * 4096" if "lo \<le> x" "x < stop" for x
  proof (cases "lo1 \<le> x")
    case True
    then show ?thesis using rest that(2) by (simp add: written_def)
  next
    case False
    then have "x div 4096 = lo div 4096" using that nx by (auto intro!: div_nat_eqI)
    then show ?thesis using p by auto
  qed
  moreover have "c' a = seg_byte fb start stop (unat (mp_virtual_address q) + (a - unat (mp_physical_address q)))"
    if q: "q \<in> set pages" "page_meets q lo stop" "in_frame (mp_physical_address q) a" for q a
  proof (cases "q = p")
    case True
    have "c' a = c1 a" using rest away q(3) pages_ok_frame [OF ok p(1)] True unfolding written_def by metis
    then show ?thesis using True q(3) p(2) c1 by simp
  next
    case False
    then show ?thesis using rest meets [OF q(1,2)] q(1,3) by (simp add: written_def)
  qed
  moreover have "c' a = c a" if "\<forall>q\<in>set pages. page_meets q lo stop \<longrightarrow> \<not> in_frame (mp_physical_address q) a" for a
  proof -
    have "lo div 4096 * 4096 \<le> lo" "lo < lo div 4096 * 4096 + 4096"
      using div_mult_mod_eq [of lo 4096] mod_less_divisor [of 4096 lo] by linarith+
    then have "page_meets p lo stop" using lt p(2) by (simp add: page_meets_def)
    then have "c1 a = c a" using that p(1) c1 by simp
    moreover have "page_meets q lo1 stop \<Longrightarrow> page_meets q lo stop" for q
      using lo1 by (auto simp: page_meets_def)
    then have "c' a = c1 a" using rest that unfolding written_def by blast
    ultimately show ?thesis by simp
  qed
  ultimately show ?thesis unfolding written_def by blast
qed


lemma populate_pages_step:
  assumes "populate_pages W loaded s e ms me fs fb offset w = (Inr (), w')" "offset < ms" "unat s + unat ms < 2 ^ 64"
  shows "\<exists>p w1 o1. p \<in> set (load_pages loaded)
    \<and> unat (mp_virtual_address p) = (unat s + unat offset) div 4096 * 4096
    \<and> write_chunk W (mp_physical_address p) ((unat s + unat offset) mod 4096)
        (min (unat ms - unat offset) (4096 - (unat s + unat offset) mod 4096)) offset fs fb w = (Inr (), w1)
    \<and> unat o1 = unat offset + min (unat ms - unat offset) (4096 - (unat s + unat offset) mod 4096)
    \<and> offset < o1 \<and> populate_pages W loaded s e ms me fs fb o1 w1 = (Inr (), w')"
proof -
  have k: "unat (ms - offset) = unat ms - unat offset" using assms(2) by (intro unat_sub) simp
  have "unat s + unat offset < 2 ^ 64" using assms(2,3) by (simp add: word_less_nat_alt)
  then obtain va where va: "checked_add s offset = Some va" "unat va = unat s + unat offset"
    by (auto simp: checked_add_def unat_word_ariths)
  let ?po = "unat va mod 4096"
  note eq = assms(1) [unfolded populate_pages.simps [of W loaded s e ms me fs fb offset w] and_page_mask page_offset_unat Let_def]
  obtain i p w1 u o1 where st: "find_mapped_page loaded (page_of va) = Some i" "load_page loaded i = Some p"
    "write_chunk W (mp_physical_address p) ?po (min (unat (ms - offset)) (4096 - ?po)) offset fs fb w = (Inr u, w1)"
    "checked_add offset (of_nat (min (unat (ms - offset)) (4096 - ?po))) = Some o1"
    "populate_pages W loaded s e ms me fs fb o1 w1 = (Inr (), w')"
    using eq assms(2) va(1)
    by (auto simp: PAGE_SIZE_4K_def split: if_splits option.splits prod.splits sum.splits)
  have "?po < 4096" by simp
  note chunk_progress(1,2) [OF assms(2) st(4) this]
  then show ?thesis
    using find_mapped_page_sound [OF st(1,2)] st(3,5) va(2) k
    by (intro exI [of _ p] exI [of _ w1] exI [of _ o1]) (simp add: unat_page_of)
qed

text \<open>Whole segments.\<close>

definition seg_file :: "u8 list \<Rightarrow> LoadSegment \<Rightarrow> u8 list" where
  "seg_file bytes s = take (unat (ls_file_size s)) (drop (unat (ls_file_offset s)) bytes)"

definition seg_start :: "LoadSegment \<Rightarrow> nat" where
  "seg_start s = unat (vr_start (ls_virtual_range s))"

definition seg_stop :: "LoadSegment \<Rightarrow> nat" where
  "seg_stop s = seg_start s + unat (ls_memory_size s)"

text \<open>Every page of the segment is mapped, and its frames hold the contents of the segment.\<close>

definition seg_loaded :: "MappedPage list \<Rightarrow> u8 list \<Rightarrow> (nat \<Rightarrow> u8) \<Rightarrow> LoadSegment \<Rightarrow> bool" where
  "seg_loaded pages bytes c s \<longleftrightarrow>
     (\<forall>x. seg_start s \<le> x \<and> x < seg_stop s \<longrightarrow> (\<exists>p\<in>set pages. unat (mp_virtual_address p) = x div 4096 * 4096))
     \<and> (\<forall>p\<in>set pages. page_meets p (seg_start s) (seg_stop s) \<longrightarrow>
          (\<forall>a. in_frame (mp_physical_address p) a \<longrightarrow>
             c a = seg_byte (seg_file bytes s) (seg_start s) (seg_stop s)
                     (unat (mp_virtual_address p) + (a - unat (mp_physical_address p)))))"

definition seg_sized :: "u8 list \<Rightarrow> LoadSegment \<Rightarrow> bool" where
  "seg_sized bytes s \<longleftrightarrow> length bytes < 2 ^ 64 \<and> unat (ls_file_offset s) + unat (ls_file_size s) \<le> length bytes
     \<and> ls_file_size s \<le> ls_memory_size s \<and> seg_stop s < 2 ^ 64"

text \<open>Two segments have no page in common.\<close>

definition seg_apart :: "LoadSegment \<Rightarrow> LoadSegment \<Rightarrow> bool" where
  "seg_apart s t \<longleftrightarrow> (\<forall>x y. seg_start s \<le> x \<and> x < seg_stop s \<and> seg_start t \<le> y \<and> y < seg_stop t \<longrightarrow>
     x div 4096 \<noteq> y div 4096)"

lemma seg_file_length: "seg_sized bytes s \<Longrightarrow> length (seg_file bytes s) = unat (ls_file_size s)"
  by (auto simp: seg_sized_def seg_file_def min_def)

lemma page_meets_inside:
  assumes "page_meets p lo hi" "page_aligned (mp_virtual_address p)"
  obtains x where "lo \<le> x" "x < hi" "x div 4096 * 4096 = unat (mp_virtual_address p)"
proof -
  obtain i where i: "unat (mp_virtual_address p) = 4096 * i" using assms(2) by (rule page_alignedE)
  show thesis
  proof (rule that [of "max lo (unat (mp_virtual_address p))"])
    have "max lo (4096 * i) div 4096 = i" using assms(1) i by (intro div_nat_eqI) (auto simp: page_meets_def)
    then show "max lo (unat (mp_virtual_address p)) div 4096 * 4096 = unat (mp_virtual_address p)" using i by simp
  qed (use assms(1) in \<open>auto simp: page_meets_def\<close>)
qed

lemma seg_apart_meets:
  assumes "seg_apart s t" "page_meets p (seg_start s) (seg_stop s)" "page_aligned (mp_virtual_address p)"
  shows "\<not> page_meets p (seg_start t) (seg_stop t)"
proof
  assume m: "page_meets p (seg_start t) (seg_stop t)"
  obtain x where x: "seg_start s \<le> x" "x < seg_stop s" "x div 4096 * 4096 = unat (mp_virtual_address p)"
    using page_meets_inside [OF assms(2,3)] by blast
  obtain y where y: "seg_start t \<le> y" "y < seg_stop t" "y div 4096 * 4096 = unat (mp_virtual_address p)"
    using page_meets_inside [OF m assms(3)] by blast
  have "x div 4096 = y div 4096" using x(3) y(3) by simp
  then show False using assms(1) x y unfolding seg_apart_def by blast
qed

lemma populate_segment_cases:
  assumes "populate_segments W bytes loaded (s # segs) w = (Inr (), w')" "seg_sized bytes s"
  obtains w1 me where
    "populate_pages W loaded (vr_start (ls_virtual_range s)) (vr_end (ls_virtual_range s)) (ls_memory_size s) me
       (ls_file_size s) (seg_file bytes s) 0 w = (Inr (), w1)"
    "populate_segments W bytes loaded segs w1 = (Inr (), w')"
  using assms
  by (auto simp: Let_def get_range_def seg_file_def checked_add_eq_Some split: option.splits sum.splits prod.splits if_splits)

lemma file_slice:
  assumes "seg_sized bytes s"
  obtains fe where "checked_add (ls_file_offset s) (ls_file_size s) = Some fe"
    "get_range bytes (unat (ls_file_offset s)) (unat fe) = Some (seg_file bytes s)"
proof -
  have "unat (ls_file_offset s) + unat (ls_file_size s) < 2 ^ 64" using assms by (simp add: seg_sized_def)
  then show thesis
    using assms by (intro that [of "ls_file_offset s + ls_file_size s"])
      (auto simp: checked_add_def seg_sized_def get_range_def seg_file_def unat_word_ariths)
qed

text \<open>The frames of an address space, and what population leaves in them.\<close>

definition built_frames :: "BuiltAddressSpace \<Rightarrow> u64 list" where
  "built_frames b = map mp_physical_address (load_pages (built_load b)) @ map msp_physical_address (built_stack_pages b)"

definition frames_ok :: "BuiltAddressSpace \<Rightarrow> bool" where
  "frames_ok b \<longleftrightarrow> distinct (built_frames b) \<and> (\<forall>f\<in>set (built_frames b). page_aligned f)
     \<and> distinct (map mp_virtual_address (load_pages (built_load b)))
     \<and> (\<forall>p\<in>set (load_pages (built_load b)). page_aligned (mp_virtual_address p))"

definition populated_with :: "ElfImage \<Rightarrow> BuiltAddressSpace \<Rightarrow> (nat \<Rightarrow> u8) \<Rightarrow> (nat \<Rightarrow> u8) \<Rightarrow> bool" where
  "populated_with img b c c' \<longleftrightarrow>
     (\<forall>s\<in>set (elf_segments img). seg_loaded (load_pages (built_load b)) (elf_bytes img) c' s)
     \<and> (\<forall>p\<in>set (built_stack_pages b). \<forall>a. in_frame (msp_physical_address p) a \<longrightarrow> c' a = 0)
     \<and> (\<forall>a. (\<forall>f\<in>set (built_frames b). \<not> in_frame f a) \<longrightarrow> c' a = c a)"

lemma frames_ok_pages: "frames_ok b \<Longrightarrow> pages_ok (load_pages (built_load b))"
  by (auto simp: frames_ok_def pages_ok_def built_frames_def)

lemma stack_page_index:
  "(\<exists>i\<in>{0..<built_stack_count b}. \<exists>p. built_stack_page b i = Some p \<and> P p) \<longleftrightarrow> (\<exists>p\<in>set (built_stack_pages b). P p)"
  by (auto simp: built_stack_page_def built_stack_count_def Bex_def in_set_conv_nth)

lemma populated_withI:
  assumes ok: "frames_ok b"
    and "\<forall>s\<in>set (elf_segments img). seg_loaded (load_pages (built_load b)) (elf_bytes img) c1 s"
    and "\<And>a. \<forall>p\<in>set (load_pages (built_load b)). in_frame (mp_physical_address p) a \<longrightarrow>
          (\<forall>s\<in>set (elf_segments img). \<not> page_meets p (seg_start s) (seg_stop s)) \<Longrightarrow> c1 a = c a"
    and "\<And>a. c' a = (if \<exists>p\<in>set (built_stack_pages b). in_frame (msp_physical_address p) a then 0 else c1 a)"
  shows "populated_with img b c c'"
proof -
  have "c' a = c1 a" if p: "p \<in> set (load_pages (built_load b))" "in_frame (mp_physical_address p) a" for p a
  proof -
    have "\<not> in_frame (msp_physical_address q) a" if "q \<in> set (built_stack_pages b)" for q
    proof
      assume "in_frame (msp_physical_address q) a"
      then have "msp_physical_address q = mp_physical_address p"
        using ok p that by (intro in_frame_unique) (auto simp: frames_ok_def built_frames_def)
      then show False using ok p(1) that by (auto simp: frames_ok_def built_frames_def)
    qed
    then show ?thesis using assms(4) by auto
  qed
  then have "\<forall>s\<in>set (elf_segments img). seg_loaded (load_pages (built_load b)) (elf_bytes img) c' s"
    using assms(2) unfolding seg_loaded_def by simp
  moreover have "c' a = c a" if "\<forall>f\<in>set (built_frames b). \<not> in_frame f a" for a
    using that assms(3,4) by (auto simp: built_frames_def)
  ultimately show ?thesis using assms(4) by (auto simp: populated_with_def)
qed

section \<open>The contract\<close>

locale image_writer =
  fixes W :: "('e, 'w) ImagePageWriter"
    and content :: "'w \<Rightarrow> nat \<Rightarrow> u8"
  assumes zero_law: "w_zero_page_range W w f po n = (r, w') \<Longrightarrow> po + n \<le> 4096 \<Longrightarrow>
      content w' = (case r of Inl _ \<Rightarrow> content w
        | Inr _ \<Rightarrow> (\<lambda>a. if unat f + po \<le> a \<and> a < unat f + po + n then 0 else content w a))"
    and copy_law: "w_copy_into_page W w f po bs = (res, w') \<Longrightarrow> po + length bs \<le> 4096 \<Longrightarrow>
      content w' = (case res of Inl _ \<Rightarrow> content w
        | Inr _ \<Rightarrow> (\<lambda>a. if unat f + po \<le> a \<and> a < unat f + po + length bs
            then bs ! (a - (unat f + po)) else content w a))"
begin

lemma write_chunk_effect:
  assumes "write_chunk W f po chunk offset file_size fb w = (Inr (), w')" "po + chunk \<le> 4096"
    and fcs: "fcs = unat (min offset file_size)"
  shows "content w' a =
    (if in_frame f a then
       (let i = a - unat f in if po \<le> i \<and> i < po + min (length fb - fcs) chunk then fb ! (fcs + (i - po)) else 0)
     else content w a)"
proof -
  obtain w1 u where z: "w_zero_page_range W w f 0 4096 = (Inr u, w1)"
    using assms(1) by (auto simp: write_chunk_def PAGE_SIZE_4K_def split: sum.splits prod.splits)
  have c1: "content w1 = (\<lambda>a. if in_frame f a then 0 else content w a)"
    using zero_law [OF z] by (simp add: in_frame_def)
  let ?n = "min (length fb - fcs) chunk"
  show ?thesis
  proof (cases "?n = 0")
    case True
    then have "\<not> (fcs < length fb \<and> 0 < chunk)" by (auto simp: min_def split: if_splits)
    then have "w' = w1" using assms(1) z fcs by (auto simp: write_chunk_def PAGE_SIZE_4K_def Let_def split: if_splits)
    then show ?thesis using True c1 by (auto simp: Let_def)
  next
    case False
    let ?bs = "take ?n (drop fcs fb)"
    obtain v where k: "w_copy_into_page W w1 f po ?bs = (Inr v, w')"
      using assms(1) z fcs False
      by (auto simp: write_chunk_def PAGE_SIZE_4K_def Let_def split: sum.splits prod.splits if_splits)
    have n: "length ?bs = ?n" by simp
    have at: "?bs ! (x - (unat f + po)) = fb ! (fcs + (x - unat f - po))"
      if "unat f + po \<le> x \<and> x < unat f + po + ?n" for x
    proof -
      have "fcs \<le> length fb" using False by (cases "fcs \<le> length fb") auto
      moreover have "x - (unat f + po) < ?n" using that by linarith
      ultimately show ?thesis by (simp only: nth_take nth_drop diff_diff_left)
    qed
    have "content w' = (\<lambda>a. if unat f + po \<le> a \<and> a < unat f + po + ?n 
        then fb ! (fcs + (a - unat f - po)) else content w1 a)"
      using copy_law [OF k] assms(2) n at by (simp add: fun_eq_iff)
    then have "content w' a = (if unat f + po \<le> a \<and> a < unat f + po + ?n
        then fb ! (fcs + (a - unat f - po)) else content w1 a)" by simp
    moreover have "unat f + po \<le> a \<and> a < unat f + po + ?n \<longleftrightarrow>
        in_frame f a \<and> po \<le> a - unat f \<and> a - unat f < po + ?n"
      using assms(2) False by (auto simp: in_frame_def)
    ultimately show ?thesis using c1 by (simp add: Let_def)
  qed
qed

lemma populate_pages_written:
  assumes "populate_pages W loaded s e ms me fs fb offset w = (Inr (), w')"
    and "pages_ok (load_pages loaded)" "length fb = unat fs" "fs \<le> ms" "unat s + unat ms < 2 ^ 64"
    and "offset = 0 \<or> (unat s + unat offset) mod 4096 = 0 \<or> ms \<le> offset"
  shows "written (load_pages loaded) fb (unat s) (unat s + unat ms) (unat s + unat offset) (content w) (content w')"
  using assms(1,6)
proof (induction "unat ms - unat offset" arbitrary: offset w rule: less_induct)
  case less
  show ?case
  proof (cases "offset < ms")
    case False
    then show ?thesis
      using less(2) by (auto simp: populate_pages.simps word_less_nat_alt intro!: written_empty)
  next
    case True
    let ?lo = "unat s + unat offset" and ?n = "min (unat ms - unat offset) (4096 - (unat s + unat offset) mod 4096)"
    obtain p w1 o1 where st: "p \<in> set (load_pages loaded)" "unat (mp_virtual_address p) = ?lo div 4096 * 4096"
      "write_chunk W (mp_physical_address p) (?lo mod 4096) ?n offset fs fb w = (Inr (), w1)"
      "unat o1 = unat offset + ?n" "offset < o1" "populate_pages W loaded s e ms me fs fb o1 w1 = (Inr (), w')"
      using populate_pages_step [OF less(2) True] assms(5) by blast
    have n: "?lo mod 4096 + ?n \<le> 4096" using mod_less_divisor [of 4096 ?lo] by linarith
    have m: "unat (min offset fs) = min (unat offset) (length fb)"
      using assms(3) by (simp add: min_def word_le_nat_alt)
    have c1: "content w1 a = (if in_frame (mp_physical_address p) a
        then seg_byte fb (unat s) (unat s + unat ms) (?lo div 4096 * 4096 + (a - unat (mp_physical_address p)))
        else content w a)" for a
    proof (cases "in_frame (mp_physical_address p) a")
      case True
      then have i: "a - unat (mp_physical_address p) < 4096" by (auto simp: in_frame_def)
      have "unat offset = 0 \<or> ?lo mod 4096 = 0" using less(3) \<open>offset < ms\<close> by auto
      then show ?thesis
        using write_chunk_effect [OF st(3) n refl, of a] True \<open>offset < ms\<close> assms(3,4)
          chunk_bytes [OF i refl refl _ _ _ m refl, of "unat ms"]
        by (simp add: Let_def word_less_nat_alt word_le_nat_alt)
    qed (use write_chunk_effect [OF st(3) n refl, of a] in simp)
    have o1: "unat s + unat o1 = min (unat s + unat ms) (?lo div 4096 * 4096 + 4096)"
      unfolding st(4) using True by (intro chunk_end) (simp add: word_less_nat_alt)
    have "o1 = 0 \<or> (unat s + unat o1) mod 4096 = 0 \<or> ms \<le> o1"
      using o1 by (auto simp: min_def word_le_nat_alt split: if_splits)
    then have "written (load_pages loaded) fb (unat s) (unat s + unat ms) (unat s + unat o1) (content w1) (content w')"
      using less(1) [OF _ st(6)] st(5) True by (simp add: word_less_nat_alt)
    then show ?thesis
      using written_step [OF assms(2) st(1,2) _ o1 c1] True by (simp add: word_less_nat_alt)
  qed
qed

lemma populate_segments_loaded:
  assumes "populate_segments W bytes loaded segs w = (Inr (), w')" "pages_ok (load_pages loaded)"
    "\<forall>s\<in>set segs. seg_sized bytes s" "sorted_wrt seg_apart segs"
  shows "(\<forall>s\<in>set segs. seg_loaded (load_pages loaded) bytes (content w') s)
    \<and> (\<forall>a. (\<forall>p\<in>set (load_pages loaded). in_frame (mp_physical_address p) a \<longrightarrow>
          (\<forall>s\<in>set segs. \<not> page_meets p (seg_start s) (seg_stop s))) \<longrightarrow> content w' a = content w a)"
  using assms
proof (induction segs arbitrary: w)
  case (Cons s segs)
  have sz: "seg_sized bytes s" using Cons(4) by simp
  obtain w1 me where st:
    "populate_pages W loaded (vr_start (ls_virtual_range s)) (vr_end (ls_virtual_range s)) (ls_memory_size s) me
       (ls_file_size s) (seg_file bytes s) 0 w = (Inr (), w1)"
    "populate_segments W bytes loaded segs w1 = (Inr (), w')"
    using populate_segment_cases [OF Cons(2) sz] by blast
  have wr: "written (load_pages loaded) (seg_file bytes s) (seg_start s) (seg_stop s) (seg_start s) (content w) (content w1)"
    using populate_pages_written [OF st(1) Cons(3) seg_file_length [OF sz]] sz
    by (simp add: seg_sized_def seg_start_def seg_stop_def)
  note ih = Cons.IH [OF st(2) Cons(3)]
  have rest: "\<forall>t\<in>set segs. seg_loaded (load_pages loaded) bytes (content w') t"
    "\<And>a. \<forall>p\<in>set (load_pages loaded). in_frame (mp_physical_address p) a \<longrightarrow>
       (\<forall>t\<in>set segs. \<not> page_meets p (seg_start t) (seg_stop t)) \<Longrightarrow> content w' a = content w1 a"
    using ih Cons(4,5) by auto
  have keep: "content w' a = content w1 a"
    if "p \<in> set (load_pages loaded)" "page_meets p (seg_start s) (seg_stop s)" "in_frame (mp_physical_address p) a" for p a
  proof (rule rest(2), intro ballI impI)
    fix q t assume q: "q \<in> set (load_pages loaded)" "in_frame (mp_physical_address q) a" and t: "t \<in> set segs"
    have "q = p" using pages_ok_frame [OF Cons(3) q(1) that(1) q(2) that(3)] .
    moreover have "seg_apart s t" using Cons(5) t by simp
    moreover have "page_aligned (mp_virtual_address p)" using Cons(3) that(1) by (simp add: pages_ok_def)
    ultimately show "\<not> page_meets q (seg_start t) (seg_stop t)" using seg_apart_meets that(2) by blast
  qed
  have "seg_loaded (load_pages loaded) bytes (content w') s"
    using wr keep unfolding written_def seg_loaded_def by simp
  moreover have "content w' a = content w a"
    if "\<forall>p\<in>set (load_pages loaded). in_frame (mp_physical_address p) a \<longrightarrow>
      (\<forall>t\<in>set (s # segs). \<not> page_meets p (seg_start t) (seg_stop t))" for a
  proof -
    have "content w' a = content w1 a" using that by (intro rest(2)) simp
    also have "\<dots> = content w a" using wr that unfolding written_def by auto
    finally show ?thesis .
  qed
  ultimately show ?case using rest(1) by auto
qed simp

lemma zero_stack_zeroes:
  assumes "zero_stack W b is w = (Inr (), w')"
  shows "content w' a = (if \<exists>i\<in>set is. \<exists>p. built_stack_page b i = Some p \<and> in_frame (msp_physical_address p) a
    then 0 else content w a)"
  using assms
proof (induction "is" arbitrary: w)
  case (Cons i "is")
  obtain p u w1 where st: "built_stack_page b i = Some p"
    "w_zero_page_range W w (msp_physical_address p) 0 4096 = (Inr u, w1)" "zero_stack W b is w1 = (Inr (), w')"
    using Cons(2) by (auto simp: PAGE_SIZE_4K_def split: option.splits prod.splits sum.splits)
  have "content w1 a = (if in_frame (msp_physical_address p) a then 0 else content w a)"
    using zero_law [OF st(2)] by (simp add: in_frame_def)
  then show ?case using Cons(1) [OF st(3)] st(1) by auto
qed simp

end

section \<open>Success\<close>

text \<open>A writer that does not fail on the frames it reaches.\<close>

locale total_image_writer = image_writer +
  fixes can :: "'b \<Rightarrow> u64 \<Rightarrow> bool"
  assumes zero_ok: "can w f \<Longrightarrow> po + n \<le> 4096 \<Longrightarrow> n \<noteq> 0 \<Longrightarrow>
      \<exists>w'. w_zero_page_range W w f po n = (Inr (), w') \<and> can w' = can w"
    and copy_ok: "can w f \<Longrightarrow> po + length bs \<le> 4096 \<Longrightarrow> bs \<noteq> [] \<Longrightarrow>
      \<exists>w'. w_copy_into_page W w f po bs = (Inr (), w') \<and> can w' = can w"
begin

lemma write_chunk_ok:
  assumes "can w f" "po + chunk \<le> 4096" "length fb < 2 ^ 64"
  shows "\<exists>w'. write_chunk W f po chunk offset fs fb w = (Inr (), w') \<and> can w' = can w"
proof -
  obtain w1 where z: "w_zero_page_range W w f 0 4096 = (Inr (), w1)" "can w1 = can w"
    using zero_ok [of w f 0 4096] assms(1) by auto
  let ?fcs = "unat (min offset fs)"
  let ?n = "min (length fb - ?fcs) chunk"
  show ?thesis
  proof (cases "?n = 0")
    case True
    then have "\<not> (?fcs < length fb \<and> 0 < chunk)" by (auto simp: min_def split: if_splits)
    then show ?thesis using z by (auto simp: write_chunk_def PAGE_SIZE_4K_def Let_def)
  next
    case False
    then have "take ?n (drop ?fcs fb) \<noteq> []" by auto
    moreover have "po + length (take ?n (drop ?fcs fb)) \<le> 4096" using assms(2) by simp
    ultimately obtain w2 where "w_copy_into_page W w1 f po (take ?n (drop ?fcs fb)) = (Inr (), w2)" "can w2 = can w1"
      using copy_ok assms(1) z(2) by metis
    moreover have "\<not> ?fcs + ?n \<ge> 2 ^ 64" using assms(3) False by auto
    ultimately show ?thesis
      unfolding write_chunk_def using z False by (simp add: PAGE_SIZE_4K_def Let_def)
  qed
qed

lemma populate_pages_ok:
  assumes "\<forall>x. unat s \<le> x \<and> x < unat s + unat ms \<longrightarrow>
      (\<exists>p\<in>set (load_pages loaded). unat (mp_virtual_address p) = x div 4096 * 4096)"
    and "\<forall>p\<in>set (load_pages loaded). can w (mp_physical_address p)"
    and "unat e = unat s + unat ms" "unat me = unat s + unat ms" "length fb < 2 ^ 64"
  shows "\<exists>w'. populate_pages W loaded s e ms me fs fb offset w = (Inr (), w') \<and> can w' = can w"
  using assms(2)
proof (induction "unat ms - unat offset" arbitrary: offset w rule: less_induct)
  case less
  show ?case
  proof (cases "offset < ms")
    case False
    then show ?thesis by (simp add: populate_pages.simps)
  next
    case True
    have lt: "unat s + unat offset < unat s + unat ms" using True by (simp add: word_less_nat_alt)
    then have "unat s + unat offset < 2 ^ 64" using unat_u64_less [of e] assms(3) by simp
    then obtain va where va: "checked_add s offset = Some va" "unat va = unat s + unat offset"
      by (auto simp: checked_add_def unat_word_ariths)
    have inside: "\<not> va \<ge> e" "\<not> va \<ge> me" using lt va(2) assms(3,4) by (auto simp: word_le_nat_alt)
    obtain q where q: "q \<in> set (load_pages loaded)" "mp_virtual_address q = page_of va"
      using assms(1) lt va(2) by (metis le_add1 unat_page_of word_unat_eq_iff)
    obtain i p where f: "find_mapped_page loaded (page_of va) = Some i" "load_page loaded i = Some p"
      using find_mapped_page_complete [OF q] by blast
    let ?po = "unat va mod 4096"
    let ?n = "min (unat (ms - offset)) (4096 - ?po)"
    have "can w (mp_physical_address p)" using less(2) find_mapped_page_sound(1) [OF f] by simp
    moreover have "?po + ?n \<le> 4096" using mod_less_divisor [of 4096 "unat va"] by linarith
    ultimately obtain w1 where w1: "write_chunk W (mp_physical_address p) ?po ?n offset fs fb w = (Inr (), w1)"
      "can w1 = can w" using write_chunk_ok assms(5) by blast
    have k: "unat (ms - offset) = unat ms - unat offset" using True by (intro unat_sub) simp
    have "unat offset + ?n < 2 ^ 64" "?n < 2 ^ 64"
      using True unat_u64_less [of ms] k by (auto simp: word_less_nat_alt)
    then obtain o1 where o1: "checked_add offset (of_nat ?n) = Some o1"
      by (simp add: checked_add_def unat_of_nat_u64)
    have "offset < o1" using chunk_progress(2) [OF True o1] by simp
    then have "unat ms - unat o1 < unat ms - unat offset" using True by (simp add: word_less_nat_alt)
    then obtain w' where "populate_pages W loaded s e ms me fs fb o1 w1 = (Inr (), w')" "can w' = can w1"
      using less(1) [of o1 w1] less(2) w1(2) by auto
    moreover have "populate_pages W loaded s e ms me fs fb offset w = populate_pages W loaded s e ms me fs fb o1 w1"
      unfolding populate_pages.simps [of W loaded s e ms me fs fb offset w] and_page_mask page_offset_unat Let_def
      using True va(1) inside f w1(1) o1 by (simp add: PAGE_SIZE_4K_def)
    ultimately show ?thesis using w1(2) by simp
  qed
qed

lemma populate_segments_ok:
  assumes "\<forall>s\<in>set segs. seg_sized bytes s \<and> unat (vr_end (ls_virtual_range s)) = seg_stop s
      \<and> (\<forall>x. seg_start s \<le> x \<and> x < seg_stop s \<longrightarrow>
            (\<exists>p\<in>set (load_pages loaded). unat (mp_virtual_address p) = x div 4096 * 4096))"
    and "\<forall>p\<in>set (load_pages loaded). can w (mp_physical_address p)"
  shows "\<exists>w'. populate_segments W bytes loaded segs w = (Inr (), w') \<and> can w' = can w"
  using assms
proof (induction segs arbitrary: w)
  case (Cons s segs)
  have sz: "seg_sized bytes s" using Cons(2) by simp
  have b: "length (seg_file bytes s) < 2 ^ 64"
    using seg_file_length [OF sz] unat_u64_less [of "ls_file_size s"] by simp
  have "unat (vr_start (ls_virtual_range s)) + unat (ls_memory_size s) < 2 ^ 64"
    using sz by (simp add: seg_sized_def seg_stop_def seg_start_def)
  then obtain me where me: "checked_add (vr_start (ls_virtual_range s)) (ls_memory_size s) = Some me"
    "unat me = unat (vr_start (ls_virtual_range s)) + unat (ls_memory_size s)"
    by (auto simp: checked_add_def unat_word_ariths)
  obtain w1 where w1: "populate_pages W loaded (vr_start (ls_virtual_range s)) (vr_end (ls_virtual_range s))
      (ls_memory_size s) me (ls_file_size s) (seg_file bytes s) 0 w = (Inr (), w1)" "can w1 = can w"
    using populate_pages_ok [OF _ Cons(3) _ me(2) b, of "vr_end (ls_virtual_range s)" "ls_file_size s" 0] Cons(2)
    by (auto simp: seg_start_def seg_stop_def)
  obtain w' where "populate_segments W bytes loaded segs w1 = (Inr (), w')" "can w' = can w1"
    using Cons.IH [of w1] Cons(2,3) w1(2) by auto
  moreover obtain fe where "checked_add (ls_file_offset s) (ls_file_size s) = Some fe"
    "get_range bytes (unat (ls_file_offset s)) (unat fe) = Some (seg_file bytes s)"
    using file_slice [OF sz] by blast
  ultimately show ?case using w1 me(1) by (auto simp: Let_def)
qed simp

lemma zero_stack_ok:
  assumes "\<forall>i\<in>set is. i < built_stack_count b" "\<forall>p\<in>set (built_stack_pages b). can w (msp_physical_address p)"
  shows "\<exists>w'. zero_stack W b is w = (Inr (), w') \<and> can w' = can w"
  using assms
proof (induction "is" arbitrary: w)
  case (Cons i "is")
  have "i < length (built_stack_pages b)" using Cons(2) by (simp add: built_stack_count_def)
  then have p: "built_stack_page b i = Some (built_stack_pages b ! i)" "built_stack_pages b ! i \<in> set (built_stack_pages b)"
    by (simp_all add: built_stack_page_def built_stack_count_def)
  then have "can w (msp_physical_address (built_stack_pages b ! i))" using Cons(3) by simp
  then obtain w1 where w1: "w_zero_page_range W w (msp_physical_address (built_stack_pages b ! i)) 0 4096 = (Inr (), w1)"
    "can w1 = can w"
    using zero_ok [of w "msp_physical_address (built_stack_pages b ! i)" 0 4096] by auto
  then show ?case using Cons.IH [of w1] Cons(2,3) p(1) by (auto simp: PAGE_SIZE_4K_def)
qed simp

lemma populate_spec:
  assumes segs: "\<forall>s\<in>set (elf_segments img). seg_sized (elf_bytes img) s
      \<and> unat (vr_end (ls_virtual_range s)) = seg_stop s
      \<and> (\<forall>x. seg_start s \<le> x \<and> x < seg_stop s \<longrightarrow>
            (\<exists>p\<in>set (load_pages (built_load b)). unat (mp_virtual_address p) = x div 4096 * 4096))"
    and apart: "sorted_wrt seg_apart (elf_segments img)"
    and ok: "frames_ok b" and reach: "\<forall>f\<in>set (built_frames b). can w f"
  shows "\<exists>w'. populate W img b w = (Inr (PopulatedAddressSpace b), w') \<and> populated_with img b (content w) (content w')"
proof -
  have pok: "pages_ok (load_pages (built_load b))" using ok by (rule frames_ok_pages)
  obtain w1 where w1: "populate_segments W (elf_bytes img) (built_load b) (elf_segments img) w = (Inr (), w1)" "can w1 = can w"
    using populate_segments_ok [OF segs, of w] reach by (auto simp: built_frames_def)
  obtain w' where w': "zero_stack W b [0..<built_stack_count b] w1 = (Inr (), w')"
    using zero_stack_ok [of "[0..<built_stack_count b]" b w1] reach w1(2) by (auto simp: built_frames_def)
  have img: "\<forall>s\<in>set (elf_segments img). seg_loaded (load_pages (built_load b)) (elf_bytes img) (content w1) s"
    "\<And>a. \<forall>p\<in>set (load_pages (built_load b)). in_frame (mp_physical_address p) a \<longrightarrow>
          (\<forall>s\<in>set (elf_segments img). \<not> page_meets p (seg_start s) (seg_stop s)) \<Longrightarrow> content w1 a = content w a"
    using populate_segments_loaded [OF w1(1) pok _ apart] segs by auto
  have zero: "content w' a = (if \<exists>p\<in>set (built_stack_pages b). in_frame (msp_physical_address p) a then 0 else content w1 a)" for a
    using zero_stack_zeroes [OF w', of a] by (simp add: stack_page_index)
  have "populated_with img b (content w) (content w')"
    using populated_withI [OF ok img zero] .
  then show ?thesis using w1(1) w' by (simp add: populate_def populate_image_def)
qed

end

section \<open>The x86_64 writer implements the contract\<close>

definition x86_content :: "X86ImagePageWriter \<Rightarrow> nat \<Rightarrow> u8" where
  "x86_content w a = (if unat (phys_offset (iw_mapping w)) + a < 2 ^ 64
     then iw_memory w (of_nat (unat (phys_offset (iw_mapping w)) + a)) else 0)"

definition x86_can :: "X86ImagePageWriter \<Rightarrow> u64 \<Rightarrow> bool" where
  "x86_can w f \<longleftrightarrow> unat (phys_offset (iw_mapping w)) + unat f + 4096 < 2 ^ 64"

lemma iw_mapped_address_eq:
  assumes "po + n \<le> 4096"
  shows "iw_mapped_address m f po n =
    (if n = 0 then Inl EmptyRange
     else if unat (phys_offset m) + unat f + po + n < 2 ^ 64
       then Inr (phys_offset m + (f + of_nat po)) else Inl ImageAddressOverflow)"
proof -
  let ?s = "f + of_nat po :: u64"
  have u: "unat (of_nat po :: u64) = po" "unat (of_nat n :: u64) = n"
    using assms by (auto intro!: unat_of_nat_u64)
  have s: "unat ?s = unat f + po" if "unat f + po < 2 ^ 64" using that u by (simp add: unat_word_ariths)
  have e: "unat (?s + of_nat n) = unat f + po + n" if "unat f + po + n < 2 ^ 64"
    using that s u by (simp add: unat_word_ariths)
  show ?thesis
  proof (cases "unat (phys_offset m) + unat f + po + n < 2 ^ 64")
    case True
    then have v: "unat (phys_offset m + ?s) = unat (phys_offset m) + unat f + po"
      "unat (phys_offset m + (?s + of_nat n)) = unat (phys_offset m) + unat f + po + n"
      using s e by (simp_all add: unat_word_ariths)
    then have "\<not> phys_offset m + (?s + of_nat n) < phys_offset m + ?s" by (simp add: word_less_nat_alt)
    then show ?thesis
      using True s e u by (simp add: iw_mapped_address_def phys_translate_def checked_add_def saturating_add_def)
  next
    case False
    then show ?thesis
      using s e u by (cases "unat f + po + n < 2 ^ 64")
        (auto simp: iw_mapped_address_def phys_translate_def checked_add_def)
  qed
qed

lemma u64_sub: "unat ((x::u64) - d) = (if unat d \<le> unat x then unat x - unat d else unat x + 2 ^ 64 - unat d)"
  by (simp add: unat_sub_if')

lemma write_bytes_content:
  assumes "unat (phys_offset (iw_mapping w)) + unat f + po + length bs < 2 ^ 64" "po + length bs \<le> 4096"
  shows "x86_content (w\<lparr>iw_memory := write_bytes (iw_memory w) (phys_offset (iw_mapping w) + (f + of_nat po)) bs\<rparr>) a
    = (if unat f + po \<le> a \<and> a < unat f + po + length bs then bs ! (a - (unat f + po)) else x86_content w a)"
proof (cases "unat (phys_offset (iw_mapping w)) + a < 2 ^ 64")
  case True
  let ?d = "phys_offset (iw_mapping w) + (f + of_nat po) :: u64"
  let ?x = "of_nat (unat (phys_offset (iw_mapping w)) + a) :: u64"
  have "unat (of_nat po :: u64) = po" using assms(2) by (intro unat_of_nat_u64) simp
  then have d: "unat ?d = unat (phys_offset (iw_mapping w)) + unat f + po"
    using assms(1) by (simp add: unat_word_ariths)
  have x: "unat ?x = unat (phys_offset (iw_mapping w)) + a" using True by (rule unat_of_nat_u64)
  note u64_sub [of ?x ?d, unfolded x d]
  then have i: "unat (?x - ?d) < length bs \<longleftrightarrow> unat f + po \<le> a \<and> a < unat f + po + length bs"
    "unat f + po \<le> a \<Longrightarrow> unat (?x - ?d) = a - (unat f + po)"
    using assms(1) by (auto simp: diff_diff_left)
  have "x86_content (w\<lparr>iw_memory := write_bytes (iw_memory w) ?d bs\<rparr>) a =
      (if unat (?x - ?d) < length bs then bs ! unat (?x - ?d) else x86_content w a)"
    using True by (simp add: x86_content_def write_bytes_def Let_def)
  then show ?thesis using i by presburger
next
  case False
  then show ?thesis using assms(1) by (auto simp: x86_content_def)
qed

interpretation x86_pages: total_image_writer x86_writer x86_content x86_can
proof
  fix w w' :: X86ImagePageWriter and f po n r
  assume z: "w_zero_page_range x86_writer w f po n = (r, w')" "po + n \<le> 4096"
  have "n = length (replicate n 0)" by simp
  then show "x86_content w' = (case r of Inl _ \<Rightarrow> x86_content w
      | Inr _ \<Rightarrow> (\<lambda>a. if unat f + po \<le> a \<and> a < unat f + po + n then 0 else x86_content w a))"
    using z write_bytes_content [of w f po "replicate n 0"]
    by (auto simp: x86_writer_def iw_zero_page_range_def iw_mapped_address_eq fun_eq_iff split: if_splits)
next
  fix w w' :: X86ImagePageWriter and f po bs r
  assume "w_copy_into_page x86_writer w f po bs = (r, w')" "po + length bs \<le> 4096"
  then show "x86_content w' = (case r of Inl _ \<Rightarrow> x86_content w
      | Inr _ \<Rightarrow> (\<lambda>a. if unat f + po \<le> a \<and> a < unat f + po + length bs
          then bs ! (a - (unat f + po)) else x86_content w a))"
    using write_bytes_content [of w f po bs]
    by (auto simp: x86_writer_def iw_copy_into_page_def iw_mapped_address_eq fun_eq_iff split: if_splits)
next
  fix w :: X86ImagePageWriter and f po n
  assume "x86_can w f" "po + n \<le> 4096" "n \<noteq> (0::nat)"
  then show "\<exists>w'. w_zero_page_range x86_writer w f po n = (Inr (), w') \<and> x86_can w' = x86_can w"
    by (auto simp: x86_writer_def iw_zero_page_range_def iw_mapped_address_eq x86_can_def fun_eq_iff)
next
  fix w :: X86ImagePageWriter and f po and bs :: "u8 list"
  assume "x86_can w f" "po + length bs \<le> 4096" "bs \<noteq> []"
  then show "\<exists>w'. w_copy_into_page x86_writer w f po bs = (Inr (), w') \<and> x86_can w' = x86_can w"
    by (auto simp: x86_writer_def iw_copy_into_page_def iw_mapped_address_eq x86_can_def fun_eq_iff)
qed

end
