(* ===== verification/X86_Loading.thy ===== *)
theory X86_Loading
  imports X86_Mapper Population_Contract Process_Image_Properties
begin

text \<open>
  Building a process on x86_64 (\<open>arch/x86_64/process_loader.rs\<close>): a fresh root, a mapper over it,
  the address space, its population, and the rollback of the frame allocator on failure. The
  page tables and the bytes behind the direct map are threaded through as two parts of the state.
\<close>

section \<open>Loading a process image\<close>

datatype ProcessLoadError =
    LoadRoot AddressSpaceRootError
  | LoadMappingError MappingError
  | LoadImage PopulationError

record load_state =
  ld_allocator :: EarlyFrameAllocator
  ld_tables :: table_memory
  ld_bytes :: "u64 \<Rightarrow> u8"

text \<open>The closure whose result decides about the rollback.\<close>

definition load_steps ::
  "'pt X86Crate \<Rightarrow> u64 \<Rightarrow> PhysicalMemoryMapping \<Rightarrow> ProcessImage \<Rightarrow> ElfImage \<Rightarrow> load_state \<Rightarrow>
     ((ProcessLoadError + AddressSpaceRoot \<times> PopulatedAddressSpace) \<times> load_state) option" where
  "load_steps C cr3 physical_memory img elf st =
     (case new_user_root C cr3 (phys_offset physical_memory) (ld_allocator st) (ld_tables st) of
        None \<Rightarrow> None
      | Some (Inl e, alloc, tables) \<Rightarrow>
          Some (Inl (LoadRoot e), st\<lparr>ld_allocator := alloc, ld_tables := tables\<rparr>)
      | Some (Inr root, alloc, tables) \<Rightarrow>
          let spec = pi_address_space img;
              st1 = st\<lparr>ld_allocator := alloc, ld_tables := tables\<rparr>
          in (case new_for_root C tables (phys_offset physical_memory) (root_frame root) alloc
                     (layout_user (spec_layout spec)) of
                None \<Rightarrow> None
              | Some (Inl e) \<Rightarrow> Some (Inl (LoadMappingError e), st1)
              | Some (Inr mapper) \<Rightarrow>
                  (case build_address_space (x86_mapper C) spec img mapper of
                     None \<Rightarrow> None
                   | Some (r, mapper1) \<Rightarrow>
                       let st2 = st1\<lparr>ld_allocator := xm_frame_allocator mapper1,
                                     ld_tables := table_entry C (xm_inner mapper1)\<rparr>
                       in (case r of
                             Inl _ \<Rightarrow> Some (Inl (LoadMappingError BackendFailure), st2)
                           | Inr built \<Rightarrow>
                               (case populate x86_writer elf built
                                       \<lparr>iw_mapping = physical_memory, iw_memory = ld_bytes st2\<rparr> of
                                  (Inl e, w) \<Rightarrow> Some (Inl (LoadImage e), st2\<lparr>ld_bytes := iw_memory w\<rparr>)
                                | (Inr populated, w) \<Rightarrow>
                                    Some (Inr (root, populated), st2\<lparr>ld_bytes := iw_memory w\<rparr>))))))"

definition load_process_image ::
  "'pt X86Crate \<Rightarrow> u64 \<Rightarrow> PhysicalMemoryMapping \<Rightarrow> ProcessImage \<Rightarrow> ElfImage \<Rightarrow> load_state \<Rightarrow>
     ((ProcessLoadError + AddressSpaceRoot \<times> PopulatedAddressSpace) \<times> load_state) option" where
  "load_process_image C cr3 physical_memory img elf st =
     (let checkpoint = ea_checkpoint (ld_allocator st)
      in case load_steps C cr3 physical_memory img elf st of
           None \<Rightarrow> None
         | Some (Inl e, st1) \<Rightarrow>
             Some (Inl e, st1\<lparr>ld_allocator := ea_rollback (ld_allocator st1) checkpoint\<rparr>)
         | Some (Inr x, st1) \<Rightarrow> Some (Inr x, st1))"

section \<open>Non-canonical pages\<close>

lemma map_page_non_canonical:
  assumes "address_laws C" "\<not> canonical (page_start_address p)"
  shows "m_map_page (x86_mapper C) m p f fl \<noteq> Some (Inr u, m')"
  using assms
  by (auto simp: x86_mapper_def xm_map_page_def address_lawsD split: option.splits)

lemma fail_build_never_ok: "fail_build ops load spages e m \<noteq> Some (Inr x, m')"
  by (auto simp: fail_build_def split: option.splits prod.splits sum.splits)

lemma map_stack_non_canonical:
  assumes "address_laws C" "stack_page stack i = Some p" "\<not> canonical (page_start_address p)"
  shows "map_stack (x86_mapper C) load stack (i # rest) spages m \<noteq> Some (Inr x, m')"
  using assms map_page_non_canonical [OF assms(1,3)]
  by (auto simp: fail_build_never_ok split: option.splits prod.splits sum.splits)

lemma build_non_canonical_stack:
  assumes "address_laws C" "stack_pages (pi_stack_plan img) = p # ps" "\<not> canonical (page_start_address p)"
  shows "build_address_space (x86_mapper C) spec img m \<noteq> Some (Inr b, m')"
proof -
  have "stack_page (pi_stack_plan img) 0 = Some p" using assms(2) by (simp add: stack_page_def stack_count_def)
  moreover have "[0..<stack_count (pi_stack_plan img)] = 0 # [1..<stack_count (pi_stack_plan img)]"
    using assms(2) by (simp add: stack_count_def upt_conv_Cons del: upt_Suc)
  ultimately show ?thesis
    using map_stack_non_canonical [OF assms(1) _ assms(3)]
    by (auto simp: build_address_space_def simp del: map_stack.simps split: option.splits prod.splits sum.splits)
qed

text \<open>Every process image carries the fixed user stack, whose pages are not canonical.\<close>

lemma process_image_stack:
  assumes "build_process_image bytes spec = Some (Inr img)"
  shows "\<exists>p ps. stack_pages (pi_stack_plan img) = p # ps \<and> \<not> canonical (page_start_address p)"
proof -
  have "pi_stack_plan img = \<lparr>stack_pages = demo_stack_pages, stack_initial_rsp = 0xFFFF7FFFFFFFF000\<rparr>"
    using assms
    by (auto simp: build_process_image_def stack_plan_build_eq process_image_build_def and_then_eq_Inr
        split: sum.splits)
  moreover have "demo_stack_pages = Page4K 0xFFFF7FFFFFFEF000 # map (\<lambda>k. Page4K (0xFFFF7FFFFFFEF000 + of_nat k * 4096)) [1..<16]"
    by (simp add: demo_stack_pages_def upt_rec [of 0])
  moreover have "\<not> canonical 0xFFFF7FFFFFFEF000" by (simp add: canonical_def)
  ultimately show ?thesis by (metis Page4K.sel UserStackPlan.select_convs(1))
qed

lemma load_steps_never_ok:
  assumes "address_laws C" "build_process_image bytes spec = Some (Inr img)"
  shows "load_steps C cr3 pm img elf st \<noteq> Some (Inr x, st')"
proof -
  obtain p ps where "stack_pages (pi_stack_plan img) = p # ps" "\<not> canonical (page_start_address p)"
    using process_image_stack [OF assms(2)] by blast
  note build_non_canonical_stack [OF assms(1) this]
  then show ?thesis
    by (auto simp: load_steps_def Let_def split: option.splits prod.splits sum.splits)
qed

end
