(* ===== verification/Demo_Crate.thy ===== *)
theory Demo_Crate
  imports X86_Loading
begin

text \<open>
  An instance of the crate interface: page tables given by a map from page numbers to leaf
  entries, presented as a full radix tree. It shows that the documented behaviour relied on can
  be met, and serves the concrete instances of the properties.
\<close>

section \<open>The instance\<close>

type_synonym demo_tables = "nat \<rightharpoonup> u64 \<times> PageTableFlags"

definition demo_key :: "u64 \<Rightarrow> nat" where
  "demo_key a = unat a div 4096 mod 2 ^ 36"

definition demo_parent :: PageTableFlags where
  "demo_parent = \<lparr>ptf_present = True, ptf_writable = True, ptf_user = True, ptf_huge = False, ptf_no_execute = False\<rparr>"

text \<open>
  The table with number \<open>n\<close> lies at address \<open>4096 * n\<close>; the root is number 1, and the children of
  table \<open>n\<close> are numbered from \<open>512 * n\<close>. From \<open>2 ^ 36\<close> on these are leaves.
\<close>

definition demo_entry :: "demo_tables \<Rightarrow> table_memory" where
  "demo_entry pt t i =
     (let n = unat t div 4096 * 512 + i
      in if n < 2 ^ 36 then \<lparr>pte_flags = demo_parent, pte_addr = of_nat (n * 4096)\<rparr>
         else case pt (n - 2 ^ 36) of
                None \<Rightarrow> empty_entry
              | Some (f, fl) \<Rightarrow> \<lparr>pte_flags = fl, pte_addr = f\<rparr>)"

definition demo_crate :: "demo_tables X86Crate" where
  "demo_crate = \<lparr>
     virt_addr_new = (\<lambda>a. if canonical a then Some a else None),
     phys_addr_new = (\<lambda>a. if unat a < 2 ^ 52 then Some a else None),
     phys_frame_from_start = (\<lambda>a. if page_aligned a then Some a else None),
     page_index = (\<lambda>a l. unat a div 2 ^ (39 - 9 * l) mod 512),
     level_4_table = (\<lambda>_. 4096),
     phys_offset_of = (\<lambda>_. 0),
     table_entry = demo_entry,
     offset_page_table_new = (\<lambda>_ _ _. Map.empty),
     map_to = (\<lambda>pt p f fl alloc al.
       case pt (demo_key p) of
         None \<Rightarrow> Some (Inr (), pt(demo_key p \<mapsto> (f, fl)), al)
       | Some _ \<Rightarrow> Some (Inl ToPageAlreadyMapped, pt, al)),
     unmap = (\<lambda>pt p.
       case pt (demo_key p) of
         None \<Rightarrow> (Inl UnPageNotMapped, pt)
       | Some (f, fl) \<Rightarrow> (Inr f, pt(demo_key p := None))),
     translate_addr = (\<lambda>pt a. map_option (\<lambda>(f, fl). f + (a AND 0xfff)) (pt (demo_key a))),
     crate_tables_ok = (\<lambda>pt. \<forall>k f fl. pt k = Some (f, fl) \<longrightarrow> ptf_present fl \<and> ptf_user fl \<and> \<not> ptf_huge fl)\<rparr>"

lemma demo_address_laws: "address_laws demo_crate"
  by (simp add: address_laws_def demo_crate_def)

lemma radix_number:
  fixes x :: nat
  shows "(((512 + x div 2 ^ 39 mod 512) * 512 + x div 2 ^ 30 mod 512) * 512 + x div 2 ^ 21 mod 512) * 512 + x div 2 ^ 12 mod 512
    = 2 ^ 36 + x div 4096 mod 2 ^ 36"
proof -
  define y where "y = x div 4096"
  have "x div 2 ^ 39 = y div 2 ^ 27" "x div 2 ^ 30 = y div 2 ^ 18" "x div 2 ^ 21 = y div 512"
    by (simp_all add: y_def div_mult2_eq [symmetric])
  moreover have "y mod 2 ^ 36 = 512 * (y div 512 mod 2 ^ 27) + y mod 512"
    using mod_mult2_eq [of y 512 "2 ^ 27"] by simp
  moreover have "y div 512 mod 2 ^ 27 = 512 * (y div 2 ^ 18 mod 2 ^ 18) + y div 512 mod 512"
    using mod_mult2_eq [of "y div 512" 512 "2 ^ 18"] by (simp add: div_mult2_eq [symmetric])
  moreover have "y div 2 ^ 18 mod 2 ^ 18 = 512 * (y div 2 ^ 27 mod 512) + y div 2 ^ 18 mod 512"
    using mod_mult2_eq [of "y div 2 ^ 18" 512 512] by (simp add: div_mult2_eq [symmetric])
  ultimately show ?thesis by (simp add: y_def [symmetric])
qed

lemma demo_entry_parent:
  assumes "m * 512 + i < 2 ^ 36" "i < 512"
  shows "demo_entry pt (of_nat (m * 4096)) i = \<lparr>pte_flags = demo_parent, pte_addr = of_nat ((m * 512 + i) * 4096)\<rparr>"
proof -
  have "unat (of_nat (m * 4096) :: u64) = m * 4096" using assms by (intro unat_of_nat_u64) simp
  then show ?thesis using assms(1) by (simp only: demo_entry_def Let_def) simp
qed

lemma demo_entry_leaf:
  assumes "2 ^ 36 \<le> m * 512 + i" "m < 2 ^ 28"
  shows "demo_entry pt (of_nat (m * 4096)) i =
    (case pt (m * 512 + i - 2 ^ 36) of None \<Rightarrow> empty_entry | Some (f, fl) \<Rightarrow> \<lparr>pte_flags = fl, pte_addr = f\<rparr>)"
proof -
  have "unat (of_nat (m * 4096) :: u64) = m * 4096" using assms(2) by (intro unat_of_nat_u64) simp
  then show ?thesis using assms(1) by (simp only: demo_entry_def Let_def) simp
qed

lemma demo_parent_step:
  assumes "l < 3" "i = unat a div 2 ^ (39 - 9 * l) mod 512" "m * 512 + i < 2 ^ 36"
  shows "mapped_flags_loop demo_crate pt a (l # ls) (of_nat (m * 4096)) True True False =
    mapped_flags_loop demo_crate pt a ls (of_nat ((m * 512 + i) * 4096)) True True False"
proof -
  have "i < 512" using assms(2) by simp
  note e = demo_entry_parent [OF assms(3) this, of pt]
  have i: "page_index demo_crate a l = i" using assms(2) by (simp add: demo_crate_def)
  have z: "checked_add (0::u64) x = Some x" for x using unat_u64_less [of x] by (simp add: checked_add_def)
  show ?thesis
    using assms(1) e i by (simp only: mapped_flags_loop.simps) (simp add: demo_crate_def demo_parent_def z del: of_nat_add of_nat_mult)
qed

lemma demo_walk:
  "walk demo_crate pt a =
     (case pt (demo_key a) of
        None \<Rightarrow> None
      | Some (f, fl) \<Rightarrow> if ptf_present fl
          then Some \<lparr>ptf_present = True, ptf_writable = ptf_writable fl, ptf_user = ptf_user fl,
                     ptf_huge = False, ptf_no_execute = ptf_no_execute fl\<rparr> else None)"
proof -
  let ?i = "\<lambda>l. unat a div 2 ^ (39 - 9 * l) mod 512"
  let ?t = "\<lambda>m. of_nat (m * 4096) :: u64"
  let ?n1 = "512 + ?i 0"
  let ?n2 = "?n1 * 512 + ?i 1"
  let ?n3 = "?n2 * 512 + ?i 2"
  have b: "?i l < 512" for l by simp
  have n: "?n1 < 1024" "?n2 < 2 ^ 19" "?n3 < 2 ^ 28" using b [of 0] b [of 1] b [of 2] by simp_all
  have lv: "[0..<4] = [0, 1, 2, 3::nat]" by (simp add: upt_rec)
  have "walk demo_crate pt a = mapped_flags_loop demo_crate pt a [0, 1, 2, 3] (?t 1) True True False"
    by (simp add: walk_def lv demo_crate_def)
  also have "\<dots> = mapped_flags_loop demo_crate pt a [1, 2, 3] (?t ?n1) True True False"
    using demo_parent_step [of 0 "?i 0" a 1 pt "[1, 2, 3]"] n(1) by simp
  also have "\<dots> = mapped_flags_loop demo_crate pt a [2, 3] (?t ?n2) True True False"
    using n(2) by (intro demo_parent_step) simp_all
  also have "\<dots> = mapped_flags_loop demo_crate pt a [3] (?t ?n3) True True False"
    using n(3) by (intro demo_parent_step) simp_all
  finally have w: "walk demo_crate pt a = mapped_flags_loop demo_crate pt a [3] (?t ?n3) True True False" .
  have k: "?n3 * 512 + ?i 3 = 2 ^ 36 + demo_key a"
    using radix_number [of "unat a"] by (simp add: demo_key_def)
  have "2 ^ 36 \<le> ?n3 * 512 + ?i 3" unfolding k by (rule le_add1)
  from demo_entry_leaf [OF this n(3), of pt] have "demo_entry pt (?t ?n3) (?i 3) =
      (case pt (demo_key a) of None \<Rightarrow> empty_entry | Some (f, fl) \<Rightarrow> \<lparr>pte_flags = fl, pte_addr = f\<rparr>)"
    unfolding k by (simp only: diff_add_inverse)
  moreover have "page_index demo_crate a 3 = ?i 3" "table_entry demo_crate = demo_entry" by (simp_all add: demo_crate_def)
  ultimately show ?thesis
    unfolding w by (simp only: mapped_flags_loop.simps Let_def) (simp add: empty_entry_def split: option.splits)
qed

lemma low_bits:
  fixes i :: nat
  assumes "i < 2 ^ 35 \<or> 2 ^ 52 - 2 ^ 35 \<le> i \<and> i < 2 ^ 52"
  shows "i mod 2 ^ 36 = (if i < 2 ^ 35 then i else i - (2 ^ 52 - 2 ^ 36))"
proof (cases "i < 2 ^ 35")
  case False
  then obtain k where k: "i = 65535 * 2 ^ 36 + k" "k < 2 ^ 36"
    using assms by (intro that [of "i - 65535 * 2 ^ 36"]) auto
  then have "i mod 2 ^ 36 = k" by (simp only: mod_mult_self3) simp
  then show ?thesis using False k by simp
qed simp

lemma aligned_low_bits: "page_aligned p \<Longrightarrow> p AND 0xfff = 0"
proof -
  assume "page_aligned p"
  moreover have "(0xfff::u64) = mask 12" by (simp add: mask_eq_exp_minus_1)
  then have "p AND 0xfff = p mod 2 ^ 12" by (simp only: take_bit_eq_mask [symmetric] take_bit_eq_mod)
  ultimately show ?thesis by (simp add: page_aligned_def word_unat_eq_iff unat_mod)
qed

lemma demo_key_inj:
  assumes "canonical a" "canonical b" "page_aligned a" "page_aligned b" "demo_key a = demo_key b"
  shows "a = b"
proof -
  obtain i where i: "unat a = 4096 * i" using assms(3) by (rule page_alignedE)
  obtain j where j: "unat b = 4096 * j" using assms(4) by (rule page_alignedE)
  have r: "i < 2 ^ 35 \<or> 2 ^ 52 - 2 ^ 35 \<le> i \<and> i < 2 ^ 52" "j < 2 ^ 35 \<or> 2 ^ 52 - 2 ^ 35 \<le> j \<and> j < 2 ^ 52"
    using assms(1,2) i j unat_u64_less [of a] unat_u64_less [of b] by (auto simp: canonical_def)
  have "i mod 2 ^ 36 = j mod 2 ^ 36" using assms(5) i j by (simp add: demo_key_def)
  moreover have "i mod 2 ^ 36 = (if i < 2 ^ 35 then i else i - (2 ^ 52 - 2 ^ 36))"
    using r(1) by (intro low_bits)
  moreover have "j mod 2 ^ 36 = (if j < 2 ^ 35 then j else j - (2 ^ 52 - 2 ^ 36))"
    using r(2) by (intro low_bits)
  ultimately have "i = j" using r by (auto split: if_splits)
  then show ?thesis using i j by (simp add: word_unat_eq_iff)
qed

lemma demo_pt_view:
  assumes "crate_tables_ok demo_crate pt"
  shows "pt_view demo_crate pt p = (if canonical p \<and> page_aligned p then pt (demo_key p) else None)"
proof -
  have "(p::u64) AND 0xfff = 0" if "page_aligned p" using that aligned_low_bits by blast
  moreover have "ptf_present fl \<and> \<not> ptf_huge fl" if "pt (demo_key p) = Some (f, fl)" for f fl
    using assms that by (auto simp: demo_crate_def)
  ultimately show ?thesis
    unfolding pt_view_def demo_walk by (auto simp: demo_crate_def split: option.splits)
qed

lemma demo_mapping_laws: "mapping_laws demo_crate"
  unfolding mapping_laws_def
proof (intro conjI allI impI; elim conjE)
  fix pt p
  assume "crate_tables_ok demo_crate pt"
  then show "walk demo_crate pt p = None \<longleftrightarrow> translate_addr demo_crate pt p = None"
    unfolding demo_walk by (fastforce simp: demo_crate_def split: option.splits)
next
  fix pt p f fl alloc al r pt' al'
  assume "crate_tables_ok demo_crate pt" "ptf_present fl" "ptf_user fl" "\<not> ptf_huge fl"
    "map_to demo_crate pt p f fl alloc al = Some (r, pt', al')"
  then show "crate_tables_ok demo_crate pt'"
    by (auto simp: demo_crate_def split: option.splits if_splits)
next
  fix pt p f fl alloc al r pt' al'
  assume "map_to demo_crate pt p f fl alloc al = Some (r, pt', al')"
  then show "drawn alloc al al'"
    by (auto simp: demo_crate_def intro: drawn_none split: option.splits)
next
  fix pt p f fl alloc al and r :: "MapToError + unit" and pt' al'
  assume a: "crate_tables_ok demo_crate pt" "canonical p" "page_aligned p" "ptf_present fl" "ptf_user fl" "\<not> ptf_huge fl"
    "map_to demo_crate pt p f fl alloc al = Some (r, pt', al')"
  have ok: "crate_tables_ok demo_crate pt'" using a by (auto simp: demo_crate_def split: option.splits if_splits)
  have m: "(\<exists>e. r = Inl e) \<and> pt' = pt \<or> r = Inr () \<and> pt (demo_key p) = None \<and> pt' = pt(demo_key p \<mapsto> (f, fl))"
    using a(7) by (auto simp: demo_crate_def split: option.splits)
  have "pt_view demo_crate (pt(demo_key p \<mapsto> (f, fl))) = (pt_view demo_crate pt)(p \<mapsto> (f, fl))"
    if "pt' = pt(demo_key p \<mapsto> (f, fl))"
    using a(2,3) demo_pt_view [OF a(1)] demo_pt_view [OF ok] demo_key_inj that by (auto simp: fun_eq_iff)
  then show "case r of Inl _ \<Rightarrow> pt_view demo_crate pt' = pt_view demo_crate pt
    | Inr _ \<Rightarrow> pt_view demo_crate pt p = None \<and> pt_view demo_crate pt' = (pt_view demo_crate pt)(p \<mapsto> (f, fl))"
    using m demo_pt_view [OF a(1), of p] by auto
next
  fix pt p f fl
  assume a: "crate_tables_ok demo_crate pt" "pt_view demo_crate pt p = Some (f, fl)"
  then have p: "canonical p" "page_aligned p" "pt (demo_key p) = Some (f, fl)"
    using demo_pt_view [OF a(1)] by (auto split: if_splits)
  have ok: "crate_tables_ok demo_crate (pt(demo_key p := None))" using a(1) by (auto simp: demo_crate_def)
  have "pt_view demo_crate (pt(demo_key p := None)) = (pt_view demo_crate pt)(p := None)"
    using p(1,2) demo_pt_view [OF a(1)] demo_pt_view [OF ok] demo_key_inj by (auto simp: fun_eq_iff)
  then show "\<exists>pt'. unmap demo_crate pt p = (Inr f, pt') \<and> crate_tables_ok demo_crate pt'
      \<and> pt_view demo_crate pt' = (pt_view demo_crate pt)(p := None)"
    using ok p(3) by (auto simp: demo_crate_def)
qed

end
