(* ===== verification/X86_Properties.thy ===== *)
theory X86_Properties
  imports Demo_Crate Frame_Properties
begin

text \<open>The properties of the x86_64 memory layer, with concrete instances.\<close>

section \<open>Building an address space\<close>

text \<open>The concrete instance: one executable page and one stack page on an empty root.\<close>

definition tiny_image :: ProcessImage where
  "tiny_image = \<lparr>pi_address_space = demo_spec,
     pi_load_plan = \<lparr>plan_entry = 0x110000,
       plan_segments = [\<lparr>sm_virtual_range = \<lparr>vr_start = 0x110000, vr_end = 0x111000\<rparr>, sm_flags = 5\<rparr>]\<rparr>,
     pi_stack_plan = \<lparr>stack_pages = [Page4K 0x200000], stack_initial_rsp = 0x201000\<rparr>,
     pi_context = \<lparr>ctx_entry = 0x110000, ctx_stack_pointer = 0x201000\<rparr>\<rparr>"

definition tiny_mapper :: "demo_tables X86PageTableMapper" where
  "tiny_mapper = \<lparr>xm_inner = Map.empty, xm_frame_allocator = EarlyFrameAllocator_new [(0x4000, 0x8000, True)],
     xm_address_space = user_space\<rparr>"

lemma tiny_invar: "x86_invar demo_crate tiny_mapper" "distinct (x86_avail tiny_mapper)"
proof -
  let ?rs = "[(0x4000, 0x8000, True)] :: boot_region list"
  have "ea_wf (EarlyFrameAllocator_new ?rs)" "distinct (ea_pending (EarlyFrameAllocator_new ?rs))"
    using new_wf [of ?rs] region_frames_distinct [of ?rs] by simp_all
  moreover have "crate_tables_ok demo_crate Map.empty" by (simp add: demo_crate_def)
  moreover have "inj_on frame_start X" for X by (auto intro: inj_onI Frame.expand)
  ultimately show "x86_invar demo_crate tiny_mapper" "distinct (x86_avail tiny_mapper)"
    using demo_address_laws demo_mapping_laws
    by (simp_all add: x86_invar_def x86_avail_def tiny_mapper_def distinct_map)
qed

lemma tiny_frames:
  "allocate_frame (EarlyFrameAllocator_new [(0x4000, 0x8000, True)]) =
     (Some (Frame 0x4000), \<lparr>ea_regions = [], ea_current_end = 0x8000, ea_next_address = 0x5000\<rparr>)"
  "allocate_frame \<lparr>ea_regions = [], ea_current_end = 0x8000, ea_next_address = 0x5000\<rparr> =
     (Some (Frame 0x5000), \<lparr>ea_regions = [], ea_current_end = 0x8000, ea_next_address = 0x6000\<rparr>)"
  by code_simp+

lemma demo_map_page:
  assumes "page_range (Page4K p) = Some rng" "\<not> outside_space rng user_space" "\<not> flags_writable_executable fl"
    "unat f < 2 ^ 52" "page_aligned f" "canonical p" "pt (demo_key p) = None"
  shows "xm_map_page demo_crate \<lparr>xm_inner = pt, xm_frame_allocator = al, xm_address_space = user_space\<rparr> (Page4K p) f fl =
    Some (Inr (), \<lparr>xm_inner = pt(demo_key p \<mapsto> (f, translate_flags fl True)), xm_frame_allocator = al,
      xm_address_space = user_space\<rparr>)"
  using assms by (simp add: xm_map_page_def demo_crate_def)

lemma demo_page_access:
  assumes "vr_contains user_space a" "canonical a" "pt (demo_key a) = Some (f, translate_flags fl True)"
  shows "xm_page_access demo_crate \<lparr>xm_inner = pt, xm_frame_allocator = al, xm_address_space = user_space\<rparr> a =
    Some (access_of fl)"
proof -
  have "mapped_flags demo_crate \<lparr>xm_inner = pt, xm_frame_allocator = al, xm_address_space = user_space\<rparr> a = Some (walk demo_crate pt a)"
    using assms(1,2) by (simp add: mapped_flags_def address_lawsD(1) [OF demo_address_laws] walk_def)
  then show ?thesis
    using assms(3) by (simp add: xm_page_access_def demo_walk translate_flags_def access_of_def)
qed

definition tiny_tables :: demo_tables where
  "tiny_tables = [demo_key 0x110000 \<mapsto> (0x4000, translate_flags flags_read_execute True)]"

definition tiny_tables2 :: demo_tables where
  "tiny_tables2 = tiny_tables(demo_key 0x200000 \<mapsto> (0x5000, translate_flags flags_read_write True))"

abbreviation tiny_state :: "demo_tables \<Rightarrow> u64 \<Rightarrow> demo_tables X86PageTableMapper" where
  "tiny_state pt a \<equiv> \<lparr>xm_inner = pt, xm_frame_allocator = \<lparr>ea_regions = [], ea_current_end = 0x8000, ea_next_address = a\<rparr>,
     xm_address_space = user_space\<rparr>"

abbreviation tiny_load :: LoadResult where
  "tiny_load \<equiv> \<lparr>load_entry = 0x110000, load_pages = [\<lparr>mp_virtual_address = 0x110000, mp_physical_address = 0x4000\<rparr>]\<rparr>"

abbreviation tiny_stack :: "MappedStackPage list" where
  "tiny_stack \<equiv> [\<lparr>msp_virtual_page = Page4K 0x200000, msp_physical_address = 0x5000\<rparr>]"

lemma flag_sets:
  "\<not> flags_writable_executable flags_read_execute" "\<not> flags_writable_executable flags_read_write"
  "flags_executable flags_read_execute" "flags_writable flags_read_write" "\<not> flags_executable flags_read_write"
  by code_simp+

lemma tiny_ops:
  "m_allocate_frame (x86_mapper demo_crate) tiny_mapper = (Some 0x4000, tiny_state Map.empty 0x5000)"
  "m_allocate_frame (x86_mapper demo_crate) (tiny_state pt 0x5000) = (Some 0x5000, tiny_state pt 0x6000)"
  "m_map_page (x86_mapper demo_crate) (tiny_state Map.empty 0x5000) (Page4K 0x110000) 0x4000 flags_read_execute =
     Some (Inr (), tiny_state tiny_tables 0x5000)"
  "m_map_page (x86_mapper demo_crate) (tiny_state tiny_tables 0x6000) (Page4K 0x200000) 0x5000 flags_read_write =
     Some (Inr (), tiny_state tiny_tables2 0x6000)"
proof -
  show "m_allocate_frame (x86_mapper demo_crate) tiny_mapper = (Some 0x4000, tiny_state Map.empty 0x5000)"
    "m_allocate_frame (x86_mapper demo_crate) (tiny_state pt 0x5000) = (Some 0x5000, tiny_state pt 0x6000)"
    by (simp_all add: x86_mapper_def xm_allocate_frame_def tiny_mapper_def tiny_frames)
  have r: "page_range (Page4K 0x110000) = Some \<lparr>vr_start = 0x110000, vr_end = 0x111000\<rparr>"
    "page_range (Page4K 0x200000) = Some \<lparr>vr_start = 0x200000, vr_end = 0x201000\<rparr>" by code_simp+
  have k: "demo_key 0x110000 = 0x110" "demo_key 0x200000 = 0x200" by (simp_all add: demo_key_def)
  show "m_map_page (x86_mapper demo_crate) (tiny_state Map.empty 0x5000) (Page4K 0x110000) 0x4000 flags_read_execute =
     Some (Inr (), tiny_state tiny_tables 0x5000)"
    using demo_map_page [OF r(1)]
    by (simp add: x86_mapper_def tiny_tables_def outside_user_space flag_sets page_aligned_def canonical_def)
  show "m_map_page (x86_mapper demo_crate) (tiny_state tiny_tables 0x6000) (Page4K 0x200000) 0x5000 flags_read_write =
     Some (Inr (), tiny_state tiny_tables2 0x6000)"
    using demo_map_page [OF r(2)]
    by (simp add: x86_mapper_def tiny_tables_def tiny_tables2_def outside_user_space flag_sets page_aligned_def canonical_def k)
qed

lemma tiny_access:
  "m_page_access (x86_mapper demo_crate) (tiny_state tiny_tables2 0x6000) 0x110000 = Some (access_of flags_read_execute)"
  "m_page_access (x86_mapper demo_crate) (tiny_state tiny_tables2 0x6000) 0x200FFF = Some (access_of flags_read_write)"
proof -
  have "demo_key 0x110000 = 0x110" "demo_key 0x200000 = 0x200" "demo_key 0x200FFF = 0x200" by (simp_all add: demo_key_def)
  then have "tiny_tables2 (demo_key 0x110000) = Some (0x4000, translate_flags flags_read_execute True)"
    "tiny_tables2 (demo_key 0x200FFF) = Some (0x5000, translate_flags flags_read_write True)"
    by (simp_all add: tiny_tables2_def tiny_tables_def)
  then show "m_page_access (x86_mapper demo_crate) (tiny_state tiny_tables2 0x6000) 0x110000 = Some (access_of flags_read_execute)"
    "m_page_access (x86_mapper demo_crate) (tiny_state tiny_tables2 0x6000) 0x200FFF = Some (access_of flags_read_write)"
    using demo_page_access by (simp_all add: x86_mapper_def vr_contains_user_space canonical_def)
qed

lemma tiny_load_plan:
  "map_load_plan (x86_mapper demo_crate) (pi_load_plan tiny_image) tiny_mapper = Some (Inr tiny_load, tiny_state tiny_tables 0x5000)"
proof -
  have "checked_add 0x110000 PAGE_SIZE_4K = Some 0x111000" by code_simp
  then have "map_segment_pages (x86_mapper demo_crate) flags_read_execute 0x111000 0x110000 [] tiny_mapper =
      Some (Inr (load_pages tiny_load), tiny_state tiny_tables 0x5000)"
    by (subst map_segment_pages.simps)
      (simp add: tiny_ops MAX_MAPPED_PAGES_def page_aligned_def Let_def map_segment_pages.simps [of _ _ "0x111000" "0x111000"])
  moreover have "flags_from_elf 5 = Some flags_read_execute" by (simp add: flags_from_elf_def)
  ultimately show ?thesis
    by (simp add: map_load_plan_def tiny_image_def plan_count_def plan_segment_def)
qed

lemma tiny_build:
  "build_address_space (x86_mapper demo_crate) demo_spec tiny_image tiny_mapper =
     Some (Inr \<lparr>built_image = tiny_image, built_load = tiny_load, built_stack_pages = tiny_stack,
       built_entry_executable = True, built_stack_writable = True, built_stack_executable = False\<rparr>,
       tiny_state tiny_tables2 0x6000)"
proof -
  have "map_stack (x86_mapper demo_crate) tiny_load (pi_stack_plan tiny_image) [0] [] (tiny_state tiny_tables 0x5000) =
      Some (Inr tiny_stack, tiny_state tiny_tables2 0x6000)"
    by (simp add: tiny_image_def stack_page_def stack_count_def tiny_ops USER_STACK_PAGES_def)
  moreover have "checked_sub 0x201000 1 = Some (0x200FFF :: u64)" by code_simp
  then have "verify_built (x86_mapper demo_crate) tiny_image tiny_load tiny_stack (tiny_state tiny_tables2 0x6000) =
      Some (Inr \<lparr>built_image = tiny_image, built_load = tiny_load, built_stack_pages = tiny_stack,
       built_entry_executable = True, built_stack_writable = True, built_stack_executable = False\<rparr>,
       tiny_state tiny_tables2 0x6000)"
    by (simp add: verify_built_def tiny_access access_of_def tiny_image_def flag_sets)
  moreover have "[0..<stack_count (pi_stack_plan tiny_image)] = [0]" "spec_id (pi_address_space tiny_image) = spec_id demo_spec"
    by (simp_all add: tiny_image_def stack_count_def)
  ultimately show ?thesis by (simp add: build_address_space_def tiny_load_plan)
qed



section \<open>Population\<close>

lemma parsed_segments:
  assumes "elf_parse bytes = Inr img" "length bytes < 2 ^ 64" "s \<in> set (elf_segments img)"
  shows "seg_sized (elf_bytes img) s" "unat (vr_end (ls_virtual_range s)) = seg_stop s"
proof -
  have ok: "segment_ok bytes s" "elf_bytes img = bytes"
    using elf_parse_ok [OF assms(1)] assms(3) by (auto simp: image_ok_def)
  have "unat (ls_file_offset s + ls_file_size s) = unat (ls_file_offset s) + unat (ls_file_size s)"
    using ok by (simp add: segment_ok_def unat_word_ariths)
  then have "unat (ls_file_offset s) + unat (ls_file_size s) \<le> length bytes"
    using ok unat_of_nat_u64 [OF assms(2)] by (simp add: segment_ok_def word_le_nat_alt)
  moreover have "seg_stop s < 2 ^ 64"
    using ok unat_u64_less [of "vr_end (ls_virtual_range s)"] by (simp add: segment_ok_def seg_stop_def seg_start_def)
  ultimately show "seg_sized (elf_bytes img) s" "unat (vr_end (ls_virtual_range s)) = seg_stop s"
    using ok assms(2) by (simp_all add: segment_ok_def seg_sized_def seg_stop_def seg_start_def word_le_nat_alt)
qed

lemma covered_page:
  assumes "covers s m" "unat (vr_end (ls_virtual_range s)) = seg_stop s" "seg_start s \<le> x" "x < seg_stop s"
  obtains y where "unat y = x div 4096 * 4096" "vr_contains (sm_virtual_range m) y" "page_aligned y"
proof -
  let ?y = "of_nat (x div 4096 * 4096) :: u64"
  have x: "x < 2 ^ 64" using assms(2,4) unat_u64_less [of "vr_end (ls_virtual_range s)"] by simp
  have le: "x div 4096 * 4096 \<le> x" by simp
  then have y: "unat ?y = x div 4096 * 4096" using x by (intro unat_of_nat_u64) simp
  have "seg_start s div 4096 * 4096 \<le> x div 4096 * 4096" using assms(3) by (simp add: div_le_mono)
  moreover have "x div 4096 * 4096 < align_up_nat (seg_stop s)"
    using align_up_nat_bounds(1) [of "seg_stop s"] assms(4) le by linarith
  ultimately have "vr_contains (sm_virtual_range m) ?y"
    using assms(1,2) y by (simp add: covers_def vr_contains_def word_le_nat_alt word_less_nat_alt seg_start_def)
  moreover have "page_aligned ?y" unfolding page_aligned_def y by simp
  ultimately show thesis using that y by blast
qed

lemma covers_apart:
  assumes "covers s m" "covers t n" "\<not> ranges_overlap (sm_virtual_range n) (sm_virtual_range m)"
    and "unat (vr_end (ls_virtual_range s)) = seg_stop s" "unat (vr_end (ls_virtual_range t)) = seg_stop t"
  shows "seg_apart s t"
  unfolding seg_apart_def
proof (intro allI impI notI)
  fix x y
  assume a: "seg_start s \<le> x \<and> x < seg_stop s \<and> seg_start t \<le> y \<and> y < seg_stop t" "x div 4096 = y div 4096"
  obtain u where u: "unat u = x div 4096 * 4096" "vr_contains (sm_virtual_range m) u"
    using covered_page [OF assms(1,4)] a(1) by blast
  obtain v where v: "unat v = y div 4096 * 4096" "vr_contains (sm_virtual_range n) v"
    using covered_page [OF assms(2,5)] a(1) by blast
  have "u = v" using u(1) v(1) a(2) by (simp add: word_unat_eq_iff)
  then show False using u(2) v(2) assms(3) by (auto simp: ranges_overlap_def vr_contains_def)
qed

lemma plan_apart:
  assumes "elf_parse bytes = Inr img" "length bytes < 2 ^ 64" "load_plan_build spec img = Inr plan"
  shows "sorted_wrt seg_apart (elf_segments img)"
proof -
  note p = load_plan_build_ok [OF assms(3)]
  have "seg_apart (elf_segments img ! i) (elf_segments img ! j)" if "i < j" "j < length (elf_segments img)" for i j
  proof (rule covers_apart)
    show "covers (elf_segments img ! i) (plan_segments plan ! i)" "covers (elf_segments img ! j) (plan_segments plan ! j)"
      using p(4) that by (auto simp: list_all2_conv_all_nth)
    show "\<not> ranges_overlap (sm_virtual_range (plan_segments plan ! j)) (sm_virtual_range (plan_segments plan ! i))"
      using p(2,4) that by (auto simp: disjoint_mappings_def sorted_wrt_iff_nth_less list_all2_lengthD)
  qed (use parsed_segments(2) [OF assms(1,2)] that in auto)
  then show ?thesis by (simp add: sorted_wrt_iff_nth_less)
qed

text \<open>
C17: populating a built address space with the parsed program succeeds and writes exactly the
program: in the frame of every mapped page, each byte that belongs to a segment is the byte of the
file, or zero beyond the file contents, and the rest of the page is zero; every stack frame is
zero; and no byte of physical memory outside these frames changes. The image comes from the
ELF parser, the pages are those of its load plan, and the frames lie within the direct map.
\<close>

theorem populate_exact:
  assumes "elf_parse bytes = Inr img" "length bytes < 2 ^ 64" "load_plan_build spec img = Inr plan"
    and "plan_mapped (plan_segments plan) [] v (load_pages (built_load b)) v"
    and "frames_ok b"
    and "\<forall>f\<in>set (built_frames b). unat (phys_offset (iw_mapping w)) + unat f + 4096 < 2 ^ 64"
  shows "\<exists>w'. populate x86_writer img b w = (Inr (PopulatedAddressSpace b), w')
    \<and> populated_with img b (x86_content w) (x86_content w')"
proof (rule x86_pages.populate_spec)
  note p = load_plan_build_ok [OF assms(3)]
  have "\<exists>q\<in>set (load_pages (built_load b)). unat (mp_virtual_address q) = x div 4096 * 4096"
    if s: "s \<in> set (elf_segments img)" and x: "seg_start s \<le> x" "x < seg_stop s" for s x
  proof -
    obtain m where m: "m \<in> set (plan_segments plan)" "covers s m"
      using p(4) s by (metis list_all2_conv_all_nth in_set_conv_nth nth_mem)
    obtain y where "unat y = x div 4096 * 4096" "vr_contains (sm_virtual_range m) y" "page_aligned y"
      using covered_page [OF m(2) parsed_segments(2) [OF assms(1,2) s] x] by blast
    then show ?thesis using assms(4) m(1) unfolding plan_mapped_def by fastforce
  qed
  then show "\<forall>s\<in>set (elf_segments img). seg_sized (elf_bytes img) s \<and> unat (vr_end (ls_virtual_range s)) = seg_stop s
      \<and> (\<forall>x. seg_start s \<le> x \<and> x < seg_stop s \<longrightarrow>
            (\<exists>p\<in>set (load_pages (built_load b)). unat (mp_virtual_address p) = x div 4096 * 4096))"
    using parsed_segments [OF assms(1,2)] by blast
  show "\<forall>f\<in>set (built_frames b). x86_can w f" using assms(6) by (simp add: x86_can_def)
qed (use assms plan_apart in auto)

definition demo_built :: BuiltAddressSpace where
  "demo_built = \<lparr>built_image = demo_process_image, built_load = tiny_load, built_stack_pages = tiny_stack,
     built_entry_executable = True, built_stack_writable = True, built_stack_executable = False\<rparr>"

definition demo_writer :: X86ImagePageWriter where
  "demo_writer = \<lparr>iw_mapping = \<lparr>phys_offset = 0x10000000000\<rparr>, iw_memory = (\<lambda>_. 0xAA)\<rparr>"

lemma demo_plan_mapped:
  "plan_mapped (plan_segments demo_plan) [] [0x110000 \<mapsto> (0x4000, segment_access (hd (plan_segments demo_plan)))]
     (load_pages tiny_load) [0x110000 \<mapsto> (0x4000, segment_access (hd (plan_segments demo_plan)))]"
proof -
  have "x = 0x110000" if c: "(0x110000::u64) \<le> x" "x < 0x111000" "page_aligned x" for x
  proof -
    obtain i where i: "unat x = 4096 * i" using c(3) by (rule page_alignedE)
    then have "i = 0x110" using c(1,2) by (simp add: word_le_nat_alt word_less_nat_alt)
    then show ?thesis using i by (simp add: word_unat_eq_iff)
  qed
  then show ?thesis by (auto simp: plan_mapped_def demo_plan_def vr_contains_def)
qed

theorem populate_exact_witness:
  "\<exists>w'. populate x86_writer demo_image demo_built demo_writer = (Inr (PopulatedAddressSpace demo_built), w')
     \<and> x86_content w' 0x4000 = 0x7f \<and> x86_content w' 0x4FFF = 0 \<and> x86_content w' 0x5000 = 0 \<and> x86_content w' 0x6000 = 0xAA"
proof -
  have fr: "built_frames demo_built = [0x4000, 0x5000]" by (simp add: built_frames_def demo_built_def)
  have ok: "frames_ok demo_built" by (simp add: frames_ok_def fr) (simp add: page_aligned_def demo_built_def)
  have len: "length demo_elf < 2 ^ 64" by (simp add: demo_elf_def)
  have pm: "plan_mapped (plan_segments demo_plan) [] [0x110000 \<mapsto> (0x4000, segment_access (hd (plan_segments demo_plan)))]
      (load_pages (built_load demo_built)) [0x110000 \<mapsto> (0x4000, segment_access (hd (plan_segments demo_plan)))]"
    using demo_plan_mapped by (simp add: demo_built_def)
  have reach: "\<forall>f\<in>set (built_frames demo_built). unat (phys_offset (iw_mapping demo_writer)) + unat f + 4096 < 2 ^ 64"
    by (simp add: fr) (simp add: demo_writer_def)
  obtain w' where w': "populate x86_writer demo_image demo_built demo_writer = (Inr (PopulatedAddressSpace demo_built), w')"
    "populated_with demo_image demo_built (x86_content demo_writer) (x86_content w')"
    using populate_exact [OF demo_elf_parse len demo_load_plan pm ok reach] by blast
  have b: "seg_start demo_segment = 0x110000" "seg_stop demo_segment = 0x110078" "seg_file demo_elf demo_segment ! 0 = 0x7f"
    "length (seg_file demo_elf demo_segment) = 0x78"
    by (simp_all add: seg_start_def seg_stop_def seg_file_def demo_segment_def demo_elf_def)
  have at: "x86_content w' a = seg_byte (seg_file demo_elf demo_segment) 0x110000 0x110078 (0x110000 + (a - 0x4000))"
    if "0x4000 \<le> a" "a < 0x5000" for a
    using w'(2) that b by (simp add: populated_with_def seg_loaded_def demo_image_def demo_built_def page_meets_def in_frame_def)
  have "x86_content w' 0x5000 = 0" "x86_content w' 0x6000 = x86_content demo_writer 0x6000"
    using w'(2) unfolding populated_with_def fr by (simp_all add: demo_built_def in_frame_def)
  then show ?thesis using w'(1) at [of "0x4000"] at [of "0x4FFF"] b by (simp add: seg_byte_def demo_writer_def x86_content_def)
qed

section \<open>Loading a process\<close>

text \<open>
C18: loading a process image never succeeds. Every image that the ramdisk builder accepts carries
the fixed user stack, whose pages are not canonical addresses, and the address constructor of the
crate panics on those; so the loader panics or reports an error, and when it reports one the
frame allocator is what it was before the call.
\<close>

theorem load_process_image_never_ok:
  assumes "address_laws C" "build_process_image bytes spec = Some (Inr img)"
    and "load_process_image C cr3 pm img elf st = Some (r, st')"
  shows "\<exists>e. r = Inl e \<and> ld_allocator st' = ld_allocator st"
  using assms(3) load_steps_never_ok [OF assms(1,2)]
  by (auto simp: load_process_image_def Let_def ea_rollback_def ea_checkpoint_def split: option.splits prod.splits sum.splits)

theorem load_process_image_never_ok_witness:
  "\<exists>st'. load_process_image demo_crate 0x1000 \<lparr>phys_offset = 0\<rparr> demo_process_image demo_image
      \<lparr>ld_allocator = EarlyFrameAllocator_new [], ld_tables = (\<lambda>_ _. empty_entry), ld_bytes = (\<lambda>_. 0)\<rparr>
      = Some (Inl (LoadRoot AllocationFailed), st')
    \<and> ld_allocator st' = EarlyFrameAllocator_new []"
proof -
  let ?st = "\<lparr>ld_allocator = EarlyFrameAllocator_new [], ld_tables = (\<lambda>_ _. empty_entry), ld_bytes = (\<lambda>_. 0)\<rparr>"
  have "fst (allocate_frame (EarlyFrameAllocator_new [])) = None" by code_simp
  then obtain a where "allocate_frame (EarlyFrameAllocator_new []) = (None, a)" by (metis prod.collapse)
  then obtain st' where "load_process_image demo_crate 0x1000 \<lparr>phys_offset = 0\<rparr> demo_process_image demo_image ?st
      = Some (Inl (LoadRoot AllocationFailed), st')"
    by (simp add: load_process_image_def load_steps_def new_user_root_def adapter_allocate_frame_def)
  then show ?thesis
    using load_process_image_never_ok [OF demo_address_laws demo_build] by fastforce
qed

section \<open>Page walks\<close>

lemma flags_loops_agree:
  "mapped_flags_loop C pt a levels t u w nx = ua_flags_loop C (table_entry C pt) (phys_offset_of C pt) a levels t u w nx"
  by (induction levels arbitrary: t u w nx) (auto simp: Let_def cong: option.case_cong)

lemma page_offset_kept:
  assumes "page_aligned addr" "checked_add addr (va AND mask n) = Some p" "12 \<le> n"
  shows "unat p mod 4096 = unat va mod 4096"
proof -
  have "unat (va AND mask n) = take_bit n (unat va)"
    by (simp only: take_bit_eq_mask [symmetric] unsigned_take_bit_eq)
  then have "unat p = unat addr + take_bit n (unat va)" using assms(2) by (simp add: checked_add_eq_Some)
  moreover have "take_bit 12 (take_bit n (unat va)) = take_bit 12 (unat va)" using assms(3) by simp
  then have "take_bit n (unat va) mod 4096 = unat va mod 4096" by (simp add: take_bit_eq_mod)
  ultimately show ?thesis using assms(1) by (metis page_aligned_def add.left_neutral mod_add_left_eq)
qed

text \<open>A level of the walk that the translation passes is one that the flags pass.\<close>

lemma translate_walks:
  assumes "ua_translate_loop C mem off a va levels t = Some p" "\<forall>t i. page_aligned (pte_addr (mem t i))"
  shows "ua_flags_loop C mem off a levels t u w nx \<noteq> None \<and> unat p mod 4096 = unat va mod 4096"
  using assms(1)
proof (induction levels arbitrary: t u w nx)
  case (Cons l levels)
  have m: "(0xfff::u64) = mask 12" "push_bit 30 1 - 1 = (mask 30 :: u64)" "push_bit 21 1 - 1 = (mask 21 :: u64)"
    by (simp_all add: mask_eq_exp_minus_1)
  have off: "unat p mod 4096 = unat va mod 4096" if "checked_add (pte_addr (mem t i)) (va AND mask n) = Some p" "12 \<le> n" for i n
    using page_offset_kept that assms(2) by blast
  let ?e = "mem t (page_index C a l)"
  show ?case
  proof (cases "l = 3 \<or> (l = 1 \<or> l = 2) \<and> ptf_huge (pte_flags ?e)")
    case True
    then show ?thesis
      using Cons(2) off by (auto simp: Let_def m simp del: push_bit_of_1 split: if_splits)
  next
    case False
    then obtain nt where "checked_add off (pte_addr ?e) = Some nt" "ua_translate_loop C mem off a va levels nt = Some p"
      "ptf_present (pte_flags ?e)"
      using Cons(2) by (auto simp: Let_def split: if_splits option.splits)
    then show ?thesis using Cons(1) [of nt] False by (simp add: Let_def)
  qed
qed simp

lemma flags_loop_present: "ua_flags_loop C mem off a levels t u w nx = Some fl \<Longrightarrow> ptf_present fl"
  by (induction levels arbitrary: t u w nx) (auto simp: Let_def split: if_splits option.splits)

text \<open>
The two page walks of the kernel compute the same access rights. The mapper, which reads
the tables it is building, and the active view, which serves system calls, return the same
access for every address when they look at the same root, the panic on a non-canonical address
included.
\<close>

theorem page_walks_agree:
  assumes "ua_table u = level_4_table C (xm_inner m)" "ua_physical_offset u = phys_offset_of C (xm_inner m)"
    and "ua_address_space u = xm_address_space m"
  shows "xm_page_access C m a = ua_page_access C (table_entry C (xm_inner m)) u a"
proof -
  have "mapped_flags C m a = ua_flags C (table_entry C (xm_inner m)) u a"
    using assms by (simp add: mapped_flags_def ua_flags_def flags_loops_agree split: option.splits)
  moreover have "ptf_present fl" if "ua_flags C (table_entry C (xm_inner m)) u a = Some (Some fl)" for fl
    using that flags_loop_present by (auto simp: ua_flags_def split: if_splits option.splits)
  ultimately show ?thesis
    by (auto simp: xm_page_access_def ua_page_access_def split: option.splits)
qed

theorem page_walks_agree_witness:
  "ua_page_access demo_crate (table_entry demo_crate tiny_tables2)
     \<lparr>ua_table = 4096, ua_physical_offset = 0, ua_address_space = user_space\<rparr> 0x110000 = Some (access_of flags_read_execute)"
proof -
  let ?u = "\<lparr>ua_table = 4096, ua_physical_offset = 0, ua_address_space = user_space\<rparr>"
  let ?m = "tiny_state tiny_tables2 0x6000"
  have "ua_table ?u = level_4_table demo_crate (xm_inner ?m)" "ua_physical_offset ?u = phys_offset_of demo_crate (xm_inner ?m)"
    "ua_address_space ?u = xm_address_space ?m" by (simp_all add: demo_crate_def)
  from page_walks_agree [OF this, of "0x110000"] show ?thesis using tiny_access(1) by (simp add: x86_mapper_def)
qed

text \<open>
A translation by the active view is sound. Page-table entries hold page-aligned addresses;
if the view translates a user address, then the page is mapped, and the physical address has the
same offset in its page, for 4 KiB, 2 MiB and 1 GiB mappings.
\<close>

theorem active_translate_sound:
  assumes "\<forall>t i. page_aligned (pte_addr (mem t i))" "ua_translate C mem u a = Some (Some p)"
  shows "(\<exists>acc. ua_page_access C mem u a = Some acc \<and> acc_mapped acc) \<and> unat p mod 4096 = unat a mod 4096"
proof -
  obtain page where st: "vr_contains (ua_address_space u) a" "virt_addr_new C a = Some page"
    "ua_translate_loop C mem (ua_physical_offset u) page a [0..<4] (ua_table u) = Some p"
    using assms(2) by (auto simp: ua_translate_def split: if_splits option.splits)
  note t = translate_walks [OF st(3) assms(1)]
  then obtain fl where "ua_flags_loop C mem (ua_physical_offset u) page [0..<4] (ua_table u) True True False = Some fl"
    by blast
  then show ?thesis using t st(1,2) by (simp add: ua_page_access_def ua_flags_def)
qed

theorem active_translate_sound_witness:
  "ua_translate demo_crate (\<lambda>_ _. \<lparr>pte_flags = demo_parent, pte_addr = 0x5000\<rparr>)
     \<lparr>ua_table = 0x5000, ua_physical_offset = 0, ua_address_space = user_space\<rparr> 0x110123 = Some (Some 0x5123)
   \<and> unat (0x5123 :: u64) mod 4096 = unat (0x110123 :: u64) mod 4096"
proof -
  let ?mem = "\<lambda>_ _. \<lparr>pte_flags = demo_parent, pte_addr = 0x5000\<rparr>"
  have al: "\<forall>t i. page_aligned (pte_addr (?mem t i))" by (simp add: page_aligned_def)
  have tr: "ua_translate demo_crate ?mem \<lparr>ua_table = 0x5000, ua_physical_offset = 0, ua_address_space = user_space\<rparr> 0x110123
      = Some (Some 0x5123)"
    by (simp add: ua_translate_def vr_contains_user_space demo_crate_def canonical_def upt_rec demo_parent_def
        checked_add_def Let_def)
  show ?thesis using active_translate_sound [OF al tr] tr by simp
qed

text \<open>
C19: a fresh user root is isolated. After it has been created, no address of the lower half is
mapped through it, its kernel half is a copy of the active root (when the two are different tables),
and no other table has changed.
\<close>

theorem new_user_root_isolated:
  assumes "address_laws C" "new_user_root C cr3 off alloc mem = Some (Inr root, alloc', mem')"
  shows "\<exists>root_virtual active_virtual.
    checked_add (root_frame root) off = Some root_virtual \<and> checked_add cr3 off = Some active_virtual
    \<and> (\<forall>a. unat a < 2 ^ 47 \<longrightarrow> ua_page_access C mem'
          \<lparr>ua_table = root_virtual, ua_physical_offset = off, ua_address_space = user_space\<rparr> a = Some access_unmapped)
    \<and> (\<forall>i. active_virtual \<noteq> root_virtual \<and> 256 \<le> i \<and> i < 512 \<longrightarrow> mem' root_virtual i = mem active_virtual i)
    \<and> (\<forall>t. t \<noteq> root_virtual \<longrightarrow> mem' t = mem t)"
proof -
  obtain rv av where v: "checked_add (root_frame root) off = Some rv" "checked_add cr3 off = Some av"
    "mem' = init_root mem rv av"
    using assms(2) by (auto simp: new_user_root_def split: option.splits prod.splits)
  have e: "mem' rv i = empty_entry" if "i < 256" for i
    using that v(3) by (simp add: init_root_def Let_def KERNEL_P4_START_def)
  have "ua_page_access C mem' \<lparr>ua_table = rv, ua_physical_offset = off, ua_address_space = user_space\<rparr> a = Some access_unmapped"
    if "unat a < 2 ^ 47" for a
  proof -
    have "page_index C a 0 = unat a div 2 ^ 39 mod 512" using address_lawsD(4) [OF assms(1), of 0 a] by simp
    also have "\<dots> < 256" using that by (simp add: div_less_iff_less_mult)
    finally have "mem' rv (page_index C a 0) = empty_entry" by (rule e)
    then have "ua_flags_loop C mem' off a (0 # levels) rv True True False = None" for levels
      by (simp add: empty_entry_def)
    moreover have "[0..<4] = 0 # [1..<4]" by (simp add: upt_rec)
    moreover have "virt_addr_new C a = Some a" using that address_lawsD(1) [OF assms(1), of a] by (simp add: canonical_def)
    ultimately show ?thesis by (simp only: ua_page_access_def ua_flags_def X86ActiveUserMemory.simps) simp
  qed
  moreover have "mem' rv i = mem av i" if "av \<noteq> rv \<and> 256 \<le> i \<and> i < 512" for i
    using that v(3) by (simp add: init_root_def Let_def KERNEL_P4_START_def KERNEL_P4_END_def)
  moreover have "mem' t = mem t" if "t \<noteq> rv" for t using that v(3) by (simp add: init_root_def Let_def)
  ultimately show ?thesis using v by blast
qed

theorem new_user_root_isolated_witness:
  "\<exists>alloc' mem'. new_user_root demo_crate 0x1000 0 (EarlyFrameAllocator_new [(0x4000, 0x8000, True)])
       (\<lambda>_ _. \<lparr>pte_flags = demo_parent, pte_addr = 0\<rparr>) = Some (Inr (AddressSpaceRoot 0x4000), alloc', mem')
     \<and> ua_page_access demo_crate mem' \<lparr>ua_table = 0x4000, ua_physical_offset = 0, ua_address_space = user_space\<rparr> 0x110000
         = Some access_unmapped
     \<and> mem' 0x4000 300 = \<lparr>pte_flags = demo_parent, pte_addr = 0\<rparr>"
proof -
  let ?mem = "\<lambda>_ _. \<lparr>pte_flags = demo_parent, pte_addr = 0\<rparr>"
  obtain alloc' mem' where n: "new_user_root demo_crate 0x1000 0 (EarlyFrameAllocator_new [(0x4000, 0x8000, True)]) ?mem
      = Some (Inr (AddressSpaceRoot 0x4000), alloc', mem')"
    by (simp add: new_user_root_def adapter_allocate_frame_def tiny_frames address_lawsD [OF demo_address_laws]
        page_aligned_def checked_add_def)
  have "checked_add 0x4000 0 = Some (0x4000::u64)" "checked_add 0x1000 0 = Some (0x1000::u64)" by code_simp+
  then show ?thesis using new_user_root_isolated [OF demo_address_laws n] n by fastforce
qed

text \<open>
C20: the user range admits addresses that no view can look up. A pointer at the first
non-canonical address passes the validation of user slices, and looking up its access rights
panics, whatever the page tables hold.
\<close>

theorem user_pointer_panics:
  assumes "address_laws C"
  shows "validate_slice \<lparr>slice_ptr = 0x800000000000, slice_len = 1\<rparr>
      = Some (Inr \<lparr>vr_start = 0x800000000000, vr_end = 0x800000000001\<rparr>)
    \<and> (\<forall>mem table off. ua_page_access C mem
         \<lparr>ua_table = table, ua_physical_offset = off, ua_address_space = user_space\<rparr> 0x800000000000 = None)"
proof
  show "validate_slice \<lparr>slice_ptr = 0x800000000000, slice_len = 1\<rparr>
      = Some (Inr \<lparr>vr_start = 0x800000000000, vr_end = 0x800000000001\<rparr>)" by code_simp
qed (simp add: ua_page_access_def ua_flags_def vr_contains_user_space address_lawsD [OF assms] canonical_def)

theorem user_pointer_panics_witness:
  "ua_page_access demo_crate (\<lambda>_ _. empty_entry)
     \<lparr>ua_table = 0x1000, ua_physical_offset = 0, ua_address_space = user_space\<rparr> 0x800000000000 = None"
  using user_pointer_panics [OF demo_address_laws] by blast

end
