(* ===== verification/X86_Asm.thy ===== *)
theory X86_Asm
  imports Population
begin

text \<open>
  The machine on which the assembly routines of \<open>arch/x86_64\<close> run: sixteen registers, a byte
  memory with little-endian 64-bit accesses, and the instructions the routines use. In 64-bit
  mode \<open>iretq\<close> always pops five words. A call into Rust code is a parameter of the run.
\<close>

section \<open>Memory\<close>

type_synonym byte_memory = "u64 \<Rightarrow> u8"

definition to_le_bytes :: "u64 \<Rightarrow> u8 list" where
  "to_le_bytes v = map (\<lambda>i. ucast (drop_bit (8 * i) v)) [0..<8]"

definition load64 :: "byte_memory \<Rightarrow> u64 \<Rightarrow> u64" where
  "load64 m a = from_le_bytes (map (\<lambda>i. m (a + of_nat i)) [0..<8])"

definition store64 :: "byte_memory \<Rightarrow> u64 \<Rightarrow> u64 \<Rightarrow> byte_memory" where
  "store64 m a v = write_bytes m a (to_le_bytes v)"

lemma eight: "[0..<8] = [0, 1, 2, 3, 4, 5, 6, 7::nat]"
  by (simp add: upt_rec)

lemma le_bytes_prefix:
  "from_le_bytes (map (\<lambda>i. ucast (drop_bit (8 * (k + i)) (v :: 'a::len word)) :: u8) [0..<n]) = take_bit (8 * n) (drop_bit (8 * k) v)"
proof (induction n arbitrary: k)
  case (Suc n)
  have m: "map (\<lambda>i. ucast (drop_bit (8 * (k + i)) v) :: u8) [0..<Suc n] =
      ucast (drop_bit (8 * k) v) # map (\<lambda>i. ucast (drop_bit (8 * (Suc k + i)) v)) [0..<n]"
    by (simp only: map_upt_Suc) (simp add: algebra_simps)
  have "(ucast (ucast (drop_bit (8 * k) v) :: u8) :: 'a word) OR push_bit 8 (take_bit (8 * n) (drop_bit (8 * Suc k) v))
      = take_bit (8 * Suc n) (drop_bit (8 * k) v)"
  proof (rule bit_word_eqI)
    fix b assume "b < LENGTH('a)"
    then show "bit ((ucast (ucast (drop_bit (8 * k) v) :: u8) :: 'a word) OR push_bit 8 (take_bit (8 * n) (drop_bit (8 * Suc k) v))) b
        = bit (take_bit (8 * Suc n) (drop_bit (8 * k) v)) b"
      by (cases "b < 8") (auto simp: bit_simps)
  qed
  then show ?case unfolding m from_le_bytes.simps Suc.IH .
qed simp

lemma le_bytes_roundtrip: "from_le_bytes (to_le_bytes v) = v"
proof -
  have "take_bit 64 v = v" by (rule bit_word_eqI) (simp add: bit_simps)
  then show ?thesis using le_bytes_prefix [of 0 v 8] by (simp add: to_le_bytes_def)
qed

lemma load_store_same [simp]: "load64 (store64 m a v) a = v"
proof -
  have "map (\<lambda>i. store64 m a v (a + of_nat i)) [0..<8] = to_le_bytes v"
    by (simp add: eight store64_def write_bytes_def Let_def to_le_bytes_def)
  then show ?thesis by (simp only: load64_def le_bytes_roundtrip)
qed

text \<open>Two 64-bit cells do not overlap.\<close>

definition apart8 :: "u64 \<Rightarrow> u64 \<Rightarrow> bool" where
  "apart8 a b \<longleftrightarrow> 8 \<le> unat (b - a) \<and> 8 \<le> unat (a - b)"

lemma load_store_apart [simp]:
  assumes "apart8 a b" shows "load64 (store64 m a v) b = load64 m b"
proof -
  have "store64 m a v (b + of_nat i) = m (b + of_nat i)" if "i < 8" for i
  proof -
    have "\<not> unat (b + of_nat i - a) < 8"
    proof
      assume l: "unat (b + of_nat i - a) < 8"
      have i: "unat (of_nat i :: u64) = i" using that by (intro unat_of_nat_u64) simp
      obtain x where x: "b - a = x" by simp
      have "a - b = - x" using x by auto
      then have "8 \<le> unat x" "8 \<le> unat (- x)" using assms x by (simp_all add: apart8_def)
      moreover have e: "b + of_nat i - a = x + of_nat i" unfolding x [symmetric] by simp
      have "(unat x + i) mod 2 ^ 64 < 8" using l [unfolded e] i by (simp add: unat_word_ariths)
      moreover have "unat (- x) = 2 ^ 64 - unat x" if "8 \<le> unat x"
        using that unat_sub_if' [of 0 x] by (simp split: if_splits)
      ultimately show False using that unat_u64_less [of x] by simp
    qed
    then show ?thesis by (simp add: store64_def write_bytes_def Let_def to_le_bytes_def)
  qed
  then have "map (\<lambda>i. store64 m a v (b + of_nat i)) [0..<8] = map (\<lambda>i. m (b + of_nat i)) [0..<8]" by simp
  then show ?thesis by (simp only: load64_def)
qed

section \<open>Instructions\<close>

datatype reg =
    RAX | RCX | RDX | RBX | RSP | RBP | RSI | RDI
  | R8 | R9 | R10 | R11 | R12 | R13 | R14 | R15

record cpu =
  gpr :: "reg \<Rightarrow> u64"
  ram :: byte_memory
  cpu_rip :: u64
  cpu_cs :: u64
  cpu_ss :: u64
  cpu_rflags :: u64
  cpu_cr3 :: u64

datatype instr =
    MovR reg reg
  | Load reg reg u64
  | Store reg u64 reg
  | Push reg
  | PushM reg u64
  | Pop reg
  | AndI reg u64
  | SubI reg u64
  | Lea reg reg u64
  | CallRust
  | Ret
  | Iretq

definition set_gpr :: "reg \<Rightarrow> u64 \<Rightarrow> cpu \<Rightarrow> cpu" where
  "set_gpr r v s = s\<lparr>gpr := (gpr s)(r := v)\<rparr>"

definition push64 :: "u64 \<Rightarrow> cpu \<Rightarrow> cpu" where
  "push64 v s = s\<lparr>gpr := (gpr s)(RSP := gpr s RSP - 8), ram := store64 (ram s) (gpr s RSP - 8) v\<rparr>"

fun exec :: "(cpu \<Rightarrow> cpu) \<Rightarrow> instr \<Rightarrow> cpu \<Rightarrow> cpu" where
  "exec rust (MovR d r) s = set_gpr d (gpr s r) s"
| "exec rust (Load d b off) s = set_gpr d (load64 (ram s) (gpr s b + off)) s"
| "exec rust (Store b off r) s = s\<lparr>ram := store64 (ram s) (gpr s b + off) (gpr s r)\<rparr>"
| "exec rust (Push r) s = push64 (gpr s r) s"
| "exec rust (PushM b off) s = push64 (load64 (ram s) (gpr s b + off)) s"
| "exec rust (Pop r) s = set_gpr r (load64 (ram s) (gpr s RSP)) (set_gpr RSP (gpr s RSP + 8) s)"
| "exec rust (AndI r v) s = set_gpr r (gpr s r AND v) s"
| "exec rust (SubI r v) s = set_gpr r (gpr s r - v) s"
| "exec rust (Lea d b off) s = set_gpr d (gpr s b + off) s"
| "exec rust CallRust s = rust s"
| "exec rust Ret s = (set_gpr RSP (gpr s RSP + 8) s)\<lparr>cpu_rip := load64 (ram s) (gpr s RSP)\<rparr>"
| "exec rust Iretq s =
     (set_gpr RSP (load64 (ram s) (gpr s RSP + 24)) s)
       \<lparr>cpu_rip := load64 (ram s) (gpr s RSP),
        cpu_cs := load64 (ram s) (gpr s RSP + 8),
        cpu_rflags := load64 (ram s) (gpr s RSP + 16),
        cpu_ss := load64 (ram s) (gpr s RSP + 32)\<rparr>"

primrec exec_all :: "(cpu \<Rightarrow> cpu) \<Rightarrow> instr list \<Rightarrow> cpu \<Rightarrow> cpu" where
  "exec_all rust [] s = s"
| "exec_all rust (i # is) s = exec_all rust is (exec rust i s)"

lemma exec_all_append: "exec_all rust (xs @ ys) s = exec_all rust ys (exec_all rust xs s)"
  by (induction xs arbitrary: s) simp_all

lemma apart8_same_base [simp]: "apart8 (a + n) (a + m) = apart8 n m" "apart8 a (a + m) = apart8 0 m" "apart8 (a + n) a = apart8 n 0"
  by (simp_all add: apart8_def)

lemmas apart8_numerals [simp] =
  apart8_def [of "numeral m" "numeral n"] apart8_def [of 0 "numeral n"] apart8_def [of "numeral m" 0] for m n

lemma apart8_sym: "apart8 a b = apart8 b a"
  by (auto simp: apart8_def)

section \<open>The context switch\<close>

record Context =
  c_rsp :: u64
  c_rbp :: u64
  c_rbx :: u64
  c_r12 :: u64
  c_r13 :: u64
  c_r14 :: u64
  c_r15 :: u64
  c_rip :: u64

definition Context_empty :: Context where
  "Context_empty = \<lparr>c_rsp = 0, c_rbp = 0, c_rbx = 0, c_r12 = 0, c_r13 = 0, c_r14 = 0, c_r15 = 0, c_rip = 0\<rparr>"

definition context_initialized :: "Context \<Rightarrow> bool" where
  "context_initialized c \<longleftrightarrow> c_rsp c \<noteq> 0 \<and> c_rip c \<noteq> 0"

text \<open>The context at an address, with the field offsets of its layout.\<close>

definition context_at :: "byte_memory \<Rightarrow> u64 \<Rightarrow> Context" where
  "context_at m a = \<lparr>c_rsp = load64 m (a + 0), c_rbp = load64 m (a + 8), c_rbx = load64 m (a + 16),
     c_r12 = load64 m (a + 24), c_r13 = load64 m (a + 32), c_r14 = load64 m (a + 40),
     c_r15 = load64 m (a + 48), c_rip = load64 m (a + 56)\<rparr>"

definition switch_code :: "instr list" where
  "switch_code = [
     Store RDI 0 RSP, Store RDI 8 RBP, Store RDI 16 RBX, Store RDI 24 R12, Store RDI 32 R13,
     Store RDI 40 R14, Store RDI 48 R15,
     Load RAX RSP 0, Store RDI 56 RAX,
     Load RSP RSI 0, Load RBP RSI 8, Load RBX RSI 16, Load R12 RSI 24, Load R13 RSI 32,
     Load R14 RSI 40, Load R15 RSI 48,
     PushM RSI 56, Ret]"

definition switch :: "cpu \<Rightarrow> cpu" where
  "switch s = exec_all (\<lambda>s. s) switch_code s"

definition bootstrap_context :: "u64 \<Rightarrow> u64 \<Rightarrow> u64 \<Rightarrow> Context option" where
  "bootstrap_context stack_top activation trampoline =
     (case checked_sub stack_top 8 of
        None \<Rightarrow> None
      | Some below \<Rightarrow>
          (case checked_add (below AND NOT 0xf) 8 of
             None \<Rightarrow> None
           | Some entry_rsp \<Rightarrow>
               if entry_rsp = 0 \<or> entry_rsp > stack_top \<or> entry_rsp AND 0xf \<noteq> 8 then None
               else Some (Context_empty\<lparr>c_rsp := entry_rsp, c_r12 := activation, c_rip := trampoline\<rparr>)))"

text \<open>The context that \<open>switch\<close> saves for its caller.\<close>

definition saved_context :: "cpu \<Rightarrow> Context" where
  "saved_context s = \<lparr>c_rsp = gpr s RSP, c_rbp = gpr s RBP, c_rbx = gpr s RBX, c_r12 = gpr s R12, c_r13 = gpr s R13,
     c_r14 = gpr s R14, c_r15 = gpr s R15, c_rip = load64 (ram s) (gpr s RSP)\<rparr>"

text \<open>The cells of two contexts, or of a context and a single cell, are apart.\<close>

definition offsets8 :: "u64 list" where
  "offsets8 = [0, 8, 16, 24, 32, 40, 48, 56]"

definition contexts_apart :: "u64 \<Rightarrow> u64 \<Rightarrow> bool" where
  "contexts_apart a b \<longleftrightarrow> list_all (\<lambda>i. list_all (\<lambda>j. apart8 (a + i) (b + j)) offsets8) offsets8"

definition context_apart_cell :: "u64 \<Rightarrow> u64 \<Rightarrow> bool" where
  "context_apart_cell a c \<longleftrightarrow> list_all (\<lambda>i. apart8 (a + i) c) offsets8"

end
