(* ===== verification/X86_Frames.thy ===== *)
theory X86_Frames
  imports X86_Asm X86_Paging Process_Manager
begin

text \<open>
  The register and return frames of the x86_64 layer: saved registers and interrupt frames
  (\<open>interrupt_entry.rs\<close>, \<open>interrupt_frame.rs\<close>), owned snapshots (\<open>interrupted_state.rs\<close>), user
  return frames (\<open>user_return.rs\<close>, \<open>user_context.rs\<close>) and prepared launches (\<open>user_launch.rs\<close>).
  A raw pointer is an address into a byte memory.
\<close>

section \<open>Saved registers and interrupt frames\<close>

record SavedRegisters =
  sr_rax :: u64
  sr_rcx :: u64
  sr_rdx :: u64
  sr_rbx :: u64
  sr_rbp :: u64
  sr_rsi :: u64
  sr_rdi :: u64
  sr_r8 :: u64
  sr_r9 :: u64
  sr_r10 :: u64
  sr_r11 :: u64
  sr_r12 :: u64
  sr_r13 :: u64
  sr_r14 :: u64
  sr_r15 :: u64

definition saved_registers_at :: "byte_memory \<Rightarrow> u64 \<Rightarrow> SavedRegisters" where
  "saved_registers_at m a = \<lparr>sr_rax = load64 m a, sr_rcx = load64 m (a + 8), sr_rdx = load64 m (a + 16),
     sr_rbx = load64 m (a + 24), sr_rbp = load64 m (a + 32), sr_rsi = load64 m (a + 40),
     sr_rdi = load64 m (a + 48), sr_r8 = load64 m (a + 56), sr_r9 = load64 m (a + 64),
     sr_r10 = load64 m (a + 72), sr_r11 = load64 m (a + 80), sr_r12 = load64 m (a + 88),
     sr_r13 = load64 m (a + 96), sr_r14 = load64 m (a + 104), sr_r15 = load64 m (a + 112)\<rparr>"

datatype InterruptReturnFrame = InterruptReturnFrame (frame_raw: u64)

definition frame_rip :: "byte_memory \<Rightarrow> InterruptReturnFrame \<Rightarrow> u64" where
  "frame_rip m f = load64 m (frame_raw f)"

definition frame_cs :: "byte_memory \<Rightarrow> InterruptReturnFrame \<Rightarrow> u64" where
  "frame_cs m f = load64 m (frame_raw f + 8)"

definition frame_rflags :: "byte_memory \<Rightarrow> InterruptReturnFrame \<Rightarrow> u64" where
  "frame_rflags m f = load64 m (frame_raw f + 16)"

definition frame_rsp :: "byte_memory \<Rightarrow> InterruptReturnFrame \<Rightarrow> u64 option" where
  "frame_rsp m f = (if frame_cs m f AND 3 = 0 then None else Some (load64 m (frame_raw f + 24)))"

definition frame_ss :: "byte_memory \<Rightarrow> InterruptReturnFrame \<Rightarrow> u64 option" where
  "frame_ss m f = (if frame_cs m f AND 3 = 0 then None else Some (load64 m (frame_raw f + 32)))"

definition SAME_CPL_FRAME_BYTES :: u64 where "SAME_CPL_FRAME_BYTES = 3 * 8"

definition CROSS_CPL_FRAME_BYTES :: u64 where "CROSS_CPL_FRAME_BYTES = 5 * 8"

definition frame_resume_rsp :: "byte_memory \<Rightarrow> InterruptReturnFrame \<Rightarrow> u64 option" where
  "frame_resume_rsp m f =
     (let bytes = (if frame_cs m f AND 3 = 0 then SAME_CPL_FRAME_BYTES else CROSS_CPL_FRAME_BYTES)
      in checked_add (frame_raw f) bytes)"

definition is_kernel_return :: "byte_memory \<Rightarrow> InterruptReturnFrame \<Rightarrow> bool" where
  "is_kernel_return m f \<longleftrightarrow> frame_rip m f \<noteq> 0 \<and> frame_cs m f AND 3 = 0 \<and> frame_rflags m f AND 2 \<noteq> 0"

record KernelInterruptFrame =
  kif_rip :: u64
  kif_cs :: u64
  kif_rflags :: u64

definition interrupt_enabled :: "KernelInterruptFrame \<Rightarrow> bool" where
  "interrupt_enabled f \<longleftrightarrow> kif_rflags f AND push_bit 9 1 \<noteq> 0"

record PrivilegeTransitionFrame =
  ptr_rsp :: u64
  ptr_ss :: u64

record UserInterruptFrame =
  uif_base :: KernelInterruptFrame
  uif_transition :: PrivilegeTransitionFrame

section \<open>Owned snapshots\<close>

record ReturnState =
  rs_rip :: u64
  rs_cs :: u64
  rs_rflags :: u64
  rs_resume_rsp :: u64
  rs_rsp :: "u64 option"
  rs_ss :: "u64 option"

definition return_state_capture :: "byte_memory \<Rightarrow> InterruptReturnFrame \<Rightarrow> ReturnState option" where
  "return_state_capture m f =
     (case frame_resume_rsp m f of
        None \<Rightarrow> None
      | Some resume_rsp \<Rightarrow>
          Some \<lparr>rs_rip = frame_rip m f, rs_cs = frame_cs m f, rs_rflags = frame_rflags m f,
                rs_resume_rsp = resume_rsp, rs_rsp = frame_rsp m f, rs_ss = frame_ss m f\<rparr>)"

definition rs_is_kernel :: "ReturnState \<Rightarrow> bool" where
  "rs_is_kernel r \<longleftrightarrow> rs_cs r AND 3 = 0"

definition rs_is_user :: "ReturnState \<Rightarrow> bool" where
  "rs_is_user r \<longleftrightarrow> rs_cs r AND 3 = 3"

definition kernel_iret_words :: "ReturnState \<Rightarrow> (u64 \<times> u64 \<times> u64) option" where
  "kernel_iret_words r =
     (if \<not> rs_is_kernel r \<or> rs_rip r = 0 \<or> rs_rflags r AND 2 = 0 \<or> rs_resume_rsp r = 0 then None
      else Some (rs_rip r, rs_cs r, rs_rflags r))"

record InterruptedState =
  is_registers :: SavedRegisters
  is_return_state :: ReturnState

text \<open>
  The layout of a snapshot in memory. An \<open>Option<u64>\<close> is two words, a tag that is 1 for \<open>Some\<close> and the
  payload; the language does not fix their order, so it is a parameter.
\<close>

definition option_u64_at :: "bool \<Rightarrow> byte_memory \<Rightarrow> u64 \<Rightarrow> u64 option" where
  "option_u64_at tag_first m a =
     (let tag = load64 m (if tag_first then a else a + 8);
          payload = load64 m (if tag_first then a + 8 else a)
      in if tag = 1 then Some payload else None)"

definition interrupted_state_at :: "bool \<Rightarrow> byte_memory \<Rightarrow> u64 \<Rightarrow> InterruptedState" where
  "interrupted_state_at tag_first m a = \<lparr>is_registers = saved_registers_at m a,
     is_return_state = \<lparr>rs_rip = load64 m (a + 120), rs_cs = load64 m (a + 128), rs_rflags = load64 m (a + 136),
       rs_resume_rsp = load64 m (a + 144), rs_rsp = option_u64_at tag_first m (a + 152),
       rs_ss = option_u64_at tag_first m (a + 168)\<rparr>\<rparr>"

text \<open>The missing return state is the panic of \<open>expect\<close>.\<close>

definition interrupted_capture :: "byte_memory \<Rightarrow> u64 \<Rightarrow> InterruptReturnFrame \<Rightarrow> InterruptedState option" where
  "interrupted_capture m registers f =
     (case return_state_capture m f of
        None \<Rightarrow> None
      | Some r \<Rightarrow> Some \<lparr>is_registers = saved_registers_at m registers, is_return_state = r\<rparr>)"

definition interrupted_valid :: "InterruptedState \<Rightarrow> bool" where
  "interrupted_valid s \<longleftrightarrow>
     (let r = is_return_state s
      in rs_rip r \<noteq> 0 \<and> rs_rflags r AND 2 \<noteq> 0 \<and> rs_resume_rsp r \<noteq> 0
         \<and> (rs_is_kernel r \<or> (rs_rsp r \<noteq> None \<and> rs_ss r \<noteq> None)))"

definition interrupted_user_valid :: "InterruptedState \<Rightarrow> bool" where
  "interrupted_user_valid s \<longleftrightarrow>
     (let r = is_return_state s
      in if \<not> interrupted_valid s \<or> \<not> rs_is_user r \<or> rs_rsp r = None then False
         else case rs_ss r of
                None \<Rightarrow> False
              | Some ss \<Rightarrow> rs_cs r AND 3 = 3 \<and> ss AND 3 = 3)"

definition validate_kernel_state :: "InterruptedState \<Rightarrow> bool" where
  "validate_kernel_state s \<longleftrightarrow> interrupted_valid s \<and> kernel_iret_words (is_return_state s) \<noteq> None"

section \<open>User return frames\<close>

definition USER_DATA_SELECTOR :: u16 where "USER_DATA_SELECTOR = 0x13"

definition USER_CODE_SELECTOR :: u16 where "USER_CODE_SELECTOR = 0x1b"

record UserReturnFrame =
  urf_rip :: u64
  urf_cs :: u64
  urf_rflags :: u64
  urf_rsp :: u64
  urf_ss :: u64

datatype UserReturnError = KernelSelector | InvalidRflags

definition return_frame_from_initial :: "InitialContext \<Rightarrow> u16 \<Rightarrow> u16 \<Rightarrow> UserReturnError + UserReturnFrame" where
  "return_frame_from_initial context user_code user_data =
     (if user_code AND 3 \<noteq> 3 \<or> user_data AND 3 \<noteq> 3 then Inl KernelSelector
      else
        let rflags = 0x202 :: u64
        in if rflags AND 2 = 0 \<or> rflags AND push_bit 9 1 = 0 then Inl InvalidRflags
           else Inr \<lparr>urf_rip = ctx_entry context, urf_cs = ucast user_code, urf_rflags = rflags,
                     urf_rsp = ctx_stack_pointer context, urf_ss = ucast user_data\<rparr>)"

record UserContext =
  uc_rip :: u64
  uc_rsp :: u64
  uc_rflags :: u64
  uc_cs :: u16
  uc_ss :: u16

datatype UserContextError = InvalidSelectors

definition UserContext_new :: "u64 \<Rightarrow> u64 \<Rightarrow> u16 \<Rightarrow> u16 \<Rightarrow> UserContext" where
  "UserContext_new ip sp cs ss = \<lparr>uc_rip = ip, uc_rsp = sp, uc_rflags = 0x202, uc_cs = cs, uc_ss = ss\<rparr>"

definition user_context_from_initial :: "InitialContext \<Rightarrow> u16 \<Rightarrow> u16 \<Rightarrow> UserContextError + UserContext" where
  "user_context_from_initial context user_code user_data =
     (if user_code AND 3 \<noteq> 3 \<or> user_data AND 3 \<noteq> 3 then Inl InvalidSelectors
      else Inr (UserContext_new (ctx_entry context) (ctx_stack_pointer context) user_code user_data))"

definition is_user_selectors :: "UserContext \<Rightarrow> u16 \<Rightarrow> u16 \<Rightarrow> bool" where
  "is_user_selectors c user_code user_data \<longleftrightarrow>
     uc_cs c = user_code \<and> uc_ss c = user_data \<and> uc_cs c AND 3 = 3 \<and> uc_ss c AND 3 = 3"

section \<open>Prepared launches\<close>

datatype UserLaunchAdapterError = InvalidReturnFrame UserReturnError

record PreparedUserLaunch =
  pul_address_space :: AddressSpaceId
  pul_root :: AddressSpaceRoot
  pul_frame :: UserReturnFrame

definition prepare_launch :: "AddressSpaceRoot \<Rightarrow> UserLaunchPlan \<Rightarrow> UserLaunchAdapterError + PreparedUserLaunch" where
  "prepare_launch root plan =
     and_then (map_err (\<lambda>_. InvalidReturnFrame InvalidRflags)
                 (InitialContext_new (ulp_entry plan) (ulp_stack_pointer plan))) (\<lambda>context.
     and_then (map_err InvalidReturnFrame
                 (return_frame_from_initial context USER_CODE_SELECTOR USER_DATA_SELECTOR)) (\<lambda>frame.
     Inr \<lparr>pul_address_space = ulp_address_space plan, pul_root = root, pul_frame = frame\<rparr>))"

end
