(* ===== verification/X86_Bindings.thy ===== *)
theory X86_Bindings
  imports X86_Frames Syscall_Model
begin

text \<open>
  What the x86_64 layer owns per task and per CPU: user execution bindings and their registry
  (\<open>user_execution.rs\<close>), return transfers (\<open>user_return_transfer.rs\<close>), the CPU-local hand-off state
  (\<open>cpu_local.rs\<close>, \<open>per_cpu.rs\<close>), the preemption contracts (\<open>preemption.rs\<close>, \<open>preemption_plan.rs\<close>,
  \<open>preemption_contract.rs\<close>, \<open>preemption_context.rs\<close>) and the yield boundary (\<open>yield_switch.rs\<close>).
\<close>

section \<open>Vectors of optional entries\<close>

text \<open>The first entry that satisfies a predicate, and the write through the reference to it.\<close>

fun find_slot :: "('a \<Rightarrow> bool) \<Rightarrow> 'a option list \<Rightarrow> 'a option" where
  "find_slot P [] = None"
| "find_slot P (None # xs) = find_slot P xs"
| "find_slot P (Some x # xs) = (if P x then Some x else find_slot P xs)"

fun put_slot :: "('a \<Rightarrow> bool) \<Rightarrow> 'a option \<Rightarrow> 'a option list \<Rightarrow> 'a option list" where
  "put_slot P v [] = []"
| "put_slot P v (None # xs) = None # put_slot P v xs"
| "put_slot P v (Some x # xs) = (if P x then v # xs else Some x # put_slot P v xs)"

text \<open>\<open>iter_mut().find(is_none)\<close> and the write of the new entry, else \<open>push\<close>.\<close>

fun fill_slot :: "'a \<Rightarrow> 'a option list \<Rightarrow> 'a option list" where
  "fill_slot v [] = [Some v]"
| "fill_slot v (None # xs) = Some v # xs"
| "fill_slot v (Some x # xs) = Some x # fill_slot v xs"

definition live_slots :: "'a option list \<Rightarrow> 'a list" where
  "live_slots xs = map the (filter (\<lambda>x. x \<noteq> None) xs)"

lemma live_slots_simps [simp]:
  "live_slots [] = []" "live_slots (None # xs) = live_slots xs" "live_slots (Some x # xs) = x # live_slots xs"
  "live_slots (xs @ ys) = live_slots xs @ live_slots ys"
  by (simp_all add: live_slots_def)

lemma find_slot_find: "find_slot P xs = find P (live_slots xs)"
  by (induction P xs rule: find_slot.induct) simp_all

lemma find_slot_SomeD: "find_slot P xs = Some x \<Longrightarrow> P x \<and> x \<in> set (live_slots xs)"
  by (induction P xs rule: find_slot.induct) (auto split: if_splits)

lemma find_slot_None: "find_slot P xs = None \<longleftrightarrow> (\<forall>x\<in>set (live_slots xs). \<not> P x)"
  by (induction P xs rule: find_slot.induct) auto

lemma find_slot_append: "find_slot P (xs @ ys) = (case find_slot P xs of None \<Rightarrow> find_slot P ys | Some x \<Rightarrow> Some x)"
  by (induction P xs rule: find_slot.induct) auto

section \<open>User execution bindings\<close>

record UserExecutionBinding =
  ueb_process :: ProcessId
  ueb_task :: TaskId
  ueb_address_space :: AddressSpaceId
  ueb_launch :: PreparedUserLaunch
  ueb_resume :: "InterruptedState option"

datatype UserExecutionBindingError = UebAddressSpaceMismatch | ResumeStateAlreadyPresent | InvalidResumeState

definition UserExecutionBinding_new ::
  "ProcessId \<Rightarrow> TaskId \<Rightarrow> AddressSpaceId \<Rightarrow> PreparedUserLaunch \<Rightarrow> UserExecutionBindingError + UserExecutionBinding" where
  "UserExecutionBinding_new process tid space launch =
     (if pul_address_space launch \<noteq> space then Inl UebAddressSpaceMismatch
      else Inr \<lparr>ueb_process = process, ueb_task = tid, ueb_address_space = space, ueb_launch = launch,
                ueb_resume = None\<rparr>)"

definition ueb_install_resume ::
  "UserExecutionBinding \<Rightarrow> InterruptedState \<Rightarrow> (UserExecutionBindingError + unit) \<times> UserExecutionBinding" where
  "ueb_install_resume b st =
     (if ueb_resume b \<noteq> None then (Inl ResumeStateAlreadyPresent, b)
      else if \<not> interrupted_user_valid st then (Inl InvalidResumeState, b)
      else (Inr (), b\<lparr>ueb_resume := Some st\<rparr>))"

definition ueb_clear_resume :: "UserExecutionBinding \<Rightarrow> InterruptedState option \<times> UserExecutionBinding" where
  "ueb_clear_resume b = (ueb_resume b, b\<lparr>ueb_resume := None\<rparr>)"

record UserExecutionRegistry =
  uer_entries :: "UserExecutionBinding option list"

datatype UserExecutionRegistryError = UerAlreadyBound | UerNotFound | UerBinding UserExecutionBindingError

definition UserExecutionRegistry_new :: UserExecutionRegistry where
  "UserExecutionRegistry_new = \<lparr>uer_entries = []\<rparr>"

definition uer_get :: "UserExecutionRegistry \<Rightarrow> TaskId \<Rightarrow> UserExecutionBinding option" where
  "uer_get r tid = find_slot (\<lambda>b. ueb_task b = tid) (uer_entries r)"

text \<open>The write through the reference of \<open>get_mut\<close>.\<close>

definition uer_put :: "UserExecutionRegistry \<Rightarrow> TaskId \<Rightarrow> UserExecutionBinding option \<Rightarrow> UserExecutionRegistry" where
  "uer_put r tid v = r\<lparr>uer_entries := put_slot (\<lambda>b. ueb_task b = tid) v (uer_entries r)\<rparr>"

definition uer_insert ::
  "UserExecutionRegistry \<Rightarrow> UserExecutionBinding \<Rightarrow> (UserExecutionRegistryError + unit) \<times> UserExecutionRegistry" where
  "uer_insert r b =
     (if uer_get r (ueb_task b) \<noteq> None then (Inl UerAlreadyBound, r)
      else (Inr (), r\<lparr>uer_entries := uer_entries r @ [Some b]\<rparr>))"

definition uer_remove ::
  "UserExecutionRegistry \<Rightarrow> TaskId \<Rightarrow> (UserExecutionRegistryError + UserExecutionBinding) \<times> UserExecutionRegistry" where
  "uer_remove r tid =
     (case uer_get r tid of
        None \<Rightarrow> (Inl UerNotFound, r)
      | Some b \<Rightarrow> (Inr b, uer_put r tid None))"

definition uer_install_resume ::
  "UserExecutionRegistry \<Rightarrow> TaskId \<Rightarrow> InterruptedState \<Rightarrow> (UserExecutionRegistryError + unit) \<times> UserExecutionRegistry" where
  "uer_install_resume r tid st =
     (case uer_get r tid of
        None \<Rightarrow> (Inl UerNotFound, r)
      | Some b \<Rightarrow> (let (res, b') = ueb_install_resume b st in (map_err UerBinding res, uer_put r tid (Some b'))))"

definition uer_clear_resume ::
  "UserExecutionRegistry \<Rightarrow> TaskId \<Rightarrow> (UserExecutionRegistryError + InterruptedState option) \<times> UserExecutionRegistry" where
  "uer_clear_resume r tid =
     (case uer_get r tid of
        None \<Rightarrow> (Inl UerNotFound, r)
      | Some b \<Rightarrow> (let (st, b') = ueb_clear_resume b in (Inr st, uer_put r tid (Some b'))))"

definition uer_count :: "UserExecutionRegistry \<Rightarrow> nat" where
  "uer_count r = length (filter (\<lambda>e. e \<noteq> None) (uer_entries r))"

section \<open>Return transfers\<close>

record UserReturnTransfer =
  urt_process :: ProcessId
  urt_task :: TaskId
  urt_binding :: UserExecutionBinding

datatype UserReturnTransferError = UrtCurrentTask | UrtInvalidSelectors | UrtInvalidRflags | UrtInvalidResumeState

definition UserReturnTransfer_new :: "UserExecutionBinding \<Rightarrow> UserReturnTransfer" where
  "UserReturnTransfer_new b = \<lparr>urt_process = ueb_process b, urt_task = ueb_task b, urt_binding = b\<rparr>"

definition urt_root :: "UserReturnTransfer \<Rightarrow> AddressSpaceRoot" where
  "urt_root t = pul_root (ueb_launch (urt_binding t))"

definition urt_frame :: "UserReturnTransfer \<Rightarrow> UserReturnFrame" where
  "urt_frame t = pul_frame (ueb_launch (urt_binding t))"

definition urt_resume :: "UserReturnTransfer \<Rightarrow> InterruptedState option" where
  "urt_resume t = ueb_resume (urt_binding t)"

definition urt_validate ::
  "UserReturnTransfer \<Rightarrow> TaskId option \<Rightarrow> UserReturnTransferError + UserReturnTransfer" where
  "urt_validate t current_task =
     (if current_task = Some (urt_task t) then Inl UrtCurrentTask
      else case urt_resume t of
             Some st \<Rightarrow> if \<not> interrupted_user_valid st then Inl UrtInvalidResumeState else Inr t
           | None \<Rightarrow>
               let frame = urt_frame t
               in if urf_cs frame AND 3 \<noteq> 3 \<or> urf_ss frame AND 3 \<noteq> 3 then Inl UrtInvalidSelectors
                  else if urf_rflags frame AND 2 = 0 \<or> urf_rflags frame AND push_bit 9 1 = 0
                  then Inl UrtInvalidRflags
                  else Inr t)"

section \<open>CPU-local state\<close>

record CpuLocalState =
  cl_current_task :: "TaskId option"
  cl_runtime :: "u64 option"
  cl_system_runtime :: "u64 option"
  cl_syscall_action :: "SyscallReturnAction option"
  cl_interrupted :: "(TaskId \<times> InterruptedState) option"

datatype RuntimeBindingError = RuntimeNull | RuntimeAlreadyBound

datatype CaptureError = NoCurrentTask | AlreadyPending | InvalidState

definition CpuLocalState_new :: CpuLocalState where
  "CpuLocalState_new = \<lparr>cl_current_task = None, cl_runtime = None, cl_system_runtime = None,
     cl_syscall_action = None, cl_interrupted = None\<rparr>"

definition set_current_task :: "CpuLocalState \<Rightarrow> TaskId option \<Rightarrow> CpuLocalState" where
  "set_current_task l t = l\<lparr>cl_current_task := t\<rparr>"

definition publish_syscall_action :: "CpuLocalState \<Rightarrow> SyscallReturnAction \<Rightarrow> CpuLocalState" where
  "publish_syscall_action l a = l\<lparr>cl_syscall_action := Some a\<rparr>"

definition take_syscall_action :: "CpuLocalState \<Rightarrow> SyscallReturnAction option \<times> CpuLocalState" where
  "take_syscall_action l = (cl_syscall_action l, l\<lparr>cl_syscall_action := None\<rparr>)"

definition bind_runtime :: "CpuLocalState \<Rightarrow> u64 \<Rightarrow> (RuntimeBindingError + unit) \<times> CpuLocalState" where
  "bind_runtime l runtime =
     (if cl_runtime l \<noteq> None then (Inl RuntimeAlreadyBound, l)
      else if runtime = 0 then (Inl RuntimeNull, l)
      else (Inr (), l\<lparr>cl_runtime := Some runtime\<rparr>))"

definition unbind_runtime :: "CpuLocalState \<Rightarrow> CpuLocalState" where
  "unbind_runtime l = l\<lparr>cl_runtime := None\<rparr>"

definition bind_system_runtime :: "CpuLocalState \<Rightarrow> u64 \<Rightarrow> (RuntimeBindingError + unit) \<times> CpuLocalState" where
  "bind_system_runtime l runtime =
     (if cl_system_runtime l \<noteq> None then (Inl RuntimeAlreadyBound, l)
      else if runtime = 0 then (Inl RuntimeNull, l)
      else (Inr (), l\<lparr>cl_system_runtime := Some runtime\<rparr>))"

definition unbind_system_runtime :: "CpuLocalState \<Rightarrow> CpuLocalState" where
  "unbind_system_runtime l = l\<lparr>cl_system_runtime := None\<rparr>"

text \<open>The outer option is the panic of the capture.\<close>

definition capture_interrupted ::
  "byte_memory \<Rightarrow> CpuLocalState \<Rightarrow> u64 \<Rightarrow> InterruptReturnFrame \<Rightarrow> ((CaptureError + TaskId) \<times> CpuLocalState) option" where
  "capture_interrupted m l registers frame =
     (case cl_current_task l of
        None \<Rightarrow> Some (Inl NoCurrentTask, l)
      | Some tid \<Rightarrow>
          if cl_interrupted l \<noteq> None then Some (Inl AlreadyPending, l)
          else case interrupted_capture m registers frame of
                 None \<Rightarrow> None
               | Some snapshot \<Rightarrow>
                   if \<not> interrupted_valid snapshot then Some (Inl InvalidState, l)
                   else Some (Inr tid, l\<lparr>cl_interrupted := Some (tid, snapshot)\<rparr>))"

definition interrupted_task :: "CpuLocalState \<Rightarrow> TaskId option" where
  "interrupted_task l = map_option fst (cl_interrupted l)"

definition take_interrupted :: "CpuLocalState \<Rightarrow> (TaskId \<times> InterruptedState) option \<times> CpuLocalState" where
  "take_interrupted l = (cl_interrupted l, l\<lparr>cl_interrupted := None\<rparr>)"

definition has_interrupted :: "CpuLocalState \<Rightarrow> bool" where
  "has_interrupted l \<longleftrightarrow> cl_interrupted l \<noteq> None"

datatype CpuId = CpuId (cpu_id_value: u32)

record PerCpuState =
  pc_cpu_id :: CpuId
  pc_current :: "TaskId option"
  pc_interrupt_depth :: u32

definition PerCpuState_bootstrap :: PerCpuState where
  "PerCpuState_bootstrap = \<lparr>pc_cpu_id = CpuId 0, pc_current = None, pc_interrupt_depth = 0\<rparr>"

definition pc_set_current :: "PerCpuState \<Rightarrow> TaskId option \<Rightarrow> PerCpuState" where
  "pc_set_current p t = p\<lparr>pc_current := t\<rparr>"

definition enter_interrupt :: "PerCpuState \<Rightarrow> PerCpuState" where
  "enter_interrupt p = p\<lparr>pc_interrupt_depth := saturating_add (pc_interrupt_depth p) 1\<rparr>"

definition leave_interrupt :: "PerCpuState \<Rightarrow> bool \<times> PerCpuState" where
  "leave_interrupt p =
     (if pc_interrupt_depth p = 0 then (False, p)
      else (True, p\<lparr>pc_interrupt_depth := pc_interrupt_depth p - 1\<rparr>))"

section \<open>Preemption contracts\<close>

datatype PreemptionError = PreemptDisabled | PreemptNoRequest | PreemptNoRunnableTask

record PreemptionController =
  pctl_request :: RescheduleRequest

definition PreemptionController_new :: PreemptionController where
  "PreemptionController_new = \<lparr>pctl_request = RescheduleRequest_new\<rparr>"

definition controller_request :: "PreemptionController \<Rightarrow> PreemptionController" where
  "controller_request c = c\<lparr>pctl_request := request (pctl_request c)\<rparr>"

definition take_request :: "PreemptionController \<Rightarrow> bool \<Rightarrow> (PreemptionError + unit) \<times> PreemptionController" where
  "take_request c enabled =
     (if \<not> enabled then (Inl PreemptDisabled, c)
      else let (taken, r) = take_pending (pctl_request c)
           in (if taken then Inr () else Inl PreemptNoRequest, c\<lparr>pctl_request := r\<rparr>))"

datatype PreemptionPlan = ReturnToContext TaskId Context | IretKernel TaskId InterruptedState

fun plan_task_id :: "PreemptionPlan \<Rightarrow> TaskId" where
  "plan_task_id (ReturnToContext tid _) = tid"
| "plan_task_id (IretKernel tid _) = tid"

fun is_kernel_iret :: "PreemptionPlan \<Rightarrow> bool" where
  "is_kernel_iret (IretKernel _ _) = True"
| "is_kernel_iret (ReturnToContext _ _) = False"

datatype BootstrapPreemptionContractError = MissingCurrentContext | InvalidInterruptedState

definition validate_interrupted_state :: "InterruptedState option \<Rightarrow> BootstrapPreemptionContractError + unit" where
  "validate_interrupted_state s =
     and_then (ok_or s MissingCurrentContext) (\<lambda>st.
     if \<not> interrupted_valid st \<or> kernel_iret_words (is_return_state st) = None
     then Inl InvalidInterruptedState else Inr ())"

definition context_is_initialized :: "Context \<Rightarrow> bool" where
  "context_is_initialized c \<longleftrightarrow> c_rip c \<noteq> 0 \<and> c_rsp c \<noteq> 0"

record InterruptContext =
  ic_rax :: u64
  ic_rcx :: u64
  ic_rdx :: u64
  ic_rsi :: u64
  ic_rdi :: u64
  ic_r8 :: u64
  ic_r9 :: u64
  ic_r10 :: u64
  ic_r11 :: u64
  ic_rip :: u64
  ic_cs :: u64
  ic_rflags :: u64
  ic_rsp :: u64
  ic_ss :: u64

definition interrupt_context_valid :: "InterruptContext \<Rightarrow> bool" where
  "interrupt_context_valid c \<longleftrightarrow> ic_rip c \<noteq> 0 \<and> ic_rflags c AND push_bit 1 1 \<noteq> 0"

section \<open>The yield boundary\<close>

datatype YieldError = NullCurrent | NullNext | SameContext | CurrentUninitialized | NextUninitialized

text \<open>
  A context pointer is an address with the context it points to. On success the validated switch is
  left to the caller of \<open>yield_validate\<close> and \<open>activate_validate\<close>.
\<close>

definition yield_validate :: "u64 \<times> Context \<Rightarrow> u64 \<times> Context \<Rightarrow> YieldError + unit" where
  "yield_validate cur nxt =
     (if fst cur = 0 then Inl NullCurrent
      else if fst nxt = 0 then Inl NullNext
      else if fst cur = fst nxt then Inl SameContext
      else if \<not> context_initialized (snd cur) then Inl CurrentUninitialized
      else if \<not> context_initialized (snd nxt) then Inl NextUninitialized
      else Inr ())"

definition activate_validate :: "u64 \<times> Context \<Rightarrow> u64 \<times> Context \<Rightarrow> YieldError + unit" where
  "activate_validate cur nxt =
     (if fst cur = 0 then Inl NullCurrent
      else if fst nxt = 0 then Inl NullNext
      else if fst cur = fst nxt then Inl SameContext
      else if \<not> context_initialized (snd nxt) then Inl NextUninitialized
      else Inr ())"

text \<open>
  \<open>activate_first\<close> and \<open>yield_switch::switch\<close> on the machine: the arguments are in \<open>rdi\<close> and \<open>rsi\<close>, the
  call pushes its return address, and the switch leaves the machine in the next context.
\<close>

definition call_switch :: "u64 \<Rightarrow> u64 \<Rightarrow> u64 \<Rightarrow> cpu \<Rightarrow> cpu" where
  "call_switch return_address cur nxt s = switch (push64 return_address (set_gpr RSI nxt (set_gpr RDI cur s)))"

definition activate_first :: "u64 \<Rightarrow> u64 \<Rightarrow> u64 \<Rightarrow> cpu \<Rightarrow> YieldError + cpu" where
  "activate_first return_address cur nxt s =
     and_then (activate_validate (cur, context_at (ram s) cur) (nxt, context_at (ram s) nxt)) (\<lambda>_.
     Inr (call_switch return_address cur nxt s))"

definition yield_switch :: "u64 \<Rightarrow> u64 \<Rightarrow> u64 \<Rightarrow> cpu \<Rightarrow> YieldError + cpu" where
  "yield_switch return_address cur nxt s =
     and_then (yield_validate (cur, context_at (ram s) cur) (nxt, context_at (ram s) nxt)) (\<lambda>_.
     Inr (call_switch return_address cur nxt s))"

end
