(* ===== verification/X86_Switch.thy ===== *)
theory X86_Switch
  imports X86_Bindings
begin

text \<open>
  The assembly routines of the kernel and what they do: the context switch (\<open>context_switch.rs\<close>), the
  interrupt entry stubs (\<open>interrupt_entry.rs\<close>), and the return paths (\<open>preempt_return.rs\<close>,
  \<open>user_entry.rs\<close>, \<open>user_transfer.rs\<close>, \<open>user_activation.rs\<close>).
\<close>

section \<open>Routines\<close>

definition return_to_context_code :: "instr list" where
  "return_to_context_code = [
     Load RSP RDI 0, Load RBP RDI 8, Load RBX RDI 16, Load R12 RDI 24, Load R13 RDI 32,
     Load R14 RDI 40, Load R15 RDI 48, PushM RDI 56, Ret]"

definition return_to_context :: "cpu \<Rightarrow> cpu" where
  "return_to_context s = exec_all (\<lambda>s. s) return_to_context_code s"

text \<open>The loads of all general registers that end both interrupt return paths.\<close>

definition restore_code :: "instr list" where
  "restore_code = [
     Load RAX R11 0, Load RCX R11 8, Load RDX R11 16, Load RBX R11 24, Load RBP R11 32,
     Load RSI R11 40, Load RDI R11 48, Load R8 R11 56, Load R9 R11 64, Load R10 R11 72,
     Load R12 R11 88, Load R13 R11 96, Load R14 R11 104, Load R15 R11 112, Load R11 R11 80]"

definition return_to_kernel_code :: "instr list" where
  "return_to_kernel_code = [
     MovR R11 RDI, Load R10 R11 144, SubI R10 24,
     Load RAX R11 120, Store R10 0 RAX, Load RAX R11 128, Store R10 8 RAX,
     Load RAX R11 136, Store R10 16 RAX, MovR RSP R10] @ restore_code @ [Iretq]"

definition return_to_kernel :: "cpu \<Rightarrow> cpu" where
  "return_to_kernel s = exec_all (\<lambda>s. s) return_to_kernel_code s"

definition enter_user :: "cpu \<Rightarrow> cpu" where
  "enter_user s = exec_all (\<lambda>s. s) [MovR RSP RDI, Iretq] s"

definition resume_user_code :: "instr list" where
  "resume_user_code = [
     MovR R11 RDI,
     Load RAX R11 168, Push RAX, Load RAX R11 152, Push RAX, Load RAX R11 136, Push RAX,
     Load RAX R11 128, Push RAX, Load RAX R11 120, Push RAX] @ restore_code @ [Iretq]"

definition resume_user :: "cpu \<Rightarrow> cpu" where
  "resume_user s = exec_all (\<lambda>s. s) resume_user_code s"

text \<open>
  Activation of an address space with empty control flags, and the two transitions to user mode that
  combine it with a return frame. The address of the local copy of the frame or snapshot is an
  argument; \<open>interrupts::disable\<close> clears bit 9 of the flags.
\<close>

definition activate :: "AddressSpaceRoot \<Rightarrow> cpu \<Rightarrow> cpu" where
  "activate root s = s\<lparr>cpu_cr3 := root_frame root\<rparr>"

definition active_root :: "cpu \<Rightarrow> AddressSpaceRoot" where
  "active_root s = AddressSpaceRoot (cpu_cr3 s)"

definition disable_interrupts :: "cpu \<Rightarrow> cpu" where
  "disable_interrupts s = s\<lparr>cpu_rflags := cpu_rflags s AND NOT (push_bit 9 1)\<rparr>"

definition activate_and_enter_user :: "PreparedUserLaunch \<Rightarrow> u64 \<Rightarrow> cpu \<Rightarrow> cpu" where
  "activate_and_enter_user prepared frame_address s =
     (let s1 = disable_interrupts s;
          s2 = activate (pul_root prepared) s1
      in enter_user (set_gpr RDI frame_address s2))"

definition execute_user_transfer :: "UserReturnTransfer \<Rightarrow> u64 \<Rightarrow> cpu \<Rightarrow> cpu option" where
  "execute_user_transfer transfer local_address s =
     (case urt_validate transfer None of
        Inl _ \<Rightarrow> None
      | Inr _ \<Rightarrow>
          let s1 = disable_interrupts s;
              s2 = activate (urt_root transfer) s1
          in Some (case urt_resume transfer of
                     Some _ \<Rightarrow> resume_user (set_gpr RDI local_address s2)
                   | None \<Rightarrow> enter_user (set_gpr RDI local_address s2)))"

definition user_frame_at :: "byte_memory \<Rightarrow> u64 \<Rightarrow> UserReturnFrame" where
  "user_frame_at m a = \<lparr>urf_rip = load64 m a, urf_cs = load64 m (a + 8), urf_rflags = load64 m (a + 16),
     urf_rsp = load64 m (a + 24), urf_ss = load64 m (a + 32)\<rparr>"

text \<open>
  The entry stubs. The hook is the Rust function that the stub calls; it runs with the saved registers
  at \<open>rdi\<close> and the interrupt frame at \<open>rsi\<close>.
\<close>

definition entry_save :: "instr list" where
  "entry_save = [
     Push R15, Push R14, Push R13, Push R12, Push R11, Push R10, Push R9, Push R8,
     Push RDI, Push RSI, Push RBP, Push RBX, Push RDX, Push RCX, Push RAX,
     MovR RAX RSP, AndI RSP (- 16), SubI RSP 16, Store RSP 0 RAX,
     MovR RDI RAX, Lea RSI RAX 120]"

definition entry_restore :: "instr list" where
  "entry_restore = [
     Load RAX RSP 0, MovR RSP RAX,
     Pop RAX, Pop RCX, Pop RDX, Pop RBX, Pop RBP, Pop RSI, Pop RDI,
     Pop R8, Pop R9, Pop R10, Pop R11, Pop R12, Pop R13, Pop R14, Pop R15, Iretq]"

definition syscall_entry :: "(cpu \<Rightarrow> cpu) \<Rightarrow> cpu \<Rightarrow> cpu" where
  "syscall_entry hook s = exec_all hook (entry_save @ [CallRust] @ entry_restore) s"

definition timer_entry :: "(cpu \<Rightarrow> cpu) \<Rightarrow> cpu \<Rightarrow> cpu" where
  "timer_entry hook s = exec_all hook (entry_save @ [CallRust] @ entry_restore) s"

text \<open>
  What the processor does on an interrupt in 64-bit mode: it aligns the stack it uses and pushes
  SS, RSP, RFLAGS, CS and RIP, also when the privilege level does not change.
\<close>

definition interrupt_push :: "u64 \<Rightarrow> cpu \<Rightarrow> cpu" where
  "interrupt_push stack s =
     push64 (cpu_rip s) (push64 (cpu_cs s) (push64 (cpu_rflags s) (push64 (gpr s RSP) (push64 (cpu_ss s)
       (set_gpr RSP (stack AND - 16) s)))))"

section \<open>Switching contexts\<close>

lemmas machine = set_gpr_def push64_def

lemma context_apart_cell_both:
  "context_apart_cell a c \<longleftrightarrow> list_all (\<lambda>i. apart8 (a + i) c \<and> apart8 c (a + i)) offsets8"
  by (auto simp: context_apart_cell_def offsets8_def apart8_sym)

lemmas apart_unfold = contexts_apart_def context_apart_cell_both offsets8_def

lemma switch_registers:
  assumes "contexts_apart (gpr s RDI) (gpr s RSI)" "context_apart_cell (gpr s RDI) (gpr s RSP)"
  shows "let n = context_at (ram s) (gpr s RSI); t = switch s in
    gpr t RSP = c_rsp n \<and> gpr t RBP = c_rbp n \<and> gpr t RBX = c_rbx n \<and> gpr t R12 = c_r12 n \<and> gpr t R13 = c_r13 n
    \<and> gpr t R14 = c_r14 n \<and> gpr t R15 = c_r15 n \<and> cpu_rip t = c_rip n"
  using assms unfolding apart_unfold
  by (simp add: switch_def switch_code_def machine context_at_def Let_def)

lemma switch_saves:
  assumes "contexts_apart (gpr s RDI) (gpr s RSI)" "context_apart_cell (gpr s RDI) (gpr s RSP)"
    "context_apart_cell (gpr s RDI) (c_rsp (context_at (ram s) (gpr s RSI)) - 8)"
  shows "context_at (ram (switch s)) (gpr s RDI) = saved_context s"
  using assms unfolding apart_unfold
  by (simp add: switch_def switch_code_def machine context_at_def Let_def saved_context_def)

section \<open>Registers of the machine\<close>

definition registers_of :: "cpu \<Rightarrow> SavedRegisters" where
  "registers_of s = \<lparr>sr_rax = gpr s RAX, sr_rcx = gpr s RCX, sr_rdx = gpr s RDX, sr_rbx = gpr s RBX,
     sr_rbp = gpr s RBP, sr_rsi = gpr s RSI, sr_rdi = gpr s RDI, sr_r8 = gpr s R8, sr_r9 = gpr s R9,
     sr_r10 = gpr s R10, sr_r11 = gpr s R11, sr_r12 = gpr s R12, sr_r13 = gpr s R13, sr_r14 = gpr s R14,
     sr_r15 = gpr s R15\<rparr>"

lemma restore_code_effect:
  "registers_of (exec_all f restore_code s) = saved_registers_at (ram s) (gpr s R11)"
  "gpr (exec_all f restore_code s) RSP = gpr s RSP" "ram (exec_all f restore_code s) = ram s"
  by (simp_all add: restore_code_def machine registers_of_def saved_registers_at_def)

lemma iretq_effect:
  "registers_of (exec f Iretq s) = registers_of s"
  "cpu_rip (exec f Iretq s) = load64 (ram s) (gpr s RSP)"
  "cpu_cs (exec f Iretq s) = load64 (ram s) (gpr s RSP + 8)"
  "cpu_rflags (exec f Iretq s) = load64 (ram s) (gpr s RSP + 16)"
  "gpr (exec f Iretq s) RSP = load64 (ram s) (gpr s RSP + 24)"
  "cpu_ss (exec f Iretq s) = load64 (ram s) (gpr s RSP + 32)"
  by (simp_all add: machine registers_of_def)

end
