(* ===== verification/X86_Return_Paths.thy ===== *)
theory X86_Return_Paths
  imports X86_Switch
begin

text \<open>
  What the entry stubs and the return paths do to the machine: the saved registers and the frame that
  the hook receives, the registers after the stub, and the state after each \<open>iretq\<close>.
\<close>

section \<open>Cells around a base address\<close>

lemma base_arith [simp]:
  "(b::u64) + numeral m - numeral n = b + (numeral m - numeral n)"
  "(b::u64) + numeral m + numeral n = b + numeral (m + n)"
  "(b::u64) - numeral m - numeral n = b - numeral (m + n)"
  by (simp_all add: diff_diff_eq)

lemma apart8_below [simp]:
  "apart8 (a - n) (a - m) = apart8 n m" "apart8 a (a - m) = apart8 0 m" "apart8 (a - n) a = apart8 n 0"
  by (auto simp: apart8_def)

text \<open>The aligned scratch cell of the stubs lies below the saved registers.\<close>

lemma scratch_below:
  obtains k where "((b::u64) AND - 16) - 16 = b - k" "16 \<le> unat k" "unat k < 32"
proof -
  have "(b AND NOT 15) + (b AND 15) = (b AND NOT 15) OR (b AND 15)"
    by (rule disjunctive_add) (auto simp: bit_simps)
  also have "\<dots> = b" by (rule bit_word_eqI) (auto simp: bit_simps)
  finally have "(b AND - 16) = b - (b AND 15)" by (simp add: eq_diff_eq)
  then have "(b AND - 16) - 16 = b - ((b AND 15) + 16)" by simp
  moreover have "b AND 15 \<le> 15" by (rule word_and_le1)
  then have "unat (b AND 15) \<le> 15" by (simp add: word_le_nat_alt)
  then have "unat ((b AND 15) + 16) = unat (b AND 15) + 16" by (simp add: unat_word_ariths)
  ultimately show ?thesis using that [of "(b AND 15) + 16"] \<open>unat (b AND 15) \<le> 15\<close> by simp
qed

lemma scratch_apart:
  assumes "16 \<le> unat k" "unat k < 32" "unat i \<le> 1024"
  shows "apart8 (b - k) (b + i)" "apart8 (b + i) (b - k)"
proof -
  have "unat (k + i) = unat k + unat i" using assms by (simp add: unat_word_ariths)
  moreover have "b + i - (b - k) = k + i" "b - k - (b + i) = - (k + i)" by simp_all
  moreover have "unat (- (k + i)) = 2 ^ 64 - unat (k + i)" if "0 < unat (k + i)"
    using that unat_sub_if' [of 0 "k + i"] by (simp split: if_splits)
  ultimately show "apart8 (b - k) (b + i)" "apart8 (b + i) (b - k)" using assms by (simp_all add: apart8_def add.commute [of i k])
qed

lemma aligned_down: "(((b::u64) AND - 16) - 16) AND 15 = 0"
proof -
  have neg: "bit (- 16 :: u64) n \<longleftrightarrow> 4 \<le> n \<and> n < 64" for n
  proof -
    have "(- 16 :: u64) = NOT (mask 4)" by (simp add: mask_eq_exp_minus_1)
    then show ?thesis by (simp only: bit_not_iff bit_mask_iff) auto
  qed
  have "b AND - 16 = push_bit 4 (drop_bit 4 b)"
    by (rule bit_word_eqI) (simp only: bit_and_iff bit_push_bit_iff bit_drop_bit_eq comp_def neg, auto)
  then have "(b AND - 16) - 16 = push_bit 4 (drop_bit 4 b - 1)"
    by (simp add: push_bit_eq_mult algebra_simps)
  moreover have "push_bit 4 x AND 15 = 0" for x :: u64
  proof -
    have "(15 :: u64) = mask 4" by (simp add: mask_eq_exp_minus_1)
    then show ?thesis by (intro bit_word_eqI) (simp only: bit_and_iff bit_mask_iff bit_push_bit_iff, auto)
  qed
  ultimately show ?thesis by simp
qed

section \<open>Entry stubs\<close>

text \<open>The five words of an interrupt frame.\<close>

definition frame_words :: "byte_memory \<Rightarrow> u64 \<Rightarrow> u64 list" where
  "frame_words m a = [load64 m a, load64 m (a + 8), load64 m (a + 16), load64 m (a + 24), load64 m (a + 32)]"

lemma entry_save_effect:
  fixes s :: cpu and hook :: "cpu \<Rightarrow> cpu"
  defines "t \<equiv> exec_all hook entry_save s"
  shows "gpr t RDI = gpr s RSP - 120" "gpr t RSI = gpr s RSP" "gpr t RSP AND 15 = 0"
    "saved_registers_at (ram t) (gpr s RSP - 120) = registers_of s"
    "load64 (ram t) (gpr t RSP) = gpr s RSP - 120"
    "frame_words (ram t) (gpr s RSP) = frame_words (ram s) (gpr s RSP)"
proof -
  obtain b where b: "gpr s RSP = b + 120" using that [of "gpr s RSP - 120"] by simp
  obtain k where k: "(b AND - 16) - 16 = b - k" "16 \<le> unat k" "unat k < 32" by (rule scratch_below)
  note cells = scratch_apart [OF k(2,3), of "numeral n" for n] scratch_apart [OF k(2,3), of 0, simplified]
  show "gpr t RDI = gpr s RSP - 120" "gpr t RSI = gpr s RSP"
    by (simp_all add: t_def entry_save_def machine b)
  show "saved_registers_at (ram t) (gpr s RSP - 120) = registers_of s"
    by (simp add: t_def entry_save_def machine b k cells saved_registers_at_def registers_of_def)
  show "load64 (ram t) (gpr t RSP) = gpr s RSP - 120"
    by (simp add: t_def entry_save_def machine b k)
  show "gpr t RSP AND 15 = 0" by (simp add: t_def entry_save_def machine b aligned_down)
  show "frame_words (ram t) (gpr s RSP) = frame_words (ram s) (gpr s RSP)"
    by (simp add: t_def entry_save_def machine b k cells frame_words_def)
qed

lemma entry_restore_effect:
  fixes s :: cpu and hook :: "cpu \<Rightarrow> cpu"
  defines "t \<equiv> exec_all hook entry_restore s" and "b \<equiv> load64 (ram s) (gpr s RSP)"
  shows "registers_of t = saved_registers_at (ram s) b" "ram t = ram s"
    "frame_words (ram s) (b + 120) = [cpu_rip t, cpu_cs t, cpu_rflags t, gpr t RSP, cpu_ss t]"
  by (simp_all add: t_def b_def entry_restore_def machine registers_of_def saved_registers_at_def frame_words_def)

section \<open>Return paths\<close>

definition state_offsets :: "u64 list" where
  "state_offsets = map (\<lambda>i. of_nat (8 * i)) [0..<23]"

text \<open>No word of the snapshot at \<open>p\<close> overlaps the cell \<open>c\<close>.\<close>

definition state_apart :: "u64 \<Rightarrow> u64 \<Rightarrow> bool" where
  "state_apart p c \<longleftrightarrow> list_all (\<lambda>i. apart8 (p + i) c) state_offsets"

lemma state_apart_cells:
  "state_apart p c \<longleftrightarrow> list_all (\<lambda>i. apart8 c (p + i))
     [0, 8, 16, 24, 32, 40, 48, 56, 64, 72, 80, 88, 96, 104, 112, 120, 128, 136, 144, 152, 160, 168, 176]"
  by (simp add: state_apart_def state_offsets_def upt_rec apart8_sym)

lemma return_to_context_effect:
  "let n = context_at (ram s) (gpr s RDI); t = return_to_context s in
    gpr t RSP = c_rsp n \<and> gpr t RBP = c_rbp n \<and> gpr t RBX = c_rbx n \<and> gpr t R12 = c_r12 n \<and> gpr t R13 = c_r13 n
    \<and> gpr t R14 = c_r14 n \<and> gpr t R15 = c_r15 n \<and> cpu_rip t = c_rip n"
  by (simp add: return_to_context_def return_to_context_code_def machine context_at_def Let_def)

lemma return_to_kernel_effect:
  fixes s :: cpu
  defines "p \<equiv> gpr s RDI" and "r \<equiv> load64 (ram s) (gpr s RDI + 144)"
  assumes "state_apart p (r - 24)" "state_apart p (r - 16)" "state_apart p (r - 8)"
  shows "registers_of (return_to_kernel s) = saved_registers_at (ram s) p"
    "cpu_rip (return_to_kernel s) = load64 (ram s) (p + 120)"
    "cpu_cs (return_to_kernel s) = load64 (ram s) (p + 128)"
    "cpu_rflags (return_to_kernel s) = load64 (ram s) (p + 136)"
    "gpr (return_to_kernel s) RSP = load64 (ram s) r"
    "cpu_ss (return_to_kernel s) = load64 (ram s) (r + 8)"
proof -
  define b where "b = r - 24"
  have r: "r = b + 24" by (simp add: b_def)
  then have word: "load64 (ram s) (p + 144) = b + 24" by (simp add: r_def p_def)
  note cells = assms(3-5) [unfolded r state_apart_cells, simplified]
  note run = return_to_kernel_def return_to_kernel_code_def restore_code_def machine
    p_def [symmetric] word r
  show "registers_of (return_to_kernel s) = saved_registers_at (ram s) p"
    by (simp add: run cells registers_of_def saved_registers_at_def)
  show "cpu_rip (return_to_kernel s) = load64 (ram s) (p + 120)"
    "cpu_cs (return_to_kernel s) = load64 (ram s) (p + 128)"
    "cpu_rflags (return_to_kernel s) = load64 (ram s) (p + 136)"
    "gpr (return_to_kernel s) RSP = load64 (ram s) r"
    "cpu_ss (return_to_kernel s) = load64 (ram s) (r + 8)"
    by (simp_all add: run cells)
qed

lemma resume_user_effect:
  fixes s :: cpu
  defines "p \<equiv> gpr s RDI" and "t \<equiv> resume_user s"
  assumes "list_all (\<lambda>i. state_apart p (gpr s RSP - i)) [8, 16, 24, 32, 40]"
  shows "registers_of t = saved_registers_at (ram s) p"
    "cpu_rip t = load64 (ram s) (p + 120)" "cpu_cs t = load64 (ram s) (p + 128)"
    "cpu_rflags t = load64 (ram s) (p + 136)" "gpr t RSP = load64 (ram s) (p + 152)"
    "cpu_ss t = load64 (ram s) (p + 168)" "cpu_cr3 t = cpu_cr3 s"
proof -
  define b where "b = gpr s RSP - 40"
  have r: "gpr s RSP = b + 40" by (simp add: b_def)
  note cells = assms(3) [unfolded r state_apart_cells, simplified]
  note run = t_def resume_user_def resume_user_code_def restore_code_def machine p_def [symmetric] r
  show "registers_of t = saved_registers_at (ram s) p"
    by (simp add: run cells registers_of_def saved_registers_at_def)
  show "cpu_rip t = load64 (ram s) (p + 120)" "cpu_cs t = load64 (ram s) (p + 128)"
    "cpu_rflags t = load64 (ram s) (p + 136)" "gpr t RSP = load64 (ram s) (p + 152)"
    "cpu_ss t = load64 (ram s) (p + 168)" "cpu_cr3 t = cpu_cr3 s"
    by (simp_all add: run cells)
qed

lemma interrupt_push_effect:
  fixes s :: cpu and stack :: u64
  defines "t \<equiv> interrupt_push stack s"
  shows "registers_of t = registers_of s" "gpr t RSP = (stack AND - 16) - 40"
    "frame_words (ram t) (gpr t RSP) = [cpu_rip s, cpu_cs s, cpu_rflags s, gpr s RSP, cpu_ss s]"
proof -
  obtain b where b: "stack AND - 16 = b + 40" using that [of "(stack AND - 16) - 40"] by simp
  show "registers_of t = registers_of s" by (simp add: t_def interrupt_push_def machine registers_of_def)
  show "gpr t RSP = (stack AND - 16) - 40" by (simp add: t_def interrupt_push_def machine)
  show "frame_words (ram t) (gpr t RSP) = [cpu_rip s, cpu_cs s, cpu_rflags s, gpr s RSP, cpu_ss s]"
    by (simp add: t_def interrupt_push_def machine b frame_words_def)
qed

end
