(* ===== verification/X86_Machine_Properties.thy ===== *)
theory X86_Machine_Properties
  imports X86_Return_Paths
begin

text \<open>
  The properties of the assembly routines: the context switch and its way back, the interrupt entry
  stubs, the resumption of a preempted kernel task, and the transfer to user mode.
\<close>

section \<open>Concrete machines\<close>

lemma load64_zero [simp]: "load64 (\<lambda>_. 0) a = 0"
  by (simp add: load64_def eight)

definition demo_cpu :: cpu where
  "demo_cpu = \<lparr>gpr = (\<lambda>_. 0)(RSP := 0x8000, RBX := 7, RDI := 0x1000, RSI := 0x2000),
     ram = store64 (store64 (store64 (\<lambda>_. 0) 0x2000 0x9000) 0x2038 0x5000) 0x8000 0x4444,
     cpu_rip = 0x1111, cpu_cs = 8, cpu_ss = 0x10, cpu_rflags = 0x202, cpu_cr3 = 0\<rparr>"

text \<open>The switched-to task switches back.\<close>

definition demo_back :: cpu where
  "demo_back = set_gpr RSI 0x1000 (set_gpr RDI 0x2000 (switch demo_cpu))"

definition demo_snapshot :: InterruptedState where
  "demo_snapshot = \<lparr>is_registers = registers_of demo_cpu,
     is_return_state = \<lparr>rs_rip = 0x1111, rs_cs = 8, rs_rflags = 0x202, rs_resume_rsp = 0x7ff0, rs_rsp = None, rs_ss = None\<rparr>\<rparr>"

text \<open>A machine with that snapshot at 0x1000 and the two upper words of the frame.\<close>

definition demo_resuming :: cpu where
  "demo_resuming = demo_cpu\<lparr>ram := store64 (store64 (store64 (store64 (store64 (store64 (store64 (store64 (store64
     (\<lambda>_. 0) 0x1018 7) 0x1028 0x2000) 0x1030 0x1000) 0x1078 0x1111) 0x1080 8) 0x1088 0x202) 0x1090 0x7ff0)
     0x7ff0 0x8000) 0x7ff8 0x10\<rparr>"

definition demo_user_state :: InterruptedState where
  "demo_user_state = \<lparr>is_registers = registers_of (demo_cpu\<lparr>gpr := \<lambda>_. 0\<rparr>),
     is_return_state = \<lparr>rs_rip = 0x401000, rs_cs = 0x1b, rs_rflags = 0x202, rs_resume_rsp = 0x8000,
       rs_rsp = Some 0x7000, rs_ss = Some 0x13\<rparr>\<rparr>"

definition demo_transfer :: UserReturnTransfer where
  "demo_transfer = UserReturnTransfer_new \<lparr>ueb_process = ProcessId 0 1, ueb_task = TaskId 0 1,
     ueb_address_space = AddressSpaceId 1,
     ueb_launch = \<lparr>pul_address_space = AddressSpaceId 1, pul_root = AddressSpaceRoot 0x3000,
       pul_frame = \<lparr>urf_rip = 0x401000, urf_cs = 0x1b, urf_rflags = 0x202, urf_rsp = 0x7000, urf_ss = 0x13\<rparr>\<rparr>,
     ueb_resume = Some demo_user_state\<rparr>"

definition demo_user_memory :: byte_memory where
  "demo_user_memory = store64 (store64 (store64 (store64 (store64 (store64 (store64 (store64 (\<lambda>_. 0)
     0x1078 0x401000) 0x1080 0x1b) 0x1088 0x202) 0x1090 0x8000) 0x1098 1) 0x10a0 0x7000) 0x10a8 1) 0x10b0 0x13"

section \<open>Context switch\<close>

text \<open>
  C21: a task that gave up the processor in \<open>switch\<close> and is switched back to finds its callee-saved
  registers as they were and continues at the return address of its call. Its stack pointer is the one
  at entry of \<open>switch\<close>, still pointing at the return address: 8 bytes below the stack pointer that a
  plain return from the call gives.
\<close>

theorem switch_roundtrip:
  assumes "contexts_apart (gpr s RDI) (gpr s RSI)" "context_apart_cell (gpr s RDI) (gpr s RSP)"
    "context_apart_cell (gpr s RDI) (c_rsp (context_at (ram s) (gpr s RSI)) - 8)"
    and "context_at (ram t) (gpr t RSI) = context_at (ram (switch s)) (gpr s RDI)"
    "contexts_apart (gpr t RDI) (gpr t RSI)" "context_apart_cell (gpr t RDI) (gpr t RSP)"
  shows "gpr (switch t) RBP = gpr s RBP \<and> gpr (switch t) RBX = gpr s RBX \<and> gpr (switch t) R12 = gpr s R12
    \<and> gpr (switch t) R13 = gpr s R13 \<and> gpr (switch t) R14 = gpr s R14 \<and> gpr (switch t) R15 = gpr s R15
    \<and> cpu_rip (switch t) = cpu_rip (exec (\<lambda>s. s) Ret s)
    \<and> gpr (switch t) RSP + 8 = gpr (exec (\<lambda>s. s) Ret s) RSP"
proof -
  have "context_at (ram t) (gpr t RSI) = saved_context s" using assms(4) switch_saves [OF assms(1-3)] by simp
  then show ?thesis using switch_registers [OF assms(5,6)] by (simp add: Let_def saved_context_def machine)
qed

theorem switch_roundtrip_witness:
  "gpr (switch demo_back) RBX = 7 \<and> cpu_rip (switch demo_back) = 0x4444 \<and> gpr (switch demo_back) RSP = 0x8000"
proof -
  have c: "c_rsp (context_at (ram demo_cpu) 0x2000) = 0x9000"
    by (simp add: demo_cpu_def context_at_def)
  have apart: "contexts_apart 0x1000 0x2000" "contexts_apart 0x2000 0x1000" "context_apart_cell 0x1000 0x8000"
    "context_apart_cell 0x1000 (0x9000 - 8)" "context_apart_cell 0x2000 0x9000"
    by (simp_all add: apart_unfold)
  have g: "gpr demo_cpu RDI = 0x1000" "gpr demo_cpu RSI = 0x2000" "gpr demo_cpu RSP = 0x8000" "gpr demo_cpu RBX = 7"
    by (simp_all add: demo_cpu_def)
  have first: "contexts_apart (gpr demo_cpu RDI) (gpr demo_cpu RSI)" "context_apart_cell (gpr demo_cpu RDI) (gpr demo_cpu RSP)"
    "context_apart_cell (gpr demo_cpu RDI) (c_rsp (context_at (ram demo_cpu) (gpr demo_cpu RSI)) - 8)"
    using apart unfolding g c by simp_all
  have "gpr (switch demo_cpu) RSP = 0x9000" using switch_registers [OF first(1,2)] by (simp add: Let_def g c)
  then have t: "gpr demo_back RDI = 0x2000" "gpr demo_back RSI = 0x1000" "gpr demo_back RSP = 0x9000"
      "ram demo_back = ram (switch demo_cpu)"
    by (simp_all add: demo_back_def set_gpr_def)
  have "context_at (ram demo_back) (gpr demo_back RSI) = context_at (ram (switch demo_cpu)) (gpr demo_cpu RDI)"
    "contexts_apart (gpr demo_back RDI) (gpr demo_back RSI)" "context_apart_cell (gpr demo_back RDI) (gpr demo_back RSP)"
    using apart unfolding t g by simp_all
  from switch_roundtrip [OF first this] show ?thesis using g
    by (simp add: set_gpr_def) (simp add: demo_cpu_def)
qed

section \<open>Interrupt entry\<close>

text \<open>
  C22: the entry stubs hand the hook the fifteen general registers as they were at the interrupt and the
  untouched frame, on a 16-byte aligned stack. When the hook returns with the stack pointer and the
  scratch word as it found them, the stub returns with the registers of the saved area and through the
  frame, as the hook left both.
\<close>

theorem interrupt_stub_exact:
  fixes s :: cpu and hook :: "cpu \<Rightarrow> cpu"
  defines "e \<equiv> exec_all hook entry_save s"
  assumes "gpr (hook e) RSP = gpr e RSP" "load64 (ram (hook e)) (gpr e RSP) = load64 (ram e) (gpr e RSP)"
  shows "gpr e RDI = gpr s RSP - 120 \<and> gpr e RSI = gpr s RSP \<and> gpr e RSP AND 15 = 0
    \<and> saved_registers_at (ram e) (gpr e RDI) = registers_of s
    \<and> frame_words (ram e) (gpr e RSI) = frame_words (ram s) (gpr s RSP)
    \<and> registers_of (timer_entry hook s) = saved_registers_at (ram (hook e)) (gpr s RSP - 120)
    \<and> frame_words (ram (hook e)) (gpr s RSP) =
        [cpu_rip (timer_entry hook s), cpu_cs (timer_entry hook s), cpu_rflags (timer_entry hook s),
         gpr (timer_entry hook s) RSP, cpu_ss (timer_entry hook s)]
    \<and> syscall_entry hook s = timer_entry hook s"
proof -
  have run: "timer_entry hook s = exec_all hook entry_restore (hook e)"
    by (simp add: timer_entry_def exec_all_append e_def)
  have same: "syscall_entry hook s = timer_entry hook s" by (simp add: syscall_entry_def timer_entry_def)
  have b: "load64 (ram (hook e)) (gpr (hook e) RSP) = gpr s RSP - 120"
    using assms(2,3) entry_save_effect(5) [of hook s] by (simp add: e_def)
  show ?thesis
    using entry_save_effect [of hook s] entry_restore_effect [where hook = hook and s = "hook e", unfolded b]
    by (simp add: same run e_def [symmetric])
qed

theorem interrupt_stub_exact_witness:
  "registers_of (timer_entry (\<lambda>s. s) demo_cpu) = registers_of demo_cpu \<and> cpu_rip (timer_entry (\<lambda>s. s) demo_cpu) = 0x4444"
proof -
  have "load64 (ram demo_cpu) (gpr demo_cpu RSP) = 0x4444" by (simp add: demo_cpu_def)
  then show ?thesis using interrupt_stub_exact [of "\<lambda>s. s" demo_cpu] by (auto simp: frame_words_def)
qed

section \<open>Kernel preemption\<close>

text \<open>
  C23: a kernel task interrupted by the timer, captured by the hook and later resumed by
  \<open>return_to_kernel\<close> continues with exactly its registers, instruction pointer, flags, stack pointer and
  segments, when the two words above the three it rewrites still hold what the processor pushed there.
\<close>

theorem kernel_preemption_roundtrip:
  fixes s :: cpu and hook :: "cpu \<Rightarrow> cpu"
  defines "i \<equiv> interrupt_push (gpr s RSP) s"
  defines "e \<equiv> exec_all hook entry_save i"
  assumes "cpu_cs s AND 3 = 0"
    and "interrupted_capture (ram e) (gpr e RDI) (InterruptReturnFrame (gpr e RSI)) = Some st"
    and "interrupted_state_at tag_first (ram t) (gpr t RDI) = st"
    and "load64 (ram t) (gpr i RSP + 24) = load64 (ram i) (gpr i RSP + 24)"
    and "load64 (ram t) (gpr i RSP + 32) = load64 (ram i) (gpr i RSP + 32)"
    and "state_apart (gpr t RDI) (gpr i RSP)" "state_apart (gpr t RDI) (gpr i RSP + 8)"
      "state_apart (gpr t RDI) (gpr i RSP + 16)"
  shows "registers_of (return_to_kernel t) = registers_of s \<and> cpu_rip (return_to_kernel t) = cpu_rip s
    \<and> cpu_cs (return_to_kernel t) = cpu_cs s \<and> cpu_rflags (return_to_kernel t) = cpu_rflags s
    \<and> gpr (return_to_kernel t) RSP = gpr s RSP \<and> cpu_ss (return_to_kernel t) = cpu_ss s"
proof -
  define f where "f = gpr i RSP"
  have w: "load64 (ram e) f = cpu_rip s" "load64 (ram e) (f + 8) = cpu_cs s" "load64 (ram e) (f + 16) = cpu_rflags s"
    "load64 (ram i) (f + 24) = gpr s RSP" "load64 (ram i) (f + 32) = cpu_ss s"
    using entry_save_effect(6) [of hook i] interrupt_push_effect(3) [of "gpr s RSP" s]
    by (simp_all add: e_def i_def f_def frame_words_def)
  have regs: "saved_registers_at (ram e) (gpr e RDI) = registers_of s" and rsi: "gpr e RSI = f"
    using entry_save_effect(1,2,4) [of hook i] interrupt_push_effect(1) [of "gpr s RSP" s]
    by (simp_all add: e_def i_def f_def)
  have st: "is_registers st = registers_of s" "rs_rip (is_return_state st) = cpu_rip s"
    "rs_cs (is_return_state st) = cpu_cs s" "rs_rflags (is_return_state st) = cpu_rflags s"
    "rs_resume_rsp (is_return_state st) = f + 24"
    using assms(3,4) regs
    by (auto simp: interrupted_capture_def return_state_capture_def frame_resume_rsp_def frame_rip_def frame_cs_def
        frame_rflags_def SAME_CPL_FRAME_BYTES_def rsi w checked_add_def Let_def split: option.splits if_splits)
  have "saved_registers_at (ram t) (gpr t RDI) = registers_of s" "load64 (ram t) (gpr t RDI + 120) = cpu_rip s"
    "load64 (ram t) (gpr t RDI + 128) = cpu_cs s" "load64 (ram t) (gpr t RDI + 136) = cpu_rflags s"
    and r: "load64 (ram t) (gpr t RDI + 144) = f + 24"
    using st by (simp_all add: assms(5) [symmetric] interrupted_state_at_def)
  then show ?thesis using return_to_kernel_effect [of t, unfolded r] assms(6-10) w by (simp add: f_def)
qed

theorem kernel_preemption_roundtrip_witness:
  "registers_of (return_to_kernel demo_resuming) = registers_of demo_cpu
   \<and> cpu_rip (return_to_kernel demo_resuming) = 0x1111 \<and> gpr (return_to_kernel demo_resuming) RSP = 0x8000"
proof -
  let ?i = "interrupt_push 0x8000 demo_cpu"
  let ?e = "exec_all (\<lambda>s. s) entry_save ?i"
  have g: "gpr demo_cpu RSP = 0x8000" "cpu_rip demo_cpu = 0x1111" "cpu_cs demo_cpu = 8" "cpu_rflags demo_cpu = 0x202"
    "cpu_ss demo_cpu = 0x10" by (simp_all add: demo_cpu_def)
  have f: "gpr ?i RSP = 0x7fd8" using interrupt_push_effect(2) [of "0x8000" demo_cpu] by (simp add: g)
  have w: "load64 (ram ?e) 0x7fd8 = 0x1111" "load64 (ram ?e) 0x7fe0 = 8" "load64 (ram ?e) 0x7fe8 = 0x202"
    "load64 (ram ?i) 0x7ff0 = 0x8000" "load64 (ram ?i) 0x7ff8 = 0x10"
    using interrupt_push_effect(3) [of "0x8000" demo_cpu] entry_save_effect(6) [of "\<lambda>s. s" ?i]
    by (simp_all add: f frame_words_def g)
  have "saved_registers_at (ram ?e) (gpr ?e RDI) = registers_of demo_cpu" "gpr ?e RSI = 0x7fd8"
    using entry_save_effect(1,2,4) [of "\<lambda>s. s" ?i] interrupt_push_effect(1) [of "0x8000" demo_cpu]
    by (simp_all add: f)
  then have cap: "interrupted_capture (ram ?e) (gpr ?e RDI) (InterruptReturnFrame (gpr ?e RSI)) = Some demo_snapshot"
    by (simp add: interrupted_capture_def return_state_capture_def frame_resume_rsp_def frame_rip_def frame_cs_def
        frame_rflags_def frame_rsp_def frame_ss_def SAME_CPL_FRAME_BYTES_def w checked_add_def demo_snapshot_def)
  have t: "interrupted_state_at True (ram demo_resuming) (gpr demo_resuming RDI) = demo_snapshot"
    "load64 (ram demo_resuming) 0x7ff0 = 0x8000" "load64 (ram demo_resuming) 0x7ff8 = 0x10" "gpr demo_resuming RDI = 0x1000"
    by (simp_all add: demo_resuming_def demo_cpu_def interrupted_state_at_def saved_registers_at_def option_u64_at_def
        demo_snapshot_def registers_of_def)
  have "state_apart 0x1000 0x7fd8" "state_apart 0x1000 0x7fe0" "state_apart 0x1000 0x7fe8" by (simp_all add: state_apart_cells)
  then show ?thesis using kernel_preemption_roundtrip [where s = demo_cpu, unfolded g, OF _ cap t(1)] by (simp add: f w t g)
qed

section \<open>Transfer to user mode\<close>

text \<open>
  C24: a validated transfer loads the page-table root of its task and enters user mode. A first launch
  starts with the instruction pointer, flags, stack and selectors of its frame. A resumed task gets its
  fifteen registers, instruction pointer, code segment and flags back; its stack pointer and stack
  segment are right when the payload is the first word of an \<open>Option<u64>\<close>, and are both the tag 1 when
  the tag comes first.
\<close>

theorem execute_user_transfer_exact:
  assumes "urt_validate tr None = Inr tr'"
    and "case urt_resume tr of None \<Rightarrow> user_frame_at (ram s) a = urt_frame tr
         | Some st \<Rightarrow> interrupted_state_at tag_first (ram s) a = st
             \<and> list_all (\<lambda>i. state_apart a (gpr s RSP - i)) [8, 16, 24, 32, 40]"
  shows "\<exists>u. execute_user_transfer tr a s = Some u \<and> cpu_cr3 u = root_frame (urt_root tr)
    \<and> (case urt_resume tr of
         None \<Rightarrow> \<lparr>urf_rip = cpu_rip u, urf_cs = cpu_cs u, urf_rflags = cpu_rflags u, urf_rsp = gpr u RSP,
                   urf_ss = cpu_ss u\<rparr> = urt_frame tr
       | Some st \<Rightarrow> registers_of u = is_registers st \<and> cpu_rip u = rs_rip (is_return_state st)
           \<and> cpu_cs u = rs_cs (is_return_state st) \<and> cpu_rflags u = rs_rflags (is_return_state st)
           \<and> (if tag_first then gpr u RSP = 1 \<and> cpu_ss u = 1
              else rs_rsp (is_return_state st) = Some (gpr u RSP) \<and> rs_ss (is_return_state st) = Some (cpu_ss u)))"
proof (cases "urt_resume tr")
  case None
  then show ?thesis using assms
    by (simp add: execute_user_transfer_def enter_user_def machine activate_def disable_interrupts_def
        user_frame_at_def Let_def)
next
  case (Some st)
  define s2 where "s2 = set_gpr RDI a (activate (urt_root tr) (disable_interrupts s))"
  have s2: "ram s2 = ram s" "gpr s2 RDI = a" "gpr s2 RSP = gpr s RSP" "cpu_cr3 s2 = root_frame (urt_root tr)"
    by (simp_all add: s2_def machine activate_def disable_interrupts_def)
  have run: "execute_user_transfer tr a s = Some (resume_user s2)"
    using Some assms(1) by (simp add: execute_user_transfer_def s2_def Let_def)
  have st: "interrupted_state_at tag_first (ram s) a = st" using assms(2) Some by simp
  have "list_all (\<lambda>i. state_apart a (gpr s RSP - i)) [8, 16, 24, 32, 40]" using assms(2) unfolding Some by simp
  note effect = resume_user_effect [of s2, unfolded s2, OF this]
  have "interrupted_user_valid st" using assms(1) Some by (simp add: urt_validate_def split: if_splits)
  then have "rs_rsp (is_return_state st) \<noteq> None" "rs_ss (is_return_state st) \<noteq> None"
    by (auto simp: interrupted_user_valid_def Let_def split: if_splits option.splits)
  then show ?thesis unfolding run
    using Some effect by (auto simp: st [symmetric] interrupted_state_at_def option_u64_at_def Let_def split: if_splits)
qed

theorem execute_user_transfer_exact_witness:
  "\<exists>u. execute_user_transfer demo_transfer 0x1000 (demo_cpu\<lparr>ram := demo_user_memory\<rparr>) = Some u
     \<and> cpu_cr3 u = 0x3000 \<and> cpu_rip u = 0x401000 \<and> gpr u RSP = 1
     \<and> rs_rsp (is_return_state demo_user_state) = Some 0x7000"
proof -
  have v: "urt_validate demo_transfer None = Inr demo_transfer" by code_simp
  have r: "urt_resume demo_transfer = Some demo_user_state" "urt_root demo_transfer = AddressSpaceRoot 0x3000"
    by (simp_all add: demo_transfer_def urt_resume_def urt_root_def UserReturnTransfer_new_def)
  have "interrupted_state_at True demo_user_memory 0x1000 = demo_user_state"
    by (simp add: demo_user_memory_def interrupted_state_at_def saved_registers_at_def option_u64_at_def
        demo_user_state_def registers_of_def)
  moreover have "list_all (\<lambda>i. state_apart 0x1000 (gpr demo_cpu RSP - i)) [8, 16, 24, 32, 40]"
    by (simp add: demo_cpu_def state_apart_cells)
  ultimately show ?thesis
    using execute_user_transfer_exact [OF v, of "demo_cpu\<lparr>ram := demo_user_memory\<rparr>" "0x1000" True]
    by (simp add: r) (auto simp: demo_user_state_def)
qed

end
