(* ===== verification/X86_Gdt.thy ===== *)
theory X86_Gdt
  imports X86_Frames Demo_Crate
begin

text \<open>
  The global descriptor table and the task state segment (\<open>gdt.rs\<close>). The table type of the crate
  \<open>x86_64\<close> is a record of operations; a \<open>Once\<close> cell is an option, and a panic is \<open>None\<close>. Loading the
  table and the segment registers are instructions.
\<close>

section \<open>Tables\<close>

definition KERNEL_ENTRY_STACK_SIZE :: u64 where "KERNEL_ENTRY_STACK_SIZE = 32 * 1024"

definition DOUBLE_FAULT_STACK_SIZE :: u64 where "DOUBLE_FAULT_STACK_SIZE = 32 * 1024"

text \<open>The two entries of the task state segment that the kernel sets.\<close>

record TaskStateSegment =
  tss_privilege_stack :: u64
  tss_double_fault_stack :: u64

datatype Descriptor = KernelCodeSegment | KernelDataSegment | UserDataSegment | UserCodeSegment | TssSegment

text \<open>The index of the descriptor that a new selector refers to, and the extended table.\<close>

record 'g GdtCrate =
  gdt_new :: 'g
  gdt_append :: "'g \<Rightarrow> Descriptor \<Rightarrow> u16 \<times> 'g"

record 'g GdtState =
  gs_table :: 'g
  gs_kernel_code :: u16
  gs_kernel_data :: u16
  gs_user_data :: u16
  gs_user_code :: u16
  gs_tss_selector :: u16

record 'g GdtStatics =
  static_TSS :: "TaskStateSegment option"
  static_GDT :: "'g GdtState option"

section \<open>Operations\<close>

text \<open>The end of a static stack: \<open>VirtAddr::from_ptr\<close> and the checked addition of its size.\<close>

definition stack_end :: "'pt X86Crate \<Rightarrow> u64 \<Rightarrow> u64 \<Rightarrow> u64 option" where
  "stack_end C stack bytes =
     Option.bind (virt_addr_new C stack) (\<lambda>start. Option.bind (checked_add start bytes) (virt_addr_new C))"

definition tss_init :: "'pt X86Crate \<Rightarrow> u64 \<Rightarrow> u64 \<Rightarrow> TaskStateSegment option" where
  "tss_init C kernel_stack double_fault_stack =
     Option.bind (stack_end C kernel_stack KERNEL_ENTRY_STACK_SIZE) (\<lambda>kernel_stack_end.
     Option.bind (stack_end C double_fault_stack DOUBLE_FAULT_STACK_SIZE) (\<lambda>fault_stack_end.
     Some \<lparr>tss_privilege_stack = kernel_stack_end, tss_double_fault_stack = fault_stack_end\<rparr>))"

definition gdt_table :: "'g GdtCrate \<Rightarrow> 'g GdtState option" where
  "gdt_table G =
     (let (kernel_code, t1) = gdt_append G (gdt_new G) KernelCodeSegment;
          (kernel_data, t2) = gdt_append G t1 KernelDataSegment;
          (user_data, t3) = gdt_append G t2 UserDataSegment;
          (user_code, t4) = gdt_append G t3 UserCodeSegment;
          (tss_selector, t5) = gdt_append G t4 TssSegment;
          actual_user_data = push_bit 3 user_data OR 3;
          actual_user_code = push_bit 3 user_code OR 3
      in if actual_user_data \<noteq> USER_DATA_SELECTOR then None
         else if actual_user_code \<noteq> USER_CODE_SELECTOR then None
         else Some \<lparr>gs_table = t5, gs_kernel_code = kernel_code, gs_kernel_data = kernel_data,
                    gs_user_data = user_data, gs_user_code = user_code, gs_tss_selector = tss_selector\<rparr>)"

definition gdt_init ::
  "'pt X86Crate \<Rightarrow> 'g GdtCrate \<Rightarrow> u64 \<Rightarrow> u64 \<Rightarrow> 'g GdtStatics \<Rightarrow> 'g GdtStatics option" where
  "gdt_init C G kernel_stack double_fault_stack st =
     (case (case static_TSS st of None \<Rightarrow> tss_init C kernel_stack double_fault_stack | Some tss \<Rightarrow> Some tss) of
        None \<Rightarrow> None
      | Some tss \<Rightarrow>
          (case (case static_GDT st of None \<Rightarrow> gdt_table G | Some g \<Rightarrow> Some g) of
             None \<Rightarrow> None
           | Some g \<Rightarrow> Some (st\<lparr>static_TSS := Some tss, static_GDT := Some g\<rparr>)))"

definition set_kernel_stack_top ::
  "'pt X86Crate \<Rightarrow> TaskStateSegment option \<Rightarrow> u64 \<Rightarrow> TaskStateSegment option option" where
  "set_kernel_stack_top C tss stack_top =
     (case tss of
        None \<Rightarrow> None
      | Some t \<Rightarrow>
          (case virt_addr_new C stack_top of
             None \<Rightarrow> None
           | Some address \<Rightarrow> Some (Some (t\<lparr>tss_privilege_stack := address\<rparr>))))"

definition kernel_code_selector :: "'g GdtStatics \<Rightarrow> u16 option" where
  "kernel_code_selector st = map_option (\<lambda>g. push_bit 3 (gs_kernel_code g)) (static_GDT st)"

definition user_code_selector :: "'g GdtStatics \<Rightarrow> u16 option" where
  "user_code_selector st = map_option (\<lambda>g. push_bit 3 (gs_user_code g) OR 3) (static_GDT st)"

definition user_data_selector :: "'g GdtStatics \<Rightarrow> u16 option" where
  "user_data_selector st = map_option (\<lambda>g. push_bit 3 (gs_user_data g) OR 3) (static_GDT st)"

section \<open>The documented behaviour of the table\<close>

text \<open>
  A new table holds the null descriptor. Appending uses the next free entry, two entries for a task
  state segment, as long as the default table of eight entries has room.
\<close>

definition descriptor_entries :: "Descriptor \<Rightarrow> nat" where
  "descriptor_entries d = (if d = TssSegment then 2 else 1)"

definition gdt_laws :: "'g GdtCrate \<Rightarrow> ('g \<Rightarrow> nat) \<Rightarrow> bool" where
  "gdt_laws G used \<longleftrightarrow> used (gdt_new G) = 1
     \<and> (\<forall>g d. used g + descriptor_entries d \<le> 8 \<longrightarrow>
           fst (gdt_append G g d) = of_nat (used g)
           \<and> used (snd (gdt_append G g d)) = used g + descriptor_entries d)"

lemma gdt_lawsD:
  assumes "gdt_laws G used" "used g = n" "n + descriptor_entries d \<le> 8" "gdt_append G g d = (i, g')"
  shows "i = of_nat n" "used g' = n + descriptor_entries d"
  using assms unfolding gdt_laws_def by (metis fst_conv snd_conv)+

text \<open>The indexes of the five descriptors of \<open>init\<close>.\<close>

lemma gdt_indexes:
  assumes "gdt_laws G used"
    and "gdt_append G (gdt_new G) KernelCodeSegment = (kernel_code, t1)"
    and "gdt_append G t1 KernelDataSegment = (kernel_data, t2)"
    and "gdt_append G t2 UserDataSegment = (user_data, t3)"
    and "gdt_append G t3 UserCodeSegment = (user_code, t4)"
  shows "kernel_code = 1" "kernel_data = 2" "user_data = 3" "user_code = 4"
proof -
  note law = gdt_lawsD [OF assms(1)] and n = descriptor_entries_def
  have 0: "used (gdt_new G) = 1" using assms(1) by (simp add: gdt_laws_def)
  have 1: "kernel_code = 1" "used t1 = 2" using law [OF 0 _ assms(2)] by (simp_all add: n)
  have 2: "kernel_data = 2" "used t2 = 3" using law [OF 1(2) _ assms(3)] by (simp_all add: n)
  have 3: "user_data = 3" "used t3 = 4" using law [OF 2(2) _ assms(4)] by (simp_all add: n)
  have 4: "user_code = 4" using law [OF 3(2) _ assms(5)] by (simp_all add: n)
  show "kernel_code = 1" "kernel_data = 2" "user_data = 3" "user_code = 4" using 1 2 3 4 by simp_all
qed

section \<open>Initialisation\<close>

lemma gdt_table_none:
  assumes "gdt_laws G used"
  shows "gdt_table G = None"
proof -
  obtain kernel_code t1 kernel_data t2 user_data t3 user_code t4 tss t5 where a:
    "gdt_append G (gdt_new G) KernelCodeSegment = (kernel_code, t1)" "gdt_append G t1 KernelDataSegment = (kernel_data, t2)"
    "gdt_append G t2 UserDataSegment = (user_data, t3)" "gdt_append G t3 UserCodeSegment = (user_code, t4)"
    "gdt_append G t4 TssSegment = (tss, t5)"
    by (metis surj_pair)
  show ?thesis
    by (simp add: gdt_table_def a gdt_indexes(3) [OF assms a(1-4)] USER_DATA_SELECTOR_def push_bit_eq_mult)
qed

lemma gdt_init_none: "gdt_laws G used \<Longrightarrow> static_GDT st = None \<Longrightarrow> gdt_init C G kernel_stack double_fault_stack st = None"
  by (simp add: gdt_init_def gdt_table_none split: option.split)

text \<open>
  With descriptors appended in the order of \<open>init\<close> the ring-3 data and code descriptors get the
  indexes 3 and 4, so their selectors are 0x1b and 0x23 instead of the constants 0x13 and 0x1b: the
  first initialisation of the table panics, and no selector is ever published.
\<close>

theorem gdt_init_panics:
  assumes "gdt_laws G used" "static_GDT st = None"
  shows "gdt_init C G kernel_stack double_fault_stack st = None
    \<and> (\<exists>t. gdt_append G (snd (gdt_append G (snd (gdt_append G (gdt_new G) KernelCodeSegment)) KernelDataSegment))
          UserDataSegment = (3, t) \<and> push_bit 3 3 OR 3 \<noteq> USER_DATA_SELECTOR)"
proof -
  obtain kernel_code t1 kernel_data t2 user_data t3 user_code t4 tss t5 where a:
    "gdt_append G (gdt_new G) KernelCodeSegment = (kernel_code, t1)" "gdt_append G t1 KernelDataSegment = (kernel_data, t2)"
    "gdt_append G t2 UserDataSegment = (user_data, t3)" "gdt_append G t3 UserCodeSegment = (user_code, t4)"
    "gdt_append G t4 TssSegment = (tss, t5)"
    by (metis surj_pair)
  note i = gdt_indexes [OF assms(1) a(1-4)]
  have ne: "push_bit 3 3 OR 3 \<noteq> USER_DATA_SELECTOR" by (simp add: USER_DATA_SELECTOR_def push_bit_eq_mult)
  then show ?thesis using gdt_init_none [OF assms] by (simp add: a i)
qed

text \<open>A table of the crate's shape: the appended descriptors, the null descriptor first.\<close>

definition list_gdt :: "Descriptor option list GdtCrate" where
  "list_gdt = \<lparr>gdt_new = [None],
     gdt_append = (\<lambda>g d. (of_nat (length g), g @ replicate (descriptor_entries d) (Some d)))\<rparr>"

theorem gdt_init_panics_witness:
  "gdt_laws list_gdt length
   \<and> gdt_init demo_crate list_gdt 0 0 \<lparr>static_TSS = None, static_GDT = None\<rparr> = None"
proof -
  have "gdt_laws list_gdt length" by (simp add: gdt_laws_def list_gdt_def)
  moreover have "static_GDT \<lparr>static_TSS = None, static_GDT = None\<rparr> = None" by simp
  ultimately show ?thesis using gdt_init_panics by blast
qed

end
