(* ===== verification/X86_Execution.thy ===== *)
theory X86_Execution
  imports X86_Bindings
begin

text \<open>
  Kernel execution state: activation records (\<open>activation.rs\<close>), execution bindings with their kernel
  stack (\<open>execution.rs\<close>), the registry of bindings (\<open>execution_registry.rs\<close>), transition validation
  (\<open>dispatch.rs\<close>), the privilege stack of the task state segment (\<open>gdt.rs\<close>) and the kernel task manager
  (\<open>kernel_task.rs\<close>). The addresses that the heap hands out for a new binding are an argument.
\<close>

section \<open>Execution bindings\<close>

text \<open>A boxed record carries the address of its box.\<close>

record ActivationRecord =
  ar_task_id :: TaskId
  ar_entry :: u64
  ar_pointer :: u64

definition ActivationRecord_new :: "u64 \<Rightarrow> TaskId \<Rightarrow> u64 \<Rightarrow> ActivationRecord" where
  "ActivationRecord_new box_address tid entry = \<lparr>ar_task_id = tid, ar_entry = entry, ar_pointer = box_address\<rparr>"

text \<open>
  What the heap and the linker supply for a new binding: the stack buffer unless its reservation
  fails, the boxes of the activation record and of the binding's context, and the trampoline.
\<close>

record NewBinding =
  nb_stack :: "u64 option"
  nb_activation :: u64
  nb_context :: u64
  nb_trampoline :: u64

definition KERNEL_STACK_SIZE :: u64 where "KERNEL_STACK_SIZE = 32 * 1024"

datatype ExecutionError = StackAllocationFailed | InvalidStack | InterruptedStateAlreadyPresent

text \<open>The stack vector is its address and length, its bytes are not read by this code.\<close>

record X86ExecutionBinding =
  xb_task_id :: TaskId
  xb_stack :: u64
  xb_stack_len :: u64
  xb_activation :: ActivationRecord
  xb_context :: Context
  xb_context_address :: u64
  xb_interrupted :: "InterruptedState option"

definition bootstrap_kernel_context :: "u64 \<Rightarrow> u64 \<Rightarrow> ActivationRecord \<Rightarrow> Context option" where
  "bootstrap_kernel_context trampoline stack_top activation =
     bootstrap_context stack_top (ar_pointer activation) trampoline"

definition X86ExecutionBinding_new :: "NewBinding \<Rightarrow> TaskId \<Rightarrow> u64 \<Rightarrow> ExecutionError + X86ExecutionBinding" where
  "X86ExecutionBinding_new nb tid entry =
     and_then (ok_or (nb_stack nb) StackAllocationFailed) (\<lambda>stack.
     let activation = ActivationRecord_new (nb_activation nb) tid entry
     in and_then (ok_or (checked_add stack KERNEL_STACK_SIZE) InvalidStack) (\<lambda>stack_top.
        and_then (ok_or (bootstrap_kernel_context (nb_trampoline nb) stack_top activation) InvalidStack) (\<lambda>ctx.
        Inr \<lparr>xb_task_id = tid, xb_stack = stack, xb_stack_len = KERNEL_STACK_SIZE, xb_activation = activation,
             xb_context = ctx, xb_context_address = nb_context nb, xb_interrupted = None\<rparr>)))"

definition xb_stack_top :: "X86ExecutionBinding \<Rightarrow> u64 option" where
  "xb_stack_top b = checked_add (xb_stack b) (xb_stack_len b)"

definition xb_install_interrupted ::
  "X86ExecutionBinding \<Rightarrow> InterruptedState \<Rightarrow> (ExecutionError + unit) \<times> X86ExecutionBinding" where
  "xb_install_interrupted b snapshot =
     (if xb_interrupted b \<noteq> None then (Inl InterruptedStateAlreadyPresent, b)
      else if \<not> interrupted_valid snapshot then (Inl InvalidStack, b)
      else (Inr (), b\<lparr>xb_interrupted := Some snapshot\<rparr>))"

definition xb_capture_interrupted ::
  "byte_memory \<Rightarrow> X86ExecutionBinding \<Rightarrow> u64 \<Rightarrow> InterruptReturnFrame \<Rightarrow>
     ((ExecutionError + unit) \<times> X86ExecutionBinding) option" where
  "xb_capture_interrupted m b registers frame =
     (if xb_interrupted b \<noteq> None then Some (Inl InterruptedStateAlreadyPresent, b)
      else case interrupted_capture m registers frame of
             None \<Rightarrow> None
           | Some snapshot \<Rightarrow> Some (xb_install_interrupted b snapshot))"

definition xb_take_interrupted :: "X86ExecutionBinding \<Rightarrow> InterruptedState option \<times> X86ExecutionBinding" where
  "xb_take_interrupted b = (xb_interrupted b, b\<lparr>xb_interrupted := None\<rparr>)"

definition xb_is_bootstrapped :: "X86ExecutionBinding \<Rightarrow> bool" where
  "xb_is_bootstrapped b \<longleftrightarrow> context_initialized (xb_context b) \<and> xb_stack_len b = KERNEL_STACK_SIZE
     \<and> ar_task_id (xb_activation b) = xb_task_id b"

definition xb_validate :: "X86ExecutionBinding \<Rightarrow> ExecutionError + unit" where
  "xb_validate b =
     (if xb_stack_len b \<noteq> KERNEL_STACK_SIZE \<or> \<not> context_initialized (xb_context b)
         \<or> ar_task_id (xb_activation b) \<noteq> xb_task_id b
         \<or> c_r12 (xb_context b) \<noteq> ar_pointer (xb_activation b)
         \<or> (case xb_interrupted b of None \<Rightarrow> False | Some st \<Rightarrow> \<not> interrupted_valid st)
         \<or> xb_stack_top b = None
      then Inl InvalidStack else Inr ())"

section \<open>Registry\<close>

datatype RegistryInsertError = RegAlreadyBound | RegAllocation

datatype InterruptCaptureError = CapTaskNotFound | CapExecution ExecutionError

record ExecutionRegistry =
  er_entries :: "X86ExecutionBinding option list"

definition ExecutionRegistry_new :: ExecutionRegistry where
  "ExecutionRegistry_new = \<lparr>er_entries = []\<rparr>"

definition er_get :: "ExecutionRegistry \<Rightarrow> TaskId \<Rightarrow> X86ExecutionBinding option" where
  "er_get r tid = find_slot (\<lambda>b. xb_task_id b = tid) (er_entries r)"

text \<open>The write through the reference of \<open>get_mut\<close>.\<close>

definition er_put :: "ExecutionRegistry \<Rightarrow> TaskId \<Rightarrow> X86ExecutionBinding option \<Rightarrow> ExecutionRegistry" where
  "er_put r tid v = r\<lparr>er_entries := put_slot (\<lambda>b. xb_task_id b = tid) v (er_entries r)\<rparr>"

definition er_insert ::
  "NewBinding \<Rightarrow> ExecutionRegistry \<Rightarrow> ExecutionHandle \<Rightarrow> u64 \<Rightarrow> (RegistryInsertError + unit) \<times> ExecutionRegistry" where
  "er_insert nb r handle entry =
     (let tid = handle_task_id handle
      in if er_get r tid \<noteq> None then (Inl RegAlreadyBound, r)
         else case X86ExecutionBinding_new nb tid entry of
                Inl _ \<Rightarrow> (Inl RegAllocation, r)
              | Inr b \<Rightarrow> (Inr (), r\<lparr>er_entries := fill_slot b (er_entries r)\<rparr>))"

definition er_remove :: "ExecutionRegistry \<Rightarrow> ExecutionHandle \<Rightarrow> bool \<times> ExecutionRegistry" where
  "er_remove r handle =
     (let tid = handle_task_id handle
      in if er_get r tid = None then (False, r) else (True, er_put r tid None))"

definition kernel_stack_top :: "ExecutionRegistry \<Rightarrow> TaskId \<Rightarrow> u64 option" where
  "kernel_stack_top r tid = Option.bind (er_get r tid) xb_stack_top"

definition er_capture_interrupted ::
  "byte_memory \<Rightarrow> ExecutionRegistry \<Rightarrow> TaskId \<Rightarrow> u64 \<Rightarrow> InterruptReturnFrame \<Rightarrow>
     ((InterruptCaptureError + InterruptedState) \<times> ExecutionRegistry) option" where
  "er_capture_interrupted m r tid registers frame =
     (case er_get r tid of
        None \<Rightarrow> Some (Inl CapTaskNotFound, r)
      | Some b \<Rightarrow>
          (case xb_capture_interrupted m b registers frame of
             None \<Rightarrow> None
           | Some (Inl e, b') \<Rightarrow> Some (Inl (CapExecution e), er_put r tid (Some b'))
           | Some (Inr _, b') \<Rightarrow>
               Some (ok_or (xb_interrupted b') (CapExecution InvalidStack), er_put r tid (Some b'))))"

definition preemption_plan :: "ExecutionRegistry \<Rightarrow> TaskId \<Rightarrow> PreemptionPlan option" where
  "preemption_plan r tid =
     (case er_get r tid of
        None \<Rightarrow> None
      | Some b \<Rightarrow>
          (case xb_interrupted b of
             Some st \<Rightarrow>
               if kernel_iret_words (is_return_state st) \<noteq> None then Some (IretKernel tid st)
               else if context_initialized (xb_context b) then Some (ReturnToContext tid (xb_context b)) else None
           | None \<Rightarrow>
               if context_initialized (xb_context b) then Some (ReturnToContext tid (xb_context b)) else None))"

definition take_kernel_preempt_state ::
  "ExecutionRegistry \<Rightarrow> TaskId \<Rightarrow> InterruptedState option \<times> ExecutionRegistry" where
  "take_kernel_preempt_state r tid =
     (case er_get r tid of
        None \<Rightarrow> (None, r)
      | Some b \<Rightarrow>
          (case xb_interrupted b of
             None \<Rightarrow> (None, r)
           | Some st \<Rightarrow>
               if kernel_iret_words (is_return_state st) = None then (None, r)
               else let (taken, b') = xb_take_interrupted b in (taken, er_put r tid (Some b'))))"

definition er_index_of :: "ExecutionRegistry \<Rightarrow> TaskId \<Rightarrow> nat option" where
  "er_index_of r tid =
     position (\<lambda>e. case e of None \<Rightarrow> False | Some b \<Rightarrow> xb_task_id b = tid) (er_entries r)"

text \<open>
  The bindings of two tasks. The outer option is the panic of indexing the left half of the split
  slice out of range.
\<close>

definition context_pair_mut ::
  "ExecutionRegistry \<Rightarrow> TaskId \<Rightarrow> TaskId \<Rightarrow> (X86ExecutionBinding \<times> X86ExecutionBinding) option option" where
  "context_pair_mut r cur nxt =
     (if cur = nxt then Some None
      else case er_index_of r cur of
             None \<Rightarrow> Some None
           | Some i \<Rightarrow>
          (case er_index_of r nxt of
             None \<Rightarrow> Some None
           | Some j \<Rightarrow>
               (let left = take (max i j) (er_entries r);
                    right = drop (max i j) (er_entries r)
                in case (vec_get (if i < j then left else right) (if i < j then i else 0),
                         vec_get (if i < j then right else left) (if i < j then 0 else j)) of
                     (Some c, Some n) \<Rightarrow>
                       Some (case (c, n) of (Some cb, Some nb) \<Rightarrow> Some (cb, nb) | _ \<Rightarrow> None)
                   | _ \<Rightarrow> None)))"

definition er_contains :: "ExecutionRegistry \<Rightarrow> ExecutionHandle \<Rightarrow> bool" where
  "er_contains r handle \<longleftrightarrow> er_get r (handle_task_id handle) \<noteq> None"

definition er_count :: "ExecutionRegistry \<Rightarrow> nat" where
  "er_count r = length (filter (\<lambda>e. e \<noteq> None) (er_entries r))"

definition er_is_valid :: "ExecutionRegistry \<Rightarrow> ExecutionHandle \<Rightarrow> bool" where
  "er_is_valid r handle =
     (case er_get r (handle_task_id handle) of None \<Rightarrow> False | Some b \<Rightarrow> is_ok (xb_validate b))"

section \<open>Transition validation\<close>

datatype DispatchError = MissingExecution | InvalidExecution | SameTask

definition validate_transition :: "ExecutionRegistry \<Rightarrow> TaskId option \<Rightarrow> TaskId \<Rightarrow> DispatchError + unit" where
  "validate_transition r prev nxt =
     and_then (ok_or (er_get r nxt) MissingExecution) (\<lambda>b.
     if \<not> is_ok (xb_validate b) then Inl InvalidExecution
     else if prev = Some nxt then Inl SameTask
     else Inr ())"

end
