(* ===== verification/X86_Kernel_Tasks.thy ===== *)
theory X86_Kernel_Tasks
  imports X86_Execution X86_Gdt
begin

text \<open>
  The kernel task manager (\<open>kernel_task.rs\<close>), the owner of the scheduler, of the execution registry and
  of the sleep queue, and the single-CPU kernel runtime above it (\<open>runtime.rs\<close>). The CPU-local state,
  the task state segment and the timer flags are the kernel's statics. A panic is \<open>None\<close>.
\<close>

section \<open>Kernel tasks\<close>

datatype KernelTaskError =
    KtScheduler SchedulerError
  | KtRegistry RegistryInsertError
  | KtDispatch DispatchError
  | DispatchMismatch
  | KernelStackUnavailable

record KernelTaskManager =
  ktm_scheduler :: Scheduler
  ktm_executions :: ExecutionRegistry
  ktm_sleepers :: SleepQueue

definition KernelTaskManager_new :: KernelTaskManager where
  "KernelTaskManager_new = \<lparr>ktm_scheduler = Scheduler_new, ktm_executions = ExecutionRegistry_new,
     ktm_sleepers = SleepQueue_new\<rparr>"

definition ktm_spawn ::
  "NewBinding \<Rightarrow> KernelTaskManager \<Rightarrow> Priority \<Rightarrow> u64 \<Rightarrow> ((KernelTaskError + TaskId) \<times> KernelTaskManager) option" where
  "ktm_spawn nb m priority entry =
     (case create_task (ktm_scheduler m) priority of
        None \<Rightarrow> None
      | Some (tid, s1) \<Rightarrow>
          (case attach_execution s1 tid of
             (Inl e, s2) \<Rightarrow> Some (Inl (KtScheduler e), m\<lparr>ktm_scheduler := snd (destroy_created s2 tid)\<rparr>)
           | (Inr handle, s2) \<Rightarrow>
               (case er_insert nb (ktm_executions m) handle entry of
                  (Inl e, r1) \<Rightarrow>
                    Some (Inl (KtRegistry e),
                      m\<lparr>ktm_scheduler := snd (destroy_created s2 tid), ktm_executions := r1\<rparr>)
                | (Inr _, r1) \<Rightarrow>
                    (case make_ready s2 tid of
                       (False, s3) \<Rightarrow>
                         Some (Inl (KtScheduler TaskNotCreated),
                           m\<lparr>ktm_scheduler := snd (destroy_created s3 tid),
                             ktm_executions := snd (er_remove r1 handle)\<rparr>)
                     | (True, s3) \<Rightarrow> Some (Inr tid, m\<lparr>ktm_scheduler := s3, ktm_executions := r1\<rparr>)))))"

text \<open>The task state segment is passed in and returned, \<open>None\<close> inside when it is not initialised.\<close>

definition prepare_dispatch ::
  "'pt X86Crate \<Rightarrow> KernelTaskManager \<Rightarrow> TaskStateSegment option \<Rightarrow>
     ((KernelTaskError + DispatchDecision) \<times> KernelTaskManager \<times> TaskStateSegment option) option" where
  "prepare_dispatch C m tss =
     (let prev = sch_current (ktm_scheduler m)
      in case next_ready (ktm_scheduler m) of
           None \<Rightarrow> Some (Inr \<lparr>previous = prev, next_task = None\<rparr>, m, tss)
         | Some candidate \<Rightarrow>
             if Some candidate = prev then Some (Inr \<lparr>previous = prev, next_task = None\<rparr>, m, tss)
             else case validate_transition (ktm_executions m) prev candidate of
                    Inl e \<Rightarrow> Some (Inl (KtDispatch e), m, tss)
                  | Inr _ \<Rightarrow>
                      (case kernel_stack_top (ktm_executions m) candidate of
                         None \<Rightarrow> Some (Inl KernelStackUnavailable, m, tss)
                       | Some stack_top \<Rightarrow>
                           (let (decision, s1) = schedule_next (ktm_scheduler m);
                                m1 = m\<lparr>ktm_scheduler := s1\<rparr>
                            in if next_task decision \<noteq> Some candidate then Some (Inl DispatchMismatch, m1, tss)
                               else case set_kernel_stack_top C tss stack_top of
                                      None \<Rightarrow> None
                                    | Some tss1 \<Rightarrow> Some (Inr decision, m1, tss1))))"

definition ktm_sleep_current_until ::
  "KernelTaskManager \<Rightarrow> u64 \<Rightarrow> (KernelTaskError + TaskId) \<times> KernelTaskManager" where
  "ktm_sleep_current_until m deadline =
     (let (r, s1, q1) = sleep_current_until (ktm_scheduler m) deadline (ktm_sleepers m)
      in (map_err KtScheduler r, m\<lparr>ktm_scheduler := s1, ktm_sleepers := q1\<rparr>))"

definition ktm_expire_sleepers :: "KernelTaskManager \<Rightarrow> u64 \<Rightarrow> nat \<times> KernelTaskManager" where
  "ktm_expire_sleepers m now =
     (let (woken, s1, q1) = expire_sleepers (ktm_scheduler m) now (ktm_sleepers m)
      in (length woken, m\<lparr>ktm_scheduler := s1, ktm_sleepers := q1\<rparr>))"

definition ktm_next_sleep_deadline :: "KernelTaskManager \<Rightarrow> u64 option" where
  "ktm_next_sleep_deadline m = sq_next_deadline (ktm_sleepers m)"

definition is_executable :: "KernelTaskManager \<Rightarrow> TaskId \<Rightarrow> bool" where
  "is_executable m tid =
     (case execution (ktm_scheduler m) tid of
        None \<Rightarrow> False
      | Some handle \<Rightarrow> er_is_valid (ktm_executions m) handle)"

definition ktm_exit_current :: "KernelTaskManager \<Rightarrow> bool \<times> KernelTaskManager" where
  "ktm_exit_current m =
     (case sch_current (ktm_scheduler m) of
        None \<Rightarrow> (False, m)
      | Some tid \<Rightarrow>
          (case execution (ktm_scheduler m) tid of
             None \<Rightarrow> (False, m)
           | Some handle \<Rightarrow>
               (let m1 = m\<lparr>ktm_sleepers := snd (sq_remove (ktm_sleepers m) tid)\<rparr>;
                    (exited, s1) = exit_current (ktm_scheduler m1);
                    m2 = m1\<lparr>ktm_scheduler := s1\<rparr>
                in if \<not> exited then (False, m2)
                   else let (removed, r1) = er_remove (ktm_executions m2) handle
                        in (removed, m2\<lparr>ktm_executions := r1\<rparr>))))"

definition ktm_task_count :: "KernelTaskManager \<Rightarrow> nat" where
  "ktm_task_count m = task_count (ktm_scheduler m)"

end
