(* ===== verification/X86_Runtime.thy ===== *)
theory X86_Runtime
  imports X86_Kernel_Tasks
begin

text \<open>
  The single-CPU kernel runtime (\<open>runtime.rs\<close>) over the kernel's statics: the CPU-local state, the task
  state segment and the timer and trap counters (\<open>idt.rs\<close>). A context switch leaves the calling task;
  what happens until the call returns is the parameter \<open>away\<close>. A panic is \<open>None\<close>.
\<close>

section \<open>Statics\<close>

record KernelStatics =
  ks_local :: CpuLocalState
  ks_tss :: "TaskStateSegment option"
  ks_timer_ticks :: u64
  ks_timer_pending :: bool
  ks_user_traps :: u64
  ks_user_syscalls_ok :: u64

definition record_user_trap :: "KernelStatics \<Rightarrow> bool \<Rightarrow> KernelStatics" where
  "record_user_trap k succeeded =
     (let k1 = k\<lparr>ks_user_traps := ks_user_traps k + 1\<rparr>
      in if succeeded then k1\<lparr>ks_user_syscalls_ok := ks_user_syscalls_ok k1 + 1\<rparr> else k1)"

definition record_timer_interrupt :: "KernelStatics \<Rightarrow> KernelStatics" where
  "record_timer_interrupt k = k\<lparr>ks_timer_ticks := ks_timer_ticks k + 1, ks_timer_pending := True\<rparr>"

definition take_timer_pending :: "KernelStatics \<Rightarrow> bool \<times> KernelStatics" where
  "take_timer_pending k = (ks_timer_pending k, k\<lparr>ks_timer_pending := False\<rparr>)"

text \<open>A write to the CPU-local state.\<close>

definition on_local :: "(CpuLocalState \<Rightarrow> CpuLocalState) \<Rightarrow> KernelStatics \<Rightarrow> KernelStatics" where
  "on_local f k = k\<lparr>ks_local := f (ks_local k)\<rparr>"

section \<open>Runtime\<close>

datatype RuntimeError =
    RtTask KernelTaskError
  | NoRunnableTask
  | MissingExecutionPair
  | UserspaceTaskRequiresSystemRuntime
  | RtYield YieldError
  | PreemptionDisabled
  | RtInterruptedState ExecutionError
  | RtCpuBinding RuntimeBindingError
  | InterruptedTaskRequiresIret

datatype InterruptPreemption = ResumeCurrent | ReturnToContext Context | ReturnToKernel InterruptedState

record KernelRuntime =
  rt_manager :: KernelTaskManager
  rt_boot_context :: Context
  rt_boot_context_address :: u64
  rt_reschedule :: RescheduleRequest
  rt_preemption :: PreemptionGate

type_synonym kernel_state = "KernelRuntime \<times> KernelStatics"

definition KernelRuntime_new :: "u64 \<Rightarrow> KernelRuntime" where
  "KernelRuntime_new boot_context_address =
     \<lparr>rt_manager = KernelTaskManager_new, rt_boot_context = Context_empty,
      rt_boot_context_address = boot_context_address, rt_reschedule = RescheduleRequest_new,
      rt_preemption = PreemptionGate_new\<rparr>"

definition bind_cpu :: "u64 \<Rightarrow> KernelStatics \<Rightarrow> (RuntimeError + unit) \<times> KernelStatics" where
  "bind_cpu address k =
     (let (r, l) = bind_runtime (ks_local k) address in (map_err RtCpuBinding r, k\<lparr>ks_local := l\<rparr>))"

definition request_reschedule :: "KernelRuntime \<Rightarrow> KernelRuntime" where
  "request_reschedule rt = rt\<lparr>rt_reschedule := request (rt_reschedule rt)\<rparr>"

definition preemption_disable :: "KernelRuntime \<Rightarrow> KernelRuntime" where
  "preemption_disable rt = rt\<lparr>rt_preemption := gate_disable (rt_preemption rt)\<rparr>"

text \<open>Dropping the guard of \<open>preemption_disable\<close>.\<close>

definition drop_preemption_guard :: "KernelRuntime \<Rightarrow> KernelRuntime option" where
  "drop_preemption_guard rt = map_option (\<lambda>g. rt\<lparr>rt_preemption := g\<rparr>) (gate_enable_one (rt_preemption rt))"

text \<open>The write of a binding through the manager.\<close>

definition put_binding :: "KernelRuntime \<Rightarrow> TaskId \<Rightarrow> X86ExecutionBinding \<Rightarrow> KernelRuntime" where
  "put_binding rt tid b =
     rt\<lparr>rt_manager := (rt_manager rt)\<lparr>ktm_executions := er_put (ktm_executions (rt_manager rt)) tid (Some b)\<rparr>\<rparr>"

definition commit_interrupted_state :: "KernelRuntime \<Rightarrow> KernelStatics \<Rightarrow> (RuntimeError + unit) \<times> kernel_state" where
  "commit_interrupted_state rt k =
     (case cl_current_task (ks_local k) of
        None \<Rightarrow> (if has_interrupted (ks_local k) then Inl MissingExecutionPair else Inr (), rt, k)
      | Some tid \<Rightarrow>
          (case er_get (ktm_executions (rt_manager rt)) tid of
             None \<Rightarrow> (Inl MissingExecutionPair, rt, k)
           | Some b \<Rightarrow>
               if xb_interrupted b \<noteq> None then (Inl (RtInterruptedState InterruptedStateAlreadyPresent), rt, k)
               else case interrupted_task (ks_local k) of
                      None \<Rightarrow> (Inr (), rt, k)
                    | Some captured_task \<Rightarrow>
                        if captured_task \<noteq> tid then (Inl MissingExecutionPair, rt, k)
                        else (let (taken, l) = take_interrupted (ks_local k);
                                  k1 = k\<lparr>ks_local := l\<rparr>
                              in case taken of
                                   None \<Rightarrow> (Inl MissingExecutionPair, rt, k1)
                                 | Some (captured, snapshot) \<Rightarrow>
                                     if captured \<noteq> tid then (Inl MissingExecutionPair, rt, k1)
                                     else let (r, b') = xb_install_interrupted b snapshot
                                          in (map_err RtInterruptedState r, put_binding rt tid b', k1))))"

definition discard_interrupted_state :: "KernelStatics \<Rightarrow> KernelStatics" where
  "discard_interrupted_state k = on_local (\<lambda>l. snd (take_interrupted l)) k"

definition rt_spawn ::
  "NewBinding \<Rightarrow> KernelRuntime \<Rightarrow> Priority \<Rightarrow> u64 \<Rightarrow> ((RuntimeError + TaskId) \<times> KernelRuntime) option" where
  "rt_spawn nb rt priority entry =
     map_option (\<lambda>(r, m). (map_err RtTask r, rt\<lparr>rt_manager := m\<rparr>)) (ktm_spawn nb (rt_manager rt) priority entry)"

definition prepare_run :: "'pt X86Crate \<Rightarrow> KernelRuntime \<Rightarrow> KernelStatics \<Rightarrow> ((RuntimeError + TaskId) \<times> kernel_state) option" where
  "prepare_run C rt k =
     (case prepare_dispatch C (rt_manager rt) (ks_tss k) of
        None \<Rightarrow> None
      | Some (r, m, tss) \<Rightarrow>
          (let rt1 = rt\<lparr>rt_manager := m\<rparr>;
               k1 = k\<lparr>ks_tss := tss\<rparr>
           in Some (and_then (map_err RtTask r) (\<lambda>decision.
                    and_then (ok_or (next_task decision) NoRunnableTask) (\<lambda>nxt.
                    if task_kind (ktm_scheduler m) nxt = Some UserspaceTask
                    then Inl UserspaceTaskRequiresSystemRuntime else Inr nxt)), rt1, k1)))"

definition prepare_preemption :: "KernelRuntime \<Rightarrow> RuntimeError + PreemptionPlan" where
  "prepare_preemption rt =
     and_then (ok_or (next_ready (ktm_scheduler (rt_manager rt))) NoRunnableTask) (\<lambda>nxt.
     if task_kind (ktm_scheduler (rt_manager rt)) nxt = Some UserspaceTask
     then Inl UserspaceTaskRequiresSystemRuntime
     else ok_or (preemption_plan (ktm_executions (rt_manager rt)) nxt) MissingExecutionPair)"

definition service_timer :: "KernelRuntime \<Rightarrow> u64 \<Rightarrow> nat \<times> KernelRuntime" where
  "service_timer rt now =
     (let (woken, m) = ktm_expire_sleepers (rt_manager rt) now
      in (woken, request_reschedule (rt\<lparr>rt_manager := m\<rparr>)))"

definition service_pending_timer :: "KernelRuntime \<Rightarrow> KernelStatics \<Rightarrow> u64 \<Rightarrow> nat \<times> kernel_state" where
  "service_pending_timer rt k now =
     (let (was_pending, k1) = take_timer_pending k
      in if \<not> was_pending then (0, rt, k1)
         else let (woken, rt1) = service_timer rt now in (woken, rt1, k1))"

section \<open>Preemption from the timer interrupt\<close>

text \<open>The last part of \<open>handle_timer_preemption\<close>, after the candidate has been dispatched.\<close>

definition finish_preemption ::
  "PreemptionPlan \<Rightarrow> TaskId \<Rightarrow> KernelRuntime \<Rightarrow> KernelStatics \<Rightarrow> (RuntimeError + InterruptPreemption) \<times> kernel_state" where
  "finish_preemption plan candidate rt k =
     (case plan of
        PreemptionPlan.ReturnToContext _ ctx \<Rightarrow>
          (Inr (ReturnToContext ctx), rt\<lparr>rt_reschedule := snd (take_pending (rt_reschedule rt))\<rparr>,
           on_local (\<lambda>l. set_current_task l (Some candidate)) k)
      | IretKernel _ _ \<Rightarrow>
          (let (taken, r) = take_kernel_preempt_state (ktm_executions (rt_manager rt)) candidate;
               rt1 = rt\<lparr>rt_manager := (rt_manager rt)\<lparr>ktm_executions := r\<rparr>\<rparr>
           in case taken of
                None \<Rightarrow> (Inl MissingExecutionPair, request_reschedule rt1, k)
              | Some st \<Rightarrow>
                  (Inr (ReturnToKernel st), rt1\<lparr>rt_reschedule := snd (take_pending (rt_reschedule rt1))\<rparr>,
                   on_local (\<lambda>l. set_current_task l (Some candidate)) k)))"

definition handle_timer_preemption ::
  "'pt X86Crate \<Rightarrow> KernelRuntime \<Rightarrow> KernelStatics \<Rightarrow> ((RuntimeError + InterruptPreemption) \<times> kernel_state) option" where
  "handle_timer_preemption C rt k =
     (let k1 = snd (take_timer_pending k)
      in if \<not> gate_is_enabled (rt_preemption rt)
         then Some (Inr ResumeCurrent, request_reschedule rt, discard_interrupted_state k1)
         else
           let rt1 = rt\<lparr>rt_manager := snd (ktm_expire_sleepers (rt_manager rt) (ks_timer_ticks k1))\<rparr>;
               sched = ktm_scheduler (rt_manager rt1)
           in case next_ready sched of
                None \<Rightarrow> Some (Inr ResumeCurrent, request_reschedule rt1, discard_interrupted_state k1)
              | Some candidate \<Rightarrow>
                  if task_kind sched candidate = Some UserspaceTask
                  then Some (Inl UserspaceTaskRequiresSystemRuntime, request_reschedule rt1, k1)
                  else if Some candidate = sch_current sched
                  then Some (Inr ResumeCurrent, rt1, discard_interrupted_state k1)
                  else case preemption_plan (ktm_executions (rt_manager rt1)) candidate of
                         None \<Rightarrow> Some (Inl MissingExecutionPair, request_reschedule rt1, discard_interrupted_state k1)
                       | Some plan \<Rightarrow>
                      (case commit_interrupted_state rt1 k1 of
                         (Inl e, rt2, k2) \<Rightarrow> Some (Inl e, request_reschedule rt2, k2)
                       | (Inr _, rt2, k2) \<Rightarrow>
                           (case prepare_dispatch C (rt_manager rt2) (ks_tss k2) of
                              None \<Rightarrow> None
                            | Some (Inl e, m, tss) \<Rightarrow>
                                Some (Inl (RtTask e), request_reschedule (rt2\<lparr>rt_manager := m\<rparr>), k2\<lparr>ks_tss := tss\<rparr>)
                            | Some (Inr decision, m, tss) \<Rightarrow>
                                if next_task decision \<noteq> Some candidate
                                then Some (Inl MissingExecutionPair, request_reschedule (rt2\<lparr>rt_manager := m\<rparr>),
                                           k2\<lparr>ks_tss := tss\<rparr>)
                                else Some (finish_preemption plan candidate (rt2\<lparr>rt_manager := m\<rparr>)
                                             (k2\<lparr>ks_tss := tss\<rparr>)))))"

section \<open>Voluntary dispatch\<close>

text \<open>
  The switch of \<open>dispatch_once\<close>: the CPU-local current task is set for the target, the contexts are
  validated, and after the return, or a refused switch, it is set back.
\<close>

definition switch_and_return ::
  "(kernel_state \<Rightarrow> kernel_state) \<Rightarrow> YieldError + unit \<Rightarrow> TaskId \<Rightarrow> TaskId option \<Rightarrow> KernelRuntime \<Rightarrow> KernelStatics \<Rightarrow>
     (RuntimeError + unit) \<times> kernel_state" where
  "switch_and_return away checked nxt back rt k =
     (let k1 = on_local (\<lambda>l. set_current_task l (Some nxt)) k;
          (rt2, k2) = (case checked of Inl _ \<Rightarrow> (rt, k1) | Inr _ \<Rightarrow> away (rt, k1))
      in (map_err RtYield checked, rt2, on_local (\<lambda>l. set_current_task l back) k2))"

definition dispatch_once ::
  "'pt X86Crate \<Rightarrow> (kernel_state \<Rightarrow> kernel_state) \<Rightarrow> KernelRuntime \<Rightarrow> KernelStatics \<Rightarrow>
     ((RuntimeError + unit) \<times> kernel_state) option" where
  "dispatch_once C away rt k =
     (let m = rt_manager rt;
          refused = (case next_ready (ktm_scheduler m) of
                       None \<Rightarrow> None
                     | Some candidate \<Rightarrow>
                         if task_kind (ktm_scheduler m) candidate = Some UserspaceTask
                         then Some UserspaceTaskRequiresSystemRuntime
                         else case preemption_plan (ktm_executions m) candidate of
                                Some (IretKernel _ _) \<Rightarrow> Some InterruptedTaskRequiresIret
                              | _ \<Rightarrow> None)
      in case refused of
           Some e \<Rightarrow> Some (Inl e, rt, k)
         | None \<Rightarrow>
             (case prepare_dispatch C m (ks_tss k) of
                None \<Rightarrow> None
              | Some (r, m1, tss) \<Rightarrow>
                  (let rt1 = rt\<lparr>rt_manager := m1\<rparr>;
                       k1 = k\<lparr>ks_tss := tss\<rparr>
                   in case r of
                        Inl e \<Rightarrow> Some (Inl (RtTask e), rt1, k1)
                      | Inr decision \<Rightarrow>
                     (case next_task decision of
                        None \<Rightarrow> Some (Inl NoRunnableTask, rt1, k1)
                      | Some nxt \<Rightarrow>
                          if task_kind (ktm_scheduler m1) nxt = Some UserspaceTask
                          then Some (Inl UserspaceTaskRequiresSystemRuntime, rt1, k1)
                          else case previous decision of
                                 None \<Rightarrow>
                                   (case er_get (ktm_executions m1) nxt of
                                      None \<Rightarrow> Some (Inl MissingExecutionPair, rt1, k1)
                                    | Some b \<Rightarrow>
                                        Some (switch_and_return away
                                          (activate_validate (rt_boot_context_address rt1, rt_boot_context rt1)
                                             (xb_context_address b, xb_context b))
                                          nxt None rt1 k1))
                               | Some prev \<Rightarrow>
                                   (case context_pair_mut (ktm_executions m1) prev nxt of
                                      None \<Rightarrow> None
                                    | Some None \<Rightarrow> Some (Inl MissingExecutionPair, rt1, k1)
                                    | Some (Some (cb, nb)) \<Rightarrow>
                                        Some (switch_and_return away
                                          (yield_validate (xb_context_address cb, xb_context cb)
                                             (xb_context_address nb, xb_context nb))
                                          nxt (Some prev) rt1 k1))))))"

definition safe_reschedule_point ::
  "'pt X86Crate \<Rightarrow> (kernel_state \<Rightarrow> kernel_state) \<Rightarrow> KernelRuntime \<Rightarrow> KernelStatics \<Rightarrow>
     ((RuntimeError + bool) \<times> kernel_state) option" where
  "safe_reschedule_point C away rt k =
     (if \<not> gate_is_enabled (rt_preemption rt) then Some (Inl PreemptionDisabled, rt, k)
      else
        let (taken, q) = take_pending (rt_reschedule rt);
            rt1 = rt\<lparr>rt_reschedule := q\<rparr>
        in if \<not> taken then Some (Inr False, rt1, k)
           else case commit_interrupted_state rt1 k of
                  (Inl e, rt2, k2) \<Rightarrow> Some (Inl e, rt2, k2)
                | (Inr _, rt2, k2) \<Rightarrow>
                    (case dispatch_once C away rt2 k2 of
                       None \<Rightarrow> None
                     | Some (Inr _, rt3, k3) \<Rightarrow> Some (Inr True, rt3, k3)
                     | Some (Inl e, rt3, k3) \<Rightarrow>
                         Some (Inl e, if e = InterruptedTaskRequiresIret then request_reschedule rt3 else rt3, k3)))"

text \<open>The runtime argument is the one that the CPU-local pointer refers to.\<close>

definition yield_current ::
  "'pt X86Crate \<Rightarrow> (kernel_state \<Rightarrow> kernel_state) \<Rightarrow> KernelRuntime \<Rightarrow> KernelStatics \<Rightarrow>
     ((RuntimeError + unit) \<times> kernel_state) option" where
  "yield_current C away rt k =
     (if cl_runtime (ks_local k) = None then Some (Inl (RtCpuBinding RuntimeNull), rt, k)
      else dispatch_once C away (request_reschedule rt) k)"

definition execution_ready :: "KernelRuntime \<Rightarrow> TaskId \<Rightarrow> bool" where
  "execution_ready rt tid = is_executable (rt_manager rt) tid"

end
