(* ===== verification/X86_System.thy ===== *)
theory X86_System
  imports X86_Runtime
begin

text \<open>
  The owners of processes, tasks and user execution: the process runtime bridge
  (\<open>process_runtime.rs\<close>), the successor selection (\<open>user_successor.rs\<close>), the unified system runtime
  (\<open>system_runtime.rs\<close>), and the Rust halves of the interrupt entries (\<open>interrupt_entry.rs\<close>). A function
  that never returns gives the value it leaves with. A panic is \<open>None\<close>.
\<close>

section \<open>Process runtime owner\<close>

datatype ProcessRuntimeError =
    PrNoCurrentProcess
  | PrProcess ProcessManagerError
  | PrRuntime RuntimeError
  | PrTaskBindingMismatch
  | ProcessNotRunning

datatype UserSpawnError =
    UsAddressSpaceMismatch
  | UsProcess ProcessManagerError
  | UsScheduler SchedulerError
  | ReadyQueueRejected

record ProcessRuntimeOwner =
  pro_processes :: ProcessManager
  pro_runtime :: KernelRuntime
  pro_current_process :: "ProcessId option"

definition ProcessRuntimeOwner_new :: "ProcessManager \<Rightarrow> KernelRuntime \<Rightarrow> ProcessRuntimeOwner" where
  "ProcessRuntimeOwner_new pm rt = \<lparr>pro_processes = pm, pro_runtime = rt, pro_current_process = None\<rparr>"

fun syscall_error :: "ProcessRuntimeError \<Rightarrow> SyscallError" where
  "syscall_error _ = InvalidArguments"

definition spawn_user_ready ::
  "ProcessManager \<Rightarrow> Scheduler \<Rightarrow> ProcessImage \<Rightarrow> PreparedUserLaunch \<Rightarrow> Priority \<Rightarrow>
     ((UserSpawnError + ProcessId \<times> TaskId \<times> UserExecutionBinding) \<times> ProcessManager \<times> Scheduler) option" where
  "spawn_user_ready pm s img launch priority =
     (let space = spec_id (pi_address_space img)
      in if pul_address_space launch \<noteq> space then Some (Inl UsAddressSpaceMismatch, pm, s)
         else case create_user_task s priority of
                None \<Rightarrow> None
              | Some (tid, s1) \<Rightarrow>
             (case attach_execution s1 tid of
                (Inl e, s2) \<Rightarrow> Some (Inl (UsScheduler e), pm, snd (destroy_created s2 tid))
              | (Inr handle, s2) \<Rightarrow>
             (case spawn_ready pm img tid handle space of
                (Inl e, pm1) \<Rightarrow> Some (Inl (UsProcess e), pm1, snd (destroy_created s2 tid))
              | (Inr spawned, pm1) \<Rightarrow>
             (case UserExecutionBinding_new (spawned_id spawned) tid space launch of
                Inl _ \<Rightarrow> Some (Inl UsAddressSpaceMismatch, snd (abort_ready pm1 (spawned_id spawned)),
                               snd (destroy_created s2 tid))
              | Inr b \<Rightarrow>
                  (case make_ready s2 tid of
                     (False, s3) \<Rightarrow> Some (Inl ReadyQueueRejected, snd (abort_ready pm1 (spawned_id spawned)),
                                          snd (destroy_created s3 tid))
                   | (True, s3) \<Rightarrow> Some (Inr (spawned_id spawned, tid, b), pm1, s3))))))"

text \<open>The checks that \<open>bind_current\<close>, \<open>exit_current\<close> and \<open>request_yield\<close> share.\<close>

definition pro_checked :: "ProcessRuntimeOwner \<Rightarrow> ProcessId \<Rightarrow> ProcessRuntimeError + unit" where
  "pro_checked ow process =
     and_then (map_err PrProcess (pm_binding (pro_processes ow) process)) (\<lambda>found.
     and_then (ok_or found PrTaskBindingMismatch) (\<lambda>binding.
     and_then (ok_or (sch_current (ktm_scheduler (rt_manager (pro_runtime ow)))) PrTaskBindingMismatch) (\<lambda>tid.
     if bind_task binding \<noteq> tid then Inl PrTaskBindingMismatch
     else and_then (map_err PrProcess (pm_state (pro_processes ow) process)) (\<lambda>st.
     if st \<noteq> ProcessRunning then Inl ProcessNotRunning else Inr ()))))"

definition bind_current :: "ProcessRuntimeOwner \<Rightarrow> ProcessId \<Rightarrow> (ProcessRuntimeError + unit) \<times> ProcessRuntimeOwner" where
  "bind_current ow process =
     (case pro_checked ow process of
        Inl e \<Rightarrow> (Inl e, ow)
      | Inr _ \<Rightarrow> (Inr (), ow\<lparr>pro_current_process := Some process\<rparr>))"

definition pro_current_task :: "ProcessRuntimeOwner \<Rightarrow> TaskId option" where
  "pro_current_task ow =
     Option.bind (pro_current_process ow) (\<lambda>process.
     case pm_binding (pro_processes ow) process of
       Inl _ \<Rightarrow> None
     | Inr found \<Rightarrow> map_option bind_task found)"

definition pro_exit_current :: "ProcessRuntimeOwner \<Rightarrow> u64 \<Rightarrow> (ProcessRuntimeError + unit) \<times> ProcessRuntimeOwner" where
  "pro_exit_current ow code =
     (case pro_current_process ow of
        None \<Rightarrow> (Inl PrNoCurrentProcess, ow)
      | Some process \<Rightarrow>
          (case pro_checked ow process of
             Inl e \<Rightarrow> (Inl e, ow)
           | Inr _ \<Rightarrow>
               (case pm_exit (pro_processes ow) process of
                  (Inl e, pm) \<Rightarrow> (Inl (PrProcess e), ow\<lparr>pro_processes := pm\<rparr>)
                | (Inr _, pm) \<Rightarrow>
                    (let (exited, m) = ktm_exit_current (rt_manager (pro_runtime ow));
                         ow1 = ow\<lparr>pro_processes := pm, pro_runtime := (pro_runtime ow)\<lparr>rt_manager := m\<rparr>\<rparr>
                     in if \<not> exited then (Inl PrTaskBindingMismatch, ow1)
                        else (Inr (), ow1\<lparr>pro_current_process := None\<rparr>)))))"

definition pro_request_yield :: "ProcessRuntimeOwner \<Rightarrow> (ProcessRuntimeError + unit) \<times> ProcessRuntimeOwner" where
  "pro_request_yield ow =
     (case pro_current_process ow of
        None \<Rightarrow> (Inl PrNoCurrentProcess, ow)
      | Some process \<Rightarrow>
          (case pro_checked ow process of
             Inl e \<Rightarrow> (Inl e, ow)
           | Inr _ \<Rightarrow> (Inr (), ow\<lparr>pro_runtime := request_reschedule (pro_runtime ow)\<rparr>)))"

definition owner_control :: "ProcessRuntimeOwner ProcessSyscallControl" where
  "owner_control = \<lparr>ctl_exit = (\<lambda>ow code. apfst (map_err syscall_error) (pro_exit_current ow code)),
     ctl_yield_now = (\<lambda>ow. apfst (map_err syscall_error) (pro_request_yield ow))\<rparr>"

section \<open>System runtime\<close>

datatype UserSuccessorError = SuccNoReadyTask | SuccNotUserspace | SuccMissingBinding | SuccProcessBindingMismatch | SuccTaskNotReady

datatype SystemRuntimeError =
    SysRuntime RuntimeError
  | SysUserBinding UserExecutionRegistryError
  | SysProcess ProcessManagerError
  | SysAddressSpaceMismatch
  | SysNoCurrentProcess
  | SysTaskBindingMismatch
  | SysSchedulerTaskNotReady
  | SysSuccessor UserSuccessorError
  | SysKernelStackUnavailable

record SystemRuntime =
  sys_processes :: ProcessManager
  sys_runtime :: KernelRuntime
  sys_userspace :: UserExecutionRegistry
  sys_current_process :: "ProcessId option"
  sys_pending_exit :: "(ProcessId \<times> TaskId \<times> u64) option"

definition SystemRuntime_new :: "u64 \<Rightarrow> SystemRuntime" where
  "SystemRuntime_new boot_context_address =
     \<lparr>sys_processes = ProcessManager_new, sys_runtime = KernelRuntime_new boot_context_address,
      sys_userspace = UserExecutionRegistry_new, sys_current_process = None, sys_pending_exit = None\<rparr>"

text \<open>The scheduler and the execution registry inside the runtime, and writes to them.\<close>

abbreviation sys_sched :: "SystemRuntime \<Rightarrow> Scheduler" where
  "sys_sched y \<equiv> ktm_scheduler (rt_manager (sys_runtime y))"

abbreviation sys_execs :: "SystemRuntime \<Rightarrow> ExecutionRegistry" where
  "sys_execs y \<equiv> ktm_executions (rt_manager (sys_runtime y))"

definition put_sched :: "Scheduler \<Rightarrow> SystemRuntime \<Rightarrow> SystemRuntime" where
  "put_sched s y = y\<lparr>sys_runtime := (sys_runtime y)\<lparr>rt_manager := (rt_manager (sys_runtime y))\<lparr>ktm_scheduler := s\<rparr>\<rparr>\<rparr>"

definition put_execs :: "ExecutionRegistry \<Rightarrow> SystemRuntime \<Rightarrow> SystemRuntime" where
  "put_execs r y = y\<lparr>sys_runtime := (sys_runtime y)\<lparr>rt_manager := (rt_manager (sys_runtime y))\<lparr>ktm_executions := r\<rparr>\<rparr>\<rparr>"

definition sys_bind_cpu :: "u64 \<Rightarrow> u64 \<Rightarrow> KernelStatics \<Rightarrow> (SystemRuntimeError + unit) \<times> KernelStatics" where
  "sys_bind_cpu runtime_address system_address k =
     (case bind_cpu runtime_address k of
        (Inl e, k1) \<Rightarrow> (Inl (SysRuntime e), k1)
      | (Inr _, k1) \<Rightarrow>
          (let (r, l) = bind_system_runtime (ks_local k1) system_address
           in (map_err (\<lambda>_. SysTaskBindingMismatch) r, k1\<lparr>ks_local := l\<rparr>)))"

section \<open>Starting user processes\<close>

text \<open>The undo steps of \<open>spawn_user_ready\<close> in their order.\<close>

definition undo_created :: "TaskId \<Rightarrow> SystemRuntime \<Rightarrow> SystemRuntime" where
  "undo_created tid y = put_sched (snd (destroy_created (sys_sched y) tid)) y"

definition undo_execution :: "ExecutionHandle \<Rightarrow> SystemRuntime \<Rightarrow> SystemRuntime" where
  "undo_execution handle y = put_execs (snd (er_remove (sys_execs y) handle)) y"

definition undo_process :: "ProcessId \<Rightarrow> SystemRuntime \<Rightarrow> SystemRuntime" where
  "undo_process pid y = y\<lparr>sys_processes := snd (abort_ready (sys_processes y) pid)\<rparr>"

definition sys_spawn_user_ready ::
  "NewBinding \<Rightarrow> u64 \<Rightarrow> SystemRuntime \<Rightarrow> ProcessImage \<Rightarrow> PreparedUserLaunch \<Rightarrow> Priority \<Rightarrow>
     ((SystemRuntimeError + ProcessId \<times> TaskId) \<times> SystemRuntime) option" where
  "sys_spawn_user_ready nb stub y img launch priority =
     (let space = spec_id (pi_address_space img)
      in if pul_address_space launch \<noteq> space then Some (Inl SysAddressSpaceMismatch, y)
         else case create_user_task (sys_sched y) priority of
                None \<Rightarrow> None
              | Some (tid, s1) \<Rightarrow>
             (case attach_execution s1 tid of
                (Inl e, s2) \<Rightarrow> Some (Inl (SysRuntime (RtTask (KtScheduler e))), undo_created tid (put_sched s2 y))
              | (Inr handle, s2) \<Rightarrow>
             (let y2 = put_sched s2 y in
              case er_insert nb (sys_execs y2) handle stub of
                (Inl e, r1) \<Rightarrow> Some (Inl (SysRuntime (RtTask (KtRegistry e))), undo_created tid (put_execs r1 y2))
              | (Inr _, r1) \<Rightarrow>
             (let y3 = put_execs r1 y2 in
              case spawn_ready (sys_processes y3) img tid handle space of
                (Inl e, pm1) \<Rightarrow>
                  Some (Inl (SysProcess e), undo_created tid (undo_execution handle (y3\<lparr>sys_processes := pm1\<rparr>)))
              | (Inr spawned, pm1) \<Rightarrow>
             (let y4 = y3\<lparr>sys_processes := pm1\<rparr> in
              case UserExecutionBinding_new (spawned_id spawned) tid space launch of
                Inl _ \<Rightarrow>
                  Some (Inl SysAddressSpaceMismatch,
                    undo_created tid (undo_process (spawned_id spawned) (undo_execution handle y4)))
              | Inr b \<Rightarrow>
             (case uer_insert (sys_userspace y4) b of
                (Inl e, u1) \<Rightarrow>
                  Some (Inl (SysUserBinding e),
                    undo_created tid (undo_process (spawned_id spawned) (undo_execution handle (y4\<lparr>sys_userspace := u1\<rparr>))))
              | (Inr _, u1) \<Rightarrow>
             (let y5 = y4\<lparr>sys_userspace := u1\<rparr> in
              case make_ready (sys_sched y5) tid of
                (False, s3) \<Rightarrow>
                  (let y6 = put_sched s3 y5;
                       y7 = y6\<lparr>sys_userspace := snd (uer_remove (sys_userspace y6) tid)\<rparr>
                   in Some (Inl SysTaskBindingMismatch,
                        undo_created tid (undo_process (spawned_id spawned) (undo_execution handle y7))))
              | (True, s3) \<Rightarrow> Some (Inr (spawned_id spawned, tid), put_sched s3 y5))))))))"

text \<open>\<open>start_user\<close> leaves through \<open>activate_and_enter_user\<close> with the launch it returns here.\<close>

definition start_user ::
  "'pt X86Crate \<Rightarrow> SystemRuntime \<Rightarrow> KernelStatics \<Rightarrow> ProcessId \<Rightarrow>
     ((SystemRuntimeError + PreparedUserLaunch) \<times> SystemRuntime \<times> KernelStatics) option" where
  "start_user C y k process =
     (case pm_binding (sys_processes y) process of
        Inl e \<Rightarrow> Some (Inl (SysProcess e), y, k)
      | Inr None \<Rightarrow> Some (Inl SysTaskBindingMismatch, y, k)
      | Inr (Some binding) \<Rightarrow>
     (let tid = bind_task binding in
      case uer_get (sys_userspace y) tid of
        None \<Rightarrow> Some (Inl SysTaskBindingMismatch, y, k)
      | Some user_binding \<Rightarrow>
     if ueb_process user_binding \<noteq> process \<or> ueb_address_space user_binding \<noteq> bind_address_space binding
     then Some (Inl SysTaskBindingMismatch, y, k)
     else case pm_state (sys_processes y) process of
        Inl e \<Rightarrow> Some (Inl (SysProcess e), y, k)
      | Inr st \<Rightarrow>
     if st \<noteq> ProcessReady then Some (Inl (SysProcess InvalidTransition), y, k)
     else case kernel_stack_top (sys_execs y) tid of
        None \<Rightarrow> Some (Inl SysKernelStackUnavailable, y, k)
      | Some stack_top \<Rightarrow>
     if state (sys_sched y) tid \<noteq> Some Ready \<or> next_ready (sys_sched y) \<noteq> Some tid
     then Some (Inl SysSchedulerTaskNotReady, y, k)
     else
       (let y1 = y\<lparr>sys_pending_exit := None\<rparr> in
        case pm_start (sys_processes y1) process of
          (Inl e, pm) \<Rightarrow> Some (Inl (SysProcess e), y1\<lparr>sys_processes := pm\<rparr>, k)
        | (Inr _, pm) \<Rightarrow>
       (let (decision, s1) = schedule_next (sys_sched y1);
            y2 = put_sched s1 (y1\<lparr>sys_processes := pm\<rparr>)
        in if next_task decision \<noteq> Some tid \<or> sch_current s1 \<noteq> Some tid
           then Some (Inl SysTaskBindingMismatch, y2, k)
           else case set_kernel_stack_top C (ks_tss k) stack_top of
                  None \<Rightarrow> None
                | Some tss \<Rightarrow>
                    Some (Inr (ueb_launch user_binding), y2\<lparr>sys_current_process := Some process\<rparr>,
                          on_local (\<lambda>l. set_current_task l (Some tid)) (k\<lparr>ks_tss := tss\<rparr>))))))"

definition current_user_binding :: "SystemRuntime \<Rightarrow> UserExecutionBinding option" where
  "current_user_binding y = Option.bind (sch_current (sys_sched y)) (uer_get (sys_userspace y))"

definition take_pending_exit :: "SystemRuntime \<Rightarrow> (ProcessId \<times> TaskId \<times> u64) option \<times> SystemRuntime" where
  "take_pending_exit y = (sys_pending_exit y, y\<lparr>sys_pending_exit := None\<rparr>)"

section \<open>Handing the processor to another user task\<close>

record UserSuccessorPlan =
  usp_process :: ProcessId
  usp_task :: TaskId
  usp_binding :: UserExecutionBinding

definition select_userspace_successor :: "SystemRuntime \<Rightarrow> TaskId option \<Rightarrow> UserSuccessorError + UserSuccessorPlan" where
  "select_userspace_successor y current_task =
     and_then (ok_or (next_ready (sys_sched y)) SuccNoReadyTask) (\<lambda>tid.
     if Some tid = current_task then Inl SuccTaskNotReady
     else if task_kind (sys_sched y) tid \<noteq> Some UserspaceTask then Inl SuccNotUserspace
     else if state (sys_sched y) tid \<noteq> Some Ready then Inl SuccTaskNotReady
     else and_then (ok_or (uer_get (sys_userspace y) tid) SuccMissingBinding) (\<lambda>b.
     and_then (map_err (\<lambda>_. SuccProcessBindingMismatch) (pm_binding (sys_processes y) (ueb_process b))) (\<lambda>found.
     and_then (ok_or found SuccProcessBindingMismatch) (\<lambda>process_binding.
     if bind_task process_binding \<noteq> tid \<or> bind_address_space process_binding \<noteq> ueb_address_space b
        \<or> pm_state (sys_processes y) (ueb_process b) \<noteq> Inr ProcessReady
     then Inl SuccProcessBindingMismatch
     else Inr \<lparr>usp_process = ueb_process b, usp_task = tid, usp_binding = b\<rparr>))))"

text \<open>
  The check that the current process is bound to the current task and running; \<open>commit_pending_exit\<close>
  and the yield use it.
\<close>

definition bound_and_running :: "SystemRuntime \<Rightarrow> ProcessId \<Rightarrow> TaskId \<Rightarrow> SystemRuntimeError + unit" where
  "bound_and_running y process tid =
     and_then (map_err SysProcess (pm_binding (sys_processes y) process)) (\<lambda>found.
     and_then (ok_or found SysTaskBindingMismatch) (\<lambda>binding.
     if bind_task binding \<noteq> tid then Inl SysTaskBindingMismatch
     else and_then (map_err SysProcess (pm_state (sys_processes y) process)) (\<lambda>st.
     if st \<noteq> ProcessRunning then Inl SysTaskBindingMismatch else Inr ())))"

text \<open>
  The end of both hand-overs: the resume state that the transfer carries leaves the registry, the
  privilege stack and the current process and task are those of the successor.
\<close>

definition hand_over ::
  "'pt X86Crate \<Rightarrow> UserReturnTransfer \<Rightarrow> UserSuccessorPlan \<Rightarrow> u64 \<Rightarrow> SystemRuntime \<Rightarrow> KernelStatics \<Rightarrow>
     (SystemRuntime \<times> KernelStatics) option" where
  "hand_over C transfer successor stack_top y k =
     (case (if urt_resume transfer \<noteq> None then uer_clear_resume (sys_userspace y) (usp_task successor)
            else (Inr None, sys_userspace y)) of
        (Inl _, _) \<Rightarrow> None
      | (Inr _, u1) \<Rightarrow>
          (case set_kernel_stack_top C (ks_tss k) stack_top of
             None \<Rightarrow> None
           | Some tss \<Rightarrow>
               Some (y\<lparr>sys_userspace := u1, sys_current_process := Some (usp_process successor)\<rparr>,
                     on_local (\<lambda>l. set_current_task l (Some (usp_task successor))) (k\<lparr>ks_tss := tss\<rparr>))))"

definition commit_pending_exit ::
  "'pt X86Crate \<Rightarrow> SystemRuntime \<Rightarrow> KernelStatics \<Rightarrow>
     ((SystemRuntimeError + UserReturnTransfer) \<times> SystemRuntime \<times> KernelStatics) option" where
  "commit_pending_exit C y k =
     (case sys_pending_exit y of
        None \<Rightarrow> Some (Inl SysNoCurrentProcess, y, k)
      | Some (process, tid, _) \<Rightarrow>
     if sys_current_process y \<noteq> Some process \<or> sch_current (sys_sched y) \<noteq> Some tid
     then Some (Inl SysTaskBindingMismatch, y, k)
     else case select_userspace_successor y (Some tid) of
        Inl e \<Rightarrow> Some (Inl (SysSuccessor e), y, k)
      | Inr successor \<Rightarrow>
     (case bound_and_running y process tid of
        Inl e \<Rightarrow> Some (Inl e, y, k)
      | Inr _ \<Rightarrow>
     (case urt_validate (UserReturnTransfer_new (usp_binding successor)) (Some tid) of
        Inl _ \<Rightarrow> Some (Inl SysTaskBindingMismatch, y, k)
      | Inr transfer \<Rightarrow>
     (case execution (sys_sched y) tid of
        None \<Rightarrow> Some (Inl SysTaskBindingMismatch, y, k)
      | Some current_execution \<Rightarrow>
     (case kernel_stack_top (sys_execs y) (usp_task successor) of
        None \<Rightarrow> Some (Inl SysKernelStackUnavailable, y, k)
      | Some stack_top \<Rightarrow>
     (case pm_start (sys_processes y) (usp_process successor) of
        (Inl e, pm1) \<Rightarrow> Some (Inl (SysProcess e), y\<lparr>sys_processes := pm1\<rparr>, k)
      | (Inr _, pm1) \<Rightarrow>
     (case pm_exit pm1 process of
        (Inl e, pm2) \<Rightarrow> Some (Inl (SysProcess e), y\<lparr>sys_processes := pm2\<rparr>, k)
      | (Inr _, pm2) \<Rightarrow>
     (let y1 = y\<lparr>sys_processes := pm2\<rparr> in
      case terminate_current_to (sys_sched y1) (usp_task successor) of
        (Inl _, s1) \<Rightarrow> Some (Inl SysTaskBindingMismatch, put_sched s1 y1, k)
      | (Inr _, s1) \<Rightarrow>
     (let y2 = put_sched s1 y1 in
      case uer_remove (sys_userspace y2) tid of
        (Inl e, u1) \<Rightarrow> Some (Inl (SysUserBinding e), y2\<lparr>sys_userspace := u1\<rparr>, k)
      | (Inr _, u1) \<Rightarrow>
     (let y3 = undo_execution current_execution (y2\<lparr>sys_userspace := u1\<rparr>) in
      case hand_over C transfer successor stack_top y3 k of
        None \<Rightarrow> None
      | Some (y4, k1) \<Rightarrow> Some (Inr transfer, y4\<lparr>sys_pending_exit := None\<rparr>, k1)))))))))))"

definition commit_userspace_yield_with_snapshot ::
  "'pt X86Crate \<Rightarrow> SystemRuntime \<Rightarrow> KernelStatics \<Rightarrow> (TaskId \<times> InterruptedState) option \<Rightarrow>
     ((SystemRuntimeError + UserReturnTransfer option) \<times> SystemRuntime \<times> KernelStatics) option" where
  "commit_userspace_yield_with_snapshot C y k interrupted =
     (case sys_current_process y of
        None \<Rightarrow> Some (Inl SysNoCurrentProcess, y, k)
      | Some process \<Rightarrow>
     (case sch_current (sys_sched y) of
        None \<Rightarrow> Some (Inl SysNoCurrentProcess, y, k)
      | Some tid \<Rightarrow>
     (case bound_and_running y process tid of
        Inl e \<Rightarrow> Some (Inl e, y, k)
      | Inr _ \<Rightarrow>
     (case select_userspace_successor y (Some tid) of
        Inl e \<Rightarrow> Some (if e = SuccNoReadyTask then Inr None else Inl (SysSuccessor e), y, k)
      | Inr successor \<Rightarrow>
     (case urt_validate (UserReturnTransfer_new (usp_binding successor)) (Some tid) of
        Inl _ \<Rightarrow> Some (Inl SysTaskBindingMismatch, y, k)
      | Inr transfer \<Rightarrow>
     (case kernel_stack_top (sys_execs y) (usp_task successor) of
        None \<Rightarrow> Some (Inl SysKernelStackUnavailable, y, k)
      | Some stack_top \<Rightarrow>
     (case (case interrupted of
              None \<Rightarrow> (Inr (), sys_userspace y)
            | Some (captured_task, st) \<Rightarrow>
                if captured_task \<noteq> tid \<or> \<not> interrupted_user_valid st then (Inl SysTaskBindingMismatch, sys_userspace y)
                else apfst (map_err SysUserBinding) (uer_install_resume (sys_userspace y) tid st)) of
        (Inl e, u1) \<Rightarrow> Some (Inl e, y\<lparr>sys_userspace := u1\<rparr>, k)
      | (Inr _, u1) \<Rightarrow>
     (let y1 = y\<lparr>sys_userspace := u1\<rparr> in
      case pm_yield_to (sys_processes y1) process (usp_process successor) of
        (Inl e, pm1) \<Rightarrow> Some (Inl (SysProcess e), y1\<lparr>sys_processes := pm1\<rparr>, k)
      | (Inr _, pm1) \<Rightarrow>
     (let (decision, s1) = schedule_next (sys_sched y1);
          y2 = put_sched s1 (y1\<lparr>sys_processes := pm1\<rparr>)
      in if next_task decision \<noteq> Some (usp_task successor) \<or> sch_current s1 \<noteq> Some (usp_task successor)
         then Some (Inl SysTaskBindingMismatch, y2, k)
         else case hand_over C transfer successor stack_top y2 k of
                None \<Rightarrow> None
              | Some (y3, k1) \<Rightarrow> Some (Inr (Some transfer), y3, k1))))))))))"

definition commit_userspace_yield ::
  "'pt X86Crate \<Rightarrow> SystemRuntime \<Rightarrow> KernelStatics \<Rightarrow>
     ((SystemRuntimeError + UserReturnTransfer option) \<times> SystemRuntime \<times> KernelStatics) option" where
  "commit_userspace_yield C y k = commit_userspace_yield_with_snapshot C y k None"

section \<open>System call control\<close>

definition current_binding_checked :: "SystemRuntime \<Rightarrow> SyscallError + UserExecutionBinding" where
  "current_binding_checked y =
     (if sys_pending_exit y \<noteq> None then Inl InvalidArguments
      else
        and_then (ok_or (sys_current_process y) InvalidArguments) (\<lambda>process.
        and_then (map_err (\<lambda>_. InvalidArguments) (pm_binding (sys_processes y) process)) (\<lambda>found.
        and_then (ok_or found InvalidArguments) (\<lambda>binding.
        and_then (ok_or (sch_current (sys_sched y)) InvalidArguments) (\<lambda>tid.
        if bind_task binding \<noteq> tid then Inl InvalidArguments
        else and_then (map_err (\<lambda>_. InvalidArguments) (pm_state (sys_processes y) process)) (\<lambda>st.
        if st \<noteq> ProcessRunning then Inl InvalidArguments
        else and_then (ok_or (uer_get (sys_userspace y) tid) InvalidArguments) (\<lambda>user.
        if ueb_process user \<noteq> process \<or> ueb_address_space user \<noteq> bind_address_space binding
        then Inl InvalidArguments else Inr user)))))))"

definition sys_exit :: "SystemRuntime \<Rightarrow> u64 \<Rightarrow> (SyscallError + unit) \<times> SystemRuntime" where
  "sys_exit y code =
     (case current_binding_checked y of
        Inl e \<Rightarrow> (Inl e, y)
      | Inr user \<Rightarrow>
          (Inr (), y\<lparr>sys_pending_exit := Some (ueb_process user, ueb_task user, code),
                     sys_runtime := request_reschedule (sys_runtime y)\<rparr>))"

definition sys_yield_now :: "SystemRuntime \<Rightarrow> (SyscallError + unit) \<times> SystemRuntime" where
  "sys_yield_now y =
     (case current_binding_checked y of
        Inl e \<Rightarrow> (Inl e, y)
      | Inr _ \<Rightarrow> (Inr (), y\<lparr>sys_runtime := request_reschedule (sys_runtime y)\<rparr>))"

definition system_control :: "SystemRuntime ProcessSyscallControl" where
  "system_control = \<lparr>ctl_exit = sys_exit, ctl_yield_now = sys_yield_now\<rparr>"

section \<open>Interrupt hooks\<close>

text \<open>
  The hook of \<open>int 0x80\<close>. The user memory view is present when the physical mapping is; the transfer is
  the one that the hook leaves with instead of returning.
\<close>

definition syscall_entry_rust ::
  "'pt X86Crate \<Rightarrow> ((u64 \<Rightarrow> PageAccess) \<times> (u64 \<Rightarrow> nat \<Rightarrow> UserReadError + u8 list)) option \<Rightarrow> 'k sink \<Rightarrow>
   byte_memory \<Rightarrow> SavedRegisters \<Rightarrow> InterruptReturnFrame \<Rightarrow> 'k \<Rightarrow> SystemRuntime \<Rightarrow> KernelStatics \<Rightarrow>
     (UserReturnTransfer option \<times> SavedRegisters \<times> 'k \<times> SystemRuntime \<times> KernelStatics) option" where
  "syscall_entry_rust C view write m registers frame out y k =
     (if frame_cs m frame AND 3 \<noteq> 3 then Some (None, registers, out, y, k)
      else
        let request = SyscallRequest_new (sr_rax registers) (sr_rdi registers) (sr_rsi registers) (sr_rdx registers)
        in case (case view of
                   None \<Rightarrow> Some (disp_returned (Inl NotImplemented), out, y)
                 | Some (page_access, backend) \<Rightarrow>
                     if cl_system_runtime (ks_local k) \<noteq> None
                     then dispatch_with_memory_and_control_action request page_access backend write system_control out y
                     else map_option (\<lambda>(r, out'). (disp_returned r, out', y))
                            (dispatch_with_memory request page_access backend write out)) of
             None \<Rightarrow> None
           | Some (disp, out1, y1) \<Rightarrow>
          (let registers1 = registers\<lparr>sr_rax := syscall_result_abi_value (disp_result disp)\<rparr>;
               k1 = record_user_trap k (is_ok (disp_result disp))
           in case disp_action disp of
                Terminate \<Rightarrow>
                  if cl_system_runtime (ks_local k1) = None then Some (None, registers1, out1, y1, k1)
                  else (case commit_pending_exit C y1 k1 of
                          None \<Rightarrow> None
                        | Some (Inr transfer, y2, k2) \<Rightarrow> Some (Some transfer, registers1, out1, y2, k2)
                        | Some (Inl _, y2, k2) \<Rightarrow> Some (None, registers1, out1, y2, k2))
              | action \<Rightarrow>
                  Some (None, registers1, out1, y1, on_local (\<lambda>l. publish_syscall_action l action) k1)))"

datatype TimerOutcome = TimerReturn | TimerTransfer UserReturnTransfer | TimerToContext Context | TimerToKernel InterruptedState

text \<open>The last part of the timer hook: kernel preemption.\<close>

definition timer_kernel_path ::
  "'pt X86Crate \<Rightarrow> SystemRuntime \<Rightarrow> KernelStatics \<Rightarrow> (TimerOutcome \<times> SystemRuntime \<times> KernelStatics) option" where
  "timer_kernel_path C y k =
     (if cl_runtime (ks_local k) = None then Some (TimerReturn, y, k)
      else case handle_timer_preemption C (sys_runtime y) k of
             None \<Rightarrow> None
           | Some (r, rt, k1) \<Rightarrow>
               Some (case r of
                       Inr (ReturnToContext ctx) \<Rightarrow> TimerToContext ctx
                     | Inr (ReturnToKernel st) \<Rightarrow> TimerToKernel st
                     | _ \<Rightarrow> TimerReturn, y\<lparr>sys_runtime := rt\<rparr>, k1))"

text \<open>\<open>None\<close> for a published \<open>Terminate\<close> action is the panic of \<open>unreachable!\<close>.\<close>

definition timer_entry_rust ::
  "'pt X86Crate \<Rightarrow> byte_memory \<Rightarrow> u64 \<Rightarrow> InterruptReturnFrame \<Rightarrow> SystemRuntime \<Rightarrow> KernelStatics \<Rightarrow>
     (TimerOutcome \<times> SystemRuntime \<times> KernelStatics) option" where
  "timer_entry_rust C m registers frame y k =
     (if frame_resume_rsp m frame = None then Some (TimerReturn, y, k)
      else case capture_interrupted m (ks_local k) registers frame of
             None \<Rightarrow> None
           | Some (captured, l) \<Rightarrow>
          (let k1 = record_timer_interrupt (k\<lparr>ks_local := l\<rparr>)
           in if \<not> is_ok captured then Some (TimerReturn, y, k1)
              else if cl_system_runtime (ks_local k1) \<noteq> None \<and> current_user_binding y \<noteq> None
              then let (action, l2) = take_syscall_action (ks_local k1);
                       k2 = k1\<lparr>ks_local := l2\<rparr>
                   in case action of
                        Some Reschedule \<Rightarrow>
                          (case commit_userspace_yield_with_snapshot C y k2 (cl_interrupted (ks_local k2)) of
                             None \<Rightarrow> None
                           | Some (r, y3, k3) \<Rightarrow>
                               Some (case r of Inr (Some transfer) \<Rightarrow> TimerTransfer transfer | _ \<Rightarrow> TimerReturn,
                                     y3, on_local (\<lambda>l. snd (take_interrupted l)) k3))
                      | Some Terminate \<Rightarrow> None
                      | _ \<Rightarrow> Some (TimerReturn, y, on_local (\<lambda>l. snd (take_interrupted l)) k2)
              else timer_kernel_path C y k1))"

end
