(* ===== verification/X86_Registries.thy ===== *)
theory X86_Registries
  imports X86_System
begin

text \<open>
  The contract of the two registries of execution bindings (\<open>execution_registry.rs\<close>,
  \<open>user_execution.rs\<close>): each is a finite map from task identifiers to bindings. The locale states what
  the runtimes rely on, and both registries provide it.
\<close>

section \<open>Optional entries with distinct keys\<close>

definition slots_wf :: "('a \<Rightarrow> 'k) \<Rightarrow> 'a option list \<Rightarrow> bool" where
  "slots_wf key xs \<longleftrightarrow> distinct (map key (live_slots xs))"

lemma find_slot_key:
  assumes "slots_wf key xs"
  shows "find_slot (\<lambda>b. key b = t) xs = Some b \<longleftrightarrow> b \<in> set (live_slots xs) \<and> key b = t"
  using assms unfolding slots_wf_def
  by (induction "\<lambda>b. key b = t" xs rule: find_slot.induct) (auto simp: image_iff)

lemma find_slot_no_key: "find_slot (\<lambda>b. key b = t) xs = None \<longleftrightarrow> t \<notin> key ` set (live_slots xs)"
  by (auto simp: find_slot_None)

lemma put_slot_keys:
  assumes "\<And>b. v = Some b \<Longrightarrow> key b = t"
  shows "map key (live_slots (put_slot (\<lambda>b. key b = t) v xs)) =
    (if v = None then remove1 t (map key (live_slots xs)) else map key (live_slots xs))"
proof (induction xs)
  case (Cons x xs)
  then show ?case using assms by (cases x; cases v) simp_all
qed simp

lemma put_slot_wf:
  assumes "slots_wf key xs" "\<And>b. v = Some b \<Longrightarrow> key b = t"
  shows "slots_wf key (put_slot (\<lambda>b. key b = t) v xs)"
  using assms by (simp add: slots_wf_def put_slot_keys distinct_remove1)

lemma find_put_slot:
  assumes "slots_wf key xs" "find_slot (\<lambda>b. key b = t) xs \<noteq> None" "\<And>b. v = Some b \<Longrightarrow> key b = t"
  shows "find_slot (\<lambda>b. key b = u) (put_slot (\<lambda>b. key b = t) v xs) =
    (if u = t then v else find_slot (\<lambda>b. key b = u) xs)"
  using assms(1,2) unfolding slots_wf_def
proof (induction xs)
  case (Cons x xs)
  show ?case
  proof (cases x)
    case (Some b)
    then show ?thesis using Cons assms(3) by (cases v; cases "key b = t") (auto simp: find_slot_None image_iff)
  qed (use Cons in simp)
qed simp

lemma fill_slot_live: "\<exists>as bs. live_slots xs = as @ bs \<and> live_slots (fill_slot v xs) = as @ v # bs"
proof (induction v xs rule: fill_slot.induct)
  case (2 v xs)
  show ?case by (rule exI [of _ "[]"]) simp
next
  case (3 v x xs)
  then obtain as bs where "live_slots xs = as @ bs" "live_slots (fill_slot v xs) = as @ v # bs" by blast
  then have "live_slots (Some x # xs) = (x # as) @ bs \<and> live_slots (fill_slot v (Some x # xs)) = (x # as) @ v # bs" by simp
  then show ?case by blast
qed simp

lemma fill_slot_wf: "slots_wf key xs \<Longrightarrow> find_slot (\<lambda>b. key b = key v) xs = None \<Longrightarrow> slots_wf key (fill_slot v xs)"
  using fill_slot_live [of xs v] by (auto simp: slots_wf_def find_slot_no_key image_iff)

lemma find_fill_slot:
  assumes "slots_wf key xs" "find_slot (\<lambda>b. key b = key v) xs = None"
  shows "find_slot (\<lambda>b. key b = u) (fill_slot v xs) = (if u = key v then Some v else find_slot (\<lambda>b. key b = u) xs)"
proof -
  obtain as bs where l: "live_slots xs = as @ bs" "live_slots (fill_slot v xs) = as @ v # bs"
    using fill_slot_live [of xs v] by blast
  have e: "find_slot (\<lambda>b. key b = u) (fill_slot v xs) = Some b \<longleftrightarrow> (if u = key v then b = v else find_slot (\<lambda>b. key b = u) xs = Some b)" for b
    unfolding find_slot_key [OF fill_slot_wf [OF assms]] find_slot_key [OF assms(1)] l
    using assms(2) by (auto simp: find_slot_None l)
  show ?thesis
  proof (cases "u = key v")
    case True
    then show ?thesis using e [of v] by simp
  next
    case False
    then have "find_slot (\<lambda>b. key b = u) (fill_slot v xs) = Some b \<longleftrightarrow> find_slot (\<lambda>b. key b = u) xs = Some b" for b
      using e [of b] by simp
    then show ?thesis using False by (metis not_None_eq)
  qed
qed

section \<open>The contract\<close>

text \<open>\<open>put\<close> overwrites or removes an existing entry, \<open>add\<close> adds a binding for a task that has none.\<close>

locale task_registry =
  fixes wf :: "'r \<Rightarrow> bool"
    and get :: "'r \<Rightarrow> TaskId \<Rightarrow> 'b option"
    and put :: "'r \<Rightarrow> TaskId \<Rightarrow> 'b option \<Rightarrow> 'r"
    and add :: "'r \<Rightarrow> 'b \<Rightarrow> 'r"
    and key :: "'b \<Rightarrow> TaskId"
  assumes get_key: "get r t = Some b \<Longrightarrow> key b = t"
    and put_wf: "wf r \<Longrightarrow> (\<And>b. v = Some b \<Longrightarrow> key b = t) \<Longrightarrow> wf (put r t v)"
    and get_put: "wf r \<Longrightarrow> get r t \<noteq> None \<Longrightarrow> (\<And>b. v = Some b \<Longrightarrow> key b = t) \<Longrightarrow> get (put r t v) = (get r)(t := v)"
    and add_wf: "wf r \<Longrightarrow> get r (key b) = None \<Longrightarrow> wf (add r b)"
    and get_add: "wf r \<Longrightarrow> get r (key b) = None \<Longrightarrow> get (add r b) = (get r)(key b \<mapsto> b)"
begin

text \<open>Removing a fresh binding restores the map, and updating one in place keeps its domain.\<close>

lemma put_add: "wf r \<Longrightarrow> get r (key b) = None \<Longrightarrow> get (put (add r b) (key b) None) = get r"
  using get_put [OF add_wf, of r b "key b" None] by (simp add: get_add fun_upd_idem)

lemma update_dom:
  assumes "wf r" "get r t = Some b" "key b' = t"
  shows "dom (get (put r t (Some b'))) = dom (get r)"
  using get_put [OF assms(1), of t "Some b'"] assms by (auto simp: dom_def)

end

definition er_wf :: "ExecutionRegistry \<Rightarrow> bool" where
  "er_wf r \<longleftrightarrow> slots_wf xb_task_id (er_entries r)"

definition uer_wf :: "UserExecutionRegistry \<Rightarrow> bool" where
  "uer_wf r \<longleftrightarrow> slots_wf ueb_task (uer_entries r)"

definition er_add :: "ExecutionRegistry \<Rightarrow> X86ExecutionBinding \<Rightarrow> ExecutionRegistry" where
  "er_add r b = r\<lparr>er_entries := fill_slot b (er_entries r)\<rparr>"

definition uer_add :: "UserExecutionRegistry \<Rightarrow> UserExecutionBinding \<Rightarrow> UserExecutionRegistry" where
  "uer_add r b = r\<lparr>uer_entries := uer_entries r @ [Some b]\<rparr>"

interpretation er: task_registry er_wf er_get er_put er_add xb_task_id
proof
  fix r t b
  show "er_get r t = Some b \<Longrightarrow> xb_task_id b = t" by (auto simp: er_get_def dest: find_slot_SomeD)
next
  fix r :: ExecutionRegistry and t and v :: "X86ExecutionBinding option" assume r: "er_wf r" "\<And>b. v = Some b \<Longrightarrow> xb_task_id b = t"
  show "er_wf (er_put r t v)" using put_slot_wf [of xb_task_id "er_entries r" v t] r by (simp add: er_wf_def er_put_def)
  show "er_get r t \<noteq> None \<Longrightarrow> er_get (er_put r t v) = (er_get r)(t := v)"
    using find_put_slot [of xb_task_id "er_entries r" t v] r by (auto simp: er_wf_def er_put_def er_get_def)
next
  fix r :: ExecutionRegistry and b :: X86ExecutionBinding assume r: "er_wf r" "er_get r (xb_task_id b) = None"
  show "er_wf (er_add r b)" using fill_slot_wf [of xb_task_id "er_entries r" b] r by (simp add: er_wf_def er_add_def er_get_def)
  show "er_get (er_add r b) = (er_get r)(xb_task_id b \<mapsto> b)"
    using find_fill_slot [of xb_task_id "er_entries r" b] r by (auto simp: er_wf_def er_add_def er_get_def)
qed

interpretation uer: task_registry uer_wf uer_get uer_put uer_add ueb_task
proof
  fix r t b
  show "uer_get r t = Some b \<Longrightarrow> ueb_task b = t" by (auto simp: uer_get_def dest: find_slot_SomeD)
next
  fix r :: UserExecutionRegistry and t and v :: "UserExecutionBinding option" assume r: "uer_wf r" "\<And>b. v = Some b \<Longrightarrow> ueb_task b = t"
  show "uer_wf (uer_put r t v)" using put_slot_wf [of ueb_task "uer_entries r" v t] r by (simp add: uer_wf_def uer_put_def)
  show "uer_get r t \<noteq> None \<Longrightarrow> uer_get (uer_put r t v) = (uer_get r)(t := v)"
    using find_put_slot [of ueb_task "uer_entries r" t v] r by (auto simp: uer_wf_def uer_put_def uer_get_def)
next
  fix r :: UserExecutionRegistry and b :: UserExecutionBinding assume r: "uer_wf r" "uer_get r (ueb_task b) = None"
  show "uer_wf (uer_add r b)" using r by (auto simp: uer_wf_def uer_add_def uer_get_def slots_wf_def find_slot_None)
  show "uer_get (uer_add r b) = (uer_get r)(ueb_task b \<mapsto> b)"
    using r by (auto simp: uer_add_def uer_get_def find_slot_append split: option.split)
qed

end
