(* ===== verification/X86_System_Invariant.thy ===== *)
theory X86_System_Invariant
  imports X86_Registries Process_Properties
begin

text \<open>
  The invariant of the unified system runtime: the scheduler, the process registry and the two
  execution registries describe the same tasks. Every operation of \<open>system_runtime.rs\<close>, the kernel
  runtime's task operations and both interrupt hooks keep it.
\<close>

section \<open>Kinds of live tasks\<close>

lemma kind_fields [simp]: "task_kind (s\<lparr>sch_ready := q\<rparr>) = task_kind s" "task_kind (s\<lparr>sch_current := c\<rparr>) = task_kind s"
  by (simp_all add: task_kind_def fun_eq_iff)

lemma kind_put:
  assumes "task s tid = Some t" "tcb_id t' = tid" "tcb_kind t' = tcb_kind t"
  shows "task_kind (put_task s tid t') = task_kind s"
  using assms by (auto simp: task_kind_def fun_eq_iff task_put)

lemma kind_clear:
  "task s tid = Some t \<Longrightarrow> task_kind (set_slot s (unat (task_index tid)) None) = (task_kind s)(tid := None)"
  by (auto simp: task_kind_def fun_eq_iff task_clear)

lemma kind_requeue: "task_kind (requeue_previous s) = task_kind s"
  by (auto simp: requeue_previous_def Let_def kind_put task_id transition_def split: option.split)

lemma kind_dispatch_head:
  assumes "sched_wf s" shows "task_kind (dispatch_head s) = task_kind s"
proof (cases "rq_queue (sch_ready s)")
  case (Cons tid q)
  obtain t where "task s tid = Some t" "dispatch_head s =
      (put_task (s\<lparr>sch_ready := (sch_ready s)\<lparr>rq_queue := q\<rparr>\<rparr>) tid (t\<lparr>tcb_state := Running\<rparr>))\<lparr>sch_current := Some tid\<rparr>"
    using dispatch_head_next [OF assms Cons] by blast
  then show ?thesis
    using kind_put [of "s\<lparr>sch_ready := (sch_ready s)\<lparr>rq_queue := q\<rparr>\<rparr>" tid t "t\<lparr>tcb_state := Running\<rparr>"] by (simp add: task_id)
qed (simp add: dispatch_head_empty)

lemma kind_schedule_next: "sched_wf s \<Longrightarrow> task_kind (snd (schedule_next s)) = task_kind s"
  by (simp add: schedule_next_state kind_dispatch_head requeue_previous_wf(1) kind_requeue)

lemma kind_make_ready:
  assumes "sched_wf s" shows "task_kind (snd (make_ready s tid)) = task_kind s"
  by (cases rule: make_ready_cases [OF assms, of tid]) (simp_all add: kind_put task_id)

lemma kind_readied: "task_kind (readied s tid) = task_kind s"
  by (auto simp: readied_def kind_put task_id split: option.split)

lemma kind_wake_expired: "sched_wf s \<Longrightarrow> task_kind (snd (wake_expired s ts)) = task_kind s"
proof (induction ts arbitrary: s)
  case (Cons tid ts)
  show ?case
  proof (cases "state s tid = Some Blocked")
    case True
    then show ?thesis using Cons.IH [OF readied_wf(1) [OF Cons.prems True]] Cons.prems
      by (simp add: wake_expired_Cons kind_readied del: wake_expired.simps(2))
  qed (use Cons in \<open>simp add: wake_expired_Cons del: wake_expired.simps(2)\<close>)
qed simp

lemma kind_expire: "sched_wf s \<Longrightarrow> task_kind (fst (snd (expire_sleepers s now q))) = task_kind s"
  by (simp add: expire_sleepers_def case_prod_beta Let_def kind_wake_expired)

lemma kind_create:
  assumes "sched_wf s" "length (sch_tasks s) < 2 ^ 32" "create_task_with_kind s p k = Some (tid, s')"
  shows "task_kind s tid = None" "task_kind s' = (task_kind s)(tid \<mapsto> k)" "sched_wf s'"
  using create_table [OF sched_wf_table [OF assms(1)] assms(2,3)] create_wf [OF assms]
  by (auto simp: task_kind_def fun_eq_iff)

lemma kind_attach: "task_kind (snd (attach_execution s tid)) = task_kind s"
  by (auto simp: attach_execution_def tcb_attach_execution_def Let_def kind_put task_id split: option.split)

lemma kind_destroy:
  "snd (destroy_created s tid) = s \<or> task_kind (snd (destroy_created s tid)) = (task_kind s)(tid := None)"
  by (cases rule: destroy_created_cases [of s tid]) (simp_all add: kind_clear)

lemma kind_terminate:
  assumes "terminate_current_to s nxt = (Inr r, s')" "sch_current s = Some cur"
  shows "task_kind s' = (task_kind s)(cur := None)"
  using assms(1)
proof (cases rule: terminate_current_to_cases [of s nxt])
  case (switched c t u q)
  let ?s1 = "(set_slot s (unat (task_index c)) None)\<lparr>sch_ready := (sch_ready s)\<lparr>rq_queue := q\<rparr>\<rparr>"
  have "task ?s1 nxt = Some u" using switched by (simp add: task_clear)
  then have "task_kind (put_task ?s1 nxt (u\<lparr>tcb_state := Running\<rparr>)) = task_kind ?s1"
    using kind_put [of ?s1 nxt u "u\<lparr>tcb_state := Running\<rparr>"] task_id by simp
  then show ?thesis using switched assms by (auto simp: kind_clear)
qed simp

lemma execution_handle:
  assumes "sched_wf s" "execution s tid = Some h" shows "handle_task_id h = tid"
proof -
  obtain t where t: "task s tid = Some t" "tcb_execution t = Some h"
    using assms(2) by (auto simp: execution_def bind_eq_Some_conv)
  then show ?thesis
    using queue_wf_ok [OF sched_wf_queue [OF assms(1)] t(1)] task_id [OF t(1)] by (auto simp: task_ok_def for_task_def)
qed

section \<open>The invariant\<close>

text \<open>The entry of a user binding agrees with the process that it names.\<close>

definition process_bound :: "ProcessManager \<Rightarrow> UserExecutionBinding \<Rightarrow> bool" where
  "process_bound pm b \<longleftrightarrow> (\<exists>slot pb. pm_slot pm (ueb_process b) = Inr slot
     \<and> slot_state slot \<in> {Some ProcessReady, Some ProcessRunning} \<and> slot_binding slot = Some pb
     \<and> bind_task pb = ueb_task b \<and> bind_address_space pb = ueb_address_space b)"

definition user_binding_ok :: "UserExecutionBinding \<Rightarrow> bool" where
  "user_binding_ok b \<longleftrightarrow> pul_address_space (ueb_launch b) = ueb_address_space b
     \<and> (\<forall>st. ueb_resume b = Some st \<longrightarrow> interrupted_user_valid st)"

definition owners_wf :: "(TaskId \<Rightarrow> TaskKind option) \<Rightarrow> ProcessManager \<Rightarrow> ExecutionRegistry \<Rightarrow> UserExecutionRegistry \<Rightarrow> bool" where
  "owners_wf kinds pm execs users \<longleftrightarrow> er_wf execs \<and> uer_wf users
     \<and> (\<forall>tid b. er_get execs tid = Some b \<longrightarrow> kinds tid \<noteq> None \<and> is_ok (xb_validate b))
     \<and> (\<forall>tid b. uer_get users tid = Some b \<longrightarrow>
          kinds tid = Some UserspaceTask \<and> er_get execs tid \<noteq> None \<and> user_binding_ok b \<and> process_bound pm b)"

text \<open>The system runtime never requeues the running task by hand, so its current task runs.\<close>

definition current_runs :: "Scheduler \<Rightarrow> bool" where
  "current_runs s \<longleftrightarrow> (\<forall>tid. sch_current s = Some tid \<longrightarrow> state s tid = Some Running)"

definition sys_wf :: "SystemRuntime \<Rightarrow> bool" where
  "sys_wf y \<longleftrightarrow> sched_wf (sys_sched y) \<and> current_runs (sys_sched y) \<and> pm_wf (sys_processes y)
     \<and> owners_wf (task_kind (sys_sched y)) (sys_processes y) (sys_execs y) (sys_userspace y)
     \<and> (\<forall>process tid code. sys_pending_exit y = Some (process, tid, code) \<longrightarrow>
          (\<exists>b. uer_get (sys_userspace y) tid = Some b \<and> ueb_process b = process))"

lemma sys_wfD:
  assumes "sys_wf y"
  shows "sched_wf (sys_sched y)" "pm_wf (sys_processes y)"
    "owners_wf (task_kind (sys_sched y)) (sys_processes y) (sys_execs y) (sys_userspace y)"
    "current_runs (sys_sched y)"
  using assms by (simp_all add: sys_wf_def)

lemma sys_wf_pending:
  assumes "sys_wf y" "sys_pending_exit y = Some (process, tid, code)"
  obtains b where "uer_get (sys_userspace y) tid = Some b" "ueb_process b = process"
  using assms unfolding sys_wf_def by blast

lemma owners_wfD:
  assumes "owners_wf kinds pm execs users"
  shows "er_wf execs" "uer_wf users"
    and "er_get execs tid = Some b \<Longrightarrow> kinds tid \<noteq> None" "er_get execs tid = Some b \<Longrightarrow> is_ok (xb_validate b)"
    and "uer_get users tid = Some u \<Longrightarrow> kinds tid = Some UserspaceTask"
      "uer_get users tid = Some u \<Longrightarrow> er_get execs tid \<noteq> None"
      "uer_get users tid = Some u \<Longrightarrow> user_binding_ok u" "uer_get users tid = Some u \<Longrightarrow> process_bound pm u"
  using assms unfolding owners_wf_def by blast+

lemma current_runs_same:
  "current_runs s \<Longrightarrow> task s' = task s \<Longrightarrow> sch_current s' = sch_current s \<Longrightarrow> current_runs s'"
  by (simp add: current_runs_def state_def)

lemma current_runs_schedule_next:
  assumes "sched_wf s" shows "current_runs (snd (schedule_next s))"
proof -
  note wf = requeue_previous_wf(1) [OF assms]
  have "current_runs (dispatch_head (requeue_previous s))"
  proof (cases "rq_queue (sch_ready (requeue_previous s))")
    case Nil
    then show ?thesis by (simp add: dispatch_head_empty current_runs_def)
  next
    case (Cons tid q)
    let ?s = "(requeue_previous s)\<lparr>sch_ready := (sch_ready (requeue_previous s))\<lparr>rq_queue := q\<rparr>\<rparr>"
    obtain t where t: "task (requeue_previous s) tid = Some t" "dispatch_head (requeue_previous s) =
        (put_task ?s tid (t\<lparr>tcb_state := Running\<rparr>))\<lparr>sch_current := Some tid\<rparr>"
      using dispatch_head_next [OF wf Cons] by blast
    then have "state (put_task ?s tid (t\<lparr>tcb_state := Running\<rparr>)) tid = Some Running"
      using task_id [OF t(1)] by (simp add: state_put)
    then show ?thesis using t(2) by (simp add: current_runs_def)
  qed
  then show ?thesis by (simp add: schedule_next_state [OF assms])
qed

lemma current_runs_terminate:
  assumes "current_runs s" shows "current_runs (snd (terminate_current_to s nxt))"
proof (cases rule: terminate_current_to_cases [of s nxt])
  case (switched cur t u q)
  let ?s1 = "(set_slot s (unat (task_index cur)) None)\<lparr>sch_ready := (sch_ready s)\<lparr>rq_queue := q\<rparr>\<rparr>"
  have "task ?s1 nxt = Some u" using switched by (simp add: task_clear)
  then have "state (put_task ?s1 nxt (u\<lparr>tcb_state := Running\<rparr>)) nxt = Some Running"
    using task_id [of ?s1 nxt u] by (simp add: state_put)
  then show ?thesis using switched by (simp add: current_runs_def)
qed (use assms in simp)

text \<open>Writes to the parts of the system runtime.\<close>

lemma put_sched_fields [simp]:
  "sys_sched (put_sched s y) = s" "sys_execs (put_sched s y) = sys_execs y"
  "sys_processes (put_sched s y) = sys_processes y" "sys_userspace (put_sched s y) = sys_userspace y"
  "sys_pending_exit (put_sched s y) = sys_pending_exit y" "sys_current_process (put_sched s y) = sys_current_process y"
  by (simp_all add: put_sched_def)

lemma put_execs_fields [simp]:
  "sys_execs (put_execs r y) = r" "sys_sched (put_execs r y) = sys_sched y"
  "sys_processes (put_execs r y) = sys_processes y" "sys_userspace (put_execs r y) = sys_userspace y"
  "sys_pending_exit (put_execs r y) = sys_pending_exit y" "sys_current_process (put_execs r y) = sys_current_process y"
  by (simp_all add: put_execs_def)

lemma sys_wf_sched:
  assumes "sys_wf y" "sched_wf s" "current_runs s" "task_kind s = task_kind (sys_sched y)"
  shows "sys_wf (put_sched s y)"
  using assms by (simp add: sys_wf_def)

section \<open>Changes of one owner\<close>

lemma owners_kind_add: "owners_wf kinds pm execs users \<Longrightarrow> kinds tid = None \<Longrightarrow> owners_wf (kinds(tid \<mapsto> k)) pm execs users"
  unfolding owners_wf_def by auto

lemma owners_no_user: "owners_wf kinds pm execs users \<Longrightarrow> er_get execs tid = None \<Longrightarrow> uer_get users tid = None"
  using owners_wfD(6) [of kinds pm execs users tid] by (cases "uer_get users tid") auto

lemma owners_no_exec: "owners_wf kinds pm execs users \<Longrightarrow> kinds tid = None \<Longrightarrow> er_get execs tid = None"
  using owners_wfD(3) [of kinds pm execs users tid] by (cases "er_get execs tid") auto

lemma owners_kind_remove:
  assumes "owners_wf kinds pm execs users" "er_get execs tid = None"
  shows "owners_wf (kinds(tid := None)) pm execs users"
  using assms owners_no_user [OF assms] unfolding owners_wf_def by auto

lemma owners_exec_add:
  assumes "owners_wf kinds pm execs users" "er_get execs (xb_task_id b) = None" "kinds (xb_task_id b) \<noteq> None"
    "is_ok (xb_validate b)"
  shows "owners_wf kinds pm (er_add execs b) users"
  using assms er.add_wf [OF _ assms(2)] er.get_add [OF _ assms(2)] unfolding owners_wf_def by auto

lemma owners_exec_remove:
  assumes "owners_wf kinds pm execs users" "er_get execs tid \<noteq> None" "uer_get users tid = None"
  shows "owners_wf kinds pm (er_put execs tid None) users"
  using assms er.put_wf [of execs None tid] er.get_put [OF _ assms(2), of None] unfolding owners_wf_def by auto

lemma owners_exec_update:
  assumes "owners_wf kinds pm execs users" "er_get execs tid = Some b" "xb_task_id b' = tid" "is_ok (xb_validate b')"
  shows "owners_wf kinds pm (er_put execs tid (Some b')) users"
  using assms er.put_wf [of execs "Some b'" tid] er.get_put [of execs tid "Some b'"] unfolding owners_wf_def by auto

lemma owners_user_add:
  assumes "owners_wf kinds pm execs users" "uer_get users (ueb_task b) = None" "kinds (ueb_task b) = Some UserspaceTask"
    "er_get execs (ueb_task b) \<noteq> None" "user_binding_ok b" "process_bound pm b"
  shows "owners_wf kinds pm execs (uer_add users b)"
  using assms uer.add_wf [OF _ assms(2)] uer.get_add [OF _ assms(2)] unfolding owners_wf_def by auto

lemma owners_user_remove:
  assumes "owners_wf kinds pm execs users" "uer_get users tid \<noteq> None"
  shows "owners_wf kinds pm execs (uer_put users tid None)"
  using assms uer.put_wf [of users None tid] uer.get_put [OF _ assms(2), of None] unfolding owners_wf_def by auto

lemma owners_user_update:
  assumes "owners_wf kinds pm execs users" "uer_get users tid = Some b" "user_binding_ok b'"
    "ueb_task b' = ueb_task b" "ueb_process b' = ueb_process b" "ueb_address_space b' = ueb_address_space b"
  shows "owners_wf kinds pm execs (uer_put users tid (Some b'))"
proof -
  have "ueb_task b = tid" using uer.get_key [OF assms(2)] .
  moreover have "process_bound pm b' \<longleftrightarrow> process_bound pm b" using assms(4-6) by (simp add: process_bound_def)
  ultimately show ?thesis
    using assms(1-4) uer.put_wf [of users "Some b'" tid] uer.get_put [of users tid "Some b'"] unfolding owners_wf_def by auto
qed

lemma owners_processes:
  assumes "owners_wf kinds pm execs users" "\<And>tid b. uer_get users tid = Some b \<Longrightarrow> process_bound pm b \<Longrightarrow> process_bound pm' b"
  shows "owners_wf kinds pm' execs users"
  using assms unfolding owners_wf_def by blast

section \<open>Spawning\<close>

lemma new_binding_valid:
  assumes "X86ExecutionBinding_new nb tid entry = Inr b" "nb_trampoline nb \<noteq> 0"
  shows "is_ok (xb_validate b)" "xb_task_id b = tid" "xb_interrupted b = None"
proof -
  obtain stack stack_top ctx where b: "checked_add stack KERNEL_STACK_SIZE = Some stack_top"
      "bootstrap_context stack_top (nb_activation nb) (nb_trampoline nb) = Some ctx"
      "b = \<lparr>xb_task_id = tid, xb_stack = stack, xb_stack_len = KERNEL_STACK_SIZE,
             xb_activation = ActivationRecord_new (nb_activation nb) tid entry,
             xb_context = ctx, xb_context_address = nb_context nb, xb_interrupted = None\<rparr>"
    using assms(1)
    by (auto simp: X86ExecutionBinding_new_def bootstrap_kernel_context_def Let_def and_then_eq_Inr ok_or_eq_Inr
        ActivationRecord_new_def)
  have "c_rsp ctx \<noteq> 0" "c_rip ctx = nb_trampoline nb" "c_r12 ctx = nb_activation nb"
    using b(2) by (auto simp: bootstrap_context_def Context_empty_def split: option.splits if_splits)
  then show "is_ok (xb_validate b)" "xb_task_id b = tid" "xb_interrupted b = None"
    using b assms(2) by (simp_all add: xb_validate_def xb_stack_top_def context_initialized_def ActivationRecord_new_def)
qed

definition attached_tcb :: "TaskId \<Rightarrow> TaskKind \<Rightarrow> Priority \<Rightarrow> TaskState \<Rightarrow> TaskControlBlock" where
  "attached_tcb tid kind priority st = \<lparr>tcb_id = tid, tcb_kind = kind, tcb_state = st, tcb_priority = priority,
     tcb_execution = Some (for_task tid)\<rparr>"

lemma create_attach:
  assumes wf: "sched_wf s" "length (sch_tasks s) < 2 ^ 32"
  obtains tid s1 s2 where "create_task_with_kind s priority kind = Some (tid, s1)" "task s tid = None"
    "attach_execution s1 tid = (Inr (for_task tid), s2)" "sched_wf s2"
    "task s2 = (task s)(tid \<mapsto> attached_tcb tid kind priority Created)"
    "sch_ready s2 = sch_ready s" "sch_current s2 = sch_current s"
proof -
  obtain tid s1 where c: "create_task_with_kind s priority kind = Some (tid, s1)"
    using create_total [OF sched_wf_table [OF wf(1)], of priority kind] by auto
  note n = create_table [OF sched_wf_table [OF wf(1)] wf(2) c]
  let ?s2 = "put_task s1 tid (attached_tcb tid kind priority Created)"
  have t1: "task s1 tid = Some (tcb_of_kind kind tid priority)" by (simp add: n)
  have a: "attach_execution s1 tid = (Inr (for_task tid), ?s2)"
    by (cases kind) (simp_all add: attach_execution_def t1 tcb_attach_execution_def tcb_new_def tcb_new_userspace_def
        attached_tcb_def Let_def)
  have "sched_wf ?s2" using attach_execution_wf [OF create_wf [OF wf c], of tid] a by simp
  moreover have "task ?s2 = (task s)(tid \<mapsto> attached_tcb tid kind priority Created)"
    using t1 by (simp add: task_put attached_tcb_def n)
  ultimately show ?thesis using that [of tid s1 ?s2] c a n by (simp add: put_task_def set_slot_def)
qed

lemma destroy_attached:
  assumes "task s tid = Some (attached_tcb tid kind priority Created)"
  shows "snd (destroy_created s tid) = set_slot s (unat (task_index tid)) None"
proof -
  have "slot_at s (unat (task_index tid)) = Some (attached_tcb tid kind priority Created)"
    using assms by (simp add: task_def split: option.splits if_splits)
  then show ?thesis by (simp add: destroy_created_def Let_def attached_tcb_def tcb_detach_execution_def)
qed

lemma make_ready_attached:
  assumes "sched_wf s" "task s tid = Some (attached_tcb tid kind priority Created)"
  shows "make_ready s tid = (True, (put_task s tid (attached_tcb tid kind priority Ready))
     \<lparr>sch_ready := (sch_ready s)\<lparr>rq_queue := rq_queue (sch_ready s) @ [tid]\<rparr>\<rparr>)"
proof -
  have v: "valid_transition (tcb_state (attached_tcb tid kind priority Created)) Ready" by (simp add: attached_tcb_def)
  note w = wake_to_ready_wf(1) [OF assms v]
  show ?thesis
    using assms w
    by (simp add: make_ready_def task_transition_def transition_def attached_tcb_def rq_contains_def rq_push_def
        put_task_def set_slot_def)
qed

lemma er_insert_fresh:
  assumes "er_get r tid = None"
  shows "er_insert nb r (for_task tid) entry =
    (case X86ExecutionBinding_new nb tid entry of Inl _ \<Rightarrow> (Inl RegAllocation, r) | Inr b \<Rightarrow> (Inr (), er_add r b))"
  using assms by (simp add: er_insert_def for_task_def er_add_def split: sum.split)

lemma er_remove_present: "er_get r tid \<noteq> None \<Longrightarrow> er_remove r (for_task tid) = (True, er_put r tid None)"
  by (simp add: er_remove_def for_task_def)

text \<open>The slot of a process that was spawned for a task.\<close>

definition spawned_slot :: "ProcessId \<Rightarrow> ProcessImage \<Rightarrow> TaskId \<Rightarrow> Slot" where
  "spawned_slot pid img tid = \<lparr>slot_generation = process_generation pid, slot_image = Some img,
     slot_state = Some ProcessReady,
     slot_binding = Some \<lparr>bind_process = pid, bind_task = tid, bind_execution = for_task tid,
       bind_address_space = spec_id (pi_address_space img)\<rparr>,
     slot_exit_code = None\<rparr>"

lemma spawn_ready_cases:
  assumes wf: "pm_wf pm"
  obtains (error) e where "spawn_ready pm img tid (for_task tid) (spec_id (pi_address_space img)) = (Inl e, pm)"
  | (spawned) sp pm' where
      "spawn_ready pm img tid (for_task tid) (spec_id (pi_address_space img)) = (Inr sp, pm')"
      "pm_slot pm (spawned_id sp) = Inl InvalidProcess" "pm_wf pm'"
      "pm_slot pm' = (pm_slot pm)(spawned_id sp := Inr (spawned_slot (spawned_id sp) img tid))"
proof -
  obtain r pm1 where r: "register_ready pm img = (r, pm1)" by fastforce
  show ?thesis
  proof (cases r)
    case (Inl e)
    then have "pm1 = pm" using r by (rule_tac register_ready_cases [OF wf, of img]) auto
    then show ?thesis using error r Inl by (simp add: spawn_ready_def)
  next
    case (Inr pid)
    then have reg: "register_ready pm img = (Inr pid, pm1)" using r by simp
    note n = register_ready_slot [OF wf reg]
    let ?b = "\<lparr>bind_process = pid, bind_task = tid, bind_execution = for_task tid,
      bind_address_space = spec_id (pi_address_space img)\<rparr>"
    let ?slot = "\<lparr>slot_generation = process_generation pid, slot_image = Some img,
      slot_state = Some ProcessReady, slot_binding = None, slot_exit_code = None\<rparr>"
    have s: "pm_slot pm1 pid = Inr ?slot" by (simp add: n(2))
    have a: "pm_attach_execution pm1 pid tid (for_task tid) (spec_id (pi_address_space img)) =
        (Inr ?b, pm_put pm1 pid (spawned_slot pid img tid))"
      by (simp add: pm_attach_execution_def s ProcessExecutionBinding_new_def for_task_def Let_def spawned_slot_def)
    have wf2: "pm_wf (pm_put pm1 pid (spawned_slot pid img tid))"
      using attach_wf [OF n(3), of pid tid "for_task tid" "spec_id (pi_address_space img)"] a by simp
    have "pm_slot (pm_put pm1 pid (spawned_slot pid img tid)) = (pm_slot pm)(pid := Inr (spawned_slot pid img tid))"
      using pm_slot_put [OF s, of "spawned_slot pid img tid"] n(2) by (auto simp: spawned_slot_def fun_eq_iff)
    then show ?thesis using spawned [OF _ _ wf2] reg a n(1) by (simp add: spawn_ready_def)
  qed
qed

text \<open>What an unsuccessful spawn leaves: the same tasks, bindings and processes.\<close>

definition same_owners :: "SystemRuntime \<Rightarrow> SystemRuntime \<Rightarrow> bool" where
  "same_owners y y' \<longleftrightarrow> task (sys_sched y') = task (sys_sched y) \<and> sch_ready (sys_sched y') = sch_ready (sys_sched y)
     \<and> sch_current (sys_sched y') = sch_current (sys_sched y) \<and> er_get (sys_execs y') = er_get (sys_execs y)
     \<and> sys_processes y' = sys_processes y \<and> sys_userspace y' = sys_userspace y
     \<and> sys_current_process y' = sys_current_process y \<and> sys_pending_exit y' = sys_pending_exit y"

lemma same_owners_wf:
  assumes "sys_wf y" "same_owners y y'" "sched_wf (sys_sched y')" "er_wf (sys_execs y')"
  shows "sys_wf y'"
proof -
  have "task_kind (sys_sched y') = task_kind (sys_sched y)"
    using assms(2) by (simp add: same_owners_def task_kind_def fun_eq_iff)
  moreover have "current_runs (sys_sched y')"
    using assms(1,2) current_runs_same [of "sys_sched y" "sys_sched y'"] by (simp add: sys_wfD(4) same_owners_def)
  ultimately show ?thesis using assms unfolding sys_wf_def same_owners_def owners_wf_def by simp
qed

text \<open>The binding that a spawn installs for the user task.\<close>

definition spawned_user :: "ProcessId \<Rightarrow> TaskId \<Rightarrow> PreparedUserLaunch \<Rightarrow> UserExecutionBinding" where
  "spawned_user pid tid launch = \<lparr>ueb_process = pid, ueb_task = tid, ueb_address_space = pul_address_space launch,
     ueb_launch = launch, ueb_resume = None\<rparr>"

definition spawn_effect ::
  "ProcessImage \<Rightarrow> PreparedUserLaunch \<Rightarrow> Priority \<Rightarrow> ProcessId \<Rightarrow> TaskId \<Rightarrow> X86ExecutionBinding \<Rightarrow> SystemRuntime \<Rightarrow> SystemRuntime \<Rightarrow> bool" where
  "spawn_effect img launch priority pid tid b y y' \<longleftrightarrow>
     task (sys_sched y) tid = None \<and> pm_slot (sys_processes y) pid = Inl InvalidProcess
     \<and> task (sys_sched y') = (task (sys_sched y))(tid \<mapsto> attached_tcb tid UserspaceTask priority Ready)
     \<and> rq_queue (sch_ready (sys_sched y')) = rq_queue (sch_ready (sys_sched y)) @ [tid]
     \<and> sch_current (sys_sched y') = sch_current (sys_sched y)
     \<and> er_get (sys_execs y') = (er_get (sys_execs y))(tid \<mapsto> b) \<and> xb_task_id b = tid \<and> is_ok (xb_validate b)
     \<and> pm_slot (sys_processes y') = (pm_slot (sys_processes y))(pid := Inr (spawned_slot pid img tid))
     \<and> uer_get (sys_userspace y') = (uer_get (sys_userspace y))(tid \<mapsto> spawned_user pid tid launch)
     \<and> sys_current_process y' = sys_current_process y \<and> sys_pending_exit y' = sys_pending_exit y"

lemma undo_simps [simp]:
  "undo_created tid y = put_sched (snd (destroy_created (sys_sched y) tid)) y"
  "undo_execution handle y = put_execs (snd (er_remove (sys_execs y) handle)) y"
  by (simp_all add: undo_created_def undo_execution_def)

lemma spawn_created_undone:
  assumes "sched_wf s2" "task s2 = (task s)(tid \<mapsto> attached_tcb tid kind priority Created)" "task s tid = None"
    "sch_ready s2 = sch_ready s" "sch_current s2 = sch_current s"
  shows "task (snd (destroy_created s2 tid)) = task s" "sch_ready (snd (destroy_created s2 tid)) = sch_ready s"
    "sch_current (snd (destroy_created s2 tid)) = sch_current s" "sched_wf (snd (destroy_created s2 tid))"
proof -
  have t: "task s2 tid = Some (attached_tcb tid kind priority Created)" using assms(2) by simp
  show "task (snd (destroy_created s2 tid)) = task s"
    using task_clear [OF t] assms(2,3) by (auto simp: destroy_attached [OF t])
  show "sch_ready (snd (destroy_created s2 tid)) = sch_ready s" "sch_current (snd (destroy_created s2 tid)) = sch_current s"
    using assms by (simp_all add: destroy_attached [OF t] set_slot_def)
  show "sched_wf (snd (destroy_created s2 tid))" using destroy_created_wf [OF assms(1)] .
qed

lemma sys_spawn_cases:
  assumes wf: "sys_wf y" and len: "length (sch_tasks (sys_sched y)) < 2 ^ 32" and tr: "nb_trampoline nb \<noteq> 0"
  obtains (mismatch) "sys_spawn_user_ready nb stub y img launch priority = Some (Inl SysAddressSpaceMismatch, y)"
      "pul_address_space launch \<noteq> spec_id (pi_address_space img)"
  | (failed) e y' where "sys_spawn_user_ready nb stub y img launch priority = Some (Inl e, y')"
      "same_owners y y'" "sched_wf (sys_sched y')" "er_wf (sys_execs y')"
      "e = SysRuntime (RtTask (KtRegistry RegAllocation)) \<or> (\<exists>pe. e = SysProcess pe)"
  | (spawned) pid tid b y' where "sys_spawn_user_ready nb stub y img launch priority = Some (Inr (pid, tid), y')"
      "pul_address_space launch = spec_id (pi_address_space img)"
      "spawn_effect img launch priority pid tid b y y'"
      "sched_wf (sys_sched y')" "pm_wf (sys_processes y')" "er_wf (sys_execs y')" "uer_wf (sys_userspace y')"
proof (cases "pul_address_space launch = spec_id (pi_address_space img)")
  case False
  then show ?thesis using mismatch by (simp add: sys_spawn_user_ready_def)
next
  case space: True
  note own = sys_wfD [OF wf]
  obtain tid s1 s2 where c: "create_user_task (sys_sched y) priority = Some (tid, s1)" "task (sys_sched y) tid = None"
      "attach_execution s1 tid = (Inr (for_task tid), s2)" "sched_wf s2"
      "task s2 = (task (sys_sched y))(tid \<mapsto> attached_tcb tid UserspaceTask priority Created)"
      "sch_ready s2 = sch_ready (sys_sched y)" "sch_current s2 = sch_current (sys_sched y)"
    using create_attach [OF own(1) len, of priority UserspaceTask] by (auto simp: create_user_task_def)
  note undo = spawn_created_undone [OF c(4,5,2,6,7)]
  have e0: "er_get (sys_execs y) tid = None"
    using owners_no_exec [OF own(3)] c(2) by (simp add: task_kind_def)
  have u0: "uer_get (sys_userspace y) tid = None" using owners_no_user [OF own(3) e0] .
  note wfs = owners_wfD(1,2) [OF own(3)]
  show ?thesis
  proof (cases "X86ExecutionBinding_new nb tid stub")
    case (Inl e)
    then show ?thesis
      using failed [of "SysRuntime (RtTask (KtRegistry RegAllocation))"] undo wfs
      by (simp add: sys_spawn_user_ready_def space c(1,3) er_insert_fresh e0 same_owners_def put_sched_def put_execs_def)
  next
    case (Inr b)
    note b = new_binding_valid [OF Inr tr]
    have e1: "er_wf (er_add (sys_execs y) b)" "er_get (er_add (sys_execs y) b) = (er_get (sys_execs y))(tid \<mapsto> b)"
      using er.add_wf [OF wfs(1), of b] er.get_add [OF wfs(1), of b] e0 b(2) by simp_all
    note run = sys_spawn_user_ready_def Let_def space c(1,3) er_insert_fresh e0 Inr
    show ?thesis
    proof (cases rule: spawn_ready_cases [OF own(2), of img tid])
      case error: (1 pe)
      have "er_get (er_put (er_add (sys_execs y) b) tid None) = er_get (sys_execs y)"
        using er.put_add [OF wfs(1), of b] e0 b(2) by simp
      moreover have "er_wf (er_put (er_add (sys_execs y) b) tid None)" by (rule er.put_wf [OF e1(1)]) simp
      ultimately show ?thesis
        using failed [of "SysProcess pe"] undo error
        by (simp add: run er_remove_present e1(2) same_owners_def put_sched_def put_execs_def)
    next
      case new: (2 sp pm')
      let ?s3 = "(put_task s2 tid (attached_tcb tid UserspaceTask priority Ready))
        \<lparr>sch_ready := (sch_ready s2)\<lparr>rq_queue := rq_queue (sch_ready s2) @ [tid]\<rparr>\<rparr>"
      have t2: "task s2 tid = Some (attached_tcb tid UserspaceTask priority Created)" using c(5) by simp
      note ready = make_ready_attached [OF c(4) t2]
      have "task ?s3 = (task (sys_sched y))(tid \<mapsto> attached_tcb tid UserspaceTask priority Ready)"
        using t2 c(5) by (simp add: task_put attached_tcb_def)
      moreover have "sched_wf ?s3" using make_ready_wf [OF c(4), of tid] ready by simp
      moreover have "uer_insert (sys_userspace y) (spawned_user (spawned_id sp) tid launch) =
          (Inr (), uer_add (sys_userspace y) (spawned_user (spawned_id sp) tid launch))"
        using u0 by (simp add: uer_insert_def uer_add_def spawned_user_def)
      moreover have "uer_wf (uer_add (sys_userspace y) (spawned_user (spawned_id sp) tid launch))"
          "uer_get (uer_add (sys_userspace y) (spawned_user (spawned_id sp) tid launch)) =
            (uer_get (sys_userspace y))(tid \<mapsto> spawned_user (spawned_id sp) tid launch)"
        using uer.add_wf [OF wfs(2), of "spawned_user (spawned_id sp) tid launch"]
          uer.get_add [OF wfs(2), of "spawned_user (spawned_id sp) tid launch"] u0 by (simp_all add: spawned_user_def)
      moreover have "UserExecutionBinding_new (spawned_id sp) tid (spec_id (pi_address_space img)) launch =
          Inr (spawned_user (spawned_id sp) tid launch)"
        using space by (simp add: UserExecutionBinding_new_def spawned_user_def)
      ultimately show ?thesis
        using that(3) [of "spawned_id sp" tid _ b] new e1 b c space
        by (simp add: run ready spawn_effect_def)
    qed
  qed
qed

lemma sys_spawn_wf:
  assumes "sys_wf y" "length (sch_tasks (sys_sched y)) < 2 ^ 32" "nb_trampoline nb \<noteq> 0"
    and "sys_spawn_user_ready nb stub y img launch priority = Some (r, y')"
  shows "sys_wf y'"
proof (cases rule: sys_spawn_cases [OF assms(1-3), of stub img launch priority])
  case (2 e y2)
  then show ?thesis using same_owners_wf [OF assms(1)] assms(4) by simp
next
  case (3 pid tid b y2)
  note e = 3(3) [unfolded spawn_effect_def]
  have kinds: "task_kind (sys_sched y2) = (task_kind (sys_sched y))(tid \<mapsto> UserspaceTask)"
    using e by (auto simp: task_kind_def attached_tcb_def fun_eq_iff)
  have k0: "task_kind (sys_sched y) tid = None" using e by (simp add: task_kind_def)
  note own = sys_wfD(3) [OF assms(1)]
  have e0: "er_get (sys_execs y) tid = None" using owners_no_exec [OF own k0] .
  have u0: "uer_get (sys_userspace y) tid = None" using owners_no_user [OF own e0] .
  have "process_bound (sys_processes y2) u" if "process_bound (sys_processes y) u" for u
    using that e by (auto simp: process_bound_def)
  moreover have "process_bound (sys_processes y2) (spawned_user pid tid launch)" "user_binding_ok (spawned_user pid tid launch)"
    using e 3(2) by (auto simp: process_bound_def spawned_user_def spawned_slot_def user_binding_ok_def)
  ultimately have "owners_wf (task_kind (sys_sched y2)) (sys_processes y2) (sys_execs y2) (sys_userspace y2)"
    using own 3(6,7) e unfolding owners_wf_def kinds by (auto simp: spawned_user_def)
  moreover have "\<exists>b. uer_get (sys_userspace y2) t = Some b \<and> ueb_process b = p" if pend: "sys_pending_exit y2 = Some (p, t, c)" for p t c
  proof -
    have "sys_pending_exit y = Some (p, t, c)" using pend e by simp
    then obtain b where "uer_get (sys_userspace y) t = Some b" "ueb_process b = p"
      by (rule sys_wf_pending [OF assms(1)])
    then show ?thesis using e u0 by auto
  qed
  moreover have "current_runs (sys_sched y2)"
    using sys_wfD(4) [OF assms(1)] e by (auto simp: current_runs_def state_def)
  ultimately have "sys_wf y2" using 3(4,5) unfolding sys_wf_def by blast
  then show ?thesis using 3(1) assms(4) by simp
qed (use assms in simp)

section \<open>Process transitions\<close>

lemma process_bound_start: "process_bound pm b \<Longrightarrow> process_bound (snd (pm_start pm pid)) b"
  by (cases rule: start_cases [of pm pid]) (auto simp: process_bound_def pm_slot_put)

lemma process_bound_yield_to: "process_bound pm b \<Longrightarrow> process_bound (snd (pm_yield_to pm cur nxt)) b"
proof (cases rule: yield_to_cases [of pm cur nxt])
  case (yielded c s)
  have "pm_slot (pm_put pm cur (c\<lparr>slot_state := Some ProcessReady\<rparr>)) nxt = Inr s"
    using yielded by (simp add: pm_slot_put)
  then show "process_bound pm b \<Longrightarrow> ?thesis"
    using yielded by (auto simp: process_bound_def pm_slot_put split: if_splits)
qed simp

lemma process_bound_exit: "process_bound pm b \<Longrightarrow> ueb_process b \<noteq> pid \<Longrightarrow> process_bound (snd (pm_exit pm pid)) b"
  by (cases rule: request_exit_cases [of pm pid 0]) (auto simp: process_bound_def pm_slot_put pm_exit_def)

lemma process_bound_reap: "process_bound pm b \<Longrightarrow> process_bound (snd (reap pm pid)) b"
  by (cases rule: reap_cases [of pm pid]) (auto simp: process_bound_def pm_slot_put)

lemma sys_wf_processes:
  assumes "sys_wf y" "pm_wf pm" "\<And>b. process_bound (sys_processes y) b \<Longrightarrow> process_bound pm b"
  shows "sys_wf (y\<lparr>sys_processes := pm\<rparr>)"
  using assms owners_processes [OF sys_wfD(3) [OF assms(1)], of pm] by (simp add: sys_wf_def)

lemma sys_wf_start: "sys_wf y \<Longrightarrow> pm_start (sys_processes y) pid = (r, pm) \<Longrightarrow> sys_wf (y\<lparr>sys_processes := pm\<rparr>)"
  using sys_wf_processes [of y pm] start_wf [of "sys_processes y" pid] process_bound_start [of "sys_processes y" _ pid]
  by (simp add: sys_wfD(2))

lemma sys_wf_yield_to: "sys_wf y \<Longrightarrow> pm_yield_to (sys_processes y) cur nxt = (r, pm) \<Longrightarrow> sys_wf (y\<lparr>sys_processes := pm\<rparr>)"
  using sys_wf_processes [of y pm] yield_to_wf [of "sys_processes y" cur nxt] process_bound_yield_to [of "sys_processes y" _ cur nxt]
  by (simp add: sys_wfD(2))

lemma sys_wf_fields [simp]:
  "sys_wf y \<Longrightarrow> sys_wf (y\<lparr>sys_current_process := p\<rparr>)" "sys_wf y \<Longrightarrow> sys_wf (y\<lparr>sys_pending_exit := None\<rparr>)"
  "sys_wf y \<Longrightarrow> rt_manager rt = rt_manager (sys_runtime y) \<Longrightarrow> sys_wf (y\<lparr>sys_runtime := rt\<rparr>)"
  by (simp_all add: sys_wf_def)

lemma sys_wf_schedule_next:
  "sys_wf y \<Longrightarrow> schedule_next (sys_sched y) = (d, s) \<Longrightarrow> sys_wf (put_sched s y)"
  using sys_wf_sched [of y s] schedule_next_wf [of "sys_sched y"] kind_schedule_next [of "sys_sched y"]
    current_runs_schedule_next [of "sys_sched y"]
  by (simp add: sys_wfD(1))

lemma start_user_wf:
  assumes "sys_wf y" "start_user C y k process = Some (r, y', k')"
  shows "sys_wf y'"
proof -
  have 1: "sys_wf (y\<lparr>sys_pending_exit := None, sys_processes := pm\<rparr>)" if "pm_start (sys_processes y) process = (q, pm)" for q pm
    using sys_wf_start [of "y\<lparr>sys_pending_exit := None\<rparr>"] assms(1) that by simp
  have 2: "sys_wf (put_sched s (y\<lparr>sys_pending_exit := None, sys_processes := pm\<rparr>))"
    if "pm_start (sys_processes y) process = (q, pm)" "schedule_next (sys_sched y) = (d, s)" for q pm d s
    using sys_wf_schedule_next [OF 1 [OF that(1)]] that(2) by simp
  show ?thesis using assms(2) 1 2 assms(1)
    by (auto simp: start_user_def Let_def split: sum.splits option.splits if_splits prod.splits)
qed

end
