(* ===== verification/X86_System_Switch.thy ===== *)
theory X86_System_Switch
  imports X86_System_Invariant
begin

text \<open>
  The two hand-overs between user processes, \<open>commit_pending_exit\<close> and
  \<open>commit_userspace_yield_with_snapshot\<close> of \<open>system_runtime.rs\<close>: under the ownership invariant the checks
  that come before the first write decide the outcome, and the commits after them cannot fail halfway.
\<close>

section \<open>Scheduler steps\<close>

lemma terminate_switches:
  assumes "current_runs s" "sch_current s = Some cur" "next_ready s = Some nxt" "nxt \<noteq> cur" "state s nxt = Some Ready"
  obtains s' where "terminate_current_to s nxt = (Inr nxt, s')" "sch_current s' = Some nxt"
    "state s' = (state s)(cur := None, nxt \<mapsto> Running)" "rq_queue (sch_ready s) = nxt # rq_queue (sch_ready s')"
proof -
  obtain t u q where tu: "task s cur = Some t" "tcb_state t = Running" "task s nxt = Some u" "tcb_state u = Ready"
      and q: "rq_queue (sch_ready s) = nxt # q"
    using assms by (auto simp: current_runs_def state_Some next_ready_def rq_peek_def front_Some)
  let ?s1 = "(set_slot s (unat (task_index cur)) None)\<lparr>sch_ready := (sch_ready s)\<lparr>rq_queue := q\<rparr>\<rparr>"
  have "task ?s1 nxt = Some u" using assms(4) tu by (simp add: task_clear)
  then have "state (put_task ?s1 nxt (u\<lparr>tcb_state := Running\<rparr>)) = (state ?s1)(nxt \<mapsto> Running)"
    using task_id [OF tu(3)] by (simp add: state_put)
  moreover have "state ?s1 = (state s)(cur := None)"
    using task_clear [OF tu(1)] by (simp add: state_def fun_eq_iff)
  ultimately show ?thesis
    using that [OF terminate_current_to_switched [OF assms(2) assms(4) [symmetric] tu q]] q by simp
qed

lemma schedule_next_switches:
  assumes "sched_wf s" "current_runs s" "sch_current s = Some cur" "rq_queue (sch_ready s) = nxt # q"
  obtains d s' where "schedule_next s = (d, s')" "next_task d = Some nxt" "sch_current s' = Some nxt"
    "state s' = (state s)(cur \<mapsto> Ready, nxt \<mapsto> Running)" "rq_queue (sch_ready s') = q @ [cur]"
proof -
  have run: "state s cur = Some Running" using assms(2,3) by (simp add: current_runs_def)
  have "abs_sched (requeue_previous s) = abs_preempt (abs_sched s)" using abs_requeue_previous [OF assms(1)] .
  then have q: "rq_queue (sch_ready (requeue_previous s)) = nxt # q @ [cur]"
    using assms(3,4) run by (simp add: abs_sched_def abs_preempt_def)
  have s': "sch_current (snd (schedule_next s)) = Some nxt"
      "state (snd (schedule_next s)) = (state s)(cur \<mapsto> Ready, nxt \<mapsto> Running)"
      "rq_queue (sch_ready (snd (schedule_next s))) = q @ [cur]"
    using abs_schedule_next [OF assms(1)] assms(3,4) run by (simp_all add: abs_sched_def abs_preempt_def abs_dispatch_def)
  have "next_task (fst (schedule_next s)) = sch_current (snd (schedule_next s))"
    using q by (simp add: schedule_next_def Let_def rq_len_def assms(3))
  then show ?thesis using that [of "fst (schedule_next s)" "snd (schedule_next s)"] s' by simp
qed

section \<open>Successors and the running process\<close>

definition runs_process :: "SystemRuntime \<Rightarrow> ProcessId \<Rightarrow> TaskId \<Rightarrow> bool" where
  "runs_process y process tid \<longleftrightarrow> pm_state (sys_processes y) process = Inr ProcessRunning
     \<and> (\<exists>pb. pm_binding (sys_processes y) process = Inr (Some pb) \<and> bind_task pb = tid)"

lemma bound_and_running_Inr: "bound_and_running y process tid = Inr u \<longleftrightarrow> runs_process y process tid"
  by (auto simp: bound_and_running_def runs_process_def and_then_eq_Inr ok_or_eq_Inr)

lemma successor_plan:
  assumes "select_userspace_successor y cur = Inr p"
  shows "next_ready (sys_sched y) = Some (usp_task p)" "cur \<noteq> Some (usp_task p)"
    "task_kind (sys_sched y) (usp_task p) = Some UserspaceTask" "state (sys_sched y) (usp_task p) = Some Ready"
    "uer_get (sys_userspace y) (usp_task p) = Some (usp_binding p)" "ueb_process (usp_binding p) = usp_process p"
    "pm_state (sys_processes y) (usp_process p) = Inr ProcessReady"
    "\<exists>pb. pm_binding (sys_processes y) (usp_process p) = Inr (Some pb) \<and> bind_task pb = usp_task p"
  using assms
  by (auto simp: select_userspace_successor_def and_then_eq_Inr ok_or_eq_Inr map_err_eq_Inr split: if_splits)

lemma validated_transfer: "urt_validate t c = Inr t' \<Longrightarrow> t' = t"
  by (auto simp: urt_validate_def Let_def split: if_splits option.splits)

lemma pm_slot_of_state: "pm_state pm p = Inr st \<Longrightarrow> \<exists>slot. pm_slot pm p = Inr slot \<and> slot_state slot = Some st"
  by (auto simp: pm_state_def and_then_eq_Inr ok_or_eq_Inr)

lemma pm_slot_of_binding: "pm_binding pm p = Inr b \<Longrightarrow> pm_slot pm p = Inr slot \<Longrightarrow> slot_binding slot = b"
  by (auto simp: pm_binding_def)

text \<open>The resume state of a transfer leaves the registry with it.\<close>

definition resumed :: "UserExecutionRegistry \<Rightarrow> TaskId \<Rightarrow> UserExecutionBinding \<Rightarrow> UserExecutionRegistry" where
  "resumed u tid b = (if ueb_resume b \<noteq> None then uer_put u tid (Some (b\<lparr>ueb_resume := None\<rparr>)) else u)"

lemma hand_over_eq:
  assumes "uer_get (sys_userspace y) (usp_task p) = Some (usp_binding p)"
  shows "hand_over C (UserReturnTransfer_new (usp_binding p)) p stack_top y k =
     (case set_kernel_stack_top C (ks_tss k) stack_top of
        None \<Rightarrow> None
      | Some tss \<Rightarrow>
          Some (y\<lparr>sys_userspace := resumed (sys_userspace y) (usp_task p) (usp_binding p),
                  sys_current_process := Some (usp_process p)\<rparr>,
                on_local (\<lambda>l. set_current_task l (Some (usp_task p))) (k\<lparr>ks_tss := tss\<rparr>)))"
  using assms by (auto simp: hand_over_def resumed_def UserReturnTransfer_new_def urt_resume_def uer_clear_resume_def
    ueb_clear_resume_def split: option.split)

lemma resumed_owners:
  assumes "owners_wf kinds pm execs u" "uer_get u tid = Some b"
  shows "owners_wf kinds pm execs (resumed u tid b)"
  using owners_user_update [OF assms, of "b\<lparr>ueb_resume := None\<rparr>"] owners_wfD(7) [OF assms] assms(1)
  by (simp add: resumed_def user_binding_ok_def)

lemma resumed_get:
  assumes "uer_wf u" "uer_get u tid = Some b"
  shows "uer_get (resumed u tid b) = (uer_get u)(tid \<mapsto> b\<lparr>ueb_resume := None\<rparr>)"
proof (cases "ueb_resume b")
  case None
  then have "b\<lparr>ueb_resume := None\<rparr> = b" by (cases b) simp
  then show ?thesis using None assms(2) by (simp add: resumed_def fun_upd_idem)
next
  case (Some st)
  then show ?thesis
    using uer.get_put [OF assms(1), of tid "Some (b\<lparr>ueb_resume := None\<rparr>)"] uer.get_key [OF assms(2)] assms(2)
    by (simp add: resumed_def)
qed

section \<open>Processes\<close>

lemma pm_state_put:
  assumes "pm_slot pm pid = Inr slot" "slot_generation slot' = slot_generation slot" "slot_state slot' = Some st"
  shows "pm_state (pm_put pm pid slot') = (pm_state pm)(pid := Inr st)"
  using assms by (auto simp: pm_state_def pm_slot_put fun_eq_iff)

text \<open>Starting the successor and then ending the running process.\<close>

lemma start_then_exit:
  assumes "pm_state pm nxt = Inr ProcessReady" "pm_binding pm nxt = Inr (Some pb)" "pm_state pm cur = Inr ProcessRunning"
  obtains pm1 pm2 where "pm_start pm nxt = (Inr (), pm1)" "pm_exit pm1 cur = (Inr (), pm2)"
    "pm_state pm2 = (pm_state pm)(nxt := Inr ProcessRunning, cur := Inr ProcessExited)"
    "pm_exit_code pm2 cur = Inr (Some 0)"
proof -
  obtain s where s: "pm_slot pm nxt = Inr s" "slot_state s = Some ProcessReady" using pm_slot_of_state [OF assms(1)] by blast
  obtain c where c: "pm_slot pm cur = Inr c" "slot_state c = Some ProcessRunning" using pm_slot_of_state [OF assms(3)] by blast
  have ne: "nxt \<noteq> cur" using assms(1,3) by auto
  let ?pm1 = "pm_put pm nxt (s\<lparr>slot_state := Some ProcessRunning\<rparr>)"
  let ?c = "c\<lparr>slot_state := Some ProcessExited, slot_exit_code := Some 0\<rparr>"
  have c1: "pm_slot ?pm1 cur = Inr c" using s c ne by (simp add: pm_slot_put)
  have "pm_start pm nxt = (Inr (), ?pm1)" using s pm_slot_of_binding [OF assms(2) s(1)] by (simp add: pm_start_def)
  moreover have "pm_exit ?pm1 cur = (Inr (), pm_put ?pm1 cur ?c)" using c1 c(2) by (simp add: pm_exit_def request_exit_def)
  moreover have "pm_state (pm_put ?pm1 cur ?c) = (pm_state pm)(nxt := Inr ProcessRunning, cur := Inr ProcessExited)"
    using pm_state_put [OF c1, of ?c] pm_state_put [OF s(1), of "s\<lparr>slot_state := Some ProcessRunning\<rparr>"] by simp
  moreover have "pm_exit_code (pm_put ?pm1 cur ?c) cur = Inr (Some 0)" using c1 by (simp add: pm_exit_code_def pm_slot_put)
  ultimately show ?thesis using that by blast
qed

lemma yield_switches:
  assumes "pm_state pm cur = Inr ProcessRunning" "pm_binding pm cur = Inr (Some cb)"
    "pm_state pm nxt = Inr ProcessReady" "pm_binding pm nxt = Inr (Some pb)"
  obtains pm' where "pm_yield_to pm cur nxt = (Inr (), pm')"
    "pm_state pm' = (pm_state pm)(cur := Inr ProcessReady, nxt := Inr ProcessRunning)"
proof -
  obtain c where c: "pm_slot pm cur = Inr c" "slot_state c = Some ProcessRunning" using pm_slot_of_state [OF assms(1)] by blast
  obtain s where s: "pm_slot pm nxt = Inr s" "slot_state s = Some ProcessReady" using pm_slot_of_state [OF assms(3)] by blast
  have b: "slot_binding c \<noteq> None" "slot_binding s \<noteq> None"
    using pm_slot_of_binding [OF assms(2) c(1)] pm_slot_of_binding [OF assms(4) s(1)] by simp_all
  note y = yield_to_yielded [OF c b(1) s b(2)]
  let ?pm1 = "pm_put pm cur (c\<lparr>slot_state := Some ProcessReady\<rparr>)"
  have "pm_slot ?pm1 nxt = Inr s" using c s y(1) by (simp add: pm_slot_put)
  then have "pm_state (pm_put ?pm1 nxt (s\<lparr>slot_state := Some ProcessRunning\<rparr>))
      = (pm_state pm)(cur := Inr ProcessReady, nxt := Inr ProcessRunning)"
    using pm_state_put [of ?pm1 nxt s "s\<lparr>slot_state := Some ProcessRunning\<rparr>"]
      pm_state_put [OF c(1), of "c\<lparr>slot_state := Some ProcessReady\<rparr>"] by simp
  then show ?thesis using y(3) that by blast
qed

section \<open>Exit\<close>

text \<open>
  What a committed exit changes: the exiting task, its bindings and its process end, and the successor
  runs; the exit status of the process is 0.
\<close>

definition exit_committed :: "SystemRuntime \<Rightarrow> ProcessId \<Rightarrow> TaskId \<Rightarrow> UserSuccessorPlan \<Rightarrow> SystemRuntime \<Rightarrow> bool" where
  "exit_committed y process tid p y' \<longleftrightarrow>
     state (sys_sched y') = (state (sys_sched y))(tid := None, usp_task p \<mapsto> Running)
     \<and> sch_current (sys_sched y') = Some (usp_task p)
     \<and> rq_queue (sch_ready (sys_sched y)) = usp_task p # rq_queue (sch_ready (sys_sched y'))
     \<and> er_get (sys_execs y') = (er_get (sys_execs y))(tid := None)
     \<and> uer_get (sys_userspace y') = (uer_get (sys_userspace y))
          (tid := None, usp_task p \<mapsto> (usp_binding p)\<lparr>ueb_resume := None\<rparr>)
     \<and> pm_state (sys_processes y') = (pm_state (sys_processes y))
          (usp_process p := Inr ProcessRunning, process := Inr ProcessExited)
     \<and> pm_exit_code (sys_processes y') process = Inr (Some 0)
     \<and> sys_current_process y' = Some (usp_process p) \<and> sys_pending_exit y' = None"

text \<open>The owners after the exit, in the order in which the parts are given up.\<close>

lemma exit_owners:
  assumes o1: "owners_wf kinds pm execs users" and u: "uer_get users tid = Some b" "ueb_process b = process"
    and nxt: "uer_get users nxt = Some n" "nxt \<noteq> tid"
    and pm: "pm_start pm p = (Inr (), pm1)" "pm_exit pm1 process = (Inr (), pm2)"
  shows "owners_wf (kinds(tid := None)) pm2 (er_put execs tid None) (resumed (uer_put users tid None) nxt n)"
    and "uer_get (resumed (uer_put users tid None) nxt n) = (uer_get users)(tid := None, nxt \<mapsto> n\<lparr>ueb_resume := None\<rparr>)"
    and "er_get (er_put execs tid None) = (er_get execs)(tid := None)"
proof -
  note wf = owners_wfD(1,2) [OF o1]
  let ?u = "uer_put users tid None"
  have g: "uer_get ?u = (uer_get users)(tid := None)" using uer.get_put [OF wf(2), of tid None] u(1) by simp
  have e: "er_get execs tid \<noteq> None" using owners_wfD(6) [OF o1 u(1)] .
  show er: "er_get (er_put execs tid None) = (er_get execs)(tid := None)" using er.get_put [OF wf(1) e, of None] by simp
  have o2: "owners_wf kinds pm execs ?u" using owners_user_remove [OF o1] u(1) by simp
  have o3: "owners_wf (kinds(tid := None)) pm (er_put execs tid None) ?u"
    using owners_kind_remove [OF owners_exec_remove [OF o2 e]] g er by simp
  have "process_bound pm2 c" if c: "uer_get ?u t = Some c" "process_bound pm c" for t c
  proof -
    have "t \<noteq> tid" "ueb_task c = t" using c(1) g uer.get_key [OF c(1)] by (auto split: if_splits)
    then have "ueb_process c \<noteq> process"
      using c(2) owners_wfD(8) [OF o1 u(1)] u(2) uer.get_key [OF u(1)] by (auto simp: process_bound_def)
    then show ?thesis
      using process_bound_exit [of pm1 c process] process_bound_start [OF c(2), of p] pm by simp
  qed
  then have o4: "owners_wf (kinds(tid := None)) pm2 (er_put execs tid None) ?u" using owners_processes [OF o3] by blast
  show "owners_wf (kinds(tid := None)) pm2 (er_put execs tid None) (resumed ?u nxt n)"
    using resumed_owners [OF o4] nxt g by simp
  show "uer_get (resumed ?u nxt n) = (uer_get users)(tid := None, nxt \<mapsto> n\<lparr>ueb_resume := None\<rparr>)"
    using resumed_get [of ?u nxt n] uer.put_wf [of users None tid] wf(2) nxt g by simp
qed

text \<open>The checks before the first write.\<close>

definition exit_checks :: "SystemRuntime \<Rightarrow> ProcessId \<Rightarrow> TaskId \<Rightarrow> UserSuccessorPlan \<Rightarrow> u64 \<Rightarrow> bool" where
  "exit_checks y process tid p stack_top \<longleftrightarrow>
     (\<exists>code. sys_pending_exit y = Some (process, tid, code)) \<and> sys_current_process y = Some process
     \<and> sch_current (sys_sched y) = Some tid \<and> select_userspace_successor y (Some tid) = Inr p
     \<and> runs_process y process tid \<and> is_ok (urt_validate (UserReturnTransfer_new (usp_binding p)) (Some tid))
     \<and> execution (sys_sched y) tid \<noteq> None \<and> kernel_stack_top (sys_execs y) (usp_task p) = Some stack_top"

lemma exit_refused:
  assumes "\<And>process tid p stack_top. \<not> exit_checks y process tid p stack_top"
  shows "\<exists>e. commit_pending_exit C y k = Some (Inl e, y, k)"
proof (cases "sys_pending_exit y")
  case (Some pending)
  obtain process tid code where pending: "pending = (process, tid, code)" by (cases pending)
  show ?thesis
  proof (cases "sys_current_process y \<noteq> Some process \<or> sch_current (sys_sched y) \<noteq> Some tid")
    case True
    then show ?thesis by (auto simp: commit_pending_exit_def Some pending)
  next
    case False
    have "\<not> (runs_process y process tid \<and> is_ok (urt_validate (UserReturnTransfer_new (usp_binding p)) (Some tid))
        \<and> execution (sys_sched y) tid \<noteq> None \<and> kernel_stack_top (sys_execs y) (usp_task p) = Some stack_top)"
      if "select_userspace_successor y (Some tid) = Inr p" for p stack_top
      using assms [of process tid p stack_top] False Some pending that by (auto simp: exit_checks_def)
    then show ?thesis using False
      by (auto simp: commit_pending_exit_def Some pending bound_and_running_Inr split: sum.split option.split)
  qed
qed (simp add: commit_pending_exit_def)

lemma er_remove_handle: "er_get r tid \<noteq> None \<Longrightarrow> handle_task_id h = tid \<Longrightarrow> er_remove r h = (True, er_put r tid None)"
  by (auto simp: er_remove_def)

lemma exit_commits:
  assumes wf: "sys_wf y" and g: "exit_checks y process tid p stack_top"
  obtains y' where "exit_committed y process tid p y'" "sys_wf y'"
    "commit_pending_exit C y k =
       map_option (\<lambda>tss. (Inr (UserReturnTransfer_new (usp_binding p)), y',
           on_local (\<lambda>l. set_current_task l (Some (usp_task p))) (k\<lparr>ks_tss := tss\<rparr>)))
         (set_kernel_stack_top C (ks_tss k) stack_top)"
proof -
  obtain code where c: "sys_pending_exit y = Some (process, tid, code)" "sys_current_process y = Some process"
      "sch_current (sys_sched y) = Some tid" and sel: "select_userspace_successor y (Some tid) = Inr p"
      and run: "runs_process y process tid" and st: "kernel_stack_top (sys_execs y) (usp_task p) = Some stack_top"
    using g by (auto simp: exit_checks_def)
  note plan = successor_plan [OF sel]
  obtain tr where "urt_validate (UserReturnTransfer_new (usp_binding p)) (Some tid) = Inr tr"
    using g by (cases "urt_validate (UserReturnTransfer_new (usp_binding p)) (Some tid)") (auto simp: exit_checks_def)
  then have tr: "urt_validate (UserReturnTransfer_new (usp_binding p)) (Some tid) = Inr (UserReturnTransfer_new (usp_binding p))"
    using validated_transfer by blast
  obtain h where h: "execution (sys_sched y) tid = Some h" using g by (auto simp: exit_checks_def)
  have ne: "usp_task p \<noteq> tid" using plan(2) by auto
  obtain b where b: "uer_get (sys_userspace y) tid = Some b" "ueb_process b = process" using sys_wf_pending [OF wf c(1)] .
  obtain s where s: "terminate_current_to (sys_sched y) (usp_task p) = (Inr (usp_task p), s)" "sch_current s = Some (usp_task p)"
      "state s = (state (sys_sched y))(tid := None, usp_task p \<mapsto> Running)"
      "rq_queue (sch_ready (sys_sched y)) = usp_task p # rq_queue (sch_ready s)"
    using terminate_switches [OF sys_wfD(4) [OF wf] c(3) plan(1) ne plan(4)] .
  obtain pm1 pm2 where pm: "pm_start (sys_processes y) (usp_process p) = (Inr (), pm1)" "pm_exit pm1 process = (Inr (), pm2)"
      "pm_state pm2 = (pm_state (sys_processes y))(usp_process p := Inr ProcessRunning, process := Inr ProcessExited)"
      "pm_exit_code pm2 process = Inr (Some 0)"
    using start_then_exit [OF plan(7)] plan(8) run unfolding runs_process_def by blast
  note o' = exit_owners [OF sys_wfD(3) [OF wf] b plan(5) ne pm(1,2)]
  let ?u = "uer_put (sys_userspace y) tid None"
  let ?y3 = "put_execs (er_put (sys_execs y) tid None) (put_sched s (y\<lparr>sys_processes := pm2\<rparr>))\<lparr>sys_userspace := ?u\<rparr>"
  let ?y = "?y3\<lparr>sys_userspace := resumed ?u (usp_task p) (usp_binding p), sys_current_process := Some (usp_process p),
      sys_pending_exit := None\<rparr>"
  have e: "er_get (sys_execs y) tid \<noteq> None" using owners_wfD(6) [OF sys_wfD(3) [OF wf] b(1)] .
  have u: "uer_get ?u (usp_task p) = Some (usp_binding p)"
    using uer.get_put [OF owners_wfD(2) [OF sys_wfD(3) [OF wf]], of tid None] b(1) plan(5) ne by simp
  note y3 = er_remove_handle [OF e execution_handle [OF sys_wfD(1) [OF wf] h]]
  have eq: "commit_pending_exit C y k = map_option (\<lambda>tss. (Inr (UserReturnTransfer_new (usp_binding p)), ?y,
           on_local (\<lambda>l. set_current_task l (Some (usp_task p))) (k\<lparr>ks_tss := tss\<rparr>)))
         (set_kernel_stack_top C (ks_tss k) stack_top)"
    using run bound_and_running_Inr [of y process tid "()"] b(1) u
    by (simp add: commit_pending_exit_def c sel tr h st pm s y3 uer_remove_def hand_over_eq Let_def put_execs_def put_sched_def
      split: option.split)
  have "exit_committed y process tid p ?y" using s pm(3,4) o'(2,3) by (simp add: exit_committed_def)
  moreover have "sys_wf ?y"
  proof -
    have "pm_wf pm2" using start_wf [OF sys_wfD(2) [OF wf], of "usp_process p"] request_exit_wf [of pm1 process 0] pm(1,2)
      by (simp add: pm_exit_def)
    moreover have "sched_wf s" using terminate_current_to_wf [OF sys_wfD(1) [OF wf], of "usp_task p"] s(1) by simp
    moreover have "current_runs s" using current_runs_terminate [OF sys_wfD(4) [OF wf], of "usp_task p"] s(1) by simp
    ultimately show ?thesis using o'(1) kind_terminate [OF s(1) c(3)] by (simp add: sys_wf_def)
  qed
  ultimately show ?thesis using that eq by blast
qed

section \<open>Yield\<close>

text \<open>The registry after the snapshot of the yielding task was kept for its next turn.\<close>

definition with_snapshot :: "UserExecutionRegistry \<Rightarrow> TaskId \<Rightarrow> (TaskId \<times> InterruptedState) option \<Rightarrow>
    TaskId \<Rightarrow> UserExecutionBinding option" where
  "with_snapshot u tid interrupted =
     (case interrupted of
        None \<Rightarrow> uer_get u
      | Some (_, st) \<Rightarrow> (uer_get u)(tid := map_option (\<lambda>b. b\<lparr>ueb_resume := Some st\<rparr>) (uer_get u tid)))"

definition yield_committed :: "SystemRuntime \<Rightarrow> ProcessId \<Rightarrow> TaskId \<Rightarrow> (TaskId \<times> InterruptedState) option \<Rightarrow>
    UserSuccessorPlan \<Rightarrow> SystemRuntime \<Rightarrow> bool" where
  "yield_committed y process tid interrupted p y' \<longleftrightarrow>
     state (sys_sched y') = (state (sys_sched y))(tid \<mapsto> Ready, usp_task p \<mapsto> Running)
     \<and> sch_current (sys_sched y') = Some (usp_task p)
     \<and> rq_queue (sch_ready (sys_sched y')) = tl (rq_queue (sch_ready (sys_sched y))) @ [tid]
     \<and> sys_execs y' = sys_execs y
     \<and> uer_get (sys_userspace y') = (with_snapshot (sys_userspace y) tid interrupted)
          (usp_task p \<mapsto> (usp_binding p)\<lparr>ueb_resume := None\<rparr>)
     \<and> pm_state (sys_processes y') = (pm_state (sys_processes y))
          (process := Inr ProcessReady, usp_process p := Inr ProcessRunning)
     \<and> sys_current_process y' = Some (usp_process p) \<and> sys_pending_exit y' = sys_pending_exit y"

definition snapshot_ok :: "SystemRuntime \<Rightarrow> TaskId \<Rightarrow> (TaskId \<times> InterruptedState) option \<Rightarrow> bool" where
  "snapshot_ok y tid interrupted \<longleftrightarrow>
     (\<forall>t st. interrupted = Some (t, st) \<longrightarrow> t = tid \<and> interrupted_user_valid st
        \<and> (\<exists>b. uer_get (sys_userspace y) tid = Some b \<and> ueb_resume b = None))"

definition yield_checks :: "SystemRuntime \<Rightarrow> (TaskId \<times> InterruptedState) option \<Rightarrow> ProcessId \<Rightarrow> TaskId \<Rightarrow>
    UserSuccessorPlan \<Rightarrow> u64 \<Rightarrow> bool" where
  "yield_checks y interrupted process tid p stack_top \<longleftrightarrow>
     sys_current_process y = Some process \<and> sch_current (sys_sched y) = Some tid
     \<and> runs_process y process tid \<and> select_userspace_successor y (Some tid) = Inr p
     \<and> is_ok (urt_validate (UserReturnTransfer_new (usp_binding p)) (Some tid))
     \<and> kernel_stack_top (sys_execs y) (usp_task p) = Some stack_top \<and> snapshot_ok y tid interrupted"

text \<open>A put of the binding that is there changes nothing.\<close>

lemma put_slot_same: "find_slot P es = Some b \<Longrightarrow> put_slot P (Some b) es = es"
  by (induction P es rule: find_slot.induct) (auto split: if_splits)

lemma uer_put_same: "uer_get u tid = Some b \<Longrightarrow> uer_put u tid (Some b) = u"
  by (simp add: uer_get_def uer_put_def put_slot_same)

lemma install_error:
  "uer_install_resume u tid st = (Inl e, u') \<Longrightarrow> u' = u"
  "uer_install_resume u tid st = (Inr v, u') \<Longrightarrow> \<exists>b. uer_get u tid = Some b \<and> ueb_resume b = None"
  by (auto simp: uer_install_resume_def ueb_install_resume_def uer_put_same split: option.splits if_splits)

text \<open>The step of the snapshot in the yield.\<close>

definition keep_snapshot :: "SystemRuntime \<Rightarrow> TaskId \<Rightarrow> (TaskId \<times> InterruptedState) option \<Rightarrow>
    (SystemRuntimeError + unit) \<times> UserExecutionRegistry" where
  "keep_snapshot y tid interrupted =
     (case interrupted of
        None \<Rightarrow> (Inr (), sys_userspace y)
      | Some (captured_task, st) \<Rightarrow>
          if captured_task \<noteq> tid \<or> \<not> interrupted_user_valid st then (Inl SysTaskBindingMismatch, sys_userspace y)
          else apfst (map_err SysUserBinding) (uer_install_resume (sys_userspace y) tid st))"

lemma keep_snapshot_error: "keep_snapshot y tid interrupted = (Inl e, u) \<Longrightarrow> u = sys_userspace y"
  by (cases "uer_install_resume (sys_userspace y) tid (snd (the interrupted))"; cases "fst (uer_install_resume (sys_userspace y) tid (snd (the interrupted)))")
     (auto simp: keep_snapshot_def dest: install_error split: option.splits if_splits)

lemma keep_snapshot_ok:
  assumes "sys_wf y" "snapshot_ok y tid interrupted"
  obtains u where "keep_snapshot y tid interrupted = (Inr (), u)" "uer_get u = with_snapshot (sys_userspace y) tid interrupted"
    "owners_wf (task_kind (sys_sched y)) (sys_processes y) (sys_execs y) u" "sys_wf (y\<lparr>sys_userspace := u\<rparr>)"
proof (cases interrupted)
  case None
  then show ?thesis using that [of "sys_userspace y"] assms sys_wfD(3) by (simp add: keep_snapshot_def with_snapshot_def)
next
  case (Some i)
  then obtain st b where i: "interrupted = Some (tid, st)" "interrupted_user_valid st"
      and b: "uer_get (sys_userspace y) tid = Some b" "ueb_resume b = None"
    using assms(2) by (cases i) (auto simp: snapshot_ok_def)
  let ?b = "b\<lparr>ueb_resume := Some st\<rparr>"
  let ?u = "uer_put (sys_userspace y) tid (Some ?b)"
  note o1 = sys_wfD(3) [OF assms(1)]
  have g: "uer_get ?u = (uer_get (sys_userspace y))(tid \<mapsto> ?b)"
    using uer.get_put [OF owners_wfD(2) [OF o1], of tid "Some ?b"] uer.get_key [OF b(1)] b(1) by simp
  have o2: "owners_wf (task_kind (sys_sched y)) (sys_processes y) (sys_execs y) ?u"
    using owners_user_update [OF o1 b(1), of ?b] owners_wfD(7) [OF o1 b(1)] i(2) by (simp add: user_binding_ok_def)
  moreover have "sys_wf (y\<lparr>sys_userspace := ?u\<rparr>)"
    using assms(1) o2 g b(1) by (auto simp: sys_wf_def)
  moreover have "keep_snapshot y tid interrupted = (Inr (), ?u)"
    using i b by (simp add: keep_snapshot_def uer_install_resume_def ueb_install_resume_def)
  ultimately show ?thesis using that g i(1) b(1) by (simp add: with_snapshot_def)
qed

lemma keep_snapshot_Inr: "keep_snapshot y tid interrupted = (Inr v, u) \<Longrightarrow> snapshot_ok y tid interrupted"
  by (cases "uer_install_resume (sys_userspace y) tid (snd (the interrupted))"; cases "fst (uer_install_resume (sys_userspace y) tid (snd (the interrupted)))")
     (auto simp: keep_snapshot_def snapshot_ok_def dest: install_error split: option.splits if_splits)

lemmas commit_yield_def = commit_userspace_yield_with_snapshot_def [folded keep_snapshot_def]

lemma yield_refused:
  assumes "\<And>process tid p stack_top. \<not> yield_checks y interrupted process tid p stack_top"
  shows "\<exists>r. commit_userspace_yield_with_snapshot C y k interrupted = Some (r, y, k) \<and> (\<forall>t. r \<noteq> Inr (Some t))"
proof (cases "\<exists>process tid. sys_current_process y = Some process \<and> sch_current (sys_sched y) = Some tid")
  case True
  then obtain process tid where c: "sys_current_process y = Some process" "sch_current (sys_sched y) = Some tid" by blast
  have "\<forall>p t stack_top u. select_userspace_successor y (Some tid) = Inr p \<longrightarrow> runs_process y process tid \<longrightarrow>
      urt_validate (UserReturnTransfer_new (usp_binding p)) (Some tid) = Inr t \<longrightarrow>
      kernel_stack_top (sys_execs y) (usp_task p) = Some stack_top \<longrightarrow> keep_snapshot y tid interrupted \<noteq> (Inr (), u)"
    using assms c by (auto simp: yield_checks_def dest!: keep_snapshot_Inr)
  then show ?thesis
    by (auto simp: commit_yield_def c bound_and_running_Inr dest: keep_snapshot_error
      split: sum.split option.split prod.split)
qed (auto simp: commit_yield_def split: option.split)

lemma yield_commits:
  assumes wf: "sys_wf y" and g: "yield_checks y interrupted process tid p stack_top"
  obtains y' where "yield_committed y process tid interrupted p y'" "sys_wf y'"
    "commit_userspace_yield_with_snapshot C y k interrupted =
       map_option (\<lambda>tss. (Inr (Some (UserReturnTransfer_new (usp_binding p))), y',
           on_local (\<lambda>l. set_current_task l (Some (usp_task p))) (k\<lparr>ks_tss := tss\<rparr>)))
         (set_kernel_stack_top C (ks_tss k) stack_top)"
proof -
  have c: "sys_current_process y = Some process" "sch_current (sys_sched y) = Some tid" and run: "runs_process y process tid"
      and sel: "select_userspace_successor y (Some tid) = Inr p"
      and st: "kernel_stack_top (sys_execs y) (usp_task p) = Some stack_top" and snap: "snapshot_ok y tid interrupted"
    using g by (auto simp: yield_checks_def)
  note plan = successor_plan [OF sel]
  obtain tr where "urt_validate (UserReturnTransfer_new (usp_binding p)) (Some tid) = Inr tr"
    using g by (cases "urt_validate (UserReturnTransfer_new (usp_binding p)) (Some tid)") (auto simp: yield_checks_def)
  then have tr: "urt_validate (UserReturnTransfer_new (usp_binding p)) (Some tid) = Inr (UserReturnTransfer_new (usp_binding p))"
    using validated_transfer by blast
  obtain u where u: "keep_snapshot y tid interrupted = (Inr (), u)" "uer_get u = with_snapshot (sys_userspace y) tid interrupted"
      "owners_wf (task_kind (sys_sched y)) (sys_processes y) (sys_execs y) u" "sys_wf (y\<lparr>sys_userspace := u\<rparr>)"
    using keep_snapshot_ok [OF wf snap] .
  have up: "uer_get u (usp_task p) = Some (usp_binding p)"
    using u(2) plan(2,5) by (auto simp: with_snapshot_def split: option.split)
  obtain q where q: "rq_queue (sch_ready (sys_sched y)) = usp_task p # q"
    using plan(1) by (auto simp: next_ready_def rq_peek_def front_Some)
  obtain d s where s: "schedule_next (sys_sched y) = (d, s)" "next_task d = Some (usp_task p)" "sch_current s = Some (usp_task p)"
      "state s = (state (sys_sched y))(tid \<mapsto> Ready, usp_task p \<mapsto> Running)" "rq_queue (sch_ready s) = q @ [tid]"
    using schedule_next_switches [OF sys_wfD(1,4) [OF wf] c(2) q] .
  obtain pm where pm: "pm_yield_to (sys_processes y) process (usp_process p) = (Inr (), pm)"
      "pm_state pm = (pm_state (sys_processes y))(process := Inr ProcessReady, usp_process p := Inr ProcessRunning)"
    using yield_switches [of "sys_processes y" process _ "usp_process p"] plan(7,8) run unfolding runs_process_def by blast
  let ?y2 = "put_sched s (y\<lparr>sys_userspace := u, sys_processes := pm\<rparr>)"
  let ?y = "?y2\<lparr>sys_userspace := resumed u (usp_task p) (usp_binding p), sys_current_process := Some (usp_process p)\<rparr>"
  have eq: "commit_userspace_yield_with_snapshot C y k interrupted = map_option (\<lambda>tss.
      (Inr (Some (UserReturnTransfer_new (usp_binding p))), ?y,
           on_local (\<lambda>l. set_current_task l (Some (usp_task p))) (k\<lparr>ks_tss := tss\<rparr>)))
         (set_kernel_stack_top C (ks_tss k) stack_top)"
    using run bound_and_running_Inr [of y process tid "()"] up
    by (simp add: commit_yield_def c sel tr st u(1) s pm hand_over_eq Let_def split: option.split)
  have "yield_committed y process tid interrupted p ?y"
    using s pm(2) q resumed_get [OF owners_wfD(2) [OF u(3)] up] u(2) by (simp add: yield_committed_def)
  moreover have wf2: "sys_wf ?y2"
    using sys_wf_schedule_next [OF sys_wf_yield_to [OF u(4)]] pm(1) s(1) by simp
  have "sys_wf ?y"
    using wf2 resumed_owners [OF sys_wfD(3) [OF wf2]] up resumed_get [OF owners_wfD(2) [OF u(3)] up]
      uer.get_key [OF up] by (auto simp: sys_wf_def)
  ultimately show ?thesis using that eq by blast
qed

end
