(* ===== verification/X86_System_Reach.thy ===== *)
theory X86_System_Reach
  imports X86_System_Switch
begin

text \<open>
  The runtime underneath the system runtime, the two interrupt hooks and the states the system runtime
  can reach: every operation of \<open>kernel_runtime.rs\<close> and \<open>kernel_task.rs\<close> that the system uses keeps the
  part of the ownership invariant that concerns the task manager.
\<close>

section \<open>The task manager\<close>

definition mgr_wf :: "ProcessManager \<Rightarrow> UserExecutionRegistry \<Rightarrow> KernelTaskManager \<Rightarrow> bool" where
  "mgr_wf pm users m \<longleftrightarrow> sched_wf (ktm_scheduler m) \<and> current_runs (ktm_scheduler m)
     \<and> owners_wf (task_kind (ktm_scheduler m)) pm (ktm_executions m) users"

lemma sys_wf_mgr: "sys_wf y \<Longrightarrow> mgr_wf (sys_processes y) (sys_userspace y) (rt_manager (sys_runtime y))"
  by (simp add: sys_wf_def mgr_wf_def)

lemma sys_wf_runtime:
  "sys_wf y \<Longrightarrow> mgr_wf (sys_processes y) (sys_userspace y) (rt_manager rt) \<Longrightarrow> sys_wf (y\<lparr>sys_runtime := rt\<rparr>)"
  by (simp add: sys_wf_def mgr_wf_def)

lemma mgr_wf_sched:
  "mgr_wf pm users m \<Longrightarrow> sched_wf s \<Longrightarrow> current_runs s \<Longrightarrow> task_kind s = task_kind (ktm_scheduler m) \<Longrightarrow>
   mgr_wf pm users (m\<lparr>ktm_scheduler := s\<rparr>)"
  by (simp add: mgr_wf_def)

lemma mgr_wf_sleepers [simp]: "mgr_wf pm users (m\<lparr>ktm_sleepers := q\<rparr>) \<longleftrightarrow> mgr_wf pm users m"
  by (simp add: mgr_wf_def)

lemma wake_expired_running:
  "sched_wf s \<Longrightarrow> sch_current (snd (wake_expired s ts)) = sch_current s
     \<and> (\<forall>t. state s t = Some Running \<longrightarrow> state (snd (wake_expired s ts)) t = Some Running)"
proof (induction ts arbitrary: s)
  case (Cons tid ts)
  show ?case
  proof (cases "state s tid = Some Blocked")
    case True
    then show ?thesis using Cons.IH [OF readied_wf(1) [OF Cons.prems True]] Cons.prems
      by (auto simp: wake_expired_Cons state_readied simp del: wake_expired.simps(2) split: if_splits)
  qed (use Cons in \<open>simp add: wake_expired_Cons del: wake_expired.simps(2)\<close>)
qed simp

lemma current_runs_expire: "sched_wf s \<Longrightarrow> current_runs s \<Longrightarrow> current_runs (fst (snd (expire_sleepers s now q)))"
  using wake_expired_running [of s "fst (sq_expire_until q now)"]
  by (simp add: expire_sleepers_def case_prod_beta current_runs_def)

lemma mgr_wf_expire: "mgr_wf pm users m \<Longrightarrow> mgr_wf pm users (snd (ktm_expire_sleepers m now))"
  using expire_sleepers_wf [of "ktm_scheduler m" now "ktm_sleepers m"]
    current_runs_expire [of "ktm_scheduler m" now "ktm_sleepers m"] kind_expire [of "ktm_scheduler m" now "ktm_sleepers m"]
  by (simp add: mgr_wf_def ktm_expire_sleepers_def case_prod_beta)

lemma mgr_wf_schedule_next:
  "mgr_wf pm users m \<Longrightarrow> schedule_next (ktm_scheduler m) = (d, s) \<Longrightarrow> mgr_wf pm users (m\<lparr>ktm_scheduler := s\<rparr>)"
  using schedule_next_wf [of "ktm_scheduler m"] current_runs_schedule_next [of "ktm_scheduler m"]
    kind_schedule_next [of "ktm_scheduler m"] by (simp add: mgr_wf_def)

lemma mgr_wf_dispatch:
  assumes "mgr_wf pm users m" "prepare_dispatch C m tss = Some (r, m', tss')"
  shows "mgr_wf pm users m'"
  using assms mgr_wf_schedule_next [OF assms(1)]
  by (auto simp: prepare_dispatch_def Let_def split: option.splits if_splits sum.splits prod.splits)

text \<open>A binding that is written back with its task and a valid content.\<close>

lemma mgr_wf_binding:
  "mgr_wf pm users m \<Longrightarrow> er_get (ktm_executions m) tid = Some b \<Longrightarrow> xb_task_id b' = xb_task_id b \<Longrightarrow> is_ok (xb_validate b') \<Longrightarrow>
   mgr_wf pm users (m\<lparr>ktm_executions := er_put (ktm_executions m) tid (Some b')\<rparr>)"
  using owners_exec_update [of "task_kind (ktm_scheduler m)" pm "ktm_executions m" users tid b b']
    er.get_key [of "ktm_executions m" tid b] by (simp add: mgr_wf_def)

lemma xb_installed: "is_ok (xb_validate b) \<Longrightarrow> xb_install_interrupted b st = (r, b') \<Longrightarrow>
    is_ok (xb_validate b') \<and> xb_task_id b' = xb_task_id b"
  by (auto simp: xb_install_interrupted_def xb_validate_def xb_stack_top_def split: if_splits option.splits)

lemma mgr_wf_commit_interrupted:
  assumes wf: "mgr_wf pm users (rt_manager rt)" and c: "commit_interrupted_state rt k = (r, rt', k')"
  shows "mgr_wf pm users (rt_manager rt')"
proof -
  have "mgr_wf pm users (rt_manager (put_binding rt tid b'))"
    if b: "er_get (ktm_executions (rt_manager rt)) tid = Some b" "xb_install_interrupted b st = (q, b')" for tid b st q b'
    using mgr_wf_binding [OF wf b(1)] xb_installed [OF _ b(2)] owners_wfD(4) [OF _ b(1)] wf
    by (auto simp: put_binding_def mgr_wf_def)
  then show ?thesis using c wf
    by (auto simp: commit_interrupted_state_def Let_def split: option.splits if_splits prod.splits)
qed

lemma mgr_wf_take_kernel:
  assumes "mgr_wf pm users m" "take_kernel_preempt_state (ktm_executions m) tid = (taken, r)"
  shows "mgr_wf pm users (m\<lparr>ktm_executions := r\<rparr>)"
proof (cases "er_get (ktm_executions m) tid")
  case (Some b)
  have "is_ok (xb_validate b)" using assms(1) owners_wfD(4) [OF _ Some] by (auto simp: mgr_wf_def)
  then have "is_ok (xb_validate (b\<lparr>xb_interrupted := None\<rparr>))" by (auto simp: xb_validate_def xb_stack_top_def split: if_splits)
  then have "mgr_wf pm users (m\<lparr>ktm_executions := er_put (ktm_executions m) tid (Some (b\<lparr>xb_interrupted := None\<rparr>))\<rparr>)"
    using mgr_wf_binding [OF assms(1) Some] by simp
  then show ?thesis
    using assms by (auto simp: take_kernel_preempt_state_def xb_take_interrupted_def Some split: option.splits if_splits)
qed (use assms in \<open>auto simp: take_kernel_preempt_state_def\<close>)

lemma mgr_wf_spawn:
  assumes wf: "mgr_wf pm users m" and len: "length (sch_tasks (ktm_scheduler m)) < 2 ^ 32" and tramp: "nb_trampoline nb \<noteq> 0"
    and s: "ktm_spawn nb m priority entry = Some (r, m')"
  shows "mgr_wf pm users m'"
proof -
  let ?s = "ktm_scheduler m"
  have w: "sched_wf ?s" "current_runs ?s" and own: "owners_wf (task_kind ?s) pm (ktm_executions m) users"
    using wf by (simp_all add: mgr_wf_def)
  obtain tid s1 s2 where c: "create_task_with_kind ?s priority KernelTask = Some (tid, s1)" "task ?s tid = None"
      "attach_execution s1 tid = (Inr (for_task tid), s2)" "sched_wf s2"
      "task s2 = (task ?s)(tid \<mapsto> attached_tcb tid KernelTask priority Created)"
      "sch_ready s2 = sch_ready ?s" "sch_current s2 = sch_current ?s"
    by (rule create_attach [OF w(1) len, of priority KernelTask])
  have t2: "task s2 tid = Some (attached_tcb tid KernelTask priority Created)" using c(5) by simp
  have k0: "task_kind ?s tid = None" using c(2) by (simp add: task_kind_def)
  have e0: "er_get (ktm_executions m) tid = None" using owners_no_exec [OF own k0] .
  have run: "current_runs s" if "sch_current s = sch_current ?s" "\<And>x. x \<noteq> tid \<Longrightarrow> task s x = task ?s x" for s
    using that w(2) c(2) unfolding current_runs_def state_def by (metis option.distinct(1) option.map_disc_iff)
  show ?thesis
  proof (cases "X86ExecutionBinding_new nb tid entry")
    case (Inl e)
    let ?s3 = "snd (destroy_created s2 tid)"
    note t3 = spawn_created_undone [OF c(4,5,2,6,7)]
    have "mgr_wf pm users (m\<lparr>ktm_scheduler := ?s3\<rparr>)"
      using mgr_wf_sched [OF wf t3(4) run] t3 by (simp add: task_kind_def fun_eq_iff)
    moreover have "m' = m\<lparr>ktm_scheduler := ?s3\<rparr>"
      using s c(1,3) er_insert_fresh [OF e0, of nb entry] Inl by (simp add: ktm_spawn_def create_task_def)
    ultimately show ?thesis by simp
  next
    case (Inr b)
    note b = new_binding_valid [OF Inr tramp]
    let ?s3 = "(put_task s2 tid (attached_tcb tid KernelTask priority Ready))
      \<lparr>sch_ready := (sch_ready s2)\<lparr>rq_queue := rq_queue (sch_ready s2) @ [tid]\<rparr>\<rparr>"
    have mr: "make_ready s2 tid = (True, ?s3)" using make_ready_attached [OF c(4) t2] .
    have w3: "sched_wf ?s3" using make_ready_wf [OF c(4), of tid] mr by simp
    have t3: "task ?s3 = (task ?s)(tid \<mapsto> attached_tcb tid KernelTask priority Ready)"
      using task_put [OF t2, of "attached_tcb tid KernelTask priority Ready"] c(5) by (simp add: attached_tcb_def)
    have "task_kind ?s3 = (task_kind ?s)(tid \<mapsto> KernelTask)"
      using t3 by (auto simp: task_kind_def attached_tcb_def fun_eq_iff)
    moreover have "owners_wf ((task_kind ?s)(tid \<mapsto> KernelTask)) pm (er_add (ktm_executions m) b) users"
      using owners_exec_add [OF owners_kind_add [OF own k0], of b] b e0 by simp
    moreover have "current_runs ?s3" using run [of ?s3] t3 c(7) by simp
    moreover have "m' = m\<lparr>ktm_scheduler := ?s3, ktm_executions := er_add (ktm_executions m) b\<rparr>"
      using s c(1,3) er_insert_fresh [OF e0, of nb entry] Inr mr by (simp add: ktm_spawn_def create_task_def)
    ultimately show ?thesis using w3 by (simp add: mgr_wf_def)
  qed
qed

lemma mgr_wf_timer_preemption:
  assumes wf: "mgr_wf pm users (rt_manager rt)" and h: "handle_timer_preemption C rt k = Some (r, rt', k')"
  shows "mgr_wf pm users (rt_manager rt')"
proof -
  let ?k1 = "snd (take_timer_pending k)"
  let ?rt1 = "rt\<lparr>rt_manager := snd (ktm_expire_sleepers (rt_manager rt) (ks_timer_ticks ?k1))\<rparr>"
  have w1: "mgr_wf pm users (rt_manager ?rt1)" using mgr_wf_expire [OF wf] by simp
  have fin: "mgr_wf pm users (rt_manager rt3)"
    if "finish_preemption plan candidate rt2 k2 = (q, rt3, k3)" "mgr_wf pm users (rt_manager rt2)" for plan candidate rt2 k2 q rt3 k3
    using that mgr_wf_take_kernel [OF that(2)]
    by (auto simp: finish_preemption_def request_reschedule_def Let_def split: PreemptionPlan.splits prod.splits option.splits)
  have dispatched: "mgr_wf pm users m"
    if "commit_interrupted_state ?rt1 ?k1 = (Inr u, rt2, k2)" "prepare_dispatch C (rt_manager rt2) (ks_tss k2) = Some (q, m, tss)"
    for u rt2 k2 q m tss
    using mgr_wf_dispatch [OF mgr_wf_commit_interrupted [OF w1 that(1)] that(2)] .
  have finished: "mgr_wf pm users (rt_manager rt3)"
    if "commit_interrupted_state ?rt1 ?k1 = (Inr u, rt2, k2)" "prepare_dispatch C (rt_manager rt2) (ks_tss k2) = Some (q, m, tss)"
      "finish_preemption plan candidate (rt2\<lparr>rt_manager := m\<rparr>) k3 = (q', rt3, k4)" for u rt2 k2 q m tss plan candidate k3 q' rt3 k4
    using fin [OF that(3)] dispatched [OF that(1,2)] by simp
  show ?thesis
    using h w1 wf unfolding handle_timer_preemption_def Let_def
    by (auto simp: request_reschedule_def dest: dispatched finished mgr_wf_commit_interrupted [OF w1]
      split: if_splits option.splits prod.splits sum.splits)
qed

section \<open>System calls and interrupts\<close>

lemma current_binding:
  assumes "current_binding_checked y = Inr b"
  shows "uer_get (sys_userspace y) (ueb_task b) = Some b" "sch_current (sys_sched y) = Some (ueb_task b)"
    "sys_current_process y = Some (ueb_process b)" "sys_pending_exit y = None"
    "pm_state (sys_processes y) (ueb_process b) = Inr ProcessRunning"
  using assms uer.get_key [of "sys_userspace y" _ b] option.exhaust [of "sys_pending_exit y" "sys_pending_exit y = None"]
  by (auto simp: current_binding_checked_def and_then_eq_Inr ok_or_eq_Inr split: if_splits)

lemma sys_exit_wf: "sys_wf y \<Longrightarrow> sys_wf (snd (sys_exit y code))"
  using current_binding(1) [of y]
  by (auto simp: sys_exit_def sys_wf_def request_reschedule_def split: sum.split)

lemma sys_yield_now_wf: "sys_wf y \<Longrightarrow> sys_wf (snd (sys_yield_now y))"
  by (auto simp: sys_yield_now_def request_reschedule_def split: sum.split)

lemma commit_pending_exit_wf:
  assumes "sys_wf y" "commit_pending_exit C y k = Some (r, y', k')" shows "sys_wf y'"
proof (cases "\<exists>process tid p stack_top. exit_checks y process tid p stack_top")
  case True
  then obtain process tid p stack_top where "exit_checks y process tid p stack_top" by blast
  then show ?thesis by (rule exit_commits [OF assms(1), where C = C and k = k])
      (cases "set_kernel_stack_top C (ks_tss k) stack_top"; use assms(2) in auto)
next
  case False
  then show ?thesis using assms exit_refused [of y C k] by auto
qed

lemma commit_yield_wf:
  assumes "sys_wf y" "commit_userspace_yield_with_snapshot C y k i = Some (r, y', k')" shows "sys_wf y'"
proof (cases "\<exists>process tid p stack_top. yield_checks y i process tid p stack_top")
  case True
  then obtain process tid p stack_top where "yield_checks y i process tid p stack_top" by blast
  then show ?thesis by (rule yield_commits [OF assms(1), where C = C and k = k])
      (cases "set_kernel_stack_top C (ks_tss k) stack_top"; use assms(2) in auto)
next
  case False
  then show ?thesis using assms yield_refused [of y i C k] by auto
qed

lemma control_action_wf:
  assumes "sys_wf y" "dispatch_with_memory_and_control_action req acc backend wr system_control out y = Some (d, out', y')"
  shows "sys_wf y'"
  using assms sys_exit_wf [OF assms(1), of "req_arg0 req"] sys_yield_now_wf [OF assms(1)]
  by (auto simp: dispatch_with_memory_and_control_action_def dispatch_exit_def dispatch_yield_def system_control_def
      split: option.splits Syscall.splits if_splits prod.splits sum.splits)

lemma syscall_entry_wf:
  assumes wf: "sys_wf y" and e: "syscall_entry_rust C view wr m registers frame out y k = Some (t, registers', out', y', k')"
  shows "sys_wf y'"
proof (cases "frame_cs m frame AND 3 = 3")
  case True
  let ?request = "SyscallRequest_new (sr_rax registers) (sr_rdi registers) (sr_rsi registers) (sr_rdx registers)"
  obtain d out1 y1 where d: "(case view of
                   None \<Rightarrow> Some (disp_returned (Inl NotImplemented), out, y)
                 | Some (page_access, backend) \<Rightarrow>
                     if cl_system_runtime (ks_local k) \<noteq> None
                     then dispatch_with_memory_and_control_action ?request page_access backend wr system_control out y
                     else map_option (\<lambda>(r, out'). (disp_returned r, out', y))
                            (dispatch_with_memory ?request page_access backend wr out)) = Some (d, out1, y1)"
    using e True by (auto simp: syscall_entry_rust_def Let_def split: option.splits)
  have "sys_wf y1" using d wf control_action_wf [OF wf] by (auto split: option.splits prod.splits if_splits)
  then show ?thesis using e True commit_pending_exit_wf [of y1]
    by (auto simp: syscall_entry_rust_def Let_def d split: option.splits if_splits sum.splits prod.splits SyscallReturnAction.splits)
qed (use assms in \<open>simp add: syscall_entry_rust_def\<close>)

lemma timer_entry_wf:
  assumes wf: "sys_wf y" and e: "timer_entry_rust C m registers frame y k = Some (t, y', k')"
  shows "sys_wf y'"
proof -
  have "sys_wf y2" if "timer_kernel_path C y k1 = Some (t2, y2, k2)" for k1 t2 y2 k2
    using that wf sys_wf_runtime [OF wf mgr_wf_timer_preemption [OF sys_wf_mgr [OF wf]]]
    by (auto simp: timer_kernel_path_def split: if_splits option.splits prod.splits)
  then show ?thesis using e wf commit_yield_wf [OF wf]
    by (auto simp: timer_entry_rust_def Let_def split: if_splits option.splits prod.splits sum.splits SyscallReturnAction.splits)
qed

section \<open>Reachable states\<close>

text \<open>
  The operations through which the kernel drives the system runtime: starting processes and kernel
  tasks, the two interrupt hooks, the commits and the timer service. A spawn is made while the task table has room
  for a 32-bit index and with the address of the trampoline, which is not null.
\<close>

type_synonym system_state = "SystemRuntime \<times> KernelStatics"

inductive sys_step :: "'pt X86Crate \<Rightarrow> system_state \<Rightarrow> system_state \<Rightarrow> bool" for C where
  step_spawn_user:
    "sys_spawn_user_ready nb stub y img launch priority = Some (r, y') \<Longrightarrow> length (sch_tasks (sys_sched y)) < 2 ^ 32 \<Longrightarrow>
     nb_trampoline nb \<noteq> 0 \<Longrightarrow> sys_step C (y, k) (y', k)"
| step_spawn_kernel:
    "rt_spawn nb (sys_runtime y) priority entry = Some (r', rt) \<Longrightarrow> length (sch_tasks (sys_sched y)) < 2 ^ 32 \<Longrightarrow>
     nb_trampoline nb \<noteq> 0 \<Longrightarrow> sys_step C (y, k) (y\<lparr>sys_runtime := rt\<rparr>, k)"
| step_start_user: "start_user C y k process = Some (r'', y', k') \<Longrightarrow> sys_step C (y, k) (y', k')"
| step_prepare_run: "prepare_run C (sys_runtime y) k = Some (r', rt, k') \<Longrightarrow> sys_step C (y, k) (y\<lparr>sys_runtime := rt\<rparr>, k')"
| step_syscall:
    "syscall_entry_rust C view (wr :: u8 list sink) m registers frame out y k = Some (t, registers', out', y', k') \<Longrightarrow>
     sys_step C (y, k) (y', k')"
| step_timer: "timer_entry_rust C m stack frame y k = Some (t', y', k') \<Longrightarrow> sys_step C (y, k) (y', k')"
| step_service_timer:
    "service_pending_timer (sys_runtime y) k now = (n, rt, k') \<Longrightarrow> sys_step C (y, k) (y\<lparr>sys_runtime := rt\<rparr>, k')"
| step_commit_exit: "commit_pending_exit C y k = Some (e, y', k') \<Longrightarrow> sys_step C (y, k) (y', k')"
| step_commit_yield: "commit_userspace_yield_with_snapshot C y k i = Some (e', y', k') \<Longrightarrow> sys_step C (y, k) (y', k')"
| step_take_exit: "take_pending_exit y = (taken, y') \<Longrightarrow> sys_step C (y, k) (y', k)"
| step_exit: "sys_exit y code = (v, y') \<Longrightarrow> sys_step C (y, k) (y', k)"
| step_yield: "sys_yield_now y = (v, y') \<Longrightarrow> sys_step C (y, k) (y', k)"

inductive sys_reachable :: "'pt X86Crate \<Rightarrow> system_state \<Rightarrow> bool" for C where
  reach_new: "sys_reachable C (SystemRuntime_new boot, k)"
| reach_step: "sys_reachable C a \<Longrightarrow> sys_step C a b \<Longrightarrow> sys_reachable C b"

lemma prepare_run_wf:
  "sys_wf y \<Longrightarrow> prepare_run C (sys_runtime y) k = Some (r, rt, k') \<Longrightarrow> sys_wf (y\<lparr>sys_runtime := rt\<rparr>)"
  using mgr_wf_dispatch [OF sys_wf_mgr [of y]]
  by (auto simp: prepare_run_def Let_def intro!: sys_wf_runtime split: option.splits)

lemma service_timer_wf:
  "sys_wf y \<Longrightarrow> service_pending_timer (sys_runtime y) k now = (n, rt, k') \<Longrightarrow> sys_wf (y\<lparr>sys_runtime := rt\<rparr>)"
  using mgr_wf_expire [OF sys_wf_mgr [of y], of now]
  by (auto simp: service_pending_timer_def service_timer_def request_reschedule_def Let_def intro!: sys_wf_runtime
    split: if_splits prod.splits dest: sys_wf_mgr)

lemma rt_spawn_wf:
  "sys_wf y \<Longrightarrow> rt_spawn nb (sys_runtime y) priority entry = Some (r, rt) \<Longrightarrow> length (sch_tasks (sys_sched y)) < 2 ^ 32 \<Longrightarrow>
   nb_trampoline nb \<noteq> 0 \<Longrightarrow> sys_wf (y\<lparr>sys_runtime := rt\<rparr>)"
  using mgr_wf_spawn [OF sys_wf_mgr [of y]] by (auto simp: rt_spawn_def intro!: sys_wf_runtime)

lemma take_pending_exit_wf: "sys_wf y \<Longrightarrow> take_pending_exit y = (p, y') \<Longrightarrow> sys_wf y'"
  by (auto simp: take_pending_exit_def)

lemma sys_step_wf: "sys_step C a b \<Longrightarrow> sys_wf (fst a) \<Longrightarrow> sys_wf (fst b)"
proof (induction rule: sys_step.induct)
  case (step_exit y code v y' k)
  then show ?case using sys_exit_wf [of y code] by simp
next
  case (step_yield y v y' k)
  then show ?case using sys_yield_now_wf [of y] by simp
qed (auto intro: sys_spawn_wf rt_spawn_wf start_user_wf prepare_run_wf syscall_entry_wf timer_entry_wf service_timer_wf
    commit_pending_exit_wf commit_yield_wf take_pending_exit_wf)

lemma sys_wf_new: "sys_wf (SystemRuntime_new boot)"
proof -
  have "er_wf ExecutionRegistry_new" "uer_wf UserExecutionRegistry_new"
    by (simp_all add: er_wf_def uer_wf_def slots_wf_def ExecutionRegistry_new_def UserExecutionRegistry_new_def)
  moreover have "er_get ExecutionRegistry_new tid = None" "uer_get UserExecutionRegistry_new tid = None" for tid
    by (simp_all add: er_get_def uer_get_def ExecutionRegistry_new_def UserExecutionRegistry_new_def)
  moreover have "current_runs Scheduler_new" by (simp add: current_runs_def Scheduler_new_def)
  ultimately show ?thesis
    by (simp add: sys_wf_def SystemRuntime_new_def KernelRuntime_new_def KernelTaskManager_new_def owners_wf_def
      Scheduler_new_wf ProcessManager_new_wf)
qed

lemma sys_reachable_wf: "sys_reachable C a \<Longrightarrow> sys_wf (fst a)"
  by (induction rule: sys_reachable.induct) (auto simp: sys_wf_new dest: sys_step_wf)

text \<open>What the invariant says of an entry of the user registry.\<close>

lemma xb_valid_stack: "is_ok (xb_validate b) \<Longrightarrow> xb_stack_top b \<noteq> None"
  by (auto simp: xb_validate_def split: if_splits)

lemma user_entry:
  assumes wf: "sys_wf y" and b: "uer_get (sys_userspace y) tid = Some b"
  shows "ueb_task b = tid" "task_kind (sys_sched y) tid = Some UserspaceTask"
    and "\<exists>x. er_get (sys_execs y) tid = Some x \<and> is_ok (xb_validate x) \<and> kernel_stack_top (sys_execs y) tid \<noteq> None"
    and "\<exists>pb. pm_binding (sys_processes y) (ueb_process b) = Inr (Some pb) \<and> bind_task pb = tid
          \<and> bind_address_space pb = ueb_address_space b \<and> pul_address_space (ueb_launch b) = bind_address_space pb"
    and "pm_state (sys_processes y) (ueb_process b) \<in> {Inr ProcessReady, Inr ProcessRunning}"
proof -
  note o1 = sys_wfD(3) [OF wf]
  show t: "ueb_task b = tid" using uer.get_key [OF b] .
  show "task_kind (sys_sched y) tid = Some UserspaceTask" using owners_wfD(5) [OF o1 b] .
  obtain x where x: "er_get (sys_execs y) tid = Some x" using owners_wfD(6) [OF o1 b] by blast
  then show "\<exists>x. er_get (sys_execs y) tid = Some x \<and> is_ok (xb_validate x) \<and> kernel_stack_top (sys_execs y) tid \<noteq> None"
    using owners_wfD(4) [OF o1 x] xb_valid_stack [of x] by (simp add: kernel_stack_top_def)
  have p: "process_bound (sys_processes y) b" "user_binding_ok b" using owners_wfD(7,8) [OF o1 b] by simp_all
  show "\<exists>pb. pm_binding (sys_processes y) (ueb_process b) = Inr (Some pb) \<and> bind_task pb = tid
          \<and> bind_address_space pb = ueb_address_space b \<and> pul_address_space (ueb_launch b) = bind_address_space pb"
    using p t by (auto simp: process_bound_def user_binding_ok_def pm_binding_def)
  show "pm_state (sys_processes y) (ueb_process b) \<in> {Inr ProcessReady, Inr ProcessRunning}"
    using p(1) by (auto simp: process_bound_def pm_state_def)
qed

lemma user_entry_unique:
  assumes "sys_wf y" "uer_get (sys_userspace y) t1 = Some b1" "uer_get (sys_userspace y) t2 = Some b2"
    "ueb_process b1 = ueb_process b2"
  shows "t1 = t2"
  using user_entry(4) [OF assms(1,2)] user_entry(4) [OF assms(1,3)] assms(4) by auto

end
