(* ===== verification/X86_System_Demo.thy ===== *)
theory X86_System_Demo
  imports X86_System_Reach
begin

text \<open>
  A concrete run of the system runtime: two processes are spawned and the first is started. The
  instances of the system properties are taken at its states.
\<close>

text \<open>The system runtime asks the paging crate for one thing, whether a stack address is canonical.\<close>

definition stack_crate :: "unit X86Crate" where
  "stack_crate = \<lparr>
     virt_addr_new = (\<lambda>a. if a < 0x800000000000 \<or> 0xffff800000000000 \<le> a then Some a else None),
     phys_addr_new = (\<lambda>a. Some a), phys_frame_from_start = (\<lambda>a. Some a), page_index = (\<lambda>_ _. 0), level_4_table = (\<lambda>_. 0),
     phys_offset_of = (\<lambda>_. 0), table_entry = (\<lambda>_ _ _. empty_entry), offset_page_table_new = (\<lambda>_ _ _. ()),
     map_to = (\<lambda>pt _ _ _ _ _. None), unmap = (\<lambda>pt _. (Inl UnPageNotMapped, pt)), translate_addr = (\<lambda>_ _. None),
     crate_tables_ok = (\<lambda>_. True)\<rparr>"

definition demo_nb :: "u64 \<Rightarrow> NewBinding" where
  "demo_nb stack = \<lparr>nb_stack = Some stack, nb_activation = 0x1000, nb_context = 0x2000, nb_trampoline = 0x3000\<rparr>"

definition demo_user_launch :: PreparedUserLaunch where
  "demo_user_launch = \<lparr>pul_address_space = spec_id (pi_address_space demo_process_image), pul_root = AddressSpaceRoot 0x1000,
     pul_frame = \<lparr>urf_rip = 0x400000, urf_cs = 0x23, urf_rflags = 0x202, urf_rsp = 0x500000, urf_ss = 0x1b\<rparr>\<rparr>"

definition demo_spawn :: "u64 \<Rightarrow> SystemRuntime \<Rightarrow> (SystemRuntimeError + ProcessId \<times> TaskId) \<times> SystemRuntime" where
  "demo_spawn stack y = the (sys_spawn_user_ready (demo_nb stack) 0x4000 y demo_process_image demo_user_launch (Priority 1))"

definition demo_one :: SystemRuntime where "demo_one = snd (demo_spawn 0x10000 (SystemRuntime_new 0x5000))"

definition demo_two :: SystemRuntime where "demo_two = snd (demo_spawn 0x20000 demo_one)"

definition demo_statics :: KernelStatics where
  "demo_statics = \<lparr>ks_local = \<lparr>cl_current_task = None, cl_runtime = Some 0x6000, cl_system_runtime = Some 0x7000,
      cl_syscall_action = None, cl_interrupted = None\<rparr>,
    ks_tss = Some \<lparr>tss_privilege_stack = 0x9000, tss_double_fault_stack = 0xa000\<rparr>, ks_timer_ticks = 0, ks_timer_pending = False,
    ks_user_traps = 0, ks_user_syscalls_ok = 0\<rparr>"

definition demo_running :: system_state where
  "demo_running = snd (the (start_user stack_crate demo_two demo_statics (ProcessId 0 1)))"

definition demo_alone :: system_state where
  "demo_alone = snd (the (start_user stack_crate demo_one demo_statics (ProcessId 0 1)))"

definition demo_user :: "ProcessId \<Rightarrow> TaskId \<Rightarrow> UserExecutionBinding" where
  "demo_user process tid = \<lparr>ueb_process = process, ueb_task = tid, ueb_address_space = spec_id (pi_address_space demo_process_image),
     ueb_launch = demo_user_launch, ueb_resume = None\<rparr>"

lemma demo_spawned:
  assumes "sys_reachable stack_crate (y, demo_statics)" "length (sch_tasks (sys_sched y)) < 2 ^ 32"
  shows "sys_reachable stack_crate (snd (demo_spawn stack y), demo_statics)"
proof -
  have wf: "sys_wf y" using sys_reachable_wf [OF assms(1)] by simp
  have tr: "nb_trampoline (demo_nb stack) \<noteq> 0" by (simp add: demo_nb_def)
  have "sys_spawn_user_ready (demo_nb stack) 0x4000 y demo_process_image demo_user_launch (Priority 1) \<noteq> None"
    by (cases rule: sys_spawn_cases [OF wf assms(2) tr, where stub = "0x4000" and img = demo_process_image
        and launch = demo_user_launch and priority = "Priority 1"]) simp_all
  then obtain r y' where s: "sys_spawn_user_ready (demo_nb stack) 0x4000 y demo_process_image demo_user_launch (Priority 1) = Some (r, y')"
    by auto
  then show ?thesis
    using reach_step [OF assms(1) step_spawn_user [OF s assms(2) tr]] by (simp add: demo_spawn_def)
qed

text \<open>One evaluation of each of the two runs.\<close>

lemma demo_one_tasks: "length (sch_tasks (sys_sched demo_one)) = 1"
  by code_simp

lemma demo_running_parts:
  "(case start_user stack_crate demo_two demo_statics (ProcessId 0 1) of
      None \<Rightarrow> None
    | Some (r, y, k) \<Rightarrow> Some (sys_current_process y, sch_current (sys_sched y), rq_queue (sch_ready (sys_sched y)),
        map (\<lambda>t. uer_get (sys_userspace y) t) [TaskId 0 1, TaskId 1 1],
        map (\<lambda>p. pm_state (sys_processes y) p) [ProcessId 0 1, ProcessId 1 1],
        map (map_option (\<lambda>b. (xb_task_id b, xb_stack_top b))) (er_entries (sys_execs y)), ks_tss k, ks_local k,
        execution (sys_sched y) (TaskId 0 1), sys_exit y 7 = (Inr (), snd (sys_exit y 7))))
   = Some (Some (ProcessId 0 1), Some (TaskId 0 1), [TaskId 1 1],
        [Some (demo_user (ProcessId 0 1) (TaskId 0 1)), Some (demo_user (ProcessId 1 1) (TaskId 1 1))],
        [Inr ProcessRunning, Inr ProcessReady],
        [Some (TaskId 0 1, Some 0x18000), Some (TaskId 1 1, Some 0x28000)],
        Some \<lparr>tss_privilege_stack = 0x18000, tss_double_fault_stack = 0xa000\<rparr>,
        \<lparr>cl_current_task = Some (TaskId 0 1), cl_runtime = Some 0x6000, cl_system_runtime = Some 0x7000,
         cl_syscall_action = None, cl_interrupted = None\<rparr>,
        Some (for_task (TaskId 0 1)), True)"
  by code_simp

lemma demo_alone_parts:
  "(case start_user stack_crate demo_one demo_statics (ProcessId 0 1) of
      None \<Rightarrow> None
    | Some (r, y, k) \<Rightarrow> Some (sch_current (sys_sched y), next_ready (sys_sched y), cl_system_runtime (ks_local k),
        sys_exit y 7 = (Inr (), snd (sys_exit y 7))))
   = Some (Some (TaskId 0 1), None, Some 0x7000, True)"
  by code_simp

lemma demo_two_reachable: "sys_reachable stack_crate (demo_two, demo_statics)"
proof -
  have "sys_reachable stack_crate (demo_one, demo_statics)"
    unfolding demo_one_def
    by (rule demo_spawned [OF reach_new]) (simp add: SystemRuntime_new_def KernelRuntime_new_def KernelTaskManager_new_def Scheduler_new_def)
  then show ?thesis using demo_spawned [of demo_one "0x20000"] demo_one_tasks by (simp add: demo_two_def)
qed

lemma demo_running_facts:
  shows "sys_reachable stack_crate demo_running"
    and "sys_current_process (fst demo_running) = Some (ProcessId 0 1)" "sch_current (sys_sched (fst demo_running)) = Some (TaskId 0 1)"
    and "rq_queue (sch_ready (sys_sched (fst demo_running))) = [TaskId 1 1]"
    and "uer_get (sys_userspace (fst demo_running)) (TaskId 0 1) = Some (demo_user (ProcessId 0 1) (TaskId 0 1))"
    and "uer_get (sys_userspace (fst demo_running)) (TaskId 1 1) = Some (demo_user (ProcessId 1 1) (TaskId 1 1))"
    and "pm_state (sys_processes (fst demo_running)) (ProcessId 0 1) = Inr ProcessRunning"
    and "pm_state (sys_processes (fst demo_running)) (ProcessId 1 1) = Inr ProcessReady"
    and "map (map_option (\<lambda>b. (xb_task_id b, xb_stack_top b))) (er_entries (sys_execs (fst demo_running)))
           = [Some (TaskId 0 1, Some 0x18000), Some (TaskId 1 1, Some 0x28000)]"
    and "ks_tss (snd demo_running) = Some \<lparr>tss_privilege_stack = 0x18000, tss_double_fault_stack = 0xa000\<rparr>"
    and "execution (sys_sched (fst demo_running)) (TaskId 0 1) \<noteq> None"
    and "sys_exit (fst demo_running) 7 = (Inr (), snd (sys_exit (fst demo_running) 7))"
proof -
  obtain r y k where s: "start_user stack_crate demo_two demo_statics (ProcessId 0 1) = Some (r, y, k)"
    using demo_running_parts by (cases "start_user stack_crate demo_two demo_statics (ProcessId 0 1)") (simp, auto)
  then have d: "demo_running = (y, k)" by (simp add: demo_running_def)
  show "sys_reachable stack_crate demo_running"
    unfolding d by (rule reach_step [OF demo_two_reachable step_start_user [OF s]])
qed (use demo_running_parts in \<open>auto simp: demo_running_def split: option.splits\<close>)

text \<open>The stack tops of the two tasks.\<close>

lemma demo_stacks:
  "kernel_stack_top (sys_execs (fst demo_running)) (TaskId 1 1) = Some 0x28000"
  "kernel_stack_top (sys_execs (fst demo_running)) tid = Some sp0 \<Longrightarrow> virt_addr_new stack_crate sp0 \<noteq> None"
proof -
  obtain a b where "er_entries (sys_execs (fst demo_running)) = [Some a, Some b]" and x: "xb_task_id a = TaskId 0 1" "xb_stack_top a = Some 0x18000"
      "xb_task_id b = TaskId 1 1" "xb_stack_top b = Some 0x28000"
    using demo_running_facts(9) by auto
  then have g: "er_get (sys_execs (fst demo_running)) t = (if t = TaskId 0 1 then Some a else if t = TaskId 1 1 then Some b else None)" for t
    by (auto simp: er_get_def)
  show "kernel_stack_top (sys_execs (fst demo_running)) (TaskId 1 1) = Some 0x28000" using g x by (simp add: kernel_stack_top_def)
  show "kernel_stack_top (sys_execs (fst demo_running)) tid = Some sp0 \<Longrightarrow> virt_addr_new stack_crate sp0 \<noteq> None"
    using g x by (auto simp: kernel_stack_top_def stack_crate_def split: if_splits)
qed

end
