(* ===== verification/X86_System_Properties.thy ===== *)
theory X86_System_Properties
  imports X86_System_Demo Syscall_Properties
begin

text \<open>
  Properties of the system runtime as a whole: who owns what in every reachable state, spawning as a
  transaction, and the exits and yields that hand the processor from one user process to the next.
\<close>

section \<open>Ownership\<close>

text \<open>
  C25: in every state that the system runtime reaches through spawns, starts, system calls, timer interrupts and
  commits, each entry of the user registry belongs to a live userspace task with a valid kernel stack, and to the process
  that is bound to exactly this task and address space and is ready or running; so no two tasks share a process. A
  requested exit names such an entry, and the current task is the running one.
\<close>

theorem system_ownership:
  assumes "sys_reachable C (y, k)"
  shows "(\<forall>tid b. uer_get (sys_userspace y) tid = Some b \<longrightarrow>
            ueb_task b = tid \<and> task_kind (sys_sched y) tid = Some UserspaceTask
            \<and> (\<exists>x. er_get (sys_execs y) tid = Some x \<and> is_ok (xb_validate x) \<and> kernel_stack_top (sys_execs y) tid \<noteq> None)
            \<and> pm_state (sys_processes y) (ueb_process b) \<in> {Inr ProcessReady, Inr ProcessRunning}
            \<and> (\<exists>pb. pm_binding (sys_processes y) (ueb_process b) = Inr (Some pb) \<and> bind_task pb = tid
                 \<and> bind_address_space pb = ueb_address_space b \<and> pul_address_space (ueb_launch b) = bind_address_space pb))
    \<and> (\<forall>t1 t2 b1 b2. uer_get (sys_userspace y) t1 = Some b1 \<longrightarrow> uer_get (sys_userspace y) t2 = Some b2 \<longrightarrow>
         ueb_process b1 = ueb_process b2 \<longrightarrow> t1 = t2)
    \<and> (\<forall>process tid code. sys_pending_exit y = Some (process, tid, code) \<longrightarrow>
         (\<exists>b. uer_get (sys_userspace y) tid = Some b \<and> ueb_process b = process))
    \<and> (\<forall>tid. sch_current (sys_sched y) = Some tid \<longrightarrow> state (sys_sched y) tid = Some Running)"
proof -
  have wf: "sys_wf y" using sys_reachable_wf [OF assms] by simp
  show ?thesis
  proof (intro conjI allI impI)
    fix process tid code
    assume "sys_pending_exit y = Some (process, tid, code)"
    then show "\<exists>b. uer_get (sys_userspace y) tid = Some b \<and> ueb_process b = process"
      by (rule sys_wf_pending [OF wf]) simp
  next
    fix tid assume "sch_current (sys_sched y) = Some tid"
    then show "state (sys_sched y) tid = Some Running" using sys_wfD(4) [OF wf] by (simp add: current_runs_def)
  qed (rule user_entry [OF wf] user_entry_unique [OF wf]; assumption)+
qed

theorem system_ownership_witness:
  "sys_reachable stack_crate demo_running
   \<and> uer_get (sys_userspace (fst demo_running)) (TaskId 1 1) = Some (demo_user (ProcessId 1 1) (TaskId 1 1))
   \<and> task_kind (sys_sched (fst demo_running)) (TaskId 1 1) = Some UserspaceTask
   \<and> state (sys_sched (fst demo_running)) (TaskId 0 1) = Some Running"
  using demo_running_facts(1,3,6) system_ownership [of stack_crate "fst demo_running" "snd demo_running"] by simp

section \<open>Spawning\<close>

text \<open>
  C26: in a reachable state \<open>spawn_user_ready\<close> never panics and is a transaction over the five owners it writes. On an
  error, which is an address space mismatch, a failed allocation or a refusal of the process registry, every live task,
  the ready queue, the current task, the execution bindings, the processes and the user bindings are what they were. On success exactly one
  new userspace task, with its stack, process and user binding, exists, and it is last in the ready queue.
\<close>

theorem spawn_user_transactional:
  assumes "sys_reachable C (y, k)" "length (sch_tasks (sys_sched y)) < 2 ^ 32" "nb_trampoline nb \<noteq> 0"
  shows "case sys_spawn_user_ready nb stub y img launch priority of
      None \<Rightarrow> False
    | Some (Inl e, y') \<Rightarrow>
        task (sys_sched y') = task (sys_sched y) \<and> sch_ready (sys_sched y') = sch_ready (sys_sched y)
        \<and> sch_current (sys_sched y') = sch_current (sys_sched y) \<and> er_get (sys_execs y') = er_get (sys_execs y)
        \<and> sys_processes y' = sys_processes y \<and> sys_userspace y' = sys_userspace y
        \<and> (e = SysAddressSpaceMismatch \<or> e = SysRuntime (RtTask (KtRegistry RegAllocation)) \<or> (\<exists>pe. e = SysProcess pe))
    | Some (Inr (pid, tid), y') \<Rightarrow>
        state (sys_sched y) tid = None \<and> state (sys_sched y') = (state (sys_sched y))(tid \<mapsto> Ready)
        \<and> task_kind (sys_sched y') tid = Some UserspaceTask
        \<and> rq_queue (sch_ready (sys_sched y')) = rq_queue (sch_ready (sys_sched y)) @ [tid]
        \<and> pm_slot (sys_processes y) pid = Inl InvalidProcess
        \<and> pm_state (sys_processes y') = (pm_state (sys_processes y))(pid := Inr ProcessReady)
        \<and> (\<exists>x. er_get (sys_execs y') = (er_get (sys_execs y))(tid \<mapsto> x) \<and> is_ok (xb_validate x))
        \<and> (\<exists>b. uer_get (sys_userspace y') = (uer_get (sys_userspace y))(tid \<mapsto> b) \<and> ueb_process b = pid
              \<and> ueb_launch b = launch \<and> ueb_resume b = None)"
proof -
  have wf: "sys_wf y" using sys_reachable_wf [OF assms(1)] by simp
  show ?thesis
  proof (cases rule: sys_spawn_cases [OF wf assms(2,3), of stub img launch priority])
    case 1
    then show ?thesis by simp
  next
    case (2 e y')
    then show ?thesis by (auto simp: same_owners_def)
  next
    case (3 pid tid b y')
    then show ?thesis
      by (auto simp: spawn_effect_def state_def task_kind_def attached_tcb_def fun_eq_iff pm_state_def spawned_slot_def spawned_user_def)
  qed
qed

theorem spawn_user_transactional_witness:
  "nb_trampoline (demo_nb 0x10000) \<noteq> 0 \<and> length (sch_tasks (sys_sched (SystemRuntime_new 0x5000))) < 2 ^ 32
   \<and> sys_spawn_user_ready (demo_nb 0x10000) 0x4000 (SystemRuntime_new 0x5000) demo_process_image demo_user_launch (Priority 1) \<noteq> None"
proof -
  have t: "nb_trampoline (demo_nb 0x10000) \<noteq> 0" "length (sch_tasks (sys_sched (SystemRuntime_new 0x5000))) < 2 ^ 32"
    by (simp_all add: demo_nb_def SystemRuntime_new_def KernelRuntime_new_def KernelTaskManager_new_def Scheduler_new_def)
  then show ?thesis
    using spawn_user_transactional [OF reach_new [of stack_crate "0x5000" demo_statics] t(2,1), where stub = "0x4000"
      and img = demo_process_image and launch = demo_user_launch and priority = "Priority 1"]
    by (auto split: option.splits)
qed

section \<open>Entries of the running and the next process\<close>

lemma stack_top_accepted:
  "ks_tss k = Some t \<Longrightarrow> virt_addr_new C sp0 = Some v \<Longrightarrow> set_kernel_stack_top C (ks_tss k) sp0 = Some (Some (t\<lparr>tss_privilege_stack := v\<rparr>))"
  by (simp add: set_kernel_stack_top_def)

lemma runs_entry:
  assumes "sys_wf y" "uer_get (sys_userspace y) tid = Some b" "pm_state (sys_processes y) (ueb_process b) = Inr ProcessRunning"
  shows "runs_process y (ueb_process b) tid"
  using user_entry(4) [OF assms(1,2)] assms(3) by (auto simp: runs_process_def)

lemma select_entry:
  assumes wf: "sys_wf y" and q: "rq_queue (sch_ready (sys_sched y)) = tid # ts" and b: "uer_get (sys_userspace y) tid = Some b"
    and p: "pm_state (sys_processes y) (ueb_process b) = Inr ProcessReady" and ne: "cur \<noteq> Some tid"
  shows "select_userspace_successor y cur = Inr \<lparr>usp_process = ueb_process b, usp_task = tid, usp_binding = b\<rparr>"
proof -
  have "next_ready (sys_sched y) = Some tid" using q by (simp add: next_ready_def rq_peek_def front_Some)
  moreover have "state (sys_sched y) tid = Some Ready"
    using queue_wf_mem [OF sched_wf_queue [OF sys_wfD(1) [OF wf]], of tid] q by (auto simp: state_def)
  ultimately show ?thesis using user_entry(2,4) [OF wf b] p ne b by (auto simp: select_userspace_successor_def)
qed

section \<open>Exit\<close>

lemma exit_accepted:
  assumes "sys_exit y code = (Inr u, y1)"
  obtains b where "current_binding_checked y = Inr b"
    "y1 = y\<lparr>sys_pending_exit := Some (ueb_process b, ueb_task b, code), sys_runtime := request_reschedule (sys_runtime y)\<rparr>"
  using assms by (auto simp: sys_exit_def split: sum.splits)

lemma reschedule_owners [simp]: "rt_manager (request_reschedule rt) = rt_manager rt"
  by (simp add: request_reschedule_def)

lemma select_same:
  assumes "rt_manager (sys_runtime y') = rt_manager (sys_runtime y)" "sys_processes y' = sys_processes y"
    "sys_userspace y' = sys_userspace y"
  shows "select_userspace_successor y' = select_userspace_successor y"
  unfolding select_userspace_successor_def assms ..

text \<open>
  C27: an accepted exit followed by its commit hands the processor over as a whole. When the head of the ready queue is a
  userspace task with a valid transfer, the commit returns that transfer; the exiting task no longer exists, its kernel stack and user
  binding are gone, its process is exited, and the successor is the running task of the running process on its own
  kernel stack. The status that the process exits with is 0, whatever code the call passed.
\<close>

theorem exit_hand_over:
  assumes "sys_reachable C (y, k)" "sys_exit y code = (Inr u, y1)"
    and "sch_current (sys_sched y) = Some tid" "sys_current_process y = Some process"
    and "select_userspace_successor y (Some tid) = Inr p" "is_ok (urt_validate (UserReturnTransfer_new (usp_binding p)) (Some tid))"
    and "execution (sys_sched y) tid \<noteq> None" "kernel_stack_top (sys_execs y) (usp_task p) = Some sp0"
    and "set_kernel_stack_top C (ks_tss k) sp0 = Some tss"
  shows "\<exists>y2. commit_pending_exit C y1 k = Some (Inr (UserReturnTransfer_new (usp_binding p)), y2,
        on_local (\<lambda>l. set_current_task l (Some (usp_task p))) (k\<lparr>ks_tss := tss\<rparr>))
    \<and> state (sys_sched y2) = (state (sys_sched y))(tid := None, usp_task p \<mapsto> Running)
    \<and> sch_current (sys_sched y2) = Some (usp_task p)
    \<and> er_get (sys_execs y2) = (er_get (sys_execs y))(tid := None)
    \<and> uer_get (sys_userspace y2) tid = None
    \<and> pm_state (sys_processes y2) = (pm_state (sys_processes y))(usp_process p := Inr ProcessRunning, process := Inr ProcessExited)
    \<and> sys_current_process y2 = Some (usp_process p) \<and> sys_pending_exit y2 = None
    \<and> pm_exit_code (sys_processes y2) process = Inr (Some 0)"
proof -
  obtain b where b: "current_binding_checked y = Inr b"
      "y1 = y\<lparr>sys_pending_exit := Some (ueb_process b, ueb_task b, code), sys_runtime := request_reschedule (sys_runtime y)\<rparr>"
    using exit_accepted [OF assms(2)] .
  note c = current_binding [OF b(1)]
  have wf: "sys_wf y" using sys_reachable_wf [OF assms(1)] by simp
  have wf1: "sys_wf y1" using sys_exit_wf [OF wf, of code] assms(2) by simp
  have ids: "ueb_task b = tid" "ueb_process b = process" using c assms(3,4) by simp_all
  have sel: "select_userspace_successor y1 = select_userspace_successor y" by (rule select_same) (simp_all add: b(2))
  have "runs_process y1 process tid"
    using user_entry(4) [OF wf c(1)] c(5) ids b(2) by (auto simp: runs_process_def)
  then have "exit_checks y1 process tid p sp0"
    using assms ids b(2) sel by (simp add: exit_checks_def)
  then obtain y2 where "exit_committed y1 process tid p y2"
      "commit_pending_exit C y1 k = map_option (\<lambda>tss. (Inr (UserReturnTransfer_new (usp_binding p)), y2,
           on_local (\<lambda>l. set_current_task l (Some (usp_task p))) (k\<lparr>ks_tss := tss\<rparr>))) (set_kernel_stack_top C (ks_tss k) sp0)"
    by (rule exit_commits [OF wf1, where C = C and k = k])
  moreover have "usp_task p \<noteq> tid" using successor_plan(2) [OF assms(5)] by auto
  ultimately show ?thesis using b(2) assms(9) by (simp add: exit_committed_def)
qed

theorem exit_hand_over_witness:
  "\<exists>y2 k2. commit_pending_exit stack_crate (snd (sys_exit (fst demo_running) 7)) (snd demo_running)
      = Some (Inr (UserReturnTransfer_new (demo_user (ProcessId 1 1) (TaskId 1 1))), y2, k2)
    \<and> sch_current (sys_sched y2) = Some (TaskId 1 1) \<and> pm_exit_code (sys_processes y2) (ProcessId 0 1) = Inr (Some 0)"
proof -
  let ?y = "fst demo_running" and ?p = "\<lparr>usp_process = ProcessId 1 1, usp_task = TaskId 1 1, usp_binding = demo_user (ProcessId 1 1) (TaskId 1 1)\<rparr>"
  have reach: "sys_reachable stack_crate (?y, snd demo_running)" using demo_running_facts(1) by simp
  have wf: "sys_wf ?y" using sys_reachable_wf [OF reach] by simp
  have sel: "select_userspace_successor ?y (Some (TaskId 0 1)) = Inr ?p"
    using select_entry [OF wf demo_running_facts(4,6), of "Some (TaskId 0 1)"] demo_running_facts(8) by (simp add: demo_user_def)
  have v: "is_ok (urt_validate (UserReturnTransfer_new (usp_binding ?p)) (Some (TaskId 0 1)))" by code_simp
  have sp: "kernel_stack_top (sys_execs ?y) (usp_task ?p) = Some 0x28000" using demo_stacks(1) by simp
  have tss: "set_kernel_stack_top stack_crate (ks_tss (snd demo_running)) 0x28000
      = Some (Some \<lparr>tss_privilege_stack = 0x28000, tss_double_fault_stack = 0xa000\<rparr>)"
    unfolding demo_running_facts(10) by code_simp
  show ?thesis
    using exit_hand_over [OF reach demo_running_facts(12,3,2) sel v demo_running_facts(11) sp tss] by auto
qed

text \<open>
  C28: an exit for which no task is ready does not end the task. The hook of \<open>int 0x80\<close> returns, with 0 in
  \<open>rax\<close>, to the frame of the program that asked to exit, its exit stays pending, and every later
  exit or yield of this program is refused.
\<close>

theorem exit_without_successor:
  assumes "frame_cs m frame AND 3 = 3" "cl_system_runtime (ks_local k) \<noteq> None"
    and "request_syscall (SyscallRequest_new (sr_rax r) (sr_rdi r) (sr_rsi r) (sr_rdx r)) = Some Exit"
    and "sys_exit y (sr_rdi r) = (Inr u, y1)" "next_ready (sys_sched y) = None"
  shows "\<exists>k'. syscall_entry_rust C (Some view) wr m r frame out y k = Some (None, r\<lparr>sr_rax := 0\<rparr>, out, y1, k')
    \<and> sch_current (sys_sched y1) = sch_current (sys_sched y)
    \<and> (\<exists>process tid. sys_pending_exit y1 = Some (process, tid, sr_rdi r) \<and> sch_current (sys_sched y) = Some tid)
    \<and> sys_exit y1 c = (Inl InvalidArguments, y1) \<and> sys_yield_now y1 = (Inl InvalidArguments, y1)"
proof -
  obtain b where b: "current_binding_checked y = Inr b"
      "y1 = y\<lparr>sys_pending_exit := Some (ueb_process b, ueb_task b, sr_rdi r), sys_runtime := request_reschedule (sys_runtime y)\<rparr>"
    using exit_accepted [OF assms(4)] .
  note c = current_binding [OF b(1)]
  obtain acc backend where view: "view = (acc, backend)" by (cases view)
  have sel: "select_userspace_successor y1 (Some (ueb_task b)) = Inl SuccNoReadyTask"
    using assms(5) by (simp add: b(2) select_userspace_successor_def)
  let ?k = "record_user_trap k True"
  have "commit_pending_exit C y1 ?k = Some (Inl (SysSuccessor SuccNoReadyTask), y1, ?k)"
    using sel c by (simp add: commit_pending_exit_def b(2))
  moreover have "cl_system_runtime (ks_local ?k) = cl_system_runtime (ks_local k)" by (simp add: record_user_trap_def Let_def)
  moreover have "dispatch_with_memory_and_control_action (SyscallRequest_new (sr_rax r) (sr_rdi r) (sr_rsi r) (sr_rdx r))
      acc backend wr system_control out y = Some (disp_terminate 0, out, y1)"
    using assms(3,4) by (simp add: dispatch_with_memory_and_control_action_def dispatch_exit_def system_control_def
      SyscallRequest_new_def)
  ultimately have "syscall_entry_rust C (Some view) wr m r frame out y k = Some (None, r\<lparr>sr_rax := 0\<rparr>, out, y1, ?k)"
    using assms(1,2) by (simp add: syscall_entry_rust_def Let_def view disp_terminate_def)
  then show ?thesis using c by (simp add: b(2) sys_exit_def sys_yield_now_def current_binding_checked_def)
qed

definition demo_exit_registers :: SavedRegisters where
  "demo_exit_registers = \<lparr>sr_rax = syscall_number Exit, sr_rcx = 0, sr_rdx = 0, sr_rbx = 0, sr_rbp = 0, sr_rsi = 0, sr_rdi = 7, sr_r8 = 0,
     sr_r9 = 0, sr_r10 = 0, sr_r11 = 0, sr_r12 = 0, sr_r13 = 0, sr_r14 = 0, sr_r15 = 0\<rparr>"

theorem exit_without_successor_witness:
  "\<exists>k'. syscall_entry_rust stack_crate (Some (\<lambda>_. access_unmapped, \<lambda>_ _. Inl Unmapped)) append_sink (\<lambda>_. 3)
      demo_exit_registers (InterruptReturnFrame 0x100) [] (fst demo_alone) (snd demo_alone)
    = Some (None, demo_exit_registers\<lparr>sr_rax := 0\<rparr>, [], snd (sys_exit (fst demo_alone) 7), k')"
proof -
  obtain r y k where s: "demo_alone = (y, k)" "next_ready (sys_sched y) = None" "cl_system_runtime (ks_local k) \<noteq> None"
      "sys_exit y 7 = (Inr (), snd (sys_exit y 7))"
    using demo_alone_parts by (auto simp: demo_alone_def split: option.splits)
  have cs: "frame_cs (\<lambda>_. 3) (InterruptReturnFrame 0x100) AND 3 = 3" by code_simp
  have rq: "request_syscall (SyscallRequest_new (sr_rax demo_exit_registers) (sr_rdi demo_exit_registers) (sr_rsi demo_exit_registers)
      (sr_rdx demo_exit_registers)) = Some Exit" by code_simp
  have di: "sr_rdi demo_exit_registers = 7" by (simp add: demo_exit_registers_def)
  show ?thesis
    using exit_without_successor [OF cs s(3) rq, unfolded di, OF s(4,2), where C = stack_crate and wr = append_sink and out = "[]"
      and view = "(\<lambda>_. access_unmapped, \<lambda>_ _. Inl Unmapped)"] by (auto simp: s(1))
qed

section \<open>Yield\<close>

text \<open>One yield with a snapshot, from the entries of the two processes.\<close>

lemma yield_once:
  assumes wf: "sys_wf y" and cur: "sys_current_process y = Some (ueb_process a)" "sch_current (sys_sched y) = Some tA"
    and a: "uer_get (sys_userspace y) tA = Some a" "pm_state (sys_processes y) (ueb_process a) = Inr ProcessRunning" "ueb_resume a = None"
    and q: "rq_queue (sch_ready (sys_sched y)) = [tB]"
    and b: "uer_get (sys_userspace y) tB = Some b" "pm_state (sys_processes y) (ueb_process b) = Inr ProcessReady" "tB \<noteq> tA"
    and v: "is_ok (urt_validate (UserReturnTransfer_new b) (Some tA))" "interrupted_user_valid st"
    and k: "ks_tss k = Some t" "\<And>sp0. kernel_stack_top (sys_execs y) tB = Some sp0 \<Longrightarrow> virt_addr_new C sp0 \<noteq> None"
  obtains y' k' t' where
    "commit_userspace_yield_with_snapshot C y k (Some (tA, st)) = Some (Inr (Some (UserReturnTransfer_new b)), y', k')"
    "sys_wf y'" "ks_tss k' = Some t'" "sys_current_process y' = Some (ueb_process b)" "sch_current (sys_sched y') = Some tB"
    "rq_queue (sch_ready (sys_sched y')) = [tA]" "sys_execs y' = sys_execs y"
    "state (sys_sched y') = (state (sys_sched y))(tA \<mapsto> Ready, tB \<mapsto> Running)"
    "pm_state (sys_processes y') = (pm_state (sys_processes y))(ueb_process a := Inr ProcessReady, ueb_process b := Inr ProcessRunning)"
    "uer_get (sys_userspace y') = (uer_get (sys_userspace y))(tA \<mapsto> a\<lparr>ueb_resume := Some st\<rparr>, tB \<mapsto> b\<lparr>ueb_resume := None\<rparr>)"
proof -
  let ?p = "\<lparr>usp_process = ueb_process b, usp_task = tB, usp_binding = b\<rparr>"
  obtain sp0 where sp0: "kernel_stack_top (sys_execs y) tB = Some sp0" using user_entry(3) [OF wf b(1)] by auto
  obtain v' where "virt_addr_new C sp0 = Some v'" using k(2) [OF sp0] by auto
  then have tss: "set_kernel_stack_top C (ks_tss k) sp0 = Some (Some (t\<lparr>tss_privilege_stack := v'\<rparr>))"
    by (rule stack_top_accepted [OF k(1)])
  have "yield_checks y (Some (tA, st)) (ueb_process a) tA ?p sp0"
    using cur runs_entry [OF wf a(1,2)] select_entry [OF wf q b(1,2)] b(3) v sp0 a(1,3)
    by (simp add: yield_checks_def snapshot_ok_def)
  then obtain y' where y': "yield_committed y (ueb_process a) tA (Some (tA, st)) ?p y'" "sys_wf y'"
      "commit_userspace_yield_with_snapshot C y k (Some (tA, st)) = map_option (\<lambda>tss. (Inr (Some (UserReturnTransfer_new b)), y',
         on_local (\<lambda>l. set_current_task l (Some tB)) (k\<lparr>ks_tss := tss\<rparr>))) (set_kernel_stack_top C (ks_tss k) sp0)"
    by (rule yield_commits [OF wf, where C = C and k = k]) simp
  then show ?thesis
    using that [OF _ y'(2), of "on_local (\<lambda>l. set_current_task l (Some tB)) (k\<lparr>ks_tss := Some (t\<lparr>tss_privilege_stack := v'\<rparr>)\<rparr>)"] tss q a(1)
    by (simp add: yield_committed_def with_snapshot_def on_local_def)
qed

text \<open>
  C29: two user processes take turns without losing anything. When the running process yields to the only ready one, and that
  one yields back, the second transfer resumes the first task, in its address space, with exactly the registers and the return frame that were
  captured when it gave the processor up. After the turn the scheduler and process states and the ready queue are
  the original ones, and the only change in the user registry is the snapshot of the second task.
\<close>

theorem yield_turn:
  assumes "sys_reachable C (y, k)" "sys_current_process y = Some (ueb_process a)" "sch_current (sys_sched y) = Some tA"
    and "uer_get (sys_userspace y) tA = Some a" "pm_state (sys_processes y) (ueb_process a) = Inr ProcessRunning" "ueb_resume a = None"
    and "rq_queue (sch_ready (sys_sched y)) = [tB]"
    and "uer_get (sys_userspace y) tB = Some b" "pm_state (sys_processes y) (ueb_process b) = Inr ProcessReady"
    and "is_ok (urt_validate (UserReturnTransfer_new b) (Some tA))" "interrupted_user_valid stA" "interrupted_user_valid stB"
    and "ks_tss k = Some t" "\<forall>tid sp0. kernel_stack_top (sys_execs y) tid = Some sp0 \<longrightarrow> virt_addr_new C sp0 \<noteq> None"
  shows "\<exists>y1 k1 tr y2 k2.
      commit_userspace_yield_with_snapshot C y k (Some (tA, stA)) = Some (Inr (Some (UserReturnTransfer_new b)), y1, k1)
    \<and> sch_current (sys_sched y1) = Some tB
    \<and> commit_userspace_yield_with_snapshot C y1 k1 (Some (tB, stB)) = Some (Inr (Some tr), y2, k2)
    \<and> urt_task tr = tA \<and> urt_process tr = ueb_process a \<and> urt_root tr = pul_root (ueb_launch a) \<and> urt_resume tr = Some stA
    \<and> sch_current (sys_sched y2) = Some tA \<and> sys_current_process y2 = Some (ueb_process a)
    \<and> rq_queue (sch_ready (sys_sched y2)) = [tB] \<and> state (sys_sched y2) = state (sys_sched y)
    \<and> pm_state (sys_processes y2) = pm_state (sys_processes y) \<and> sys_execs y2 = sys_execs y
    \<and> uer_get (sys_userspace y2) = (uer_get (sys_userspace y))(tB \<mapsto> b\<lparr>ueb_resume := Some stB\<rparr>)"
proof -
  have wf: "sys_wf y" using sys_reachable_wf [OF assms(1)] by simp
  have sA: "state (sys_sched y) tA = Some Running" using sys_wfD(4) [OF wf] assms(3) by (simp add: current_runs_def)
  have sB: "state (sys_sched y) tB = Some Ready"
    using queue_wf_mem [OF sched_wf_queue [OF sys_wfD(1) [OF wf]], of tB] assms(7) by (auto simp: state_def)
  have ne: "tB \<noteq> tA" "ueb_process b \<noteq> ueb_process a" using sA sB assms(5,9) by auto
  have stacks: "virt_addr_new C sp0 \<noteq> None" if "kernel_stack_top (sys_execs y) tid = Some sp0" for tid sp0 using assms(14) that by blast
  obtain y1 k1 t1 where y1: "commit_userspace_yield_with_snapshot C y k (Some (tA, stA)) = Some (Inr (Some (UserReturnTransfer_new b)), y1, k1)"
    "sys_wf y1" "ks_tss k1 = Some t1" "sys_current_process y1 = Some (ueb_process b)" "sch_current (sys_sched y1) = Some tB"
    "rq_queue (sch_ready (sys_sched y1)) = [tA]" "sys_execs y1 = sys_execs y"
    "state (sys_sched y1) = (state (sys_sched y))(tA \<mapsto> Ready, tB \<mapsto> Running)"
    "pm_state (sys_processes y1) = (pm_state (sys_processes y))(ueb_process a := Inr ProcessReady, ueb_process b := Inr ProcessRunning)"
    "uer_get (sys_userspace y1) = (uer_get (sys_userspace y))(tA \<mapsto> a\<lparr>ueb_resume := Some stA\<rparr>, tB \<mapsto> b\<lparr>ueb_resume := None\<rparr>)"
    by (rule yield_once [OF wf assms(2-9) ne(1) assms(10,11,13) stacks])
  let ?a = "a\<lparr>ueb_resume := Some stA\<rparr>" and ?b = "b\<lparr>ueb_resume := None\<rparr>"
  have valid: "is_ok (urt_validate (UserReturnTransfer_new ?a) (Some tB))"
    using ne uer.get_key [OF assms(4)] assms(11) by (simp add: urt_validate_def UserReturnTransfer_new_def urt_resume_def)
  obtain y2 k2 t2 where y2: "commit_userspace_yield_with_snapshot C y1 k1 (Some (tB, stB)) = Some (Inr (Some (UserReturnTransfer_new ?a)), y2, k2)"
    "sys_wf y2" "ks_tss k2 = Some t2" "sys_current_process y2 = Some (ueb_process ?a)" "sch_current (sys_sched y2) = Some tA"
    "rq_queue (sch_ready (sys_sched y2)) = [tB]" "sys_execs y2 = sys_execs y1"
    "state (sys_sched y2) = (state (sys_sched y1))(tB \<mapsto> Ready, tA \<mapsto> Running)"
    "pm_state (sys_processes y2) = (pm_state (sys_processes y1))(ueb_process ?b := Inr ProcessReady, ueb_process ?a := Inr ProcessRunning)"
    "uer_get (sys_userspace y2) = (uer_get (sys_userspace y1))(tB \<mapsto> ?b\<lparr>ueb_resume := Some stB\<rparr>, tA \<mapsto> ?a\<lparr>ueb_resume := None\<rparr>)"
    by (rule yield_once [of y1 ?b tB tA ?a stB k1 t1 C])
       (use y1 ne assms(12) valid stacks in \<open>simp_all\<close>)
  have "?a\<lparr>ueb_resume := None\<rparr> = a" using assms(6) by (cases a) simp
  then have "uer_get (sys_userspace y2) = (uer_get (sys_userspace y))(tB \<mapsto> b\<lparr>ueb_resume := Some stB\<rparr>)"
    using y2(10) y1(10) ne assms(4) by (simp add: fun_upd_twist fun_upd_idem)
  moreover have "state (sys_sched y2) = state (sys_sched y)" using y2(8) y1(8) sA sB ne by (auto simp: fun_eq_iff)
  moreover have "pm_state (sys_processes y2) = pm_state (sys_processes y)" using y2(9) y1(9) assms(5,9) ne by (auto simp: fun_eq_iff)
  moreover have "urt_task (UserReturnTransfer_new ?a) = tA" "urt_process (UserReturnTransfer_new ?a) = ueb_process a"
      "urt_root (UserReturnTransfer_new ?a) = pul_root (ueb_launch a)" "urt_resume (UserReturnTransfer_new ?a) = Some stA"
    using uer.get_key [OF assms(4)] by (simp_all add: UserReturnTransfer_new_def urt_resume_def urt_root_def)
  ultimately show ?thesis using y1(1,5,7) y2(1,4-7) by (intro exI conjI) simp_all
qed

definition demo_snapshot :: "u64 \<Rightarrow> InterruptedState" where
  "demo_snapshot rip = \<lparr>is_registers = demo_exit_registers, is_return_state = \<lparr>rs_rip = rip, rs_cs = 0x23, rs_rflags = 0x202,
     rs_resume_rsp = 0x9000, rs_rsp = Some 0x500000, rs_ss = Some 0x1b\<rparr>\<rparr>"

theorem yield_turn_witness:
  "\<exists>y1 k1 tr y2 k2.
      commit_userspace_yield_with_snapshot stack_crate (fst demo_running) (snd demo_running) (Some (TaskId 0 1, demo_snapshot 0x400010))
        = Some (Inr (Some (UserReturnTransfer_new (demo_user (ProcessId 1 1) (TaskId 1 1)))), y1, k1)
    \<and> commit_userspace_yield_with_snapshot stack_crate y1 k1 (Some (TaskId 1 1, demo_snapshot 0x400020)) = Some (Inr (Some tr), y2, k2)
    \<and> urt_task tr = TaskId 0 1 \<and> urt_resume tr = Some (demo_snapshot 0x400010)"
proof -
  let ?a = "demo_user (ProcessId 0 1) (TaskId 0 1)" and ?b = "demo_user (ProcessId 1 1) (TaskId 1 1)"
  have p: "ueb_process ?a = ProcessId 0 1" "ueb_process ?b = ProcessId 1 1" "ueb_resume ?a = None" by (simp_all add: demo_user_def)
  have reach: "sys_reachable stack_crate (fst demo_running, snd demo_running)" using demo_running_facts(1) by simp
  have v: "is_ok (urt_validate (UserReturnTransfer_new ?b) (Some (TaskId 0 1)))"
      "interrupted_user_valid (demo_snapshot 0x400010)" "interrupted_user_valid (demo_snapshot 0x400020)" by code_simp+
  have stacks: "\<forall>tid sp0. kernel_stack_top (sys_execs (fst demo_running)) tid = Some sp0 \<longrightarrow> virt_addr_new stack_crate sp0 \<noteq> None"
    using demo_stacks(2) by blast
  show ?thesis
    using yield_turn [OF reach _ demo_running_facts(3,5) _ p(3) demo_running_facts(4,6) _ v demo_running_facts(10) stacks]
      demo_running_facts(2,7,8) unfolding p by blast
qed

end
