(* ===== verification/Acpi.thy ===== *)
theory Acpi
  imports X86_Asm "HOL-Library.Monad_Syntax"
begin

text \<open>
  Discovery of the interrupt topology in the firmware tables (\<open>arch/x86_64/acpi.rs\<close>). Slices are byte
  lists, an index or range out of bounds is the panic \<open>None\<close>, and firmware memory is a byte memory
  reached through the direct map. Table lengths are 32-bit, so offsets are natural numbers.
\<close>

unbundle bit_operations_syntax

section \<open>Data\<close>

definition RSDP_SIGNATURE :: "u8 list" where "RSDP_SIGNATURE = [0x52, 0x53, 0x44, 0x20, 0x50, 0x54, 0x52, 0x20]"

definition XSDT_SIGNATURE :: "u8 list" where "XSDT_SIGNATURE = [0x58, 0x53, 0x44, 0x54]"

definition MADT_SIGNATURE :: "u8 list" where "MADT_SIGNATURE = [0x41, 0x50, 0x49, 0x43]"

definition MADT_TYPE_LOCAL_APIC :: u8 where "MADT_TYPE_LOCAL_APIC = 0"

definition MADT_TYPE_IO_APIC :: u8 where "MADT_TYPE_IO_APIC = 1"

definition MADT_TYPE_INTERRUPT_SOURCE_OVERRIDE :: u8 where "MADT_TYPE_INTERRUPT_SOURCE_OVERRIDE = 2"

definition MADT_TYPE_LOCAL_X2APIC :: u8 where "MADT_TYPE_LOCAL_X2APIC = 9"

lemmas MADT_TYPES = MADT_TYPE_LOCAL_APIC_def MADT_TYPE_IO_APIC_def MADT_TYPE_INTERRUPT_SOURCE_OVERRIDE_def
  MADT_TYPE_LOCAL_X2APIC_def

record LocalApicInfo =
  la_processor_id :: u8
  la_apic_id :: u8
  la_flags :: u32

definition la_enabled :: "LocalApicInfo \<Rightarrow> bool" where
  "la_enabled i \<longleftrightarrow> la_flags i AND 1 \<noteq> 0"

record LocalX2ApicInfo =
  lx_uid :: u32
  lx_x2apic_id :: u32
  lx_flags :: u32

definition lx_enabled :: "LocalX2ApicInfo \<Rightarrow> bool" where
  "lx_enabled i \<longleftrightarrow> lx_flags i AND 1 \<noteq> 0"

record IoApicInfo =
  io_id :: u8
  io_address :: u32
  io_gsi_base :: u32

record InterruptSourceOverride =
  so_bus :: u8
  so_source :: u8
  so_gsi :: u32
  so_flags :: u16

datatype AcpiError =
    MissingRsdp
  | InvalidRsdpSignature
  | InvalidRsdpChecksum
  | InvalidExtendedChecksum
  | InvalidTableAddress
  | InvalidTableHeader
  | InvalidTableChecksum
  | XsdtNotFound
  | MadtNotFound
  | TruncatedMadtEntry

record ApicTopology =
  local_apic_address :: u64
  local_apics :: "LocalApicInfo option list"
  local_x2apics :: "LocalX2ApicInfo option list"
  io_apics :: "IoApicInfo option list"
  source_overrides :: "InterruptSourceOverride option list"
  local_apic_count :: nat
  local_x2apic_count :: nat
  io_apic_count :: nat
  source_override_count :: nat

definition ApicTopology_empty :: ApicTopology where
  "ApicTopology_empty = \<lparr>local_apic_address = 0, local_apics = replicate 256 None, local_x2apics = replicate 256 None,
     io_apics = replicate 32 None, source_overrides = replicate 24 None, local_apic_count = 0, local_x2apic_count = 0,
     io_apic_count = 0, source_override_count = 0\<rparr>"

section \<open>Slices\<close>

text \<open>\<open>xs[a..b]\<close> and the little-endian number in \<open>n\<close> bytes at an offset.\<close>

definition slice_range :: "'a list \<Rightarrow> nat \<Rightarrow> nat \<Rightarrow> 'a list option" where
  "slice_range xs a b = (if a \<le> b \<and> b \<le> length xs then Some (take (b - a) (drop a xs)) else None)"

definition le_at :: "u8 list \<Rightarrow> nat \<Rightarrow> nat \<Rightarrow> 'a::len word option" where
  "le_at xs a n = map_option from_le_bytes (slice_range xs a (a + n))"

definition checksum :: "u8 list \<Rightarrow> u8" where
  "checksum bytes = foldl (+) 0 bytes"

definition acpi_read_bytes :: "PhysicalMemoryMapping \<Rightarrow> byte_memory \<Rightarrow> u64 \<Rightarrow> nat \<Rightarrow> AcpiError + u8 list" where
  "acpi_read_bytes mapping m physical_address n =
     and_then (ok_or (phys_translate mapping physical_address) InvalidTableAddress) (\<lambda>virtual_address.
     and_then (ok_or (checked_add virtual_address (of_nat n)) InvalidTableAddress) (\<lambda>e.
     if e \<le> virtual_address then Inl InvalidTableAddress
     else Inr (map (\<lambda>i. m (virtual_address + of_nat i)) [0..<n])))"

section \<open>The MADT\<close>

text \<open>The arms of the match on the type of an entry.\<close>

definition madt_entry :: "u8 \<Rightarrow> u8 list \<Rightarrow> ApicTopology \<Rightarrow> ApicTopology option" where
  "madt_entry entry_type entry t =
     (if entry_type = MADT_TYPE_LOCAL_APIC \<and> length entry \<ge> 8 then
        if local_apic_count t < length (local_apics t) then do {
          processor_id \<leftarrow> vec_get entry 2;
          apic_id \<leftarrow> vec_get entry 3;
          flags \<leftarrow> le_at entry 4 4;
          Some (t\<lparr>local_apics := (local_apics t)[local_apic_count t :=
                    Some \<lparr>la_processor_id = processor_id, la_apic_id = apic_id, la_flags = flags\<rparr>],
                  local_apic_count := local_apic_count t + 1\<rparr>)
        } else Some t
      else if entry_type = MADT_TYPE_IO_APIC \<and> length entry \<ge> 12 then
        if io_apic_count t < length (io_apics t) then do {
          id \<leftarrow> vec_get entry 2;
          address \<leftarrow> le_at entry 4 4;
          gsi_base \<leftarrow> le_at entry 8 4;
          Some (t\<lparr>io_apics := (io_apics t)[io_apic_count t :=
                    Some \<lparr>io_id = id, io_address = address, io_gsi_base = gsi_base\<rparr>],
                  io_apic_count := io_apic_count t + 1\<rparr>)
        } else Some t
      else if entry_type = MADT_TYPE_INTERRUPT_SOURCE_OVERRIDE \<and> length entry \<ge> 10 then
        if source_override_count t < length (source_overrides t) then do {
          bus \<leftarrow> vec_get entry 2;
          source \<leftarrow> vec_get entry 3;
          gsi \<leftarrow> le_at entry 4 4;
          flags \<leftarrow> le_at entry 8 2;
          Some (t\<lparr>source_overrides := (source_overrides t)[source_override_count t :=
                    Some \<lparr>so_bus = bus, so_source = source, so_gsi = gsi, so_flags = flags\<rparr>],
                  source_override_count := source_override_count t + 1\<rparr>)
        } else Some t
      else if entry_type = MADT_TYPE_LOCAL_X2APIC \<and> length entry \<ge> 16 then
        if local_x2apic_count t < length (local_x2apics t) then do {
          x2apic_id \<leftarrow> le_at entry 4 4;
          flags \<leftarrow> le_at entry 8 4;
          uid \<leftarrow> le_at entry 12 4;
          Some (t\<lparr>local_x2apics := (local_x2apics t)[local_x2apic_count t :=
                    Some \<lparr>lx_uid = uid, lx_x2apic_id = x2apic_id, lx_flags = flags\<rparr>],
                  local_x2apic_count := local_x2apic_count t + 1\<rparr>)
        } else Some t
      else Some t)"

function madt_loop :: "u8 list \<Rightarrow> nat \<Rightarrow> ApicTopology \<Rightarrow> (AcpiError + ApicTopology) option" where
  "madt_loop table offset topology =
     (if offset < length table then
        if length table - offset < 2 then Some (Inl TruncatedMadtEntry)
        else case vec_get table offset of
               None \<Rightarrow> None
             | Some entry_type \<Rightarrow>
            (case vec_get table (offset + 1) of
               None \<Rightarrow> None
             | Some len_byte \<Rightarrow>
                 (let entry_length = unat len_byte
                  in if entry_length < 2 \<or> offset + entry_length > length table then Some (Inl TruncatedMadtEntry)
                     else case slice_range table offset (offset + entry_length) of
                            None \<Rightarrow> None
                          | Some entry \<Rightarrow>
                              (case madt_entry entry_type entry topology of
                                 None \<Rightarrow> None
                               | Some topology' \<Rightarrow> madt_loop table (offset + entry_length) topology')))
      else Some (Inr topology))"
  by pat_completeness auto
termination
  by (relation "measure (\<lambda>(table, offset, topology). length table - offset)") auto

declare madt_loop.simps [simp del]

definition parse_madt :: "u8 list \<Rightarrow> (AcpiError + ApicTopology) option" where
  "parse_madt table = do {
     address \<leftarrow> le_at table 36 4;
     madt_loop table 44 (ApicTopology_empty\<lparr>local_apic_address := ucast (address :: u32)\<rparr>)
   }"

section \<open>Discovery\<close>

text \<open>The loop over the entries of the XSDT.\<close>

fun xsdt_loop :: "PhysicalMemoryMapping \<Rightarrow> byte_memory \<Rightarrow> u8 list \<Rightarrow> nat list \<Rightarrow> (AcpiError + ApicTopology) option" where
  "xsdt_loop mapping m xsdt [] = Some (Inl MadtNotFound)"
| "xsdt_loop mapping m xsdt (index # rest) =
     (case le_at xsdt (36 + index * 8) 8 of
        None \<Rightarrow> None
      | Some table_address \<Rightarrow>
     if table_address = 0 then xsdt_loop mapping m xsdt rest
     else case acpi_read_bytes mapping m table_address 36 of
        Inl e \<Rightarrow> Some (Inl e)
      | Inr header \<Rightarrow>
     (case slice_range header 0 4 of
        None \<Rightarrow> None
      | Some signature \<Rightarrow>
     if signature \<noteq> MADT_SIGNATURE then xsdt_loop mapping m xsdt rest
     else case le_at header 4 4 of
        None \<Rightarrow> None
      | Some len32 \<Rightarrow>
     (let madt_length = unat (len32 :: u32)
      in if madt_length < 44 then Some (Inl InvalidTableHeader)
         else case acpi_read_bytes mapping m table_address madt_length of
                Inl e \<Rightarrow> Some (Inl e)
              | Inr madt \<Rightarrow> if checksum madt \<noteq> 0 then Some (Inl InvalidTableChecksum) else parse_madt madt)))"

text \<open>After the RSDP: the XSDT is read, checked and searched.\<close>

definition discover_xsdt :: "PhysicalMemoryMapping \<Rightarrow> byte_memory \<Rightarrow> u64 \<Rightarrow> (AcpiError + ApicTopology) option" where
  "discover_xsdt mapping m xsdt_address =
     (case acpi_read_bytes mapping m xsdt_address 36 of
        Inl e \<Rightarrow> Some (Inl e)
      | Inr xsdt_header \<Rightarrow>
     (case slice_range xsdt_header 0 4 of
        None \<Rightarrow> None
      | Some signature \<Rightarrow>
     if signature \<noteq> XSDT_SIGNATURE then Some (Inl InvalidTableHeader)
     else case le_at xsdt_header 4 4 of
        None \<Rightarrow> None
      | Some len32 \<Rightarrow>
     (let xsdt_length = unat (len32 :: u32)
      in if xsdt_length < 36 then Some (Inl InvalidTableHeader)
         else case acpi_read_bytes mapping m xsdt_address xsdt_length of
                Inl e \<Rightarrow> Some (Inl e)
              | Inr xsdt \<Rightarrow>
                  if checksum xsdt \<noteq> 0 then Some (Inl InvalidTableChecksum)
                  else xsdt_loop mapping m xsdt [0..<(xsdt_length - 36) div 8])))"

definition discover :: "u64 \<Rightarrow> PhysicalMemoryMapping \<Rightarrow> byte_memory \<Rightarrow> (AcpiError + ApicTopology) option" where
  "discover rsdp_physical_address mapping m =
     (if rsdp_physical_address = 0 then Some (Inl MissingRsdp)
      else case acpi_read_bytes mapping m rsdp_physical_address 36 of
        Inl e \<Rightarrow> Some (Inl e)
      | Inr rsdp \<Rightarrow> do {
          signature \<leftarrow> slice_range rsdp 0 8;
          if signature \<noteq> RSDP_SIGNATURE then Some (Inl InvalidRsdpSignature)
          else do {
            first \<leftarrow> slice_range rsdp 0 20;
            if checksum first \<noteq> 0 then Some (Inl InvalidRsdpChecksum)
            else do {
              revision \<leftarrow> vec_get rsdp 15;
              if revision = 0 then Some (Inl XsdtNotFound)
              else do {
                xsdt_address \<leftarrow> le_at rsdp 24 8;
                if checksum rsdp \<noteq> 0 then Some (Inl InvalidExtendedChecksum)
                else discover_xsdt mapping m xsdt_address
              }
            }
          }
        })"

end
