(* ===== verification/Acpi_Properties.thy ===== *)
theory Acpi_Properties
  imports Acpi
begin

text \<open>
  The topology parser never panics and always ends, its result is well-formed, and it reads back a
  table that was written entry by entry.
\<close>

section \<open>Slices\<close>

lemma slice_range_within: "a \<le> b \<Longrightarrow> b \<le> length xs \<Longrightarrow> slice_range xs a b = Some (take (b - a) (drop a xs))"
  by (simp add: slice_range_def)

lemma le_at_within: "a + n \<le> length xs \<Longrightarrow> le_at xs a n = Some (from_le_bytes (take n (drop a xs)))"
  by (simp add: le_at_def slice_range_def)

lemma vec_get_within: "i < length xs \<Longrightarrow> vec_get xs i = Some (xs ! i)"
  by (simp add: vec_get_def)

lemmas within = slice_range_within le_at_within vec_get_within

lemma read_bytes_length: "acpi_read_bytes mapping m p n = Inr xs \<Longrightarrow> length xs = n"
  by (auto simp: acpi_read_bytes_def and_then_eq_Inr split: if_splits)

section \<open>Well-formed topologies\<close>

text \<open>An array with a counter holds its entries in front and is empty behind them.\<close>

definition filled :: "nat \<Rightarrow> 'a option list \<Rightarrow> nat \<Rightarrow> bool" where
  "filled capacity xs n \<longleftrightarrow> length xs = capacity \<and> n \<le> capacity
     \<and> (\<forall>i < n. xs ! i \<noteq> None) \<and> (\<forall>i < capacity. n \<le> i \<longrightarrow> xs ! i = None)"

definition topology_wf :: "ApicTopology \<Rightarrow> bool" where
  "topology_wf t \<longleftrightarrow> filled 256 (local_apics t) (local_apic_count t) \<and> filled 256 (local_x2apics t) (local_x2apic_count t)
     \<and> filled 32 (io_apics t) (io_apic_count t) \<and> filled 24 (source_overrides t) (source_override_count t)"

lemma filled_empty: "filled c (replicate c None) 0"
  by (simp add: filled_def)

lemma filled_push: "filled c xs n \<Longrightarrow> n < length xs \<Longrightarrow> filled c (xs[n := Some x]) (Suc n)"
  by (auto simp: filled_def nth_list_update less_Suc_eq)

lemma topology_empty_wf: "topology_wf (ApicTopology_empty\<lparr>local_apic_address := a\<rparr>)"
  by (simp add: topology_wf_def ApicTopology_empty_def filled_empty)

text \<open>The bytes that the stored entries came from.\<close>

definition stored_bytes :: "ApicTopology \<Rightarrow> nat" where
  "stored_bytes t = local_apic_count t * 8 + io_apic_count t * 12 + source_override_count t * 10 + local_x2apic_count t * 16"

lemma madt_entry_wf:
  assumes "topology_wf t"
  obtains t' where "madt_entry ty entry t = Some t'" "topology_wf t'" "stored_bytes t' \<le> stored_bytes t + length entry"
proof -
  consider (lapic) "ty = 0" "8 \<le> length entry" "local_apic_count t < length (local_apics t)"
    | (io) "ty = 1" "12 \<le> length entry" "io_apic_count t < length (io_apics t)"
    | (so) "ty = 2" "10 \<le> length entry" "source_override_count t < length (source_overrides t)"
    | (lx) "ty = 9" "16 \<le> length entry" "local_x2apic_count t < length (local_x2apics t)"
    | (skip) "madt_entry ty entry t = Some t"
    by (fastforce simp: madt_entry_def MADT_TYPES split: if_splits)
  then show ?thesis
  proof cases
    case skip
    then show ?thesis using that assms by simp
  qed (use assms that in \<open>auto simp: madt_entry_def MADT_TYPES within topology_wf_def stored_bytes_def filled_push
        intro!: filled_push\<close>)
qed

lemma madt_loop_wf:
  "topology_wf t \<Longrightarrow> stored_bytes t + 44 \<le> offset \<Longrightarrow> offset \<le> length table \<Longrightarrow>
   case madt_loop table offset t of
     None \<Rightarrow> False | Some (Inl e) \<Rightarrow> e = TruncatedMadtEntry | Some (Inr t') \<Rightarrow> topology_wf t' \<and> stored_bytes t' + 44 \<le> length table"
proof (induction table offset t rule: madt_loop.induct)
  case (1 table offset t)
  show ?case
  proof (cases "offset < length table \<and> 2 \<le> length table - offset \<and> 2 \<le> unat (table ! (offset + 1))
      \<and> offset + unat (table ! (offset + 1)) \<le> length table")
    case True
    let ?n = "unat (table ! (offset + 1))"
    let ?entry = "take ?n (drop offset table)"
    have s: "slice_range table offset (offset + ?n) = Some ?entry" using True by (simp add: within)
    obtain t' where t': "madt_entry (table ! offset) ?entry t = Some t'" "topology_wf t'"
        "stored_bytes t' \<le> stored_bytes t + length ?entry"
      using madt_entry_wf [OF "1.prems"(1)] .
    have loop: "madt_loop table offset t = madt_loop table (offset + ?n) t'"
      using True s t'(1) by (subst madt_loop.simps) (simp add: vec_get_within Let_def)
    show ?thesis unfolding loop
    proof (rule "1.IH")
      show "vec_get table offset = Some (table ! offset)" "vec_get table (offset + 1) = Some (table ! (offset + 1))"
        using True by (simp_all add: vec_get_within)
      show "stored_bytes t' + 44 \<le> offset + ?n" using t'(3) "1.prems"(2) True by simp
    qed (use True s t' in simp_all)
  next
    case False
    then show ?thesis using "1.prems" by (subst madt_loop.simps) (auto simp: vec_get_within Let_def)
  qed
qed

lemma parse_madt_wf:
  assumes "44 \<le> length table"
  shows "case parse_madt table of
      None \<Rightarrow> False | Some (Inl e) \<Rightarrow> e = TruncatedMadtEntry | Some (Inr t) \<Rightarrow> topology_wf t \<and> stored_bytes t + 44 \<le> length table"
  using madt_loop_wf [OF topology_empty_wf, of _ 44 table] assms
  by (simp add: parse_madt_def le_at_within stored_bytes_def ApicTopology_empty_def)

text \<open>The outcome of every stage of the discovery.\<close>

definition discovered :: "(AcpiError + ApicTopology) option \<Rightarrow> bool" where
  "discovered r \<longleftrightarrow> (case r of None \<Rightarrow> False | Some (Inl e) \<Rightarrow> True | Some (Inr t) \<Rightarrow> topology_wf t \<and> stored_bytes t + 44 < 2 ^ 32)"

lemma discovered_simps [simp]: "discovered (Some (Inl e))"
  by (simp add: discovered_def)

lemma unat32_less: "unat (n :: u32) < 4294967296"
  using unsigned_less [of n, where ?'a = nat] by simp

lemma discovered_parse: "44 \<le> length table \<Longrightarrow> length table < 4294967296 \<Longrightarrow> discovered (parse_madt table)"
  using parse_madt_wf [of table] by (auto simp: discovered_def split: option.splits sum.splits)

text \<open>A table that is read in two steps, its header first and then all of it.\<close>

lemma discovered_read:
  assumes "\<And>xs. length xs = n \<Longrightarrow> discovered (f xs)"
  shows "discovered (case acpi_read_bytes mapping m p n of Inl e \<Rightarrow> Some (Inl e) | Inr xs \<Rightarrow> f xs)"
  using assms read_bytes_length [of mapping m p n] by (auto split: sum.split)

lemma discovered_xsdt_loop: "(\<And>i. i \<in> set is \<Longrightarrow> 36 + i * 8 + 8 \<le> length xsdt) \<Longrightarrow> discovered (xsdt_loop mapping m xsdt is)"
proof (induction "is")
  case (Cons i "is")
  then have rest: "discovered (xsdt_loop mapping m xsdt is)" and i: "36 + i * 8 + 8 \<le> length xsdt" by auto
  show ?case using i rest by (auto simp: within Let_def unat32_less intro!: discovered_read discovered_parse)
qed simp

lemma discovered_xsdt: "discovered (discover_xsdt mapping m xsdt_address)"
  unfolding discover_xsdt_def
  by (rule discovered_read) (auto simp: within Let_def intro!: discovered_read discovered_xsdt_loop)

section \<open>Reading back a table\<close>

definition le_bytes :: "nat \<Rightarrow> 'a::len word \<Rightarrow> u8 list" where
  "le_bytes n v = map (\<lambda>i. ucast (drop_bit (8 * i) v)) [0..<n]"

lemma le_bytes_length [simp]: "length (le_bytes n v) = n"
  by (simp add: le_bytes_def)

lemma le_bytes_read_u16 [simp]: "from_le_bytes (le_bytes 2 v) = (v :: u16)"
  using le_bytes_prefix [of 0 v 2] by (simp add: le_bytes_def take_bit_word_eq_self)

lemma le_bytes_read_u32 [simp]: "from_le_bytes (le_bytes 4 v) = (v :: u32)"
  using le_bytes_prefix [of 0 v 4] by (simp add: le_bytes_def take_bit_word_eq_self)

text \<open>The entries of a MADT as the firmware writes them; the last constructor is an entry of a type that is skipped.\<close>

datatype MadtRecord =
    LocalApicRecord LocalApicInfo
  | IoApicRecord IoApicInfo
  | OverrideRecord InterruptSourceOverride
  | X2ApicRecord LocalX2ApicInfo
  | OtherRecord u8 "u8 list"

fun encode_record :: "MadtRecord \<Rightarrow> u8 list" where
  "encode_record (LocalApicRecord i) = [0, 8, la_processor_id i, la_apic_id i] @ le_bytes 4 (la_flags i)"
| "encode_record (IoApicRecord i) = [1, 12, io_id i, 0] @ le_bytes 4 (io_address i) @ le_bytes 4 (io_gsi_base i)"
| "encode_record (OverrideRecord i) = [2, 10, so_bus i, so_source i] @ le_bytes 4 (so_gsi i) @ le_bytes 2 (so_flags i)"
| "encode_record (X2ApicRecord i) = [9, 16, 0, 0] @ le_bytes 4 (lx_x2apic_id i) @ le_bytes 4 (lx_flags i) @ le_bytes 4 (lx_uid i)"
| "encode_record (OtherRecord ty body) = [ty, of_nat (2 + length body)] @ body"

fun record_ok :: "MadtRecord \<Rightarrow> bool" where
  "record_ok (OtherRecord ty body) \<longleftrightarrow> ty \<notin> {0, 1, 2, 9} \<and> 2 + length body < 256"
| "record_ok r \<longleftrightarrow> True"

definition push :: "'a option list \<Rightarrow> nat \<Rightarrow> 'a \<Rightarrow> 'a option list" where
  "push xs n x = (if n < length xs then xs[n := Some x] else xs)"

definition counted :: "'a option list \<Rightarrow> nat \<Rightarrow> nat" where
  "counted xs n = (if n < length xs then n + 1 else n)"

fun store_record :: "MadtRecord \<Rightarrow> ApicTopology \<Rightarrow> ApicTopology" where
  "store_record (LocalApicRecord i) t = t\<lparr>local_apics := push (local_apics t) (local_apic_count t) i,
     local_apic_count := counted (local_apics t) (local_apic_count t)\<rparr>"
| "store_record (IoApicRecord i) t = t\<lparr>io_apics := push (io_apics t) (io_apic_count t) i,
     io_apic_count := counted (io_apics t) (io_apic_count t)\<rparr>"
| "store_record (OverrideRecord i) t = t\<lparr>source_overrides := push (source_overrides t) (source_override_count t) i,
     source_override_count := counted (source_overrides t) (source_override_count t)\<rparr>"
| "store_record (X2ApicRecord i) t = t\<lparr>local_x2apics := push (local_x2apics t) (local_x2apic_count t) i,
     local_x2apic_count := counted (local_x2apics t) (local_x2apic_count t)\<rparr>"
| "store_record (OtherRecord ty body) t = t"

lemma info_eta:
  "\<lparr>la_processor_id = la_processor_id a, la_apic_id = la_apic_id a, la_flags = la_flags a\<rparr> = a"
  "\<lparr>io_id = io_id b, io_address = io_address b, io_gsi_base = io_gsi_base b\<rparr> = b"
  "\<lparr>so_bus = so_bus c, so_source = so_source c, so_gsi = so_gsi c, so_flags = so_flags c\<rparr> = c"
  "\<lparr>lx_uid = lx_uid d, lx_x2apic_id = lx_x2apic_id d, lx_flags = lx_flags d\<rparr> = d"
  by simp_all

lemma madt_entry_encode: "record_ok r \<Longrightarrow> madt_entry (hd (encode_record r)) (encode_record r) t = Some (store_record r t)"
  by (cases r) (auto simp: madt_entry_def MADT_TYPES within push_def counted_def info_eta)

lemma encode_length: "2 \<le> length (encode_record r)"
  by (cases r) simp_all

lemma encode_first: "encode_record r ! 0 = hd (encode_record r)"
  by (cases r) simp_all

lemma encode_second: "record_ok r \<Longrightarrow> unat (encode_record r ! Suc 0) = length (encode_record r)"
proof (cases r)
  case (OtherRecord ty body)
  moreover assume "record_ok r"
  ultimately have "unat (of_nat (2 + length body) :: u8) = 2 + length body"
    by (simp only: unat_of_nat) simp
  then show ?thesis using OtherRecord by simp
qed simp_all

lemma madt_loop_encode:
  assumes "\<forall>r \<in> set rs. record_ok r"
  shows "madt_loop (pre @ concat (map encode_record rs)) (length pre) t = Some (Inr (fold store_record rs t))"
  using assms
proof (induction rs arbitrary: pre t)
  case Nil
  then show ?case by (subst madt_loop.simps) simp
next
  case (Cons r rs)
  let ?e = "encode_record r" and ?rest = "concat (map encode_record rs)"
  have ok: "record_ok r" using Cons.prems by simp
  note e = encode_length [of r] encode_first [of r] encode_second [OF ok]
  have len: "1 < length ?e" "?e \<noteq> []" using e(1) by auto
  have slice: "slice_range (pre @ ?e @ ?rest) (length pre) (length pre + length ?e) = Some ?e"
    by (simp add: slice_range_def)
  have bytes: "vec_get (pre @ ?e @ ?rest) (length pre) = Some (hd ?e)" "vec_get (pre @ ?e @ ?rest) (Suc (length pre)) = Some (?e ! Suc 0)"
    using len e(2) by (simp_all add: vec_get_def nth_append)
  have "madt_loop (pre @ ?e @ ?rest) (length pre) t = madt_loop (pre @ ?e @ ?rest) (length pre + length ?e) (store_record r t)"
    using len e(1) by (subst madt_loop.simps) (simp add: bytes slice e(3) Let_def madt_entry_encode [OF ok])
  also have "\<dots> = Some (Inr (fold store_record rs (store_record r t)))"
    using Cons.IH [of "pre @ ?e" "store_record r t"] Cons.prems by simp
  finally show ?case by simp
qed

text \<open>The topology that a list of entries describes: the first entries of each kind, as many as its array holds.\<close>

definition array_of :: "nat \<Rightarrow> 'a list \<Rightarrow> 'a option list" where
  "array_of c xs = map Some (take c xs) @ replicate (c - length xs) None"

definition local_apics_of :: "MadtRecord list \<Rightarrow> LocalApicInfo list" where
  "local_apics_of rs = concat (map (\<lambda>r. case r of LocalApicRecord i \<Rightarrow> [i] | _ \<Rightarrow> []) rs)"

definition io_apics_of :: "MadtRecord list \<Rightarrow> IoApicInfo list" where
  "io_apics_of rs = concat (map (\<lambda>r. case r of IoApicRecord i \<Rightarrow> [i] | _ \<Rightarrow> []) rs)"

definition overrides_of :: "MadtRecord list \<Rightarrow> InterruptSourceOverride list" where
  "overrides_of rs = concat (map (\<lambda>r. case r of OverrideRecord i \<Rightarrow> [i] | _ \<Rightarrow> []) rs)"

definition x2apics_of :: "MadtRecord list \<Rightarrow> LocalX2ApicInfo list" where
  "x2apics_of rs = concat (map (\<lambda>r. case r of X2ApicRecord i \<Rightarrow> [i] | _ \<Rightarrow> []) rs)"

lemmas records_of = local_apics_of_def io_apics_of_def overrides_of_def x2apics_of_def

definition topology_of :: "u64 \<Rightarrow> MadtRecord list \<Rightarrow> ApicTopology" where
  "topology_of address rs =
     \<lparr>local_apic_address = address,
      local_apics = array_of 256 (local_apics_of rs), local_x2apics = array_of 256 (x2apics_of rs),
      io_apics = array_of 32 (io_apics_of rs), source_overrides = array_of 24 (overrides_of rs),
      local_apic_count = min 256 (length (local_apics_of rs)), local_x2apic_count = min 256 (length (x2apics_of rs)),
      io_apic_count = min 32 (length (io_apics_of rs)), source_override_count = min 24 (length (overrides_of rs))\<rparr>"

lemma array_of_length [simp]: "length (array_of c xs) = c"
  by (simp add: array_of_def min_def)

lemma push_array_of: "push (array_of c xs) (min c (length xs)) x = array_of c (xs @ [x])"
proof (cases "length xs < c")
  case True
  then obtain k where "c = Suc (length xs + k)" by (metis add_Suc_right less_imp_Suc_add)
  then show ?thesis by (simp add: push_def array_of_def list_update_append)
qed (simp add: push_def array_of_def)

lemma counted_array_of: "counted (array_of c xs) (min c (length xs)) = min c (length xs + 1)"
  by (simp add: counted_def min_def)

lemma store_topology_of: "store_record r (topology_of a rs) = topology_of a (rs @ [r])"
  by (cases r) (simp_all add: topology_of_def records_of push_array_of counted_array_of)

lemma fold_topology_of: "fold store_record rs (topology_of a pre) = topology_of a (pre @ rs)"
  by (induction rs arbitrary: pre) (simp_all add: store_topology_of)

lemma topology_of_Nil: "topology_of a [] = ApicTopology_empty\<lparr>local_apic_address := a\<rparr>"
  by (simp add: topology_of_def ApicTopology_empty_def records_of array_of_def)

text \<open>
  C34: a table of any entries reads back as the topology those entries describe: every local APIC, I/O APIC, source
  override and x2APIC record is found with its fields, in the order of the table, up to the capacity of its array, and
  entries of other types are skipped by their length.
\<close>

theorem parse_madt_roundtrip:
  assumes "length header = 44" and "\<forall>r \<in> set rs. record_ok r"
  shows "parse_madt (header @ concat (map encode_record rs))
    = Some (Inr (topology_of (ucast (from_le_bytes (take 4 (drop 36 header)) :: u32)) rs))"
  using madt_loop_encode [OF assms(2), of header] assms(1) fold_topology_of [of rs _ "[]"]
  by (simp add: parse_madt_def le_at_within topology_of_Nil)

theorem parse_madt_roundtrip_witness:
  "parse_madt (replicate 44 0 @ [0, 8, 1, 0, 1, 0, 0, 0, 77, 3, 9, 2, 10, 0, 0, 2, 0, 0, 0, 0, 0])
    = Some (Inr (topology_of 0 [LocalApicRecord \<lparr>la_processor_id = 1, la_apic_id = 0, la_flags = 1\<rparr>, OtherRecord 77 [9],
        OverrideRecord \<lparr>so_bus = 0, so_source = 0, so_gsi = 2, so_flags = 0\<rparr>]))"
proof -
  let ?rs = "[LocalApicRecord \<lparr>la_processor_id = 1, la_apic_id = 0, la_flags = 1\<rparr>, OtherRecord 77 [9],
        OverrideRecord \<lparr>so_bus = 0, so_source = 0, so_gsi = 2, so_flags = 0\<rparr>]"
  have bytes: "concat (map encode_record ?rs) = [0, 8, 1, 0, 1, 0, 0, 0, 77, 3, 9, 2, 10, 0, 0, 2, 0, 0, 0, 0, 0]"
    by code_simp
  have address: "ucast (from_le_bytes (take 4 (drop 36 (replicate 44 0))) :: u32) = (0 :: u64)" by code_simp
  show ?thesis using parse_madt_roundtrip [of "replicate 44 0" ?rs] unfolding bytes address by simp
qed


end
