(* ===== verification/Hardware.thy ===== *)
theory Hardware
  imports Memory_Ranges
begin

text \<open>
  What the drivers of the platform ask of the processor and its devices: the operations of one CPU on a state
  \<open>'h\<close> that the drivers cannot see into. A read may change that state, as reads of device registers and of
  counters do. What the \<open>x86_64\<close> crate does with the APIC base, the extended features and the descriptor tables
  are operations too.
\<close>

record CpuidResult =
  cpuid_eax :: u32
  cpuid_ebx :: u32
  cpuid_ecx :: u32
  cpuid_edx :: u32

record 'h Hardware =
  read_volatile :: "u64 \<Rightarrow> 'h \<Rightarrow> u32 \<times> 'h"
  write_volatile :: "u64 \<Rightarrow> u32 \<Rightarrow> 'h \<Rightarrow> 'h"
  msr_read :: "u32 \<Rightarrow> 'h \<Rightarrow> u64 \<times> 'h"
  msr_write :: "u32 \<Rightarrow> u64 \<Rightarrow> 'h \<Rightarrow> 'h"
  rdtsc :: "'h \<Rightarrow> u64 \<times> 'h"
  cpuid_count :: "u32 \<Rightarrow> u32 \<Rightarrow> CpuidResult"
  apic_base_read :: "'h \<Rightarrow> u64 \<times> u64"
  apic_base_write :: "u64 \<Rightarrow> u64 \<Rightarrow> 'h \<Rightarrow> 'h"
  LAPIC_ENABLE :: u64
  X2APIC_ENABLE :: u64
  port_in :: "u16 \<Rightarrow> 'h \<Rightarrow> u8 \<times> 'h"
  port_out :: "u16 \<Rightarrow> u8 \<Rightarrow> 'h \<Rightarrow> 'h"
  efer_nxe :: "'h \<Rightarrow> bool"
  efer_set_nxe :: "'h \<Rightarrow> 'h"
  load_descriptors :: "'h \<Rightarrow> 'h"
  load_interrupts :: "'h \<Rightarrow> 'h"

text \<open>\<open>__cpuid(leaf)\<close> is \<open>__cpuid_count(leaf, 0)\<close>.\<close>

abbreviation cpuid_leaf :: "'h Hardware \<Rightarrow> u32 \<Rightarrow> CpuidResult" where
  "cpuid_leaf hw leaf \<equiv> cpuid_count hw leaf 0"

end
