(* ===== verification/Interrupts.thy ===== *)
theory Interrupts
  imports Hardware
begin

text \<open>
  Interrupt events and vectors (\<open>interrupts.rs\<close>, \<open>interrupt_controller.rs\<close>), detection and mode of the
  local APIC with the vector allocator (\<open>arch/x86_64/apic.rs\<close>), its end-of-interrupt register
  (\<open>arch/x86_64/local_apic.rs\<close>) and the legacy controller (\<open>arch/x86_64/pic.rs\<close>).
\<close>

unbundle bit_operations_syntax

section \<open>Events\<close>

definition EXCEPTION_VECTOR_MAX :: u8 where "EXCEPTION_VECTOR_MAX = 31"

definition TIMER_VECTOR :: u8 where "TIMER_VECTOR = 32"

definition EXTERNAL_VECTOR_BASE :: u8 where "EXTERNAL_VECTOR_BASE = 33"

definition VECTOR_MAX :: u8 where "VECTOR_MAX = 255"

definition USER_TRAP_VECTOR :: u8 where "USER_TRAP_VECTOR = 0x80"

lemmas VECTORS = EXCEPTION_VECTOR_MAX_def TIMER_VECTOR_def EXTERNAL_VECTOR_BASE_def VECTOR_MAX_def USER_TRAP_VECTOR_def

datatype InterruptSource =
    Exception u8
  | Timer
  | External u8
  | InterProcessor u8
  | Spurious

fun source_vector :: "InterruptSource \<Rightarrow> u8" where
  "source_vector (Exception vector) = vector"
| "source_vector (External vector) = vector"
| "source_vector (InterProcessor vector) = vector"
| "source_vector Timer = TIMER_VECTOR"
| "source_vector Spurious = VECTOR_MAX"

record InterruptEvent =
  ie_source :: InterruptSource
  ie_vector :: u8

definition InterruptEvent_new :: "InterruptSource \<Rightarrow> InterruptEvent option" where
  "InterruptEvent_new source =
     (let vector = source_vector source; event = Some \<lparr>ie_source = source, ie_vector = vector\<rparr>
      in case source of
           Exception _ \<Rightarrow> if vector > EXCEPTION_VECTOR_MAX then None else event
         | External _ \<Rightarrow> if vector < EXTERNAL_VECTOR_BASE then None else event
         | InterProcessor _ \<Rightarrow> if vector < EXTERNAL_VECTOR_BASE then None else event
         | _ \<Rightarrow> event)"

definition supports_vector :: "u8 \<Rightarrow> bool" where
  "supports_vector vector \<longleftrightarrow> EXTERNAL_VECTOR_BASE \<le> vector \<and> vector < VECTOR_MAX"

section \<open>Local APIC\<close>

datatype ApicMode = XApic | X2Apic

record ApicCapabilities =
  cap_apic :: bool
  cap_x2apic :: bool

definition ApicCapabilities_detect :: "'h Hardware \<Rightarrow> ApicCapabilities" where
  "ApicCapabilities_detect hw =
     (let r = cpuid_count hw 1 0;
          apic = cpuid_edx r AND push_bit 9 1 \<noteq> 0;
          x2apic = (apic \<and> cpuid_ecx r AND push_bit 21 1 \<noteq> 0)
      in \<lparr>cap_apic = apic, cap_x2apic = x2apic\<rparr>)"

definition preferred_mode :: "ApicCapabilities \<Rightarrow> ApicMode option" where
  "preferred_mode c = (if cap_x2apic c then Some X2Apic else if cap_apic c then Some XApic else None)"

text \<open>The allocator of external vectors is its next vector; the addition does not reach the end of the type.\<close>

definition VectorAllocator_new :: u8 where "VectorAllocator_new = EXTERNAL_VECTOR_BASE"

definition va_allocate :: "u8 \<Rightarrow> u8 option \<times> u8" where
  "va_allocate nxt = (if nxt \<ge> VECTOR_MAX then (None, nxt) else (Some nxt, nxt + 1))"

definition enable_preferred_mode :: "'h Hardware \<Rightarrow> ApicCapabilities \<Rightarrow> 'h \<Rightarrow> ApicMode option \<times> 'h" where
  "enable_preferred_mode hw capabilities h =
     (case preferred_mode capabilities of
        None \<Rightarrow> (None, h)
      | Some mode \<Rightarrow>
          (let (frame, flags) = apic_base_read hw h;
               new_flags = flags OR LAPIC_ENABLE hw;
               new_flags = (if mode = X2Apic then new_flags OR X2APIC_ENABLE hw else new_flags)
           in (Some mode, apic_base_write hw frame new_flags h)))"

definition LOCAL_APIC_EOI_OFFSET :: u64 where "LOCAL_APIC_EOI_OFFSET = 0xB0"

definition IA32_X2APIC_EOI :: u32 where "IA32_X2APIC_EOI = 0x80B"

definition MODE_UNINITIALIZED :: u8 where "MODE_UNINITIALIZED = 0"

definition MODE_XAPIC :: u8 where "MODE_XAPIC = 1"

definition MODE_X2APIC :: u8 where "MODE_X2APIC = 2"

lemmas MODES = MODE_UNINITIALIZED_def MODE_XAPIC_def MODE_X2APIC_def

datatype LocalApicError = LocalApicUnsupportedMode | InvalidMmioAddress | LocalApicAlreadyInitialized

record LocalApic =
  MODE :: u8
  PHYSICAL_MAPPING_OFFSET :: u64

definition LocalApic_boot :: LocalApic where
  "LocalApic_boot = \<lparr>MODE = MODE_UNINITIALIZED, PHYSICAL_MAPPING_OFFSET = 0\<rparr>"

text \<open>The last two statements of the initialisation.\<close>

definition la_store_mode :: "ApicMode \<Rightarrow> LocalApic \<Rightarrow> (LocalApicError + unit) \<times> LocalApic" where
  "la_store_mode mode la =
     (let mode_value = (case mode of XApic \<Rightarrow> MODE_XAPIC | X2Apic \<Rightarrow> MODE_X2APIC)
      in (Inr (), la\<lparr>MODE := mode_value\<rparr>))"

definition la_initialize :: "'h Hardware \<Rightarrow> ApicMode \<Rightarrow> PhysicalMemoryMapping option \<Rightarrow> 'h \<Rightarrow> LocalApic \<Rightarrow>
    (LocalApicError + unit) \<times> LocalApic" where
  "la_initialize hw mode mapping h la =
     (if MODE la \<noteq> MODE_UNINITIALIZED then (Inl LocalApicAlreadyInitialized, la)
      else if mode = XApic then
        (case mapping of
           None \<Rightarrow> (Inl LocalApicUnsupportedMode, la)
         | Some mapping \<Rightarrow>
             (case checked_add (fst (apic_base_read hw h)) LOCAL_APIC_EOI_OFFSET of
                None \<Rightarrow> (Inl InvalidMmioAddress, la)
              | Some physical \<Rightarrow>
                  (case phys_translate mapping physical of
                     None \<Rightarrow> (Inl InvalidMmioAddress, la)
                   | Some _ \<Rightarrow> la_store_mode mode (la\<lparr>PHYSICAL_MAPPING_OFFSET := phys_offset mapping\<rparr>))))
      else la_store_mode mode la)"

definition la_mode :: "LocalApic \<Rightarrow> ApicMode option" where
  "la_mode la = (if MODE la = MODE_XAPIC then Some XApic else if MODE la = MODE_X2APIC then Some X2Apic else None)"

fun acknowledged :: "InterruptSource \<Rightarrow> bool" where
  "acknowledged (Exception _) = False"
| "acknowledged (External _) = True"
| "acknowledged Timer = True"
| "acknowledged (InterProcessor _) = True"
| "acknowledged Spurious = True"

definition end_of_interrupt :: "'h Hardware \<Rightarrow> LocalApic \<Rightarrow> InterruptEvent \<Rightarrow> 'h \<Rightarrow> 'h" where
  "end_of_interrupt hw la event h =
     (if \<not> acknowledged (ie_source event) then h
      else if MODE la = MODE_XAPIC then
        (case checked_add (fst (apic_base_read hw h)) LOCAL_APIC_EOI_OFFSET of
           None \<Rightarrow> h
         | Some physical \<Rightarrow>
             (case checked_add (PHYSICAL_MAPPING_OFFSET la) physical of
                None \<Rightarrow> h
              | Some virtual_address \<Rightarrow> write_volatile hw virtual_address 0 h))
      else if MODE la = MODE_X2APIC then msr_write hw IA32_X2APIC_EOI 0 h
      else h)"

section \<open>The legacy controller\<close>

definition MASTER_DATA :: u16 where "MASTER_DATA = 0x21"

definition SLAVE_DATA :: u16 where "SLAVE_DATA = 0xA1"

definition mask_all :: "'h Hardware \<Rightarrow> 'h \<Rightarrow> 'h" where
  "mask_all hw h = port_out hw SLAVE_DATA 0xFF (port_out hw MASTER_DATA 0xFF h)"

section \<open>Properties\<close>

text \<open>The vectors of successive allocations.\<close>

fun va_run :: "nat \<Rightarrow> u8 \<Rightarrow> u8 option list" where
  "va_run 0 nxt = []"
| "va_run (Suc n) nxt = (let (v, nxt') = va_allocate nxt in v # va_run n nxt')"

lemma va_allocate_nat:
  "unat nxt < 255 \<Longrightarrow> va_allocate nxt = (Some nxt, nxt + 1) \<and> unat (nxt + 1) = unat nxt + 1"
  "\<not> unat nxt < 255 \<Longrightarrow> va_allocate nxt = (None, nxt)"
  using unsigned_less [of nxt, where ?'a = nat]
  by (auto simp: va_allocate_def VECTORS word_le_nat_alt unat_word_ariths)

lemma va_run_nth: "i < n \<Longrightarrow> va_run n nxt ! i = (if unat nxt + i < 255 then Some (nxt + of_nat i) else None)"
proof (induction n arbitrary: nxt i)
  case (Suc n)
  show ?case
  proof (cases "unat nxt < 255")
    case True
    then show ?thesis using Suc.IH [of "i - 1" "nxt + 1"] Suc.prems va_allocate_nat(1) [OF True]
      by (cases i) auto
  next
    case False
    then show ?thesis using Suc.IH [of "i - 1" nxt] Suc.prems va_allocate_nat(2) [OF False]
      by (cases i) auto
  qed
qed simp

text \<open>
  The allocator hands out the vectors 33 to 254 in this order, each once, and nothing after them; the vector of the
  96th allocation is 0x80, which the interrupt table gives to the system call trap, and the controller contract calls
  that vector an external one.
\<close>

theorem vectors_in_order:
  "(i < n \<longrightarrow> va_run n VectorAllocator_new ! i = (if i < 222 then Some (of_nat (33 + i)) else None))
   \<and> va_run 96 VectorAllocator_new ! 95 = Some USER_TRAP_VECTOR \<and> supports_vector USER_TRAP_VECTOR"
proof -
  have base: "unat VectorAllocator_new = 33" "VectorAllocator_new = of_nat 33"
    by (simp_all add: VectorAllocator_new_def VECTORS)
  have "i < n \<Longrightarrow> va_run n VectorAllocator_new ! i = (if i < 222 then Some (of_nat (33 + i)) else None)"
    using va_run_nth [of i n VectorAllocator_new] by (simp add: base(1)) (simp add: base(2))
  moreover have "va_run 96 VectorAllocator_new ! 95 = Some (VectorAllocator_new + of_nat 95)"
    using va_run_nth [of 95 96 VectorAllocator_new] by (simp add: base(1))
  ultimately show ?thesis by (simp add: VectorAllocator_new_def VECTORS supports_vector_def)
qed

theorem vectors_in_order_witness: "va_run 3 VectorAllocator_new ! 2 = Some 35"
  using vectors_in_order [of 2 3] by simp

text \<open>After a successful initialisation every acknowledged interrupt reaches the register of the selected mode.\<close>

lemma end_of_interrupt_after_initialize:
  assumes "la_initialize hw mode mapping h la = (Inr (), la')" and "apic_base_read hw h' = apic_base_read hw h"
    and "acknowledged (ie_source event)"
  shows "la_mode la' = Some mode"
    and "mode = X2Apic \<Longrightarrow> end_of_interrupt hw la' event h' = msr_write hw IA32_X2APIC_EOI 0 h'"
    and "mode = XApic \<Longrightarrow> \<exists>m v. mapping = Some m \<and> phys_translate m (fst (apic_base_read hw h) + LOCAL_APIC_EOI_OFFSET) = Some v
           \<and> end_of_interrupt hw la' event h' = write_volatile hw v 0 h'"
  using assms
  by (auto simp: la_initialize_def la_store_mode_def la_mode_def end_of_interrupt_def MODES phys_translate_def
      checked_add_def split: if_splits option.splits ApicMode.splits)

end
