(* ===== verification/Irq_Routing.thy ===== *)
theory Irq_Routing
  imports Acpi_Properties Interrupts
begin

text \<open>
  Routing of ISA interrupts over the discovered topology (\<open>arch/x86_64/irq_routing.rs\<close>) and the redirection
  tables of the I/O APICs (\<open>arch/x86_64/ioapic.rs\<close>). A slice of an array up to a counter beyond its end is the
  panic \<open>None\<close>.
\<close>

unbundle bit_operations_syntax

section \<open>Routes\<close>

datatype Polarity = PolarityConformsToBus | ActiveHigh | ActiveLow

datatype TriggerMode = TriggerConformsToBus | Edge | Level

record IrqRoute =
  isa_irq :: u8
  gsi :: u32
  polarity :: Polarity
  trigger :: TriggerMode

datatype IrqRoutingError = UnsupportedBus | InvalidOverrideFlags | NoIoApicForGsi

definition IrqRoute_identity :: "u8 \<Rightarrow> IrqRoute" where
  "IrqRoute_identity irq = \<lparr>isa_irq = irq, gsi = ucast irq, polarity = PolarityConformsToBus, trigger = TriggerConformsToBus\<rparr>"

definition decode_flags :: "InterruptSourceOverride \<Rightarrow> IrqRoutingError + Polarity \<times> TriggerMode" where
  "decode_flags entry =
     (let p = so_flags entry AND 3; t = drop_bit 2 (so_flags entry) AND 3
      in and_then (if p = 0 then Inr PolarityConformsToBus else if p = 1 then Inr ActiveHigh
                   else if p = 3 then Inr ActiveLow else Inl InvalidOverrideFlags) (\<lambda>pol.
         and_then (if t = 0 then Inr TriggerConformsToBus else if t = 1 then Inr Edge
                   else if t = 3 then Inr Level else Inl InvalidOverrideFlags) (\<lambda>trig.
         Inr (pol, trig))))"

text \<open>\<open>Iterator::max_by_key\<close> returns the last of several maximal elements.\<close>

fun max_by_key :: "('a \<Rightarrow> 'k::linorder) \<Rightarrow> 'a list \<Rightarrow> 'a option" where
  "max_by_key key [] = None"
| "max_by_key key (x # xs) = Some (foldl (\<lambda>a b. if key a > key b then a else b) x xs)"

definition flatten_enumerate :: "'a option list \<Rightarrow> (nat \<times> 'a) list" where
  "flatten_enumerate xs = List.map_filter (\<lambda>(i, x). map_option (Pair i) x) (List.enumerate 0 xs)"

definition io_apic_index_for_gsi :: "ApicTopology \<Rightarrow> u32 \<Rightarrow> nat option option" where
  "io_apic_index_for_gsi topology g =
     map_option (\<lambda>entries.
       map_option fst
         (max_by_key (\<lambda>(_, ioapic). io_gsi_base ioapic)
           (filter (\<lambda>(_, ioapic). io_gsi_base ioapic \<le> g) (flatten_enumerate entries))))
       (slice_range (io_apics topology) 0 (io_apic_count topology))"

text \<open>The loop over the overrides, which ends at the first one for the interrupt.\<close>

fun override_loop :: "u8 \<Rightarrow> InterruptSourceOverride option list \<Rightarrow> IrqRoute \<Rightarrow> IrqRoutingError + IrqRoute" where
  "override_loop irq [] route = Inr route"
| "override_loop irq (None # rest) route = override_loop irq rest route"
| "override_loop irq (Some entry # rest) route =
     (if so_bus entry \<noteq> 0 \<or> so_source entry \<noteq> irq then override_loop irq rest route
      else and_then (decode_flags entry) (\<lambda>(pol, trig).
             Inr (route\<lparr>gsi := so_gsi entry, polarity := pol, trigger := trig\<rparr>)))"

definition resolve_isa_irq :: "ApicTopology \<Rightarrow> u8 \<Rightarrow> (IrqRoutingError + IrqRoute) option" where
  "resolve_isa_irq topology irq =
     (case slice_range (source_overrides topology) 0 (source_override_count topology) of
        None \<Rightarrow> None
      | Some entries \<Rightarrow>
          (case override_loop irq entries (IrqRoute_identity irq) of
             Inl e \<Rightarrow> Some (Inl e)
           | Inr route \<Rightarrow>
               (case io_apic_index_for_gsi topology (gsi route) of
                  None \<Rightarrow> None
                | Some None \<Rightarrow> Some (Inl NoIoApicForGsi)
                | Some (Some _) \<Rightarrow> Some (Inr route))))"

section \<open>The I/O APIC\<close>

definition IOREGSEL :: u64 where "IOREGSEL = 0"

definition IOWIN :: u64 where "IOWIN = 0x10"

definition IOAPIC_VERSION :: u8 where "IOAPIC_VERSION = 1"

definition REDIRECTION_TABLE_BASE :: u8 where "REDIRECTION_TABLE_BASE = 0x10"

record RedirectionEntry =
  re_vector :: u8
  delivery_mode :: u8
  destination_mode_logical :: bool
  delivery_pending :: bool
  active_low :: bool
  level_triggered :: bool
  masked :: bool
  destination :: u8

definition RedirectionEntry_masked :: "u8 \<Rightarrow> u8 \<Rightarrow> RedirectionEntry" where
  "RedirectionEntry_masked v d = \<lparr>re_vector = v, delivery_mode = 0, destination_mode_logical = False, delivery_pending = False,
     active_low = False, level_triggered = False, masked = True, destination = d\<rparr>"

definition re_encode :: "RedirectionEntry \<Rightarrow> u32 \<times> u32" where
  "re_encode e =
     (let low = ucast (re_vector e);
          low = low OR push_bit 8 (ucast (delivery_mode e) AND 7);
          low = (if destination_mode_logical e then low OR push_bit 11 1 else low);
          low = (if delivery_pending e then low OR push_bit 12 1 else low);
          low = (if active_low e then low OR push_bit 13 1 else low);
          low = (if level_triggered e then low OR push_bit 15 1 else low);
          low = (if masked e then low OR push_bit 16 1 else low)
      in (low, push_bit 24 (ucast (destination e))))"

record IoApic =
  ia_mapping :: PhysicalMemoryMapping
  physical_base :: u64

text \<open>The two addresses of the register window, computed in this order by reads and writes.\<close>

definition ia_window :: "IoApic \<Rightarrow> (u64 \<times> u64) option" where
  "ia_window ia = do {
     select_address \<leftarrow> checked_add (physical_base ia) IOREGSEL;
     data_address \<leftarrow> checked_add (physical_base ia) IOWIN;
     sel \<leftarrow> phys_translate (ia_mapping ia) select_address;
     data \<leftarrow> phys_translate (ia_mapping ia) data_address;
     Some (sel, data)
   }"

definition ia_read_register :: "'h Hardware \<Rightarrow> IoApic \<Rightarrow> u8 \<Rightarrow> 'h \<Rightarrow> u32 option \<times> 'h" where
  "ia_read_register hw ia register h =
     (case ia_window ia of
        None \<Rightarrow> (None, h)
      | Some (sel, data) \<Rightarrow>
          (let (v, h') = read_volatile hw data (write_volatile hw sel (ucast register) h) in (Some v, h')))"

definition ia_write_register :: "'h Hardware \<Rightarrow> IoApic \<Rightarrow> u8 \<Rightarrow> u32 \<Rightarrow> 'h \<Rightarrow> bool \<times> 'h" where
  "ia_write_register hw ia register v h =
     (case ia_window ia of
        None \<Rightarrow> (False, h)
      | Some (sel, data) \<Rightarrow> (True, write_volatile hw data v (write_volatile hw sel (ucast register) h)))"

definition max_redirection_index :: "'h Hardware \<Rightarrow> IoApic \<Rightarrow> 'h \<Rightarrow> u8 option \<times> 'h" where
  "max_redirection_index hw ia h =
     (case ia_read_register hw ia IOAPIC_VERSION h of
        (None, h') \<Rightarrow> (None, h')
      | (Some version, h') \<Rightarrow> (Some (ucast (drop_bit 16 version)), h'))"

text \<open>The outer option is the overflow check of \<open>register + 1\<close>.\<close>

definition write_redirection :: "'h Hardware \<Rightarrow> IoApic \<Rightarrow> u8 \<Rightarrow> RedirectionEntry \<Rightarrow> 'h \<Rightarrow> (bool \<times> 'h) option" where
  "write_redirection hw ia index entry h =
     (case max_redirection_index hw ia h of
        (None, h) \<Rightarrow> Some (False, h)
      | (Some max_index, h) \<Rightarrow>
          if index > max_index then Some (False, h)
          else (case checked_mul index 2 of
                  None \<Rightarrow> Some (False, h)
                | Some offset \<Rightarrow>
                    (case checked_add REDIRECTION_TABLE_BASE offset of
                       None \<Rightarrow> Some (False, h)
                     | Some register \<Rightarrow>
                         (let (low, high) = re_encode entry
                          in case ia_write_register hw ia register low h of
                               (False, h) \<Rightarrow> Some (False, h)
                             | (True, h) \<Rightarrow>
                                 (case checked_add register 1 of
                                    None \<Rightarrow> None
                                  | Some register' \<Rightarrow> Some (ia_write_register hw ia register' high h))))))"

end
