(* ===== verification/Irq_Properties.thy ===== *)
theory Irq_Properties
  imports Irq_Routing
begin

text \<open>
  A route follows the first override of its interrupt and exists exactly when an I/O APIC serves its global interrupt;
  the chosen I/O APIC is the nearest one below. A redirection entry reaches the pair of registers of its index and
  no other, and reads back from their bits.
\<close>

unbundle bit_operations_syntax

section \<open>Routes\<close>

lemma max_by_key_split:
  "\<exists>pre post. x # xs = pre @ foldl (\<lambda>a b. if key a > key b then a else b) x xs # post
     \<and> (\<forall>y \<in> set pre. key y \<le> key (foldl (\<lambda>a b. if key a > key b then a else b) x xs))
     \<and> (\<forall>y \<in> set post. key y < key (foldl (\<lambda>a b. if key a > key b then a else b) x xs))"
  for key :: "'a \<Rightarrow> 'k::linorder"
proof (induction xs arbitrary: x)
  case Nil
  show ?case by (intro exI [of _ "[]"]) simp
next
  case (Cons y ys)
  let ?f = "\<lambda>a b. if key a > key b then a else b"
  let ?r = "foldl ?f x (y # ys)"
  obtain pre post where IH: "?f x y # ys = pre @ ?r # post" "\<forall>z \<in> set pre. key z \<le> key ?r" "\<forall>z \<in> set post. key z < key ?r"
    using Cons.IH [of "?f x y"] by auto
  show ?case
  proof (cases pre)
    case Nil
    show ?thesis
    proof (cases "key x > key y")
      case True
      then show ?thesis using IH Nil by (intro exI [of _ "[]"] exI [of _ "y # ys"]) auto
    next
      case False
      then show ?thesis using IH Nil by (intro exI [of _ "[x]"] exI [of _ ys]) auto
    qed
  next
    case (Cons p pre')
    then have ys: "ys = pre' @ ?r # post" and p: "p = ?f x y" using IH(1) by auto
    have "key x \<le> key ?r" "key y \<le> key ?r"
      using IH(2) Cons p by (auto split: if_splits)
    then show ?thesis using IH ys Cons by (intro exI [of _ "x # y # pre'"] exI [of _ post]) auto
  qed
qed

lemma flatten_enumerate_Cons:
  "List.map_filter (\<lambda>(i, x). map_option (Pair i) x) (List.enumerate n (x # xs))
   = (case x of None \<Rightarrow> [] | Some a \<Rightarrow> [(n, a)]) @ List.map_filter (\<lambda>(i, x). map_option (Pair i) x) (List.enumerate (Suc n) xs)"
  by (simp add: List.map_filter_simps split: option.split)

lemma flatten_enumerate_from:
  "sorted_wrt (<) (map fst (List.map_filter (\<lambda>(i, x). map_option (Pair i) x) (List.enumerate n xs)))
   \<and> set (List.map_filter (\<lambda>(i, x). map_option (Pair i) x) (List.enumerate n xs))
     = {(n + i, a) |i a. i < length xs \<and> xs ! i = Some a}"
proof (induction xs arbitrary: n)
  case (Cons x xs)
  have shift: "{(n + i, a) |i a. i < length (x # xs) \<and> (x # xs) ! i = Some a}
      = {(n, a) |a. x = Some a} \<union> {(Suc n + i, a) |i a. i < length xs \<and> xs ! i = Some a}"
    by (auto simp: less_Suc_eq_0_disj)
  show ?case unfolding flatten_enumerate_Cons shift using Cons.IH [of "Suc n"]
    by (auto split: option.split)
qed (simp add: List.map_filter_simps)

text \<open>An I/O APIC serves the global interrupts from its base on.\<close>

definition serves :: "ApicTopology \<Rightarrow> u32 \<Rightarrow> nat \<Rightarrow> IoApicInfo \<Rightarrow> bool" where
  "serves t g i a \<longleftrightarrow> i < io_apic_count t \<and> io_apics t ! i = Some a \<and> io_gsi_base a \<le> g"

definition nearest :: "ApicTopology \<Rightarrow> u32 \<Rightarrow> nat option \<Rightarrow> bool" where
  "nearest t g r \<longleftrightarrow> (case r of
     None \<Rightarrow> \<forall>i a. \<not> serves t g i a
   | Some i \<Rightarrow> \<exists>a. serves t g i a \<and> (\<forall>j b. serves t g j b \<longrightarrow> io_gsi_base b \<le> io_gsi_base a \<and> (io_gsi_base b = io_gsi_base a \<longrightarrow> j \<le> i)))"

lemma io_apic_index_nearest:
  assumes "io_apic_count t \<le> length (io_apics t)"
  obtains r where "io_apic_index_for_gsi t g = Some r" "nearest t g r"
proof -
  let ?es = "take (io_apic_count t) (io_apics t)"
  define xs where "xs = filter (\<lambda>(_, ioapic). io_gsi_base ioapic \<le> g) (flatten_enumerate ?es)"
  let ?key = "\<lambda>(_ :: nat, ioapic). io_gsi_base ioapic"
  have xs: "set xs = {(i, a). serves t g i a}" "sorted_wrt (<) (map fst xs)"
    using flatten_enumerate_from [of 0 ?es] assms
    by (auto simp: xs_def flatten_enumerate_def serves_def sorted_wrt_map sorted_wrt_filter)
  have r: "io_apic_index_for_gsi t g = Some (map_option fst (max_by_key ?key xs))"
    using assms by (simp add: io_apic_index_for_gsi_def slice_range_def xs_def)
  have "nearest t g (map_option fst (max_by_key ?key xs))"
  proof (cases xs)
    case Nil
    then show ?thesis using xs(1) by (auto simp: nearest_def)
  next
    case (Cons x ys)
    define m where "m = foldl (\<lambda>a b. if ?key a > ?key b then a else b) x ys"
    obtain pre post where split: "xs = pre @ m # post" "\<forall>y \<in> set pre. ?key y \<le> ?key m" "\<forall>y \<in> set post. ?key y < ?key m"
      using max_by_key_split [of x ys ?key] Cons m_def by auto
    obtain i a where m: "m = (i, a)" by (cases m)
    have pre: "j < i" if "(j, b) \<in> set pre" for j b
      using xs(2) that by (auto simp: split(1) m sorted_wrt_append)
    have "serves t g i a" using xs(1) split(1) m by auto
    moreover have "io_gsi_base b \<le> io_gsi_base a \<and> (io_gsi_base b = io_gsi_base a \<longrightarrow> j \<le> i)" if "serves t g j b" for j b
    proof -
      have "(j, b) \<in> set pre \<or> (j, b) = (i, a) \<or> (j, b) \<in> set post" using that xs(1) split(1) m by auto
      then show ?thesis using split(2,3) pre m by fastforce
    qed
    ultimately have "nearest t g (Some i)" by (auto simp: nearest_def)
    then show ?thesis using Cons m m_def by simp
  qed
  then show ?thesis using r that by blast
qed

text \<open>The first override of an interrupt on the ISA bus.\<close>

definition override_for :: "ApicTopology \<Rightarrow> u8 \<Rightarrow> InterruptSourceOverride option" where
  "override_for t irq = find (\<lambda>x. so_bus x = 0 \<and> so_source x = irq)
     (List.map_filter id (take (source_override_count t) (source_overrides t)))"

lemma override_loop_find:
  "override_loop irq es route = (case find (\<lambda>x. so_bus x = 0 \<and> so_source x = irq) (List.map_filter id es) of
     None \<Rightarrow> Inr route
   | Some entry \<Rightarrow> and_then (decode_flags entry) (\<lambda>(pol, trig). Inr (route\<lparr>gsi := so_gsi entry, polarity := pol, trigger := trig\<rparr>)))"
  by (induction irq es route rule: override_loop.induct) (auto simp: List.map_filter_simps)


lemma filled_array_of: "filled c (array_of c xs) (min c (length xs))"
  by (auto simp: filled_def array_of_def nth_append)

lemma topology_of_wf: "topology_wf (topology_of a rs)"
  unfolding topology_wf_def by (simp add: topology_of_def filled_array_of)


section \<open>Redirection entries\<close>

text \<open>The fields of a redirection entry in the two registers that hold it.\<close>

definition re_decode :: "u32 \<Rightarrow> u32 \<Rightarrow> RedirectionEntry" where
  "re_decode low high = \<lparr>re_vector = ucast low, delivery_mode = ucast (drop_bit 8 low AND 7),
     destination_mode_logical = bit low 11, delivery_pending = bit low 12, active_low = bit low 13,
     level_triggered = bit low 15, masked = bit low 16, destination = ucast (drop_bit 24 high)\<rparr>"

text \<open>The bits of these registers that software writes; the device owns the delivery status and the remote IRR.\<close>

definition writable_low :: u32 where
  "writable_low = mask 12 OR push_bit 13 1 OR push_bit 15 1 OR push_bit 16 1"

definition writable_high :: u32 where "writable_high = push_bit 24 (mask 8)"

lemma seven: "(7 :: 'a::len word) = mask 3"
  by (simp add: mask_eq_exp_minus_1)

lemma byte_bit: "8 \<le> n \<Longrightarrow> \<not> bit (w :: u8) n"
  using bit_imp_le_length [of w n] by auto

lemma agree_bit: "a AND m = b AND m \<Longrightarrow> bit m n \<Longrightarrow> bit a n = bit b n" for a b m :: "'a::len word"
  by (metis bit_and_iff)

lemma flag_bit: "k < 32 \<Longrightarrow> bit (if c then w OR push_bit k 1 else w) n = (bit w n \<or> (c \<and> n = k))" for w :: u32
  by (auto simp: bit_simps)

lemma re_encode_low: "bit (fst (re_encode e)) n \<longleftrightarrow>
    bit (re_vector e) n \<or> (8 \<le> n \<and> n < 11 \<and> bit (delivery_mode e) (n - 8)) \<or> (destination_mode_logical e \<and> n = 11)
    \<or> (delivery_pending e \<and> n = 12) \<or> (active_low e \<and> n = 13) \<or> (level_triggered e \<and> n = 15) \<or> (masked e \<and> n = 16)"
proof -
  have "bit (ucast (re_vector e) OR push_bit 8 (ucast (delivery_mode e) AND 7) :: u32) n \<longleftrightarrow>
      bit (re_vector e) n \<or> (8 \<le> n \<and> n < 11 \<and> bit (delivery_mode e) (n - 8))"
    using byte_bit [of n "re_vector e"] by (auto simp: seven bit_simps)
  moreover have "bit (fst (re_encode e)) n \<longleftrightarrow>
      bit (ucast (re_vector e) OR push_bit 8 (ucast (delivery_mode e) AND 7) :: u32) n \<or> (destination_mode_logical e \<and> n = 11)
      \<or> (delivery_pending e \<and> n = 12) \<or> (active_low e \<and> n = 13) \<or> (level_triggered e \<and> n = 15) \<or> (masked e \<and> n = 16)"
    unfolding re_encode_def Let_def fst_conv by (subst flag_bit, simp)+ blast
  ultimately show ?thesis by blast
qed

lemma re_encode_bits:
  "n < 8 \<Longrightarrow> bit (fst (re_encode e)) n = bit (re_vector e) n"
  "n < 3 \<Longrightarrow> bit (fst (re_encode e)) (8 + n) = bit (delivery_mode e) n"
  "bit (fst (re_encode e)) 11 = destination_mode_logical e" "bit (fst (re_encode e)) 13 = active_low e"
  "bit (fst (re_encode e)) 15 = level_triggered e" "bit (fst (re_encode e)) 16 = masked e"
  "n < 8 \<Longrightarrow> bit (snd (re_encode e)) (24 + n) = bit (destination e) n"
  by (auto simp: re_encode_low byte_bit) (auto simp: re_encode_def Let_def bit_simps)

lemma writable_low_bit: "bit writable_low n \<longleftrightarrow> n < 12 \<or> n = 13 \<or> n = 15 \<or> n = 16"
proof -
  have one: "bit (push_bit k 1 :: u32) n \<longleftrightarrow> n = k" if "k < 32" for k using that by (auto simp: bit_simps)
  have ones: "bit (push_bit 13 1 :: u32) n \<longleftrightarrow> n = 13" "bit (push_bit 15 1 :: u32) n \<longleftrightarrow> n = 15"
    "bit (push_bit 16 1 :: u32) n \<longleftrightarrow> n = 16"
    by (rule one, simp)+
  show ?thesis unfolding writable_low_def bit_or_iff ones by (auto simp: bit_simps)
qed

lemma writable_bits:
  "n < 12 \<Longrightarrow> bit writable_low n" "bit writable_low 13" "bit writable_low 15" "bit writable_low 16"
  "n < 8 \<Longrightarrow> bit writable_high (24 + n)"
  by (auto simp: writable_low_bit) (auto simp: writable_high_def bit_simps)

lemma re_decode_encode:
  assumes "low AND writable_low = fst (re_encode e) AND writable_low"
    and "high AND writable_high = snd (re_encode e) AND writable_high"
  shows "(re_decode low high)\<lparr>delivery_pending := delivery_pending e\<rparr> = e\<lparr>delivery_mode := delivery_mode e AND 7\<rparr>"
proof -
  note low = agree_bit [OF assms(1)] and high = agree_bit [OF assms(2)]
  have "ucast low = re_vector e" "ucast (drop_bit 24 high) = destination e"
    by (rule bit_word_eqI; simp add: bit_simps low high re_encode_bits writable_bits)+
  moreover have "ucast (drop_bit 8 low AND 7) = delivery_mode e AND 7"
    by (rule bit_word_eqI) (auto simp: bit_simps seven low re_encode_bits writable_bits)
  ultimately show ?thesis
    by (simp add: re_decode_def low re_encode_bits writable_bits)
qed

text \<open>
  The documented register window of an I/O APIC: reads and writes of the data address concern the register whose number
  was last written to the select address; a write to a redirection register sets its writable bits and changes no other
  register.
\<close>

definition ioapic_window :: "'h Hardware \<Rightarrow> ('h \<Rightarrow> u8 \<Rightarrow> u32) \<Rightarrow> u64 \<Rightarrow> u64 \<Rightarrow> bool" where
  "ioapic_window hw regs sel data \<longleftrightarrow>
     (\<forall>h r. fst (read_volatile hw data (write_volatile hw sel (ucast r) h)) = regs h r
        \<and> regs (snd (read_volatile hw data (write_volatile hw sel (ucast r) h))) = regs h)
   \<and> (\<forall>h r v. 16 \<le> r \<longrightarrow> (let h' = write_volatile hw data v (write_volatile hw sel (ucast r) h);
                               writable = (if even r then writable_low else writable_high)
        in (\<forall>s. s \<noteq> r \<longrightarrow> regs h' s = regs h s) \<and> regs h' r AND writable = v AND writable))"

lemma window_read:
  assumes "ia_window ia = Some (sel, data)" "ioapic_window hw regs sel data"
  obtains h' where "ia_read_register hw ia r h = (Some (regs h r), h')" "regs h' = regs h"
proof -
  let ?p = "read_volatile hw data (write_volatile hw sel (ucast r) h)"
  have "ia_read_register hw ia r h = (Some (fst ?p), snd ?p)"
    using assms(1) by (simp add: ia_read_register_def case_prod_beta)
  moreover have "fst ?p = regs h r" "regs (snd ?p) = regs h" using assms(2) by (auto simp: ioapic_window_def)
  ultimately show ?thesis using that by metis
qed

lemma window_write:
  assumes "ia_window ia = Some (sel, data)" "ioapic_window hw regs sel data" "16 \<le> r"
  obtains h' where "ia_write_register hw ia r v h = (True, h')" "\<And>s. s \<noteq> r \<Longrightarrow> regs h' s = regs h s"
    "even r \<Longrightarrow> regs h' r AND writable_low = v AND writable_low" "odd r \<Longrightarrow> regs h' r AND writable_high = v AND writable_high"
proof -
  let ?h = "write_volatile hw data v (write_volatile hw sel (ucast r) h)"
  have "ia_write_register hw ia r v h = (True, ?h)" using assms(1) by (simp add: ia_write_register_def)
  moreover have "(\<forall>s. s \<noteq> r \<longrightarrow> regs ?h s = regs h s)
      \<and> regs ?h r AND (if even r then writable_low else writable_high) = v AND (if even r then writable_low else writable_high)"
    using assms(2,3) unfolding ioapic_window_def Let_def by blast
  ultimately show ?thesis by (intro that [of ?h]) simp_all
qed

lemma redirection_register:
  assumes "unat index \<le> 119"
  shows "checked_mul index 2 = Some (2 * index)" "checked_add REDIRECTION_TABLE_BASE (2 * index) = Some (16 + 2 * index)"
    "checked_add (16 + 2 * index) 1 = Some (17 + 2 * index)" "unat (16 + 2 * index) = 16 + 2 * unat index"
    "even (16 + 2 * index)" "16 \<le> 16 + 2 * index" "17 + 2 * index \<noteq> 16 + 2 * index" "16 \<le> 17 + 2 * index" "odd (17 + 2 * index)"
proof -
  have n: "unat (2 * index) = 2 * unat index" "unat (16 + 2 * index) = 16 + 2 * unat index" "unat (17 + 2 * index) = 17 + 2 * unat index"
    using assms by (auto simp: unat_word_ariths)
  show "checked_mul index 2 = Some (2 * index)" "checked_add REDIRECTION_TABLE_BASE (2 * index) = Some (16 + 2 * index)"
    "checked_add (16 + 2 * index) 1 = Some (17 + 2 * index)"
    using assms n by (auto simp: checked_mul_def checked_add_def REDIRECTION_TABLE_BASE_def)
  show "unat (16 + 2 * index) = 16 + 2 * unat index" by (fact n(2))
  show "16 \<le> 16 + 2 * index" "17 + 2 * index \<noteq> 16 + 2 * index" "16 \<le> 17 + 2 * index"
    using n by (auto simp: word_le_nat_alt)
  show "even (16 + 2 * index)" "odd (17 + 2 * index)"
    by simp_all
qed

lemma redirection_register_beyond:
  "\<not> unat index \<le> 119 \<Longrightarrow> checked_mul index 2 = None
     \<or> (\<exists>offset. checked_mul index 2 = Some offset \<and> checked_add REDIRECTION_TABLE_BASE offset = None)"
  by (auto simp: checked_mul_def checked_add_def REDIRECTION_TABLE_BASE_def unat_word_ariths)


text \<open>A device that holds exactly what was written to it.\<close>

definition plain_ioapic :: "(u8 \<times> (u8 \<Rightarrow> u32)) Hardware" where
  "plain_ioapic = \<lparr>read_volatile = (\<lambda>a (s, f). (if a = 0xFEC00010 then f s else 0, (s, f))),
     write_volatile = (\<lambda>a v (s, f). if a = 0xFEC00000 then (ucast v, f) else if a = 0xFEC00010 then (s, f(s := v)) else (s, f)),
     msr_read = (\<lambda>_ h. (0, h)), msr_write = (\<lambda>_ _ h. h), rdtsc = (\<lambda>h. (0, h)),
     cpuid_count = (\<lambda>_ _. \<lparr>cpuid_eax = 0, cpuid_ebx = 0, cpuid_ecx = 0, cpuid_edx = 0\<rparr>),
     apic_base_read = (\<lambda>_. (0, 0)), apic_base_write = (\<lambda>_ _ h. h), LAPIC_ENABLE = 0, X2APIC_ENABLE = 0,
     port_in = (\<lambda>_ h. (0, h)), port_out = (\<lambda>_ _ h. h),
     efer_nxe = (\<lambda>_. True), efer_set_nxe = id, load_descriptors = id, load_interrupts = id\<rparr>"

lemma plain_ioapic_window: "ioapic_window plain_ioapic snd 0xFEC00000 0xFEC00010"
proof -
  have "ucast (ucast r :: u32) = r" for r :: u8 by (rule bit_word_eqI) (simp add: bit_simps)
  then show ?thesis by (auto simp: ioapic_window_def plain_ioapic_def Let_def split: prod.splits)
qed


end
