(* ===== verification/Timekeeping.thy ===== *)
theory Timekeeping
  imports Interrupts "HOL-Library.Monad_Syntax"
begin

text \<open>
  Times and timers (\<open>timer.rs\<close>), the TSC clock source (\<open>arch/x86_64/tsc.rs\<close>) and the timer of the local
  APIC (\<open>arch/x86_64/lapic_timer.rs\<close>). The polling loop of the calibration is a partial function: \<open>None\<close>
  is a loop that never leaves.
\<close>

unbundle bit_operations_syntax

section \<open>Times\<close>

type_synonym MonotonicTime = u64
type_synonym TimerInterval = u64
type_synonym TimerDeadline = MonotonicTime
type_synonym u128 = "128 word"

definition mt_saturating_add :: "MonotonicTime \<Rightarrow> u64 \<Rightarrow> MonotonicTime" where
  "mt_saturating_add t delta_nanos = saturating_add t delta_nanos"

definition TimerInterval_new :: "u64 \<Rightarrow> TimerInterval option" where
  "TimerInterval_new nanos = (if nanos = 0 then None else Some nanos)"

definition checked_div :: "'a::len word \<Rightarrow> 'a word \<Rightarrow> 'a word option" where
  "checked_div a b = (if b = 0 then None else Some (a div b))"

section \<open>TSC clock source\<close>

definition INVARIANT_TSC_BIT :: u32 where "INVARIANT_TSC_BIT = push_bit 8 1"

definition CPUID_EXTENDED_MAX :: u32 where "CPUID_EXTENDED_MAX = 0x80000000"

definition CPUID_TSC_RATIO :: u32 where "CPUID_TSC_RATIO = 0x15"

definition CPUID_PROCESSOR_FREQ :: u32 where "CPUID_PROCESSOR_FREQ = 0x16"

definition CPUID_EXTENDED_FEATURES :: u32 where "CPUID_EXTENDED_FEATURES = 0x80000007"

datatype TscError = TscUnsupported | FrequencyUnavailable | TscFrequencyOverflow | TimeOverflow

record TscClocksource =
  start_ticks :: u64
  tsc_frequency :: u64

definition invariant_tsc_supported :: "'h Hardware \<Rightarrow> bool" where
  "invariant_tsc_supported hw \<longleftrightarrow>
     \<not> cpuid_eax (cpuid_leaf hw CPUID_EXTENDED_MAX) < CPUID_EXTENDED_FEATURES
     \<and> cpuid_edx (cpuid_leaf hw CPUID_EXTENDED_FEATURES) AND INVARIANT_TSC_BIT \<noteq> 0"

text \<open>The second half of the detection, from the nominal frequency.\<close>

definition nominal_frequency :: "'h Hardware \<Rightarrow> TscError + u64" where
  "nominal_frequency hw =
     (if cpuid_eax (cpuid_leaf hw 0) \<ge> CPUID_PROCESSOR_FREQ \<and> cpuid_eax (cpuid_count hw CPUID_PROCESSOR_FREQ 0) \<noteq> 0
      then ok_or (checked_mul (ucast (cpuid_eax (cpuid_count hw CPUID_PROCESSOR_FREQ 0))) 1000000) TscFrequencyOverflow
      else Inl FrequencyUnavailable)"

definition detect_frequency :: "'h Hardware \<Rightarrow> TscError + u64" where
  "detect_frequency hw =
     (if cpuid_eax (cpuid_leaf hw 0) \<ge> CPUID_TSC_RATIO then
        let ratio = cpuid_count hw CPUID_TSC_RATIO 0;
            denominator = cpuid_eax ratio; numerator = cpuid_ebx ratio; crystal_hz = ucast (cpuid_ecx ratio) :: u64
        in if denominator \<noteq> 0 \<and> numerator \<noteq> 0 \<and> crystal_hz \<noteq> 0 then
             (case Option.bind (checked_mul crystal_hz (ucast numerator)) (\<lambda>v. checked_div v (ucast denominator)) of
                Some hz \<Rightarrow> if hz \<noteq> 0 then Inr hz else nominal_frequency hw
              | None \<Rightarrow> Inl TscFrequencyOverflow)
           else nominal_frequency hw
      else nominal_frequency hw)"

definition ticks_to_nanos :: "u64 \<Rightarrow> u64 \<Rightarrow> u64 option" where
  "ticks_to_nanos ticks frequency_hz =
     (if frequency_hz = 0 then None
      else let seconds = ticks div frequency_hz; remainder = ticks mod frequency_hz
           in Option.bind (checked_mul seconds 1000000000) (\<lambda>whole_nanos.
              let fractional_nanos = ucast ((ucast remainder :: u128) * 1000000000 div ucast frequency_hz)
              in checked_add whole_nanos fractional_nanos))"

definition tsc_try_new :: "'h Hardware \<Rightarrow> 'h \<Rightarrow> (TscError + TscClocksource) \<times> 'h" where
  "tsc_try_new hw h =
     (if \<not> invariant_tsc_supported hw then (Inl TscUnsupported, h)
      else case detect_frequency hw of
             Inl e \<Rightarrow> (Inl e, h)
           | Inr frequency \<Rightarrow>
               (let (ticks, h) = rdtsc hw h in (Inr \<lparr>start_ticks = ticks, tsc_frequency = frequency\<rparr>, h)))"

text \<open>The time that a reading of the counter stands for, and the clock.\<close>

definition tsc_time_at :: "TscClocksource \<Rightarrow> u64 \<Rightarrow> TscError + MonotonicTime" where
  "tsc_time_at c ticks =
     and_then (ok_or (checked_sub ticks (start_ticks c)) TimeOverflow) (\<lambda>elapsed.
     ok_or (ticks_to_nanos elapsed (tsc_frequency c)) TimeOverflow)"

definition tsc_now :: "'h Hardware \<Rightarrow> TscClocksource \<Rightarrow> 'h \<Rightarrow> (TscError + MonotonicTime) \<times> 'h" where
  "tsc_now hw c h = (let (ticks, h) = rdtsc hw h in (tsc_time_at c ticks, h))"

section \<open>Timer of the local APIC\<close>

definition LVT_TIMER_OFFSET :: u64 where "LVT_TIMER_OFFSET = 0x320"

definition TIMER_INIT_COUNT_OFFSET :: u64 where "TIMER_INIT_COUNT_OFFSET = 0x380"

definition TIMER_CURRENT_COUNT_OFFSET :: u64 where "TIMER_CURRENT_COUNT_OFFSET = 0x390"

definition TIMER_DIVIDE_OFFSET :: u64 where "TIMER_DIVIDE_OFFSET = 0x3E0"

definition X2APIC_LVT_TIMER :: u32 where "X2APIC_LVT_TIMER = 0x832"

definition X2APIC_INIT_COUNT :: u32 where "X2APIC_INIT_COUNT = 0x838"

definition X2APIC_CURRENT_COUNT :: u32 where "X2APIC_CURRENT_COUNT = 0x839"

definition X2APIC_DIVIDE_CONFIG :: u32 where "X2APIC_DIVIDE_CONFIG = 0x83E"

definition IA32_TSC_DEADLINE :: u32 where "IA32_TSC_DEADLINE = 0x6E0"

definition CPUID_TSC_DEADLINE :: u32 where "CPUID_TSC_DEADLINE = 1"

definition TSC_DEADLINE_BIT :: u32 where "TSC_DEADLINE_BIT = push_bit 24 1"

definition LVT_MASKED :: u32 where "LVT_MASKED = push_bit 16 1"

definition LVT_PERIODIC :: u32 where "LVT_PERIODIC = push_bit 17 1"

definition MAX_INITIAL_COUNT :: u32 where "MAX_INITIAL_COUNT = u32_MAX"

definition DIVIDE_BY_16_ENCODING :: u32 where "DIVIDE_BY_16_ENCODING = 3"

definition CALIBRATION_TSC_NANOS :: u64 where "CALIBRATION_TSC_NANOS = 10000000"

datatype LapicTimerError =
    LapicUnsupportedMode
  | UnsupportedTscDeadline
  | InvalidMapping
  | CalibrationFailed
  | LapicFrequencyOverflow
  | NotCalibrated
  | IntervalTooLarge
  | DeadlineOverflow

text \<open>A handle \<open>Msr\<close> is the number of its register.\<close>

record LapicTimer =
  lt_mode :: ApicMode
  mmio_base :: "u64 option"
  lt_frequency :: "u64 option"
  deadline_supported :: bool
  tsc_start_ticks :: "u64 option"
  tsc_frequency_hz :: "u64 option"
  lvt_timer :: "u32 option"
  init_count :: "u32 option"
  current_count :: "u32 option"
  divide_config :: "u32 option"
  tsc_deadline :: u32

definition tsc_deadline_supported :: "'h Hardware \<Rightarrow> bool" where
  "tsc_deadline_supported hw \<longleftrightarrow> cpuid_ecx (cpuid_leaf hw CPUID_TSC_DEADLINE) AND TSC_DEADLINE_BIT \<noteq> 0"

definition LapicTimer_new :: "'h Hardware \<Rightarrow> ApicMode \<Rightarrow> PhysicalMemoryMapping option \<Rightarrow> 'h \<Rightarrow> LapicTimerError + LapicTimer" where
  "LapicTimer_new hw mode mapping h =
     (let supported = tsc_deadline_supported hw
      in case mode of
           XApic \<Rightarrow>
             (case mapping of
                None \<Rightarrow> Inl LapicUnsupportedMode
              | Some mapping \<Rightarrow>
                  and_then (ok_or (phys_translate mapping (fst (apic_base_read hw h))) InvalidMapping) (\<lambda>mapped.
                  Inr \<lparr>lt_mode = mode, mmio_base = Some mapped, lt_frequency = None, deadline_supported = supported,
                       tsc_start_ticks = None, tsc_frequency_hz = None, lvt_timer = None, init_count = None,
                       current_count = None, divide_config = None, tsc_deadline = IA32_TSC_DEADLINE\<rparr>))
         | X2Apic \<Rightarrow>
             Inr \<lparr>lt_mode = mode, mmio_base = None, lt_frequency = None, deadline_supported = supported,
                  tsc_start_ticks = None, tsc_frequency_hz = None, lvt_timer = Some X2APIC_LVT_TIMER,
                  init_count = Some X2APIC_INIT_COUNT, current_count = Some X2APIC_CURRENT_COUNT,
                  divide_config = Some X2APIC_DIVIDE_CONFIG, tsc_deadline = IA32_TSC_DEADLINE\<rparr>)"

text \<open>The register accesses; a fallible step on the hardware is followed by the next one only if it succeeded.\<close>

definition hw_then :: "('h \<Rightarrow> ('e + 'a) \<times> 'h) \<Rightarrow> ('a \<Rightarrow> 'h \<Rightarrow> ('e + 'b) \<times> 'h) \<Rightarrow> 'h \<Rightarrow> ('e + 'b) \<times> 'h" where
  "hw_then m f h = (case m h of (Inl e, h') \<Rightarrow> (Inl e, h') | (Inr x, h') \<Rightarrow> f x h')"

definition lt_write_register :: "'h Hardware \<Rightarrow> ApicMode \<Rightarrow> u64 option \<Rightarrow> u64 \<Rightarrow> u32 option \<Rightarrow> u32 \<Rightarrow> 'h \<Rightarrow> (LapicTimerError + unit) \<times> 'h" where
  "lt_write_register hw mode mmio offset msr v h =
     (case mode of
        XApic \<Rightarrow>
          (case and_then (ok_or mmio InvalidMapping) (\<lambda>base. ok_or (checked_add base offset) InvalidMapping) of
             Inl e \<Rightarrow> (Inl e, h)
           | Inr address \<Rightarrow> (Inr (), write_volatile hw address v h))
      | X2Apic \<Rightarrow>
          (case ok_or msr LapicUnsupportedMode of
             Inl e \<Rightarrow> (Inl e, h)
           | Inr msr \<Rightarrow> (Inr (), msr_write hw msr (ucast v) h)))"

definition lt_read_register :: "'h Hardware \<Rightarrow> ApicMode \<Rightarrow> u64 option \<Rightarrow> u64 \<Rightarrow> u32 option \<Rightarrow> 'h \<Rightarrow> (LapicTimerError + u32) \<times> 'h" where
  "lt_read_register hw mode mmio offset msr h =
     (case mode of
        XApic \<Rightarrow>
          (case and_then (ok_or mmio InvalidMapping) (\<lambda>base. ok_or (checked_add base offset) InvalidMapping) of
             Inl e \<Rightarrow> (Inl e, h)
           | Inr address \<Rightarrow> (let (v, h) = read_volatile hw address h in (Inr v, h)))
      | X2Apic \<Rightarrow>
          (case ok_or msr LapicUnsupportedMode of
             Inl e \<Rightarrow> (Inl e, h)
           | Inr msr \<Rightarrow> (let (v, h) = msr_read hw msr h in (Inr (ucast v), h))))"

definition write_lvt :: "'h Hardware \<Rightarrow> LapicTimer \<Rightarrow> u32 \<Rightarrow> 'h \<Rightarrow> (LapicTimerError + unit) \<times> 'h" where
  "write_lvt hw t v = lt_write_register hw (lt_mode t) (mmio_base t) LVT_TIMER_OFFSET (lvt_timer t) v"

definition write_initial :: "'h Hardware \<Rightarrow> LapicTimer \<Rightarrow> u32 \<Rightarrow> 'h \<Rightarrow> (LapicTimerError + unit) \<times> 'h" where
  "write_initial hw t v = lt_write_register hw (lt_mode t) (mmio_base t) TIMER_INIT_COUNT_OFFSET (init_count t) v"

definition write_divide :: "'h Hardware \<Rightarrow> LapicTimer \<Rightarrow> u32 \<Rightarrow> 'h \<Rightarrow> (LapicTimerError + unit) \<times> 'h" where
  "write_divide hw t v = lt_write_register hw (lt_mode t) (mmio_base t) TIMER_DIVIDE_OFFSET (divide_config t) v"

definition read_current :: "'h Hardware \<Rightarrow> LapicTimer \<Rightarrow> 'h \<Rightarrow> (LapicTimerError + u32) \<times> 'h" where
  "read_current hw t = lt_read_register hw (lt_mode t) (mmio_base t) TIMER_CURRENT_COUNT_OFFSET (current_count t)"

partial_function (option) poll_ticks :: "'h Hardware \<Rightarrow> u64 \<Rightarrow> u64 \<Rightarrow> 'h \<Rightarrow> 'h option" where
  "poll_ticks hw start target h =
     (let (current, h) = rdtsc hw h
      in if current - start \<ge> target then Some h else poll_ticks hw start target h)"

declare poll_ticks.simps [code]

text \<open>The calibration after its polling loop.\<close>

definition calibrate_finish :: "'h Hardware \<Rightarrow> LapicTimer \<Rightarrow> u64 \<Rightarrow> u64 \<Rightarrow> 'h \<Rightarrow> (LapicTimerError + u64) \<times> LapicTimer \<times> 'h" where
  "calibrate_finish hw t start tsc_hz h =
     (case read_current hw t h of
        (Inl e, h) \<Rightarrow> (Inl e, t, h)
      | (Inr current, h) \<Rightarrow>
          (let elapsed_count = ucast (saturating_sub MAX_INITIAL_COUNT current) :: u64
           in if elapsed_count = 0 then (Inl CalibrationFailed, t, h)
              else case Option.bind (checked_mul elapsed_count 1000000000) (\<lambda>v. checked_div v CALIBRATION_TSC_NANOS) of
                     None \<Rightarrow> (Inl LapicFrequencyOverflow, t, h)
                   | Some frequency_hz \<Rightarrow>
                       if frequency_hz = 0 then (Inl CalibrationFailed, t, h)
                       else let t = t\<lparr>lt_frequency := Some frequency_hz, tsc_start_ticks := Some start, tsc_frequency_hz := Some tsc_hz\<rparr>;
                                (r, h) = hw_then (write_initial hw t 0) (\<lambda>_. write_lvt hw t (ucast TIMER_VECTOR OR LVT_MASKED)) h
                            in (and_then r (\<lambda>_. Inr frequency_hz), t, h)))"

definition calibrate :: "'h Hardware \<Rightarrow> LapicTimer \<Rightarrow> TscClocksource \<Rightarrow> 'h \<Rightarrow> ((LapicTimerError + u64) \<times> LapicTimer \<times> 'h) option" where
  "calibrate hw t tsc h =
     (case hw_then (write_divide hw t DIVIDE_BY_16_ENCODING) (\<lambda>_.
           hw_then (write_lvt hw t (ucast TIMER_VECTOR OR LVT_MASKED)) (\<lambda>_.
           write_initial hw t MAX_INITIAL_COUNT)) h of
        (Inl e, h) \<Rightarrow> Some (Inl e, t, h)
      | (Inr _, h) \<Rightarrow>
          (let tsc_hz = tsc_frequency tsc
           in case Option.bind (checked_mul tsc_hz CALIBRATION_TSC_NANOS) (\<lambda>v. checked_div v 1000000000) of
                None \<Rightarrow> Some (Inl LapicFrequencyOverflow, t, h)
              | Some target_ticks \<Rightarrow>
                  if target_ticks = 0 then Some (Inl CalibrationFailed, t, h)
                  else let (start, h) = rdtsc hw h
                       in map_option (calibrate_finish hw t start tsc_hz) (poll_ticks hw start target_ticks h)))"

definition deadline_to_tsc :: "LapicTimer \<Rightarrow> MonotonicTime \<Rightarrow> LapicTimerError + u64" where
  "deadline_to_tsc t deadline =
     and_then (ok_or (tsc_start_ticks t) NotCalibrated) (\<lambda>start.
     and_then (ok_or (tsc_frequency_hz t) NotCalibrated) (\<lambda>frequency.
     and_then (ok_or (Option.bind (checked_mul (ucast deadline :: u128) (ucast frequency)) (\<lambda>v. checked_div v 1000000000)) DeadlineOverflow) (\<lambda>delta.
     and_then (ok_or (checked_add (ucast start) delta) DeadlineOverflow) (\<lambda>target.
     if unat target < 2 ^ 64 then Inr (ucast target) else Inl DeadlineOverflow))))"

definition set_periodic :: "'h Hardware \<Rightarrow> LapicTimer \<Rightarrow> TimerInterval \<Rightarrow> 'h \<Rightarrow> (LapicTimerError + unit) \<times> 'h" where
  "set_periodic hw t interval h =
     (case and_then (ok_or (lt_frequency t) NotCalibrated) (\<lambda>frequency.
           and_then (ok_or (Option.bind (checked_mul frequency interval) (\<lambda>v. checked_div v 1000000000)) IntervalTooLarge) (\<lambda>initial.
           and_then (if unat initial < 2 ^ 32 then Inr (ucast initial) else Inl IntervalTooLarge) (\<lambda>initial :: u32.
           if initial = 0 then Inl IntervalTooLarge else Inr initial))) of
        Inl e \<Rightarrow> (Inl e, h)
      | Inr initial \<Rightarrow>
          hw_then (write_lvt hw t (ucast TIMER_VECTOR OR LVT_PERIODIC)) (\<lambda>_. write_initial hw t initial) h)"

definition set_deadline :: "'h Hardware \<Rightarrow> LapicTimer \<Rightarrow> TimerDeadline \<Rightarrow> 'h \<Rightarrow> (LapicTimerError + unit) \<times> 'h" where
  "set_deadline hw t deadline h =
     (if \<not> deadline_supported t then (Inl UnsupportedTscDeadline, h)
      else case deadline_to_tsc t deadline of
             Inl e \<Rightarrow> (Inl e, h)
           | Inr target \<Rightarrow>
               hw_then (write_initial hw t 0) (\<lambda>_.
               hw_then (write_lvt hw t (ucast TIMER_VECTOR)) (\<lambda>_ h.
               (Inr (), msr_write hw (tsc_deadline t) target h))) h)"

definition lt_disable :: "'h Hardware \<Rightarrow> LapicTimer \<Rightarrow> 'h \<Rightarrow> (LapicTimerError + unit) \<times> 'h" where
  "lt_disable hw t h =
     hw_then (write_initial hw t 0) (\<lambda>_. write_lvt hw t (ucast TIMER_VECTOR OR LVT_MASKED))
       (msr_write hw (tsc_deadline t) 0 h)"

end
