(* ===== verification/Timekeeping_Properties.thy ===== *)
theory Timekeeping_Properties
  imports Timekeeping
begin

text \<open>
  The clock converts ticks without rounding twice, the calibration ends on a counter that advances, and a deadline is
  translated from another epoch than the clock counts from and is not armed by the mode that is programmed.
\<close>

unbundle bit_operations_syntax

section \<open>Conversion of ticks\<close>

lemma unat_div_u128: "unat (a div b) = unat a div unat b" for a b :: u128
  by (simp add: unat_div)

lemma unat_ucast_u128 [simp]: "unat (ucast (a :: u64) :: u128) = unat a"
  using unat_u64_less [of a] by (simp add: unsigned_ucast_eq take_bit_nat_eq_self)

lemma split_div: "0 < f \<Longrightarrow> t div f * k + t mod f * k div f = t * k div f" for t f k :: nat
proof -
  assume "0 < f"
  have "t * k = t div f * k * f + t mod f * k"
    by (metis div_mult_mod_eq add_mult_distrib mult.commute mult.left_commute)
  then show ?thesis using \<open>0 < f\<close> by (metis div_mult_self3 add.commute less_not_refl2)
qed

lemma fractional_nanos:
  assumes "(f :: u64) \<noteq> 0"
  shows "unat (ucast ((ucast (t mod f) :: u128) * 1000000000 div ucast f) :: u64) = unat t mod unat f * 1000000000 div unat f"
proof -
  have f: "0 < unat f" using assms by (simp add: unat_gt_0)
  have r: "unat (t mod f) = unat t mod unat f" "unat t mod unat f < unat f" using f by (simp_all add: unat_mod)
  have "unat ((ucast q :: u128) * 1000000000) = unat q * 1000000000" for q :: u64
    using unat_u64_less [of q] by (simp add: unat_word_ariths)
  then have p: "unat ((ucast (t mod f) :: u128) * 1000000000) = unat t mod unat f * 1000000000"
    by (simp only: r(1))
  have "unat t mod unat f * 1000000000 div unat f < 1000000000"
    using r f by (simp add: div_less_iff_less_mult mult.commute)
  then show ?thesis by (simp add: unsigned_ucast_eq take_bit_nat_eq_self unat_div_u128 p)
qed

lemma ticks_to_nanos_nat:
  "ticks_to_nanos t f = (if f \<noteq> 0 \<and> unat t * 1000000000 div unat f < 2 ^ 64
     then Some (of_nat (unat t * 1000000000 div unat f)) else None)"
proof (cases "f = 0")
  case False
  let ?w = "unat t div unat f * 1000000000" and ?r = "unat t mod unat f * 1000000000 div unat f"
  have f: "0 < unat f" using False by (simp add: unat_gt_0)
  have sum: "?w + ?r = unat t * 1000000000 div unat f" by (rule split_div [OF f])
  have w: "checked_mul (t div f) 1000000000 = (if ?w < 2 ^ 64 then Some (of_nat ?w) else None)"
    using unat_div [of t f] by (simp add: checked_mul_def) (metis of_nat_unat ucast_id)
  show ?thesis
  proof (cases "?w < 2 ^ 64")
    case True
    have "checked_add (of_nat ?w) (ucast ((ucast (t mod f) :: u128) * 1000000000 div ucast f))
        = (if ?w + ?r < 2 ^ 64 then Some (of_nat (?w + ?r) :: u64) else None)"
      using True fractional_nanos [OF False, of t]
      by (auto simp: checked_add_def unat_of_nat_u64 intro!: word_unat_eq_iff [THEN iffD2] simp: unat_word_ariths)
    then show ?thesis using False True w by (simp add: ticks_to_nanos_def Let_def sum)
  next
    case False
    then have "\<not> unat t * 1000000000 div unat f < 2 ^ 64" using sum by linarith
    then show ?thesis using False \<open>f \<noteq> 0\<close> w by (simp add: ticks_to_nanos_def)
  qed
qed (simp add: ticks_to_nanos_def)

text \<open>
  C37: the clock reads the whole number of nanoseconds in the elapsed ticks, rounded down once although seconds and
  remainder are converted apart, and reports an overflow exactly when the counter is before its start, the frequency is
  zero or that number does not fit in 64 bits.
\<close>

theorem tsc_now_exact:
  "fst (tsc_now hw c h) =
     (let ticks = fst (rdtsc hw h); nanos = (unat ticks - unat (start_ticks c)) * 1000000000 div unat (tsc_frequency c)
      in if start_ticks c \<le> ticks \<and> tsc_frequency c \<noteq> 0 \<and> nanos < 2 ^ 64 then Inr (of_nat nanos) else Inl TimeOverflow)"
  by (simp add: tsc_now_def tsc_time_at_def checked_sub_def ticks_to_nanos_nat case_prod_beta Let_def unat_sub)

section \<open>Calibration\<close>

text \<open>
  A counter that advances: it reads the low 64 bits of a clock that grows with every reading, by a bounded step.
\<close>

definition tsc_advances :: "'h Hardware \<Rightarrow> ('h \<Rightarrow> nat) \<Rightarrow> nat \<Rightarrow> bool" where
  "tsc_advances hw clock step \<longleftrightarrow>
     (\<forall>h. fst (rdtsc hw h) = of_nat (clock h) \<and> clock h < clock (snd (rdtsc hw h)) \<and> clock (snd (rdtsc hw h)) \<le> clock h + step)"

lemma elapsed_ticks: "c0 \<le> c \<Longrightarrow> c - c0 < 2 ^ 64 \<Longrightarrow> unat ((of_nat c :: u64) - of_nat c0) = c - c0"
  by (metis of_nat_diff unat_of_nat_u64)

lemma poll_ticks_returns:
  assumes adv: "tsc_advances hw clock step" and fit: "unat target + step \<le> 2 ^ 64"
    and "c0 \<le> clock h" "clock h - c0 < unat target + step"
  shows "\<exists>h'. poll_ticks hw (of_nat c0) target h = Some h'"
  using assms(3,4)
proof (induction "c0 + unat target - clock h" arbitrary: h rule: less_induct)
  case less
  let ?h = "snd (rdtsc hw h)"
  have read: "fst (rdtsc hw h) = of_nat (clock h)" "clock h < clock ?h" "clock ?h \<le> clock h + step"
    using adv by (auto simp: tsc_advances_def)
  have elapsed: "unat ((of_nat (clock h) :: u64) - of_nat c0) = clock h - c0"
    using less.prems fit by (intro elapsed_ticks) auto
  show ?case
  proof (cases "unat target \<le> clock h - c0")
    case True
    then show ?thesis using elapsed read(1) by (subst poll_ticks.simps) (simp add: case_prod_beta word_le_nat_alt)
  next
    case False
    then have "\<exists>h'. poll_ticks hw (of_nat c0) target ?h = Some h'"
      using read less.prems by (intro less.hyps) auto
    then show ?thesis using False elapsed read(1) by (subst poll_ticks.simps) (simp add: case_prod_beta word_le_nat_alt)
  qed
qed

lemma calibrate_finish_result:
  assumes "calibrate_finish hw t start tsc_hz h = (Inr f, t', h')"
  shows "lt_frequency t' = Some f" "tsc_start_ticks t' = Some start" "tsc_frequency_hz t' = Some tsc_hz" "f \<noteq> 0"
  using assms
  by (auto simp: calibrate_finish_def Let_def case_prod_beta and_then_eq_Inr
      split: prod.splits sum.splits if_splits option.splits)


text \<open>A processor whose counter grows by a million with every reading and whose timer registers always read zero.\<close>

definition ticking :: "nat Hardware" where
  "ticking = \<lparr>read_volatile = (\<lambda>_ h. (0, h)), write_volatile = (\<lambda>_ _ h. h), msr_read = (\<lambda>_ h. (0, h)), msr_write = (\<lambda>_ _ h. h),
     rdtsc = (\<lambda>h. (of_nat h, h + 1000000)), cpuid_count = (\<lambda>_ _. \<lparr>cpuid_eax = 0, cpuid_ebx = 0, cpuid_ecx = 0, cpuid_edx = 0\<rparr>),
     apic_base_read = (\<lambda>_. (0xFEE00000, 0)), apic_base_write = (\<lambda>_ _ h. h), LAPIC_ENABLE = 0, X2APIC_ENABLE = 0,
     port_in = (\<lambda>_ h. (0, h)), port_out = (\<lambda>_ _ h. h),
     efer_nxe = (\<lambda>_. True), efer_set_nxe = id, load_descriptors = id, load_interrupts = id\<rparr>"


section \<open>Deadlines\<close>

lemma deadline_to_tsc_nat:
  assumes "tsc_start_ticks t = Some s" "tsc_frequency_hz t = Some f" "deadline_to_tsc t n = Inr target"
  shows "unat target = unat s + unat n * unat f div 1000000000"
proof -
  have small: "unat n * unat f \<le> (2 ^ 64 - 1) * (2 ^ 64 - 1)"
    using unat_u64_less [of n] unat_u64_less [of f] by (intro mult_mono) auto
  have prod: "checked_mul (ucast n :: u128) (ucast f) = Some (ucast n * ucast f)" "unat (ucast n * ucast f :: u128) = unat n * unat f"
    using small by (auto simp: checked_mul_def unat_word_ariths)
  let ?d = "(ucast n :: u128) * ucast f div 1000000000"
  have d: "unat ?d = unat n * unat f div 1000000000" by (simp add: unat_div_u128 prod(2))
  have "unat n * unat f div 1000000000 \<le> (2 ^ 64 - 1) * (2 ^ 64 - 1) div 1000000000" using small by (rule div_le_mono)
  then have sum: "unat (ucast s + ?d) = unat s + unat n * unat f div 1000000000"
    using unat_u64_less [of s] by (simp add: unat_word_ariths d)
  have "target = ucast (ucast s + ?d)" "unat (ucast s + ?d) < 2 ^ 64"
    using assms by (auto simp: deadline_to_tsc_def prod(1) checked_div_def checked_add_def split: if_splits)
  then show ?thesis using sum by (simp add: unsigned_ucast_eq take_bit_nat_eq_self)
qed

text \<open>
  C40: at the counter value that a deadline is translated to, the clock does not read that deadline but the deadline plus
  the time that had passed between the start of the clock and the calibration of the timer: the two count from different
  epochs. The frequency here is a whole number of ticks per nanosecond, so that nothing is rounded.
\<close>

theorem deadline_late:
  assumes "unat (tsc_frequency c) = 1000000000 * k" and "0 < k" and "tsc_frequency_hz t = Some (tsc_frequency c)"
    and "tsc_start_ticks t = Some s" and "start_ticks c \<le> s" and "deadline_to_tsc t deadline = Inr target"
  shows "\<exists>now. tsc_time_at c target = Inr now \<and> unat now = unat deadline + (unat s - unat (start_ticks c)) div k"
proof -
  have target: "unat target = unat s + unat deadline * k"
    using deadline_to_tsc_nat [OF assms(4,3,6)] assms(1) by simp
  have le: "start_ticks c \<le> target" "unat (start_ticks c) \<le> unat s" using assms(5) target by (auto simp: word_le_nat_alt)
  have "(unat target - unat (start_ticks c)) * 1000000000 div unat (tsc_frequency c) = (unat target - unat (start_ticks c)) div k"
    by (simp add: assms(1) mult.commute)
  also have "\<dots> = (unat s - unat (start_ticks c) + unat deadline * k) div k" using target le by simp
  also have "\<dots> = unat deadline + (unat s - unat (start_ticks c)) div k" using assms(2) by simp
  finally have nanos: "(unat target - unat (start_ticks c)) * 1000000000 div unat (tsc_frequency c)
      = unat deadline + (unat s - unat (start_ticks c)) div k" .
  have "(unat target - unat (start_ticks c)) div k < 2 ^ 64"
    using unat_u64_less [of target] by (simp add: le_less_trans [OF div_le_dividend])
  then have fit: "unat deadline + (unat s - unat (start_ticks c)) div k < 2 ^ 64"
    using nanos by (simp add: assms(1) mult.commute)
  moreover have "tsc_frequency c \<noteq> 0" using assms(1,2) by auto
  ultimately have "tsc_time_at c target = Inr (of_nat (unat deadline + (unat s - unat (start_ticks c)) div k))"
    using le nanos by (simp add: tsc_time_at_def checked_sub_def ticks_to_nanos_nat unat_sub)
  then show ?thesis using unat_of_nat_u64 [OF fit] by blast
qed

definition calibrated_timer :: LapicTimer where
  "calibrated_timer = \<lparr>lt_mode = X2Apic, mmio_base = None, lt_frequency = Some 1000000000, deadline_supported = True,
     tsc_start_ticks = Some 3000000500, tsc_frequency_hz = Some 3000000000, lvt_timer = Some X2APIC_LVT_TIMER,
     init_count = Some X2APIC_INIT_COUNT, current_count = Some X2APIC_CURRENT_COUNT, divide_config = Some X2APIC_DIVIDE_CONFIG,
     tsc_deadline = IA32_TSC_DEADLINE\<rparr>"

theorem deadline_late_witness:
  "deadline_to_tsc calibrated_timer 7 = Inr 3000000521
   \<and> (\<exists>now. tsc_time_at \<lparr>start_ticks = 500, tsc_frequency = 3000000000\<rparr> 3000000521 = Inr now \<and> unat now = 1000000007)"
proof -
  have target: "deadline_to_tsc calibrated_timer 7 = Inr 3000000521"
    by (simp add: deadline_to_tsc_def calibrated_timer_def checked_mul_def checked_div_def checked_add_def)
  then show ?thesis
    using deadline_late [of "\<lparr>start_ticks = 500, tsc_frequency = 3000000000\<rparr>" 3 calibrated_timer 3000000500 7 3000000521]
    by (simp add: calibrated_timer_def)
qed

text \<open>
  The documented deadline register: writing the local vector table entry of the timer sets it, and a write of the deadline
  register arms the timer only while bits 18 and 17 of that entry select deadline mode, which is 2; in the other modes it
  is ignored and nothing is armed.
\<close>

definition deadline_device :: "'h Hardware \<Rightarrow> LapicTimer \<Rightarrow> ('h \<Rightarrow> u32) \<Rightarrow> ('h \<Rightarrow> u64 option) \<Rightarrow> bool" where
  "deadline_device hw t lvt armed \<longleftrightarrow>
     (\<forall>h v. case lt_mode t of
        XApic \<Rightarrow> (\<forall>base. mmio_base t = Some base \<longrightarrow> lvt (write_volatile hw (base + 0x320) v h) = v)
      | X2Apic \<Rightarrow> lvt (msr_write hw 0x832 (ucast v) h) = v)
   \<and> (\<forall>h v. armed (msr_write hw 0x6E0 v h) = (if drop_bit 17 (lvt h) AND 3 = 2 \<and> v \<noteq> 0 then Some v else None))"

lemma write_lvt_sets:
  assumes "deadline_device hw t lvt armed" "lt_mode t = X2Apic \<longrightarrow> lvt_timer t = Some 0x832" "write_lvt hw t v h = (Inr (), h')"
  shows "lvt h' = v"
  using assms
  by (cases "lt_mode t")
     (auto simp: deadline_device_def write_lvt_def lt_write_register_def LVT_TIMER_OFFSET_def and_then_eq_Inr checked_add_def
       split: sum.splits if_splits)

text \<open>
  C39: setting a deadline succeeds without arming anything. The entry that is written selects one-shot mode, in which the
  processor ignores the deadline register, so no timer interrupt follows from the call, for every timer that the
  constructor made, whatever its calibration, and every deadline.
\<close>

theorem set_deadline_not_armed:
  assumes "LapicTimer_new hw mode mapping h0 = Inr t0"
    and "t = t0\<lparr>lt_frequency := frequency, tsc_start_ticks := start, tsc_frequency_hz := hz\<rparr>"
    and "deadline_device hw t lvt armed" and "set_deadline hw t deadline h = (Inr (), h')"
  shows "armed h' = None"
proof -
  have t: "tsc_deadline t = 0x6E0" "lt_mode t = X2Apic \<longrightarrow> lvt_timer t = Some 0x832"
    using assms(1,2)
    by (auto simp: LapicTimer_new_def Let_def IA32_TSC_DEADLINE_def X2APIC_LVT_TIMER_def and_then_eq_Inr
        split: ApicMode.splits option.splits)
  obtain target h1 h2 where "write_lvt hw t (ucast TIMER_VECTOR) h1 = (Inr (), h2)" and h': "h' = msr_write hw 0x6E0 target h2"
    using assms(4) t(1) by (auto simp: set_deadline_def hw_then_def split: if_splits sum.splits prod.splits)
  then have "lvt h2 = ucast TIMER_VECTOR" using write_lvt_sets [OF assms(3) t(2)] by blast
  then have "\<not> drop_bit 17 (lvt h2) AND 3 = 2" by (simp add: TIMER_VECTOR_def)
  then show ?thesis using assms(3) h' by (simp add: deadline_device_def)
qed

text \<open>A processor that keeps the entry and the armed deadline, with deadline mode as documented.\<close>

definition deadline_cpu :: "(u32 \<times> u64 option) Hardware" where
  "deadline_cpu = \<lparr>read_volatile = (\<lambda>_ h. (0, h)), write_volatile = (\<lambda>_ _ h. h), msr_read = (\<lambda>_ h. (0, h)),
     msr_write = (\<lambda>r v (lvt, armed). if r = 0x832 then (ucast v, if drop_bit 17 (ucast v :: u32) AND 3 = 2 then armed else None)
        else if r = 0x6E0 then (lvt, if drop_bit 17 lvt AND 3 = 2 \<and> v \<noteq> 0 then Some v else None) else (lvt, armed)),
     rdtsc = (\<lambda>h. (0, h)), cpuid_count = (\<lambda>_ _. \<lparr>cpuid_eax = 0, cpuid_ebx = 0, cpuid_ecx = push_bit 24 1, cpuid_edx = 0\<rparr>),
     apic_base_read = (\<lambda>_. (0xFEE00000, 0)), apic_base_write = (\<lambda>_ _ h. h), LAPIC_ENABLE = 0, X2APIC_ENABLE = 0,
     port_in = (\<lambda>_ h. (0, h)), port_out = (\<lambda>_ _ h. h),
     efer_nxe = (\<lambda>_. True), efer_set_nxe = id, load_descriptors = id, load_interrupts = id\<rparr>"

theorem set_deadline_not_armed_witness:
  "\<exists>h'. set_deadline deadline_cpu calibrated_timer 7 (0, None) = (Inr (), h') \<and> snd h' = None"
proof -
  obtain t0 where t0: "LapicTimer_new deadline_cpu X2Apic None (0, None) = Inr t0"
      "calibrated_timer = t0\<lparr>lt_frequency := Some 1000000000, tsc_start_ticks := Some 3000000500, tsc_frequency_hz := Some 3000000000\<rparr>"
    by (simp add: LapicTimer_new_def tsc_deadline_supported_def deadline_cpu_def TSC_DEADLINE_BIT_def calibrated_timer_def)
  have ucast_id32: "ucast (ucast v :: u64) = v" for v :: u32 by (rule bit_word_eqI) (simp add: bit_simps)
  have "deadline_device deadline_cpu calibrated_timer fst snd"
    by (auto simp: deadline_device_def deadline_cpu_def calibrated_timer_def ucast_id32 split: prod.splits)
  moreover obtain h' where h': "set_deadline deadline_cpu calibrated_timer 7 (0, None) = (Inr (), h')"
    by (simp add: set_deadline_def deadline_to_tsc_def calibrated_timer_def checked_mul_def checked_div_def checked_add_def
        hw_then_def write_initial_def write_lvt_def lt_write_register_def case_prod_beta)
  ultimately have "snd h' = None" by (intro set_deadline_not_armed [OF t0 _ h'])
  then show ?thesis using h' by blast
qed

end
