(* ===== verification/Serial.thy ===== *)
theory Serial
  imports Hardware "HOL-Library.Monad_Syntax"
begin

text \<open>
  The serial console (\<open>serial.rs\<close>, \<open>hello.rs\<close>). Its state is the cell \<open>STATE\<close> with the hardware; the loop
  that waits for the transmitter is a partial function, and \<open>None\<close> stands for a loop that does not end as well as
  for a panic.
\<close>

unbundle bit_operations_syntax

definition COM1 :: u16 where "COM1 = 0x3F8"

definition UNINITIALIZED :: u8 where "UNINITIALIZED = 0"

definition INITIALIZING :: u8 where "INITIALIZING = 1"

definition READY :: u8 where "READY = 2"

type_synonym 'h console = "u8 \<times> 'h"

text \<open>Waiting for the end of another initialisation does not end on the only CPU.\<close>

definition serial_init :: "'h Hardware \<Rightarrow> 'h console \<Rightarrow> 'h console option" where
  "serial_init hw = (\<lambda>(st, h).
     if st = UNINITIALIZED then
       (let h = port_out hw (COM1 + 1) 0x00 h;
            h = port_out hw (COM1 + 3) 0x80 h;
            h = port_out hw COM1 0x03 h;
            h = port_out hw (COM1 + 1) 0x00 h;
            h = port_out hw (COM1 + 3) 0x03 h;
            h = port_out hw (COM1 + 2) 0xC7 h;
            h = port_out hw (COM1 + 4) 0x0B h
        in Some (READY, h))
     else if st = READY then Some (st, h)
     else None)"

partial_function (option) wait_transmitter :: "'h Hardware \<Rightarrow> 'h \<Rightarrow> 'h option" where
  "wait_transmitter hw h =
     (let (status, h) = port_in hw (COM1 + 5) h in if status AND 0x20 = 0 then wait_transmitter hw h else Some h)"

declare wait_transmitter.simps [code]

definition write_byte :: "'h Hardware \<Rightarrow> u8 \<Rightarrow> 'h console \<Rightarrow> 'h console option" where
  "write_byte hw byte c = do {
     (st, h) \<leftarrow> (if fst c \<noteq> READY then serial_init hw c else Some c);
     h \<leftarrow> wait_transmitter hw h;
     Some (st, port_out hw COM1 byte h)
   }"

fun serial_write_bytes :: "'h Hardware \<Rightarrow> u8 list \<Rightarrow> 'h console \<Rightarrow> 'h console option" where
  "serial_write_bytes hw [] c = Some c"
| "serial_write_bytes hw (byte # bytes) c = Option.bind (write_byte hw byte c) (serial_write_bytes hw bytes)"

text \<open>A string of the program is its bytes.\<close>

definition as_bytes :: "string \<Rightarrow> u8 list" where
  "as_bytes s = map of_char s"

definition write_str :: "'h Hardware \<Rightarrow> string \<Rightarrow> 'h console \<Rightarrow> 'h console option" where
  "write_str hw message = serial_write_bytes hw (as_bytes message)"

text \<open>The loops that fill an array of digits from its end; an index below zero is a panic.\<close>

function usize_digits :: "usize \<Rightarrow> u8 list \<Rightarrow> nat \<Rightarrow> (u8 list \<times> nat) option" where
  "usize_digits v digits index =
     (if v = 0 then Some (digits, index)
      else if index = 0 \<or> length digits < index then None
      else usize_digits (v div 10) (digits[index - 1 := 0x30 + ucast (v mod 10)]) (index - 1))"
  by pat_completeness auto
termination
  by (relation "measure (\<lambda>(v, digits, index). index)") auto

declare usize_digits.simps [simp del]

definition write_usize :: "'h Hardware \<Rightarrow> usize \<Rightarrow> 'h console \<Rightarrow> 'h console option" where
  "write_usize hw v c =
     (if v = 0 then write_byte hw 0x30 c
      else case usize_digits v (replicate 20 0) 20 of
             None \<Rightarrow> None
           | Some (digits, index) \<Rightarrow> serial_write_bytes hw (drop index digits) c)"

definition HEX_DIGITS :: "u8 list" where
  "HEX_DIGITS = as_bytes ''0123456789abcdef''"

function hex_digits :: "u64 \<Rightarrow> u8 list \<Rightarrow> nat \<Rightarrow> (u8 list \<times> nat) option" where
  "hex_digits v digits index =
     (if v = 0 then Some (digits, index)
      else if index = 0 \<or> length digits < index then None
      else case vec_get HEX_DIGITS (unat (v AND 0xF)) of
             None \<Rightarrow> None
           | Some d \<Rightarrow> hex_digits (drop_bit 4 v) (digits[index - 1 := d]) (index - 1))"
  by pat_completeness auto
termination
  by (relation "measure (\<lambda>(v, digits, index). index)") auto

declare hex_digits.simps [simp del]

definition write_hex :: "'h Hardware \<Rightarrow> u64 \<Rightarrow> 'h console \<Rightarrow> 'h console option" where
  "write_hex hw v c =
     (if v = 0 then write_byte hw 0x30 c
      else case hex_digits v (replicate 16 0x30) 16 of
             None \<Rightarrow> None
           | Some (digits, index) \<Rightarrow> serial_write_bytes hw (drop index digits) c)"

definition MESSAGE :: string where
  "MESSAGE = ''Hello World from X11-OS!''"

definition CRLF :: string where
  "CRLF = [CHR 0x0D, CHR 0x0A]"

definition hello_run :: "'h Hardware \<Rightarrow> 'h console \<Rightarrow> 'h console option" where
  "hello_run hw c = Option.bind (write_str hw MESSAGE c) (write_str hw CRLF)"

end
