(* ===== verification/Serial_Properties.thy ===== *)
theory Serial_Properties
  imports Serial
begin

text \<open>
  On a documented UART every write of the console ends and hands exactly its bytes to the transmitter, and numbers are
  written in decimal and hexadecimal without leading zeros.
\<close>

unbundle bit_operations_syntax

section \<open>The transmitter\<close>

text \<open>
  The documented UART at the first serial port. While the divisor latch is closed, a byte written to the data port is
  sent; bit 7 of the line control register opens the latch. The status register reports an empty transmitter after
  finitely many readings.
\<close>

definition uart :: "'h Hardware \<Rightarrow> ('h \<Rightarrow> bool) \<Rightarrow> ('h \<Rightarrow> nat) \<Rightarrow> ('h \<Rightarrow> u8 list) \<Rightarrow> bool" where
  "uart hw data_mode busy sent \<longleftrightarrow>
     (\<forall>h. data_mode (snd (port_in hw 0x3FD h)) = data_mode h \<and> sent (snd (port_in hw 0x3FD h)) = sent h
        \<and> (fst (port_in hw 0x3FD h) AND 0x20 = 0 \<longrightarrow> busy (snd (port_in hw 0x3FD h)) < busy h))
   \<and> (\<forall>h v. data_mode (port_out hw 0x3F8 v h) = data_mode h \<and> sent (port_out hw 0x3F8 v h) = (if data_mode h then sent h @ [v] else sent h))
   \<and> (\<forall>h v. data_mode (port_out hw 0x3FB v h) = (\<not> bit v 7) \<and> sent (port_out hw 0x3FB v h) = sent h)
   \<and> (\<forall>p h v. p \<in> {0x3F9, 0x3FA, 0x3FC} \<longrightarrow> data_mode (port_out hw p v h) = data_mode h \<and> sent (port_out hw p v h) = sent h)"

text \<open>The states of the console: before its initialisation, or ready with the divisor latch closed.\<close>

definition console_ok :: "('h \<Rightarrow> bool) \<Rightarrow> 'h console \<Rightarrow> bool" where
  "console_ok data_mode c \<longleftrightarrow> fst c = UNINITIALIZED \<or> (fst c = READY \<and> data_mode (snd c))"

lemma wait_transmitter_ends:
  assumes "uart hw data_mode busy sent"
  obtains h' where "wait_transmitter hw h = Some h'" "data_mode h' = data_mode h" "sent h' = sent h"
proof -
  have "\<exists>h'. wait_transmitter hw h = Some h' \<and> data_mode h' = data_mode h \<and> sent h' = sent h"
  proof (induction "busy h" arbitrary: h rule: less_induct)
    case less
    let ?p = "port_in hw 0x3FD h"
    have p: "data_mode (snd ?p) = data_mode h" "sent (snd ?p) = sent h" "fst ?p AND 0x20 = 0 \<longrightarrow> busy (snd ?p) < busy h"
      using assms by (simp_all add: uart_def)
    show ?case
    proof (cases "fst ?p AND 0x20 = 0")
      case True
      then show ?thesis using less.hyps [of "snd ?p"] p
        by (subst wait_transmitter.simps) (simp add: COM1_def case_prod_beta)
    next
      case False
      then show ?thesis using p by (subst wait_transmitter.simps) (simp add: COM1_def case_prod_beta)
    qed
  qed
  then show ?thesis using that by blast
qed

lemma serial_init_ready:
  assumes "uart hw data_mode busy sent" "console_ok data_mode c"
  obtains h' where "serial_init hw c = Some (READY, h')" "data_mode h'" "sent h' = sent (snd c)"
  using assms by (cases c) (auto simp: serial_init_def console_ok_def uart_def COM1_def UNINITIALIZED_def READY_def Let_def bit_simps)

lemma write_byte_sends:
  assumes "uart hw data_mode busy sent" "console_ok data_mode c"
  obtains h' where "write_byte hw b c = Some (READY, h')" "data_mode h'" "sent h' = sent (snd c) @ [b]"
proof -
  obtain h1 where h1: "(if fst c \<noteq> READY then serial_init hw c else Some c) = Some (READY, h1)" "data_mode h1" "sent h1 = sent (snd c)"
  proof (cases "fst c = READY")
    case True
    moreover have "data_mode (snd c)" using assms(2) True by (auto simp: console_ok_def READY_def UNINITIALIZED_def)
    ultimately show ?thesis using that [of "snd c"] by (cases c) simp
  next
    case False
    then show ?thesis using that by (auto intro: serial_init_ready [OF assms])
  qed
  obtain h2 where h2: "wait_transmitter hw h1 = Some h2" "data_mode h2 = data_mode h1" "sent h2 = sent h1"
    by (rule wait_transmitter_ends [OF assms(1)])
  have "write_byte hw b c = Some (READY, port_out hw 0x3F8 b h2)"
    unfolding write_byte_def h1(1) by (simp add: h2(1) COM1_def)
  moreover have "data_mode (port_out hw 0x3F8 b h2)" "sent (port_out hw 0x3F8 b h2) = sent (snd c) @ [b]"
    using assms(1) h1 h2 by (simp_all add: uart_def)
  ultimately show ?thesis using that by blast
qed

text \<open>What a console operation that sends the bytes \<open>xs\<close> does.\<close>

definition sends :: "('h \<Rightarrow> bool) \<Rightarrow> ('h \<Rightarrow> u8 list) \<Rightarrow> ('h console \<Rightarrow> 'h console option) \<Rightarrow> u8 list \<Rightarrow> bool" where
  "sends data_mode sent op xs \<longleftrightarrow> (\<forall>c. console_ok data_mode c \<longrightarrow>
     (\<exists>c'. op c = Some c' \<and> console_ok data_mode c' \<and> sent (snd c') = sent (snd c) @ xs))"

lemma sends_byte: "uart hw data_mode busy sent \<Longrightarrow> sends data_mode sent (write_byte hw b) [b]"
  unfolding sends_def
proof (intro allI impI)
  fix c assume "uart hw data_mode busy sent" "console_ok data_mode c"
  then obtain h' where "write_byte hw b c = Some (READY, h')" "data_mode h'" "sent h' = sent (snd c) @ [b]"
    by (rule write_byte_sends)
  then show "\<exists>c'. write_byte hw b c = Some c' \<and> console_ok data_mode c' \<and> sent (snd c') = sent (snd c) @ [b]"
    by (simp add: console_ok_def)
qed

lemma sends_bind:
  "sends data_mode sent f xs \<Longrightarrow> sends data_mode sent g ys \<Longrightarrow> sends data_mode sent (\<lambda>c. Option.bind (f c) g) (xs @ ys)"
  unfolding sends_def by fastforce

lemma sends_bytes: "uart hw data_mode busy sent \<Longrightarrow> sends data_mode sent (serial_write_bytes hw xs) xs"
proof (induction xs)
  case (Cons x xs)
  then show ?case using sends_bind [OF sends_byte [OF Cons.prems, of x] Cons.IH [OF Cons.prems]] by (simp add: sends_def)
qed (simp add: sends_def)

lemma sends_str: "uart hw data_mode busy sent \<Longrightarrow> sends data_mode sent (write_str hw s) (as_bytes s)"
  by (simp add: write_str_def sends_bytes)

section \<open>Numbers\<close>

text \<open>The numeral of a number to a base, with a symbol for every digit, and the loop that fills it in from the end.\<close>

function numeral_of :: "nat \<Rightarrow> (nat \<Rightarrow> u8) \<Rightarrow> nat \<Rightarrow> u8 list" where
  "numeral_of base symbol n =
     (if n < base \<or> base < 2 then [symbol n] else numeral_of base symbol (n div base) @ [symbol (n mod base)])"
  by pat_completeness auto
termination
  by (relation "measure (\<lambda>(base, symbol, n). n)") auto

declare numeral_of.simps [simp del]

function fill :: "nat \<Rightarrow> (nat \<Rightarrow> u8) \<Rightarrow> nat \<Rightarrow> u8 list \<Rightarrow> nat \<Rightarrow> (u8 list \<times> nat) option" where
  "fill base symbol n digits index =
     (if n = 0 then Some (digits, index)
      else if index = 0 \<or> length digits < index then None
      else fill base symbol (n div base) (digits[index - 1 := symbol (n mod base)]) (index - 1))"
  by pat_completeness auto
termination
  by (relation "measure (\<lambda>(base, symbol, n, digits, index). index)") auto

declare fill.simps [simp del]

lemma numeral_length: "2 \<le> base \<Longrightarrow> 0 < k \<Longrightarrow> n < base ^ k \<Longrightarrow> length (numeral_of base symbol n) \<le> k"
proof (induction k arbitrary: n)
  case (Suc k)
  show ?case
  proof (cases "n < base")
    case False
    then have "0 < k" using Suc.prems by (cases k) auto
    moreover have "n div base < base ^ k" using Suc.prems by (simp add: div_less_iff_less_mult mult.commute)
    ultimately show ?thesis using Suc.IH Suc.prems(1) False by (subst numeral_of.simps) auto
  qed (simp add: numeral_of.simps)
qed simp

text \<open>The digits stand for the number.\<close>

lemma numeral_value:
  assumes "2 \<le> base" "\<And>d. d < base \<Longrightarrow> val (symbol d) = d"
  shows "foldl (\<lambda>a d. a * base + val d) 0 (numeral_of base symbol n) = n"
proof (induction n rule: less_induct)
  case (less n)
  show ?case
  proof (cases "n < base")
    case True
    then show ?thesis using assms(2) by (subst numeral_of.simps) simp
  next
    case False
    then have "n div base < n" using assms(1) by simp
    then show ?thesis using less.IH False assms by (subst numeral_of.simps) simp
  qed
qed

lemma fill_numeral:
  assumes "2 \<le> base" "n \<noteq> 0" "length (numeral_of base symbol n) \<le> index" "index \<le> length digits"
  shows "\<exists>digits' index'. fill base symbol n digits index = Some (digits', index')
    \<and> drop index' digits' = numeral_of base symbol n @ drop index digits"
  using assms
proof (induction base symbol n digits index rule: fill.induct)
  case (1 base symbol n digits index)
  let ?digits = "digits[index - 1 := symbol (n mod base)]"
  have "0 < length (numeral_of base symbol n)" by (subst numeral_of.simps) simp
  then have index: "0 < index" "index \<le> length digits" using "1.prems"(3,4) by linarith+
  then have dropped: "drop (index - 1) ?digits = symbol (n mod base) # drop index digits"
    using Cons_nth_drop_Suc [of "index - 1" ?digits] by simp
  have step: "fill base symbol n digits index = fill base symbol (n div base) ?digits (index - 1)"
    using "1.prems"(2) index by (subst fill.simps) simp
  show ?case
  proof (cases "n < base")
    case True
    then have "fill base symbol (n div base) ?digits (index - 1) = Some (?digits, index - 1)" by (subst fill.simps) simp
    then show ?thesis using True step dropped by (simp add: numeral_of.simps [of base symbol n])
  next
    case False
    have rest: "numeral_of base symbol n = numeral_of base symbol (n div base) @ [symbol (n mod base)]"
      using False "1.prems"(1) by (subst numeral_of.simps) simp
    have "n div base \<noteq> 0" using False "1.prems"(1) by (simp add: div_eq_0_iff)
    then have "\<exists>digits' index'. fill base symbol (n div base) ?digits (index - 1) = Some (digits', index')
        \<and> drop index' digits' = numeral_of base symbol (n div base) @ drop (index - 1) ?digits"
      using "1.prems" index rest by (intro "1.IH") auto
    then show ?thesis unfolding step dropped rest by simp
  qed
qed

text \<open>Both loops of the console are this loop.\<close>

definition decimal_symbol :: "nat \<Rightarrow> u8" where
  "decimal_symbol d = 0x30 + of_nat d"

definition hex_symbol :: "nat \<Rightarrow> u8" where
  "hex_symbol d = HEX_DIGITS ! d"

lemma usize_digits_fill: "usize_digits v digits index = fill 10 decimal_symbol (unat v) digits index"
proof (induction v digits index rule: usize_digits.induct)
  case (1 v digits index)
  have "unat (v div 10) = unat v div 10" "unat (v mod 10) = unat v mod 10" by (simp_all add: unat_div unat_mod)
  moreover from this(2) have "(0x30 :: u8) + ucast (v mod 10) = decimal_symbol (unat v mod 10)"
    unfolding decimal_symbol_def by (metis of_nat_unat)
  ultimately show ?case using "1.IH"
    by (subst usize_digits.simps, subst fill.simps) (simp add: unat_eq_zero)
qed

lemma hex_digits_fill: "hex_digits v digits index = fill 16 hex_symbol (unat v) digits index"
proof (induction v digits index rule: hex_digits.induct)
  case (1 v digits index)
  have "v AND 0xF = take_bit 4 v" by (simp add: take_bit_eq_mask mask_eq_exp_minus_1)
  then have low: "unat (v AND 0xF) = unat v mod 16" by (simp add: take_bit_eq_mod unat_mod)
  have high: "unat (drop_bit 4 v) = unat v div 16" by (simp add: drop_bit_eq_div unat_div)
  have "length HEX_DIGITS = 16" by (simp add: HEX_DIGITS_def as_bytes_def)
  then have "vec_get HEX_DIGITS (unat (v AND 0xF)) = Some (hex_symbol (unat v mod 16))"
    by (simp add: vec_get_def low hex_symbol_def)
  then show ?case using "1.IH" high
    by (subst hex_digits.simps, subst fill.simps) (simp add: unat_eq_zero)
qed

definition decimal :: "nat \<Rightarrow> u8 list" where
  "decimal n = numeral_of 10 decimal_symbol n"

definition hexadecimal :: "nat \<Rightarrow> u8 list" where
  "hexadecimal n = numeral_of 16 hex_symbol n"

lemma decimal_value: "foldl (\<lambda>a d. a * 10 + unat (d - 0x30)) 0 (decimal n) = n"
  unfolding decimal_def by (rule numeral_value) (simp_all add: decimal_symbol_def unat_of_nat)

lemma usize_digits_decimal:
  assumes "v \<noteq> 0"
  obtains digits index where "usize_digits v (replicate 20 0) 20 = Some (digits, index)" "drop index digits = decimal (unat v)"
proof -
  have "length (numeral_of 10 decimal_symbol (unat v)) \<le> 20"
    using unat_u64_less [of v] by (intro numeral_length) auto
  then show ?thesis using assms that fill_numeral [of 10 "unat v" decimal_symbol 20 "replicate 20 0"]
    by (auto simp: usize_digits_fill decimal_def unat_eq_zero)
qed

lemma hex_digits_hexadecimal:
  assumes "v \<noteq> 0"
  obtains digits index where "hex_digits v (replicate 16 0x30) 16 = Some (digits, index)" "drop index digits = hexadecimal (unat v)"
proof -
  have "length (numeral_of 16 hex_symbol (unat v)) \<le> 16"
    using unat_u64_less [of v] by (intro numeral_length) auto
  then show ?thesis using assms that fill_numeral [of 16 "unat v" hex_symbol 16 "replicate 16 0x30"]
    by (auto simp: hex_digits_fill hexadecimal_def unat_eq_zero)
qed

lemma sends_usize:
  assumes "uart hw data_mode busy sent"
  shows "sends data_mode sent (write_usize hw v) (decimal (unat v))"
proof (cases "v = 0")
  case True
  then show ?thesis using sends_byte [OF assms, of "0x30"]
    by (simp add: sends_def write_usize_def decimal_def numeral_of.simps decimal_symbol_def)
next
  case False
  then obtain digits index where "usize_digits v (replicate 20 0) 20 = Some (digits, index)" "drop index digits = decimal (unat v)"
    by (rule usize_digits_decimal)
  then show ?thesis using sends_bytes [OF assms, of "decimal (unat v)"] False by (simp add: sends_def write_usize_def)
qed

lemma sends_hex:
  assumes "uart hw data_mode busy sent"
  shows "sends data_mode sent (write_hex hw v) (hexadecimal (unat v))"
proof (cases "v = 0")
  case True
  then show ?thesis using sends_byte [OF assms, of "0x30"]
    by (simp add: sends_def write_hex_def hexadecimal_def numeral_of.simps hex_symbol_def HEX_DIGITS_def as_bytes_def)
next
  case False
  then obtain digits index where "hex_digits v (replicate 16 0x30) 16 = Some (digits, index)" "drop index digits = hexadecimal (unat v)"
    by (rule hex_digits_hexadecimal)
  then show ?thesis using sends_bytes [OF assms, of "hexadecimal (unat v)"] False by (simp add: sends_def write_hex_def)
qed

text \<open>
  On a documented UART, from every state of the console before or after its initialisation, writing a number
  returns without a panic and sends exactly its decimal digits, which read back as that number, and its hexadecimal
  digits in the same way.
\<close>

theorem console_numbers:
  assumes "uart hw data_mode busy sent" and "console_ok data_mode c"
  shows "\<exists>c' c''. write_usize hw v c = Some c' \<and> write_hex hw v c = Some c''
    \<and> console_ok data_mode c' \<and> console_ok data_mode c''
    \<and> sent (snd c') = sent (snd c) @ decimal (unat v) \<and> sent (snd c'') = sent (snd c) @ hexadecimal (unat v)
    \<and> foldl (\<lambda>a d. a * 10 + unat (d - 0x30)) 0 (decimal (unat v)) = unat v"
  using sends_usize [OF assms(1), of v] sends_hex [OF assms(1), of v] assms(2) decimal_value
  unfolding sends_def by fastforce

text \<open>A UART that is always ready: the divisor latch and the bytes sent.\<close>

definition plain_uart :: "(bool \<times> u8 list) Hardware" where
  "plain_uart = \<lparr>read_volatile = (\<lambda>_ h. (0, h)), write_volatile = (\<lambda>_ _ h. h), msr_read = (\<lambda>_ h. (0, h)), msr_write = (\<lambda>_ _ h. h),
     rdtsc = (\<lambda>h. (0, h)), cpuid_count = (\<lambda>_ _. \<lparr>cpuid_eax = 0, cpuid_ebx = 0, cpuid_ecx = 0, cpuid_edx = 0\<rparr>),
     apic_base_read = (\<lambda>_. (0, 0)), apic_base_write = (\<lambda>_ _ h. h), LAPIC_ENABLE = 0, X2APIC_ENABLE = 0,
     port_in = (\<lambda>_ h. (0x20, h)),
     port_out = (\<lambda>p v (data, sent). if p = 0x3F8 then (data, if data then sent @ [v] else sent)
        else if p = 0x3FB then (\<not> bit v 7, sent) else (data, sent)),
     efer_nxe = (\<lambda>_. True), efer_set_nxe = id, load_descriptors = id, load_interrupts = id\<rparr>"

lemma plain_uart_ok: "uart plain_uart fst (\<lambda>_. 0) snd"
  by (auto simp: uart_def plain_uart_def split: prod.splits)

theorem console_numbers_witness:
  "\<exists>c'. write_usize plain_uart 1207 (UNINITIALIZED, (False, [])) = Some c' \<and> snd (snd c') = [0x31, 0x32, 0x30, 0x37]"
proof -
  have "decimal 1207 = [0x31, 0x32, 0x30, 0x37]"
    by (simp add: decimal_def numeral_of.simps decimal_symbol_def)
  moreover have "unat (1207 :: u64) = 1207" by simp
  ultimately show ?thesis
    using console_numbers [OF plain_uart_ok, of "(UNINITIALIZED, (False, []))" 1207] by (auto simp: console_ok_def)
qed

end
