(* ===== verification/Kernel_Heap.thy ===== *)
theory Kernel_Heap
  imports Memory_Ranges
begin

text \<open>
  The kernel heap (\<open>heap/mod.rs\<close>) and the view of the ramdisk (\<open>ramdisk.rs\<close>). The linked-list heap of the
  crate is a record of operations; a null pointer is 0.
\<close>

section \<open>Regions\<close>

definition INITIAL_HEAP_FRAMES :: usize where "INITIAL_HEAP_FRAMES = 256"

definition INITIAL_HEAP_SIZE :: usize where "INITIAL_HEAP_SIZE = INITIAL_HEAP_FRAMES * PAGE_SIZE_4K"

record HeapRegion =
  hr_start :: u64
  hr_size :: usize

definition HeapRegion_new :: "u64 \<Rightarrow> usize \<Rightarrow> HeapRegion option" where
  "HeapRegion_new s n =
     (if s mod PAGE_SIZE_4K \<noteq> 0 \<or> n = 0 \<or> n mod PAGE_SIZE_4K \<noteq> 0 \<or> checked_add s n = None then None
      else Some \<lparr>hr_start = s, hr_size = n\<rparr>)"

definition hr_end :: "HeapRegion \<Rightarrow> u64 option" where
  "hr_end r = checked_add (hr_start r) (hr_size r)"

section \<open>The allocator\<close>

record Layout =
  layout_size :: usize
  layout_align :: usize

record 'q HeapCrate =
  heap_empty :: 'q
  heap_init :: "u64 \<Rightarrow> usize \<Rightarrow> 'q \<Rightarrow> 'q"
  allocate_first_fit :: "Layout \<Rightarrow> 'q \<Rightarrow> u64 option \<times> 'q"
  deallocate :: "u64 \<Rightarrow> Layout \<Rightarrow> 'q \<Rightarrow> 'q"
  heap_size :: "'q \<Rightarrow> usize"
  heap_used :: "'q \<Rightarrow> usize"
  heap_free :: "'q \<Rightarrow> usize"

datatype HeapInitError = HeapAlreadyInitialized

record HeapStats =
  stats_capacity :: usize
  stats_used :: usize
  stats_free :: usize

record 'q KernelHeap =
  kh_heap :: 'q
  initialized :: bool

definition KernelHeap_empty :: "'q HeapCrate \<Rightarrow> 'q KernelHeap" where
  "KernelHeap_empty H = \<lparr>kh_heap = heap_empty H, initialized = False\<rparr>"

definition kh_init :: "'q HeapCrate \<Rightarrow> HeapRegion \<Rightarrow> 'q KernelHeap \<Rightarrow> (HeapInitError + unit) \<times> 'q KernelHeap" where
  "kh_init H region k =
     (if initialized k then (Inl HeapAlreadyInitialized, k)
      else (Inr (), \<lparr>kh_heap = heap_init H (hr_start region) (hr_size region) (kh_heap k), initialized = True\<rparr>))"

definition kh_stats :: "'q HeapCrate \<Rightarrow> 'q KernelHeap \<Rightarrow> HeapStats" where
  "kh_stats H k = \<lparr>stats_capacity = heap_size H (kh_heap k), stats_used = heap_used H (kh_heap k), stats_free = heap_free H (kh_heap k)\<rparr>"

definition kh_alloc :: "'q HeapCrate \<Rightarrow> Layout \<Rightarrow> 'q KernelHeap \<Rightarrow> u64 \<times> 'q KernelHeap" where
  "kh_alloc H layout k =
     (if \<not> initialized k then (0, k)
      else case allocate_first_fit H layout (kh_heap k) of
             (Some p, q) \<Rightarrow> (p, k\<lparr>kh_heap := q\<rparr>)
           | (None, q) \<Rightarrow> (0, k\<lparr>kh_heap := q\<rparr>))"

definition kh_dealloc :: "'q HeapCrate \<Rightarrow> u64 \<Rightarrow> Layout \<Rightarrow> 'q KernelHeap \<Rightarrow> 'q KernelHeap" where
  "kh_dealloc H p layout k =
     (if p = 0 \<or> \<not> initialized k then k else k\<lparr>kh_heap := deallocate H p layout (kh_heap k)\<rparr>)"

section \<open>The ramdisk\<close>

text \<open>What the kernel reads of the information of the bootloader.\<close>

record BootInfo =
  memory_regions :: "boot_region list"
  physical_memory_offset :: "u64 option"
  rsdp_addr :: "u64 option"
  ramdisk_addr :: "u64 option"
  ramdisk_len :: u64

datatype RamdiskError = RamdiskMissing | RamdiskEmpty | LengthOverflow | RamdiskAddressOverflow

text \<open>A length always fits in the 64-bit \<open>usize\<close>.\<close>

definition ramdisk_bytes :: "BootInfo \<Rightarrow> (u64 \<Rightarrow> u8) \<Rightarrow> RamdiskError + u8 list" where
  "ramdisk_bytes boot_info m =
     (case ramdisk_addr boot_info of
        None \<Rightarrow> Inl RamdiskMissing
      | Some address \<Rightarrow>
          (let n = ramdisk_len boot_info
           in if n = 0 then Inl RamdiskEmpty
              else case checked_add address n of
                     None \<Rightarrow> Inl RamdiskAddressOverflow
                   | Some _ \<Rightarrow> Inr (map (\<lambda>i. m (address + of_nat i)) [0..<unat n])))"

end
