(* ===== verification/Kernel_Boot.thy ===== *)
theory Kernel_Boot
  imports X86_Gdt Acpi_Properties Timekeeping Serial_Properties Kernel_Heap Frame_Properties
begin

text \<open>
  The boot sequence (\<open>main.rs\<close>, the initialisation of \<open>arch/x86_64/mod.rs\<close>) up to the prepared launch of the
  user program. A stage runs on the console: it continues with a result, panics and leaves the console to the panic
  handler, or does not return.
\<close>

unbundle bit_operations_syntax

section \<open>Stages\<close>

type_synonym ('h, 'a) boot = "'h console \<Rightarrow> ('h console + 'a \<times> 'h console) option"

definition boot_return :: "'a \<Rightarrow> ('h, 'a) boot" where
  "boot_return x c = Some (Inr (x, c))"

definition boot_panic :: "('h, 'a) boot" where
  "boot_panic c = Some (Inl c)"

definition boot_bind :: "('h, 'a) boot \<Rightarrow> ('a \<Rightarrow> ('h, 'b) boot) \<Rightarrow> ('h, 'b) boot" where
  "boot_bind m f c = (case m c of None \<Rightarrow> None | Some (Inl c') \<Rightarrow> Some (Inl c') | Some (Inr (x, c')) \<Rightarrow> f x c')"

definition boot_console :: "('h console \<Rightarrow> 'h console option) \<Rightarrow> ('h, unit) boot" where
  "boot_console f c = map_option (\<lambda>c'. Inr ((), c')) (f c)"

definition boot_hw :: "('h \<Rightarrow> 'a \<times> 'h) \<Rightarrow> ('h, 'a) boot" where
  "boot_hw f c = (case f (snd c) of (x, h) \<Rightarrow> Some (Inr (x, (fst c, h))))"

abbreviation say :: "'h Hardware \<Rightarrow> string \<Rightarrow> ('h, unit) boot" where
  "say hw s \<equiv> boot_console (write_str hw s)"

text \<open>A line with a label and a number, and a line of text.\<close>

definition say_number :: "'h Hardware \<Rightarrow> string \<Rightarrow> usize \<Rightarrow> ('h, unit) boot" where
  "say_number hw label v =
     boot_bind (say hw label) (\<lambda>_. boot_bind (boot_console (write_usize hw v)) (\<lambda>_. say hw CRLF))"

definition say_line :: "'h Hardware \<Rightarrow> string \<Rightarrow> ('h, unit) boot" where
  "say_line hw s = say hw (s @ CRLF)"

section \<open>The user image and the CPU\<close>

definition boot_image :: "'h Hardware \<Rightarrow> BootInfo \<Rightarrow> byte_memory \<Rightarrow> ('h, (u8 list \<times> ProcessImage) option) boot" where
  "boot_image hw boot_info m =
     (case ramdisk_bytes boot_info m of
        Inr bytes \<Rightarrow>
          boot_bind (say_number hw ''X11-OS: userspace ramdisk loaded bytes = '' (of_nat (length bytes))) (\<lambda>_.
          (case AddressSpaceId_new 1 of
             None \<Rightarrow> boot_panic
           | Some i \<Rightarrow>
          (case build_process_image bytes (AddressSpaceSpec_new i) of
             None \<Rightarrow> boot_panic
           | Some (Inr img) \<Rightarrow>
               boot_bind (say_number hw ''X11-OS: userspace ELF validated segments = '' (of_nat (plan_count (pi_load_plan img)))) (\<lambda>_.
               boot_bind (say_line hw ''X11-OS: userspace process image prepared'') (\<lambda>_.
               boot_return (Some (bytes, img))))
           | Some (Inl _) \<Rightarrow>
               boot_bind (say_line hw ''X11-OS: userspace process image preparation failed'') (\<lambda>_. boot_return None))))
      | Inl _ \<Rightarrow>
          boot_bind (say_line hw ''X11-OS: userspace ramdisk unavailable'') (\<lambda>_. boot_return None))"

definition enable_nxe :: "'h Hardware \<Rightarrow> ('h, unit) boot" where
  "enable_nxe hw =
     (if cpuid_eax (cpuid_leaf hw 0x80000000) < 0x80000001 then boot_panic
      else if cpuid_edx (cpuid_leaf hw 0x80000001) AND push_bit 20 1 = 0 then boot_panic
      else boot_hw (\<lambda>h. ((), if \<not> efer_nxe hw h then efer_set_nxe hw h else h)))"

text \<open>\<open>gdt::init\<close> stores its tables in static cells and loads them; \<open>idt::init\<close> loads the interrupt table.\<close>

definition arch_init :: "'h Hardware \<Rightarrow> 'pt X86Crate \<Rightarrow> 'g GdtCrate \<Rightarrow> u64 \<Rightarrow> u64 \<Rightarrow> 'g GdtStatics \<Rightarrow> ('h, 'g GdtStatics) boot" where
  "arch_init hw C G kernel_stack double_fault_stack st =
     boot_bind (enable_nxe hw) (\<lambda>_.
     (case gdt_init C G kernel_stack double_fault_stack st of
        None \<Rightarrow> boot_panic
      | Some st \<Rightarrow>
          boot_bind (boot_hw (\<lambda>h. ((), load_descriptors hw h))) (\<lambda>_.
          boot_bind (boot_hw (\<lambda>h. ((), load_interrupts hw h))) (\<lambda>_.
          boot_return st))))"

section \<open>Clock, memory and interrupts\<close>

definition boot_clock :: "'h Hardware \<Rightarrow> ('h, TscClocksource option) boot" where
  "boot_clock hw =
     boot_bind (boot_hw (tsc_try_new hw)) (\<lambda>r.
     (case r of
        Inr clock \<Rightarrow>
          boot_bind (say_line hw ''X11-OS: invariant TSC clocksource available'') (\<lambda>_.
          boot_bind (say_number hw ''X11-OS: TSC frequency Hz = '' (tsc_frequency clock)) (\<lambda>_.
          boot_return (Some clock)))
      | Inl _ \<Rightarrow> boot_bind (say_line hw ''X11-OS: invariant TSC clocksource unavailable'') (\<lambda>_. boot_return None)))"

definition supported :: "bool \<Rightarrow> string" where
  "supported b = (if b then ''supported'' else ''unsupported'')"

definition boot_apic :: "'h Hardware \<Rightarrow> ('h, ApicCapabilities) boot" where
  "boot_apic hw =
     (let apic = ApicCapabilities_detect hw
      in boot_bind (say hw ''X11-OS: local APIC = '') (\<lambda>_. boot_bind (say_line hw (supported (cap_apic apic))) (\<lambda>_.
         boot_bind (say hw ''X11-OS: x2APIC = '') (\<lambda>_. boot_bind (say_line hw (supported (cap_x2apic apic))) (\<lambda>_.
         boot_return apic)))))"

definition boot_memory :: "'h Hardware \<Rightarrow> BootInfo \<Rightarrow> ('h, unit) boot" where
  "boot_memory hw boot_info =
     (let memory = summarize (memory_regions boot_info)
      in boot_bind (say_number hw ''X11-OS: usable memory bytes = '' (usable_bytes memory)) (\<lambda>_.
         boot_bind (say_number hw ''X11-OS: reserved memory bytes = '' (reserved_bytes memory)) (\<lambda>_.
         say_number hw ''X11-OS: malformed memory regions = '' (malformed_regions memory))))"

text \<open>The direct map that the bootloader reports, and the cell that keeps the first one installed.\<close>

definition from_boot_info :: "BootInfo \<Rightarrow> PhysicalMemoryMapping option" where
  "from_boot_info boot_info = map_option (\<lambda>offset. \<lparr>phys_offset = offset\<rparr>) (physical_memory_offset boot_info)"

definition install_global :: "PhysicalMemoryMapping \<Rightarrow> PhysicalMemoryMapping option \<Rightarrow>
    (PhysicalMemoryMapping + unit) \<times> PhysicalMemoryMapping option" where
  "install_global mapping cell =
     (let installed = (case cell of None \<Rightarrow> mapping | Some m \<Rightarrow> m)
      in (if installed = mapping then Inr () else Inl installed, Some installed))"

text \<open>Switching to the APIC once it is known that an I/O APIC exists.\<close>

definition boot_apic_mode :: "'h Hardware \<Rightarrow> ApicCapabilities \<Rightarrow> PhysicalMemoryMapping \<Rightarrow> LocalApic \<Rightarrow> ('h, bool \<times> LocalApic) boot" where
  "boot_apic_mode hw apic mapping la =
     (case preferred_mode apic of
        None \<Rightarrow> boot_return (False, la)
      | Some mode \<Rightarrow>
          boot_bind (boot_hw (enable_preferred_mode hw apic)) (\<lambda>enabled.
          if enabled = Some mode then
            boot_bind (say hw ''X11-OS: local APIC mode = '') (\<lambda>_.
            boot_bind (say_line hw (case mode of XApic \<Rightarrow> ''xAPIC'' | X2Apic \<Rightarrow> ''x2APIC'')) (\<lambda>_.
            boot_bind (boot_hw (\<lambda>h. (la_initialize hw mode (Some mapping) h la, h))) (\<lambda>(r, la).
            boot_bind (say_line hw (if is_ok r then ''X11-OS: Local APIC EOI initialized'' else ''X11-OS: Local APIC EOI initialization failed'')) (\<lambda>_.
            boot_return (is_ok r, la)))))
          else boot_return (False, la)))"

definition boot_acpi :: "'h Hardware \<Rightarrow> ApicCapabilities \<Rightarrow> PhysicalMemoryMapping option \<Rightarrow> u64 option \<Rightarrow> byte_memory \<Rightarrow> LocalApic \<Rightarrow> ('h, bool \<times> LocalApic) boot" where
  "boot_acpi hw apic mapping rsdp m la =
     (case (mapping, rsdp) of
        (Some mapping, Some rsdp_address) \<Rightarrow>
          (case discover rsdp_address mapping m of
             None \<Rightarrow> boot_panic
           | Some (Inr topology) \<Rightarrow>
               boot_bind (say_line hw ''X11-OS: ACPI MADT discovered'') (\<lambda>_.
               boot_bind (say_number hw ''X11-OS: local APIC records = '' (of_nat (local_apic_count topology))) (\<lambda>_.
               boot_bind (say_number hw ''X11-OS: local x2APIC records = '' (of_nat (local_x2apic_count topology))) (\<lambda>_.
               boot_bind (say_number hw ''X11-OS: I/O APIC records = '' (of_nat (io_apic_count topology))) (\<lambda>_.
               if io_apic_count topology > 0
               then boot_bind (boot_hw (\<lambda>h. ((), mask_all hw h))) (\<lambda>_. boot_apic_mode hw apic mapping la)
               else boot_return (False, la)))))
           | Some (Inl _) \<Rightarrow>
               boot_bind (say_line hw ''X11-OS: ACPI MADT discovery failed'') (\<lambda>_. boot_return (False, la)))
      | _ \<Rightarrow> boot_bind (say_line hw ''X11-OS: ACPI RSDP unavailable'') (\<lambda>_. boot_return (False, la)))"

text \<open>The unwrapped mode exists whenever the APIC is ready.\<close>

definition boot_timer :: "'h Hardware \<Rightarrow> bool \<Rightarrow> PhysicalMemoryMapping option \<Rightarrow> TscClocksource option \<Rightarrow> ApicCapabilities \<Rightarrow> ('h, unit) boot" where
  "boot_timer hw apic_ready mapping tsc_clock apic =
     (case (apic_ready, mapping, tsc_clock) of
        (True, Some mapping, Some tsc) \<Rightarrow>
          (case preferred_mode apic of
             None \<Rightarrow> boot_panic
           | Some mode \<Rightarrow>
               boot_bind (boot_hw (\<lambda>h. (LapicTimer_new hw mode (Some mapping) h, h))) (\<lambda>r.
               (case r of
                  Inr timer_device \<Rightarrow>
                    (\<lambda>c. case calibrate hw timer_device tsc (snd c) of
                           None \<Rightarrow> None
                         | Some (Inr frequency, timer_device, h) \<Rightarrow>
                             boot_bind (say_number hw ''X11-OS: LAPIC timer calibrated Hz = '' frequency) (\<lambda>_.
                             (case TimerInterval_new 10000000 of
                                None \<Rightarrow> boot_panic
                              | Some interval \<Rightarrow> boot_bind (boot_hw (set_periodic hw timer_device interval)) (\<lambda>_. boot_return ())))
                             (fst c, h)
                         | Some (Inl _, timer_device, h) \<Rightarrow> say_line hw ''X11-OS: LAPIC timer calibration failed'' (fst c, h))
                | Inl _ \<Rightarrow> say_line hw ''X11-OS: LAPIC timer backend unavailable'')))
      | _ \<Rightarrow> boot_return ())"

section \<open>The heap\<close>

definition PROBE_LAYOUT :: Layout where
  "PROBE_LAYOUT = \<lparr>layout_size = 512, layout_align = 8\<rparr>"

text \<open>The vector of 64 numbers that is allocated, filled, checked and dropped; a null allocation is a panic.\<close>

definition heap_probe :: "'h Hardware \<Rightarrow> 'q HeapCrate \<Rightarrow> 'q KernelHeap \<Rightarrow> ('h, 'q KernelHeap) boot" where
  "heap_probe hw H k =
     (case kh_alloc H PROBE_LAYOUT k of
        (p, k) \<Rightarrow>
          if p = 0 then boot_panic
          else let probe = map (\<lambda>v. of_nat v * 3 :: u64) [0..<64];
                   valid = (length probe = 64 \<and> list_all (\<lambda>(i, v). v = of_nat i * 3) (List.enumerate 0 probe));
                   k = kh_dealloc H p PROBE_LAYOUT k
               in boot_bind (say_line hw (if valid then ''X11-OS: heap allocation verified'' else ''X11-OS: heap allocation verification failed'')) (\<lambda>_.
                  boot_return k))"

text \<open>The region for the heap: contiguous frames seen through the direct map.\<close>

definition heap_region_for :: "PhysicalMemoryMapping \<Rightarrow> ContiguousFrames \<Rightarrow> HeapRegion option" where
  "heap_region_for mapping frames = do {
     physical_range \<leftarrow> cf_physical_range frames;
     n \<leftarrow> cf_byte_len frames;
     virtual_range \<leftarrow> phys_translate_range mapping physical_range;
     region \<leftarrow> HeapRegion_new (vr_start virtual_range) INITIAL_HEAP_SIZE;
     if n = INITIAL_HEAP_SIZE \<and> vr_len virtual_range = n then Some region else None
   }"

definition boot_heap :: "'h Hardware \<Rightarrow> 'q HeapCrate \<Rightarrow> PhysicalMemoryMapping option \<Rightarrow> EarlyFrameAllocator \<Rightarrow> 'q KernelHeap \<Rightarrow>
    ('h, EarlyFrameAllocator \<times> 'q KernelHeap) boot" where
  "boot_heap hw H mapping frame_allocator k =
     (case mapping of
        None \<Rightarrow> boot_return (frame_allocator, k)
      | Some mapping \<Rightarrow>
          (case allocate_contiguous frame_allocator INITIAL_HEAP_FRAMES of
             (None, frame_allocator) \<Rightarrow> boot_return (frame_allocator, k)
           | (Some frames, frame_allocator) \<Rightarrow>
               (case heap_region_for mapping frames of
                  None \<Rightarrow> boot_return (frame_allocator, k)
                | Some region \<Rightarrow>
                    (case kh_init H region k of
                       (Inl _, k) \<Rightarrow> boot_return (frame_allocator, k)
                     | (Inr _, k) \<Rightarrow>
                         boot_bind (say_line hw ''X11-OS: heap initialized'') (\<lambda>_.
                         boot_bind (heap_probe hw H k) (\<lambda>k.
                         boot_return (frame_allocator, k)))))))"

section \<open>The launch\<close>

definition boot_launch :: "'h Hardware \<Rightarrow> 'pt X86Crate \<Rightarrow> u64 \<Rightarrow> (u8 list \<times> ProcessImage) option \<Rightarrow> PhysicalMemoryMapping option \<Rightarrow>
    load_state \<Rightarrow> ('h, (ProcessImage \<times> PreparedUserLaunch) option \<times> load_state) boot" where
  "boot_launch hw C cr3 userspace_image mapping st =
     (case (userspace_image, mapping) of
        (Some (bytes, img), Some mapping) \<Rightarrow>
          (case elf_parse bytes of
             Inr elf \<Rightarrow>
               (case load_process_image C cr3 mapping img elf st of
                  None \<Rightarrow> boot_panic
                | Some (Inr (root, populated), st) \<Rightarrow>
                    (case from_populated populated of
                       Inr plan \<Rightarrow>
                         (case prepare_launch root plan of
                            Inr prepared \<Rightarrow>
                              boot_bind (say_line hw ''X11-OS: userspace address space populated'') (\<lambda>_.
                              boot_bind (say_line hw ''X11-OS: userspace launch prepared'') (\<lambda>_.
                              boot_return (Some (populated_image populated, prepared), st)))
                          | Inl _ \<Rightarrow> boot_bind (say_line hw ''X11-OS: userspace launch preparation failed'') (\<lambda>_. boot_return (None, st)))
                     | Inl _ \<Rightarrow> boot_bind (say_line hw ''X11-OS: userspace launch plan validation failed'') (\<lambda>_. boot_return (None, st)))
                | Some (Inl _, st) \<Rightarrow>
                    boot_bind (say_line hw ''X11-OS: userspace address-space construction failed'') (\<lambda>_. boot_return (None, st)))
           | Inl _ \<Rightarrow> boot_bind (say_line hw ''X11-OS: userspace ELF re-parse failed'') (\<lambda>_. boot_return (None, st)))
      | _ \<Rightarrow> boot_return (None, st))"

section \<open>The sequence\<close>

record ('g, 'q) BootStatics =
  bs_gdt :: "'g GdtStatics"
  bs_local_apic :: LocalApic
  bs_mapping :: "PhysicalMemoryMapping option"
  bs_heap :: "'q KernelHeap"

text \<open>What the sequence needs of the machine beside its devices: the crates, the addresses of the stacks and the root.\<close>

record ('pt, 'g, 'q) Machine =
  mc_x86 :: "'pt X86Crate"
  mc_gdt :: "'g GdtCrate"
  mc_heap :: "'q HeapCrate"
  mc_kernel_stack :: u64
  mc_fault_stack :: u64
  mc_cr3 :: u64
  mc_memory :: byte_memory
  mc_tables :: table_memory
  mc_bytes :: "u64 \<Rightarrow> u8"

text \<open>After the initialisation of the CPU.\<close>

definition boot_devices :: "'h Hardware \<Rightarrow> ('pt, 'g, 'q) Machine \<Rightarrow> BootInfo \<Rightarrow> (u8 list \<times> ProcessImage) option \<Rightarrow> ('g, 'q) BootStatics \<Rightarrow>
    ('h, (ProcessImage \<times> PreparedUserLaunch) option \<times> ('g, 'q) BootStatics) boot" where
  "boot_devices hw M boot_info userspace_image st =
     boot_bind (boot_clock hw) (\<lambda>tsc_clock.
     boot_bind (boot_apic hw) (\<lambda>apic.
     boot_bind (boot_memory hw boot_info) (\<lambda>_.
     let mapping = from_boot_info boot_info;
         cell = (case mapping of None \<Rightarrow> bs_mapping st | Some m \<Rightarrow> snd (install_global m (bs_mapping st)))
     in boot_bind (boot_acpi hw apic mapping (rsdp_addr boot_info) (mc_memory M) (bs_local_apic st)) (\<lambda>(apic_ready, la).
        boot_bind (boot_timer hw apic_ready mapping tsc_clock apic) (\<lambda>_.
        boot_bind (boot_heap hw (mc_heap M) mapping (EarlyFrameAllocator_new (memory_regions boot_info)) (bs_heap st)) (\<lambda>(frame_allocator, k).
        boot_bind (boot_launch hw (mc_x86 M) (mc_cr3 M) userspace_image mapping
            \<lparr>ld_allocator = frame_allocator, ld_tables = mc_tables M, ld_bytes = mc_bytes M\<rparr>) (\<lambda>(prepared, _).
        boot_return (prepared, st\<lparr>bs_local_apic := la, bs_mapping := cell, bs_heap := k\<rparr>))))))))"

definition boot_to_launch :: "'h Hardware \<Rightarrow> ('pt, 'g, 'q) Machine \<Rightarrow> BootInfo \<Rightarrow> ('g, 'q) BootStatics \<Rightarrow>
    ('h, (ProcessImage \<times> PreparedUserLaunch) option \<times> ('g, 'q) BootStatics) boot" where
  "boot_to_launch hw M boot_info st =
     boot_bind (boot_console (serial_init hw)) (\<lambda>_.
     boot_bind (boot_console (hello_run hw)) (\<lambda>_.
     boot_bind (say_line hw ''X11-OS: kernel entry reached'') (\<lambda>_.
     boot_bind (boot_image hw boot_info (mc_memory M)) (\<lambda>userspace_image.
     boot_bind (arch_init hw (mc_x86 M) (mc_gdt M) (mc_kernel_stack M) (mc_fault_stack M) (bs_gdt st)) (\<lambda>gdt.
     boot_bind (say_line hw ''X11-OS: CPU foundation initialized'') (\<lambda>_.
     boot_devices hw M boot_info userspace_image (st\<lparr>bs_gdt := gdt\<rparr>)))))))"

text \<open>The panic handler, which spins after its line, and the sequence with it.\<close>

definition panic_handler :: "'h Hardware \<Rightarrow> 'h console \<Rightarrow> 'h console option" where
  "panic_handler hw = write_str hw (''X11-OS: KERNEL PANIC'' @ CRLF)"

definition kernel_boot :: "'h Hardware \<Rightarrow> ('pt, 'g, 'q) Machine \<Rightarrow> BootInfo \<Rightarrow> ('g, 'q) BootStatics \<Rightarrow>
    ('h, (ProcessImage \<times> PreparedUserLaunch) option \<times> ('g, 'q) BootStatics) boot" where
  "kernel_boot hw M boot_info st c =
     (case boot_to_launch hw M boot_info st c of
        None \<Rightarrow> None
      | Some (Inl c) \<Rightarrow> map_option Inl (panic_handler hw c)
      | Some (Inr r) \<Rightarrow> Some (Inr r))"

end
