(* ===== verification/Kernel_Boot_Properties.thy ===== *)
theory Kernel_Boot_Properties
  imports Kernel_Boot
begin

text \<open>
  The boot sequence over the components it calls: the heap gets a block of frames that nothing else receives, no launch
  is ever prepared, and the sequence ends in the panic handler.
\<close>

section \<open>The heap\<close>

lemma pending_aligned:
  assumes "ea_wf a" "Frame x \<in> set (ea_pending a)"
  shows "unat x mod 4096 = 0"
proof -
  consider "Frame x \<in> set (frames_from (unat (ea_next_address a)) (unat (ea_current_end a)))"
    | r where "r \<in> set (ea_regions a)" "Frame x \<in> set (region_frames r)"
    using assms(2) by (auto simp: ea_pending_def)
  then show ?thesis
  proof cases
    case 1
    then show ?thesis using frames_from_mem(3) [OF 1] assms(1) by (simp add: ea_wf_def)
  next
    case 2
    moreover from this(1) have "region_ok r" using assms(1) by (auto simp: ea_wf_def list_all_iff)
    ultimately show ?thesis using region_frames_mem(4) [of "Frame x"] by (metis Frame.sel prod_cases3)
  qed
qed

lemma block_covers:
  assumes "unat (cf_start c) mod 4096 = 0" "unat x mod 4096 = 0" "unat (cf_start c) \<le> unat x"
    "unat x < unat (cf_start c) + unat (cf_frame_count c) * 4096"
  shows "Frame x \<in> set (cf_frames c)"
proof -
  obtain k where k: "unat x = unat (cf_start c) + k * 4096"
    using assms(1-3) by (metis add_diff_inverse_nat dvd_def linorder_not_less mod_0_imp_dvd mod_eq_dvd_iff_nat mult.commute)
  then have "k < unat (cf_frame_count c)" using assms(4) by simp
  moreover have "x = of_nat (unat (cf_start c) + k * 4096)" unfolding k [symmetric] by simp
  ultimately show ?thesis unfolding cf_frames_def by (auto intro!: image_eqI)
qed

lemma later_frames_outside:
  assumes "ea_wf a" "distinct (ea_pending a)" "allocate_contiguous a n = (Some c, a')"
    "Some (Frame x) \<in> set (allocs allocate_frame k a')"
  shows "unat x < unat (cf_start c) \<or> unat (cf_start c) + unat n * 4096 \<le> unat x"
proof (rule ccontr)
  assume inside: "\<not> ?thesis"
  note b = allocate_contiguous_spec [OF assms(1,3), unfolded block_of_def]
  have pending: "Frame x \<in> set (ea_pending a')"
    using assms(4) b early.allocs_pending [of a' k] by (auto dest: in_set_takeD)
  then have "Frame x \<in> set (cf_frames c)"
    using block_covers [of c x] pending_aligned [of a' x] b inside by auto
  then show False using pending b assms(2) by auto
qed

lemma initial_heap_size: "INITIAL_HEAP_SIZE = 0x100000"
  by (simp add: INITIAL_HEAP_SIZE_def INITIAL_HEAP_FRAMES_def PAGE_SIZE_4K_def)

lemma heap_region_for_Some:
  assumes "heap_region_for m frames = Some region"
  shows "phys_translate m (cf_start frames) = Some (hr_start region)" "hr_size region = INITIAL_HEAP_SIZE"
    "hr_start region mod PAGE_SIZE_4K = 0" "checked_add (hr_start region) INITIAL_HEAP_SIZE \<noteq> None"
  using assms
  by (auto simp: heap_region_for_def HeapRegion_new_def phys_translate_range_def VirtRange_new_def cf_physical_range_def
      PhysRange_new_def bind_eq_Some_conv split: if_splits option.splits del: mod_0_imp_dvd)

lemma boot_heap_initialized:
  assumes "boot_heap hw H mapping a k c = Some (Inr ((a', k'), c'))" "\<not> initialized k" "initialized k'"
  obtains m frames region p q where "mapping = Some m" "allocate_contiguous a INITIAL_HEAP_FRAMES = (Some frames, a')"
    "heap_region_for m frames = Some region"
    "allocate_first_fit H PROBE_LAYOUT (heap_init H (hr_start region) (hr_size region) (kh_heap k)) = (Some p, q)"
    "kh_heap k' = deallocate H p PROBE_LAYOUT q"
  using assms
  by (auto simp: boot_heap_def boot_return_def boot_bind_def boot_panic_def kh_init_def heap_probe_def kh_alloc_def kh_dealloc_def Let_def
      split: option.splits prod.splits sum.splits if_splits)

text \<open>
  C31: when the boot sequence has initialised the heap, its region is a megabyte at a page boundary that does not wrap
  around, the image under the direct map of a physical block that lies inside one usable region of the memory map; the
  crate's heap was initialised on exactly that region and has served and taken back one allocation; and no frame that
  the frame allocator hands out afterwards, for page tables or for the user program, overlaps the block.
\<close>

theorem boot_heap_sound:
  assumes "list_all region_ok regions" and "sorted_wrt regions_disjoint regions" and "\<not> initialized k"
    and "boot_heap hw H mapping (EarlyFrameAllocator_new regions) k c = Some (Inr ((a', k'), c'))" and "initialized k'"
  shows "\<exists>m s v p q. mapping = Some m \<and> phys_translate m s = Some v \<and> v mod PAGE_SIZE_4K = 0 \<and> checked_add v 0x100000 \<noteq> None
    \<and> (\<exists>b e. (b, e, True) \<in> set regions \<and> b \<le> s \<and> unat s + 0x100000 \<le> unat e)
    \<and> allocate_first_fit H PROBE_LAYOUT (heap_init H v 0x100000 (kh_heap k)) = (Some p, q)
    \<and> kh_heap k' = deallocate H p PROBE_LAYOUT q
    \<and> (\<forall>n x. Some (Frame x) \<in> set (allocs allocate_frame n a') \<longrightarrow> unat x < unat s \<or> unat s + 0x100000 \<le> unat x)"
proof -
  let ?a = "EarlyFrameAllocator_new regions"
  obtain m frames region p q where h: "mapping = Some m" "allocate_contiguous ?a INITIAL_HEAP_FRAMES = (Some frames, a')"
      "heap_region_for m frames = Some region"
      "allocate_first_fit H PROBE_LAYOUT (heap_init H (hr_start region) (hr_size region) (kh_heap k)) = (Some p, q)"
      "kh_heap k' = deallocate H p PROBE_LAYOUT q"
    by (rule boot_heap_initialized [OF assms(4,3,5)])
  have wf: "ea_wf ?a" "distinct (ea_pending ?a)"
    using new_wf(1) [OF assms(1)] new_wf(2) [of regions] region_frames_distinct [OF assms(1,2)] by simp_all
  note b = allocate_contiguous_spec [OF wf(1) h(2), unfolded block_of_def]
  have size: "unat INITIAL_HEAP_FRAMES * 4096 = 0x100000" by (simp add: INITIAL_HEAP_FRAMES_def)
  note r = heap_region_for_Some [OF h(3), unfolded initial_heap_size]
  obtain s e where "((s, e, True) \<in> set regions \<or> s = 0 \<and> e = 0) \<and> s \<le> cf_start frames \<and> unat (cf_start frames) + 0x100000 \<le> unat e"
    using b size by (auto simp: EarlyFrameAllocator_new_def)
  then have "\<exists>s e. (s, e, True) \<in> set regions \<and> s \<le> cf_start frames \<and> unat (cf_start frames) + 0x100000 \<le> unat e" by auto
  then show ?thesis
    using h(1,4,5) r later_frames_outside [OF wf h(2)] size
    by (intro exI [of _ m] exI [of _ "cf_start frames"] exI [of _ "hr_start region"] exI [of _ p] exI [of _ q]) simp
qed

section \<open>The launch\<close>

text \<open>Even behind the initialisation of the CPU no launch is ever prepared: loading an image that was built does not succeed.\<close>

lemma boot_launch_none:
  assumes "address_laws C" "\<And>bytes img. userspace_image = Some (bytes, img) \<Longrightarrow> \<exists>spec. build_process_image bytes spec = Some (Inr img)"
    and "boot_launch hw C cr3 userspace_image mapping st c = Some (Inr ((prepared, st'), c'))"
  shows "prepared = None"
proof (cases userspace_image)
  case (Some u)
  obtain bytes img where u: "u = (bytes, img)" by (cases u)
  then obtain spec where "build_process_image bytes spec = Some (Inr img)" using assms(2) Some by blast
  then have "load_process_image C cr3 m img elf st \<noteq> Some (Inr x, st1)" for m elf x st1
    using load_steps_never_ok [OF assms(1)]
    by (auto simp: load_process_image_def Let_def split: option.splits prod.splits sum.splits)
  then show ?thesis using assms(3) Some u
    by (auto simp: boot_launch_def boot_bind_def boot_return_def boot_panic_def split: option.splits sum.splits prod.splits)
qed (use assms(3) in \<open>simp add: boot_launch_def boot_return_def\<close>)

section \<open>The sequence\<close>

text \<open>A stage on a working console: it returns or panics, and what it has sent is appended to what was sent before.\<close>

definition outcome :: "('h \<Rightarrow> bool) \<Rightarrow> ('h \<Rightarrow> u8 list) \<Rightarrow> ('a \<Rightarrow> bool) \<Rightarrow> 'h console \<Rightarrow> ('h console + 'a \<times> 'h console) option \<Rightarrow> bool" where
  "outcome data_mode sent Q c r \<longleftrightarrow> (case r of
       None \<Rightarrow> False
     | Some (Inl c') \<Rightarrow> console_ok data_mode c' \<and> (\<exists>xs. sent (snd c') = sent (snd c) @ xs)
     | Some (Inr (x, c')) \<Rightarrow> Q x \<and> console_ok data_mode c' \<and> (\<exists>xs. sent (snd c') = sent (snd c) @ xs))"

definition stage :: "('h \<Rightarrow> bool) \<Rightarrow> ('h \<Rightarrow> u8 list) \<Rightarrow> ('h, 'a) boot \<Rightarrow> ('a \<Rightarrow> bool) \<Rightarrow> bool" where
  "stage data_mode sent m Q \<longleftrightarrow> (\<forall>c. console_ok data_mode c \<longrightarrow> outcome data_mode sent Q c (m c))"

lemma outcome_after: "sent (snd c') = sent (snd c) @ xs \<Longrightarrow> outcome data_mode sent Q c' r \<Longrightarrow> outcome data_mode sent Q c r"
  by (auto simp: outcome_def split: option.splits sum.splits)

lemma stage_bind:
  assumes "stage data_mode sent m Q" "\<And>x. Q x \<Longrightarrow> stage data_mode sent (f x) R"
  shows "stage data_mode sent (boot_bind m f) R"
  unfolding stage_def
proof (intro allI impI)
  fix c assume c: "console_ok data_mode c"
  have m: "outcome data_mode sent Q c (m c)" using assms(1) c unfolding stage_def by blast
  show "outcome data_mode sent R c (boot_bind m f c)"
  proof (cases "\<exists>x c'. m c = Some (Inr (x, c'))")
    case True
    then obtain x c' where r: "m c = Some (Inr (x, c'))" by blast
    then obtain xs where "Q x" "console_ok data_mode c'" "sent (snd c') = sent (snd c) @ xs" using m by (auto simp: outcome_def)
    then have "outcome data_mode sent R c (f x c')" using assms(2) outcome_after unfolding stage_def by blast
    then show ?thesis using r by (simp add: boot_bind_def)
  next
    case False
    then show ?thesis using m by (auto simp: outcome_def boot_bind_def split: option.splits sum.splits)
  qed
qed

lemma boot_bind_console: "f c = Some c' \<Longrightarrow> boot_bind (boot_console f) g c = g () c'"
  by (simp add: boot_bind_def boot_console_def)

lemma boot_bind_line: "write_str hw (s @ CRLF) c = Some c' \<Longrightarrow> boot_bind (say_line hw s) g c = g () c'"
  unfolding say_line_def by (rule boot_bind_console)

lemma stage_return: "Q x \<Longrightarrow> stage data_mode sent (boot_return x) Q"
  by (simp add: stage_def outcome_def boot_return_def)

lemma stage_panic: "stage data_mode sent boot_panic Q"
  by (simp add: stage_def outcome_def boot_panic_def)

lemma stage_console: "sends data_mode sent f xs \<Longrightarrow> Q () \<Longrightarrow> stage data_mode sent (boot_console f) Q"
  unfolding sends_def stage_def outcome_def boot_console_def by fastforce

lemma stage_hw:
  "(\<And>h. data_mode (snd (f h)) = data_mode h \<and> sent (snd (f h)) = sent h \<and> Q (fst (f h))) \<Longrightarrow> stage data_mode sent (boot_hw f) Q"
  by (auto simp: stage_def outcome_def boot_hw_def console_ok_def case_prod_beta)

lemma stage_line: "uart hw data_mode busy sent \<Longrightarrow> stage data_mode sent (say_line hw s) (\<lambda>_. True)"
  unfolding say_line_def by (rule stage_console [OF sends_str]) auto

lemma stage_number: "uart hw data_mode busy sent \<Longrightarrow> stage data_mode sent (say_number hw s v) (\<lambda>_. True)"
  unfolding say_number_def
  by (intro stage_bind [where Q = "\<lambda>_. True"] stage_console [OF sends_str] stage_console [OF sends_usize] TrueI)

lemma stage_image:
  assumes "uart hw data_mode busy sent"
  shows "stage data_mode sent (boot_image hw boot_info m) (\<lambda>_. True)"
proof -
  note rules = stage_bind [where Q = "\<lambda>_. True"] stage_line [OF assms] stage_number [OF assms] stage_return stage_panic
  show ?thesis unfolding boot_image_def
    by (auto split: sum.split option.split intro!: rules)
qed

lemma stage_nxe:
  assumes "\<forall>h. data_mode (efer_set_nxe hw h) = data_mode h \<and> sent (efer_set_nxe hw h) = sent h"
  shows "stage data_mode sent (enable_nxe hw) (\<lambda>_. True)"
proof -
  have "stage data_mode sent (boot_hw (\<lambda>h. ((), if \<not> efer_nxe hw h then efer_set_nxe hw h else h))) (\<lambda>_. True)"
    by (rule stage_hw) (simp add: assms)
  then show ?thesis by (simp add: enable_nxe_def stage_panic)
qed

text \<open>The initialisation of the CPU never returns.\<close>

lemma stage_arch_init:
  assumes "gdt_laws G used" "static_GDT st = None"
    and "\<forall>h. data_mode (efer_set_nxe hw h) = data_mode h \<and> sent (efer_set_nxe hw h) = sent h"
  shows "stage data_mode sent (arch_init hw C G kernel_stack fault_stack st) (\<lambda>_. False)"
  unfolding arch_init_def gdt_init_none [OF assms(1,2)] option.case
  by (rule stage_bind [OF stage_nxe [OF assms(3)] stage_panic])

lemma panicked:
  assumes "stage data_mode sent m (\<lambda>_. False)" "console_ok data_mode c"
  obtains c' xs where "m c = Some (Inl c')" "console_ok data_mode c'" "sent (snd c') = sent (snd c) @ xs"
proof -
  have "outcome data_mode sent (\<lambda>_. False) c (m c)" using assms unfolding stage_def by blast
  then show ?thesis using that by (auto simp: outcome_def split: option.splits sum.splits)
qed


section \<open>Concrete boots\<close>

text \<open>A heap that hands out its start, a memory map with three usable megabytes, and a machine made of them.\<close>

definition plain_heap :: "u64 HeapCrate" where
  "plain_heap = \<lparr>heap_empty = 0, heap_init = (\<lambda>s _ _. s), allocate_first_fit = (\<lambda>_ q. (Some q, q)), deallocate = (\<lambda>_ _ q. q),
     heap_size = (\<lambda>_. 0), heap_used = (\<lambda>_. 0), heap_free = (\<lambda>_. 0)\<rparr>"

definition demo_regions :: "boot_region list" where
  "demo_regions = [(0, 0x100000, False), (0x100000, 0x400000, True)]"

lemma demo_regions_ok: "list_all region_ok demo_regions" "sorted_wrt regions_disjoint demo_regions"
  by (simp_all add: demo_regions_def)

lemma demo_heap_steps:
  "allocate_contiguous (EarlyFrameAllocator_new demo_regions) INITIAL_HEAP_FRAMES
     = (Some \<lparr>cf_start = 0x100000, cf_frame_count = 256\<rparr>, \<lparr>ea_regions = [], ea_current_end = 0x400000, ea_next_address = 0x200000\<rparr>)"
  "heap_region_for \<lparr>phys_offset = 0x8000000000\<rparr> \<lparr>cf_start = 0x100000, cf_frame_count = 256\<rparr>
     = Some \<lparr>hr_start = 0x8000100000, hr_size = 0x100000\<rparr>"
  by code_simp+

lemma demo_boot_heap:
  obtains a' k' c' where "boot_heap plain_uart plain_heap (Some \<lparr>phys_offset = 0x8000000000\<rparr>) (EarlyFrameAllocator_new demo_regions)
    (KernelHeap_empty plain_heap) (READY, (True, [])) = Some (Inr ((a', k'), c'))" "initialized k'"
proof -
  have "console_ok fst (READY, (True, []))" by (simp add: console_ok_def)
  then obtain c1 where c1: "write_str plain_uart (''X11-OS: heap initialized'' @ CRLF) (READY, (True, [])) = Some c1" "console_ok fst c1"
    using sends_str [OF plain_uart_ok] unfolding sends_def by blast
  then obtain c2 where c2: "write_str plain_uart (''X11-OS: heap allocation verified'' @ CRLF) c1 = Some c2"
    using sends_str [OF plain_uart_ok] unfolding sends_def by blast
  have valid: "list_all (\<lambda>(i, v). v = of_nat i * 3) (List.enumerate 0 (map (\<lambda>v. of_nat v * 3 :: u64) [0..<64]))"
    by code_simp
  let ?k = "\<lparr>kh_heap = 0x8000100000, initialized = True\<rparr> :: u64 KernelHeap"
  have probe: "heap_probe plain_uart plain_heap ?k c1 = Some (Inr (?k, c2))"
    using valid by (simp add: heap_probe_def kh_alloc_def kh_dealloc_def plain_heap_def Let_def boot_bind_line [OF c2] boot_return_def)
  have "boot_heap plain_uart plain_heap (Some \<lparr>phys_offset = 0x8000000000\<rparr>) (EarlyFrameAllocator_new demo_regions)
      (KernelHeap_empty plain_heap) (READY, (True, []))
    = boot_bind (say_line plain_uart ''X11-OS: heap initialized'') (\<lambda>_. boot_bind (heap_probe plain_uart plain_heap ?k) (\<lambda>k.
        boot_return (\<lparr>ea_regions = [], ea_current_end = 0x400000, ea_next_address = 0x200000\<rparr>, k))) (READY, (True, []))"
    by (simp only: boot_heap_def demo_heap_steps option.case prod.case) (simp add: kh_init_def KernelHeap_empty_def plain_heap_def)
  also have "\<dots> = Some (Inr ((\<lparr>ea_regions = [], ea_current_end = 0x400000, ea_next_address = 0x200000\<rparr>, ?k), c2))"
    unfolding boot_bind_line [OF c1(1)] by (simp add: boot_bind_def probe boot_return_def)
  finally show ?thesis using that by simp
qed

theorem boot_heap_sound_witness:
  "\<exists>a' k' c' s v. boot_heap plain_uart plain_heap (Some \<lparr>phys_offset = 0x8000000000\<rparr>) (EarlyFrameAllocator_new demo_regions)
      (KernelHeap_empty plain_heap) (READY, (True, [])) = Some (Inr ((a', k'), c'))
    \<and> phys_translate \<lparr>phys_offset = 0x8000000000\<rparr> s = Some v \<and> unat s + 0x100000 \<le> 0x400000
    \<and> (\<forall>x. Some (Frame x) \<in> set (allocs allocate_frame 5 a') \<longrightarrow> unat x < unat s \<or> unat s + 0x100000 \<le> unat x)"
proof -
  obtain a' k' c' where b: "boot_heap plain_uart plain_heap (Some \<lparr>phys_offset = 0x8000000000\<rparr>) (EarlyFrameAllocator_new demo_regions)
      (KernelHeap_empty plain_heap) (READY, (True, [])) = Some (Inr ((a', k'), c'))" "initialized k'"
    by (rule demo_boot_heap)
  have "\<not> initialized (KernelHeap_empty plain_heap)" by (simp add: KernelHeap_empty_def)
  from boot_heap_sound [OF demo_regions_ok this b] obtain s v where
    "phys_translate \<lparr>phys_offset = 0x8000000000\<rparr> s = Some v" "\<exists>b e. (b, e, True) \<in> set demo_regions \<and> b \<le> s \<and> unat s + 0x100000 \<le> unat e"
    "\<forall>n x. Some (Frame x) \<in> set (allocs allocate_frame n a') \<longrightarrow> unat x < unat s \<or> unat s + 0x100000 \<le> unat x"
    by auto
  then show ?thesis using b(1) by (intro exI [of _ a'] exI [of _ k'] exI [of _ c'] exI [of _ s] exI [of _ v]) (auto simp: demo_regions_def)
qed

definition demo_machine where
  "demo_machine = \<lparr>mc_x86 = demo_crate, mc_gdt = list_gdt, mc_heap = plain_heap, mc_kernel_stack = 0, mc_fault_stack = 0, mc_cr3 = 0x1000,
     mc_memory = (\<lambda>_. 0), mc_tables = (\<lambda>_ _. empty_entry), mc_bytes = (\<lambda>_. 0)\<rparr>"


end
