(* ===== verification/User_Hello.thy ===== *)
theory User_Hello
  imports Syscall_Properties Serial
begin

text \<open>
  The demonstration program (\<open>userspace/hello/src/main.rs\<close>) over a system call function, and its run on the
  kernel's dispatcher. The addresses of its two texts are arguments; every loop it can end in is a value.
\<close>

section \<open>The program\<close>

definition HELLO_MESSAGE :: "u8 list" where
  "HELLO_MESSAGE = as_bytes (''Hello from X11-OS userspace!'' @ CRLF)"

definition HELLO_PASSED :: "u8 list" where
  "HELLO_PASSED = as_bytes (''X11-OS: syscall ABI return contract verified'' @ CRLF)"

datatype HelloLoop = FirstWriteLoop | SecondWriteLoop | InvalidSyscallLoop | CheckWriteLoop | FinalLoop

text \<open>The instruction \<open>int 0x80\<close> with its number and arguments: the value in \<open>rax\<close> afterwards, or no return.\<close>

type_synonym 's syscall_instruction = "u64 \<Rightarrow> u64 \<Rightarrow> u64 \<Rightarrow> u64 \<Rightarrow> 's \<Rightarrow> (u64 \<times> 's) option"

definition hello_start :: "'s syscall_instruction \<Rightarrow> u64 \<Rightarrow> u64 \<Rightarrow> 's \<Rightarrow> (HelloLoop \<times> 's) option" where
  "hello_start int80 message passed s = do {
     (first_write, s) \<leftarrow> int80 (syscall_number Write) message (of_nat (length HELLO_MESSAGE)) 0 s;
     if first_write \<noteq> of_nat (length HELLO_MESSAGE) then Some (FirstWriteLoop, s)
     else do {
       (second_write, s) \<leftarrow> int80 (syscall_number Write) message (of_nat (length HELLO_MESSAGE)) 0 s;
       if second_write \<noteq> of_nat (length HELLO_MESSAGE) then Some (SecondWriteLoop, s)
       else do {
         (invalid_syscall, s) \<leftarrow> int80 u64_MAX 0 0 0 s;
         if invalid_syscall \<noteq> return_value AbiUnknownSyscall then Some (InvalidSyscallLoop, s)
         else do {
           (abi_check_write, s) \<leftarrow> int80 (syscall_number Write) passed (of_nat (length HELLO_PASSED)) 0 s;
           if abi_check_write \<noteq> of_nat (length HELLO_PASSED) then Some (CheckWriteLoop, s)
           else Some (FinalLoop, s)
         }
       }
     }
   }"

section \<open>The program on the kernel\<close>

text \<open>The instruction as the kernel serves it: the dispatcher, and the encoding of its result.\<close>

definition kernel_int80 :: "(u64 \<Rightarrow> PageAccess) \<Rightarrow> (u64 \<Rightarrow> nat \<Rightarrow> UserReadError + u8 list) \<Rightarrow> 'k sink \<Rightarrow> 'c ProcessSyscallControl \<Rightarrow> ('k \<times> 'c) syscall_instruction" where
  "kernel_int80 acc backend wr ctl n a0 a1 a2 = (\<lambda>(k, c).
     map_option (\<lambda>(d, k, c). (syscall_result_abi_value (disp_result d), (k, c)))
       (dispatch_with_memory_and_control_action (SyscallRequest_new n a0 a1 a2) acc backend wr ctl k c))"

lemma int80_write:
  assumes "validate_readable_range acc \<lparr>slice_ptr = p, slice_len = n\<rparr> = Some (Inr ())" "x86_mapped translate mapping p (unat n)"
  shows "kernel_int80 acc (x86_copy_from_user translate mapping byte) append_sink ctl (syscall_number Write) p n 0 (k, c)
    = Some (n, (k @ map (\<lambda>i. x86_byte translate mapping byte (p + of_nat i)) [0..<unat n], c))"
proof -
  have "syscall_from_number (syscall_number Write) = Some Write" by code_simp
  then show ?thesis
    using x86_copy.sys_write_delivers [of acc "\<lparr>slice_ptr = p, slice_len = n\<rparr>" translate mapping byte k] assms
    by (simp add: kernel_int80_def dispatch_with_memory_and_control_action_def request_syscall_def SyscallRequest_new_def
        user_slice_def disp_returned_def del: syscall_number.simps)
qed

lemma int80_unknown:
  "kernel_int80 acc backend wr ctl u64_MAX a0 a1 a2 (k, c) = Some (return_value AbiUnknownSyscall, (k, c))"
proof -
  have "syscall_from_number u64_MAX = None" by code_simp
  then show ?thesis
    by (simp add: kernel_int80_def dispatch_with_memory_and_control_action_def request_syscall_def SyscallRequest_new_def
        disp_returned_def abi_return_value_def)
qed


text \<open>Both texts one after the other at the start of user space, mapped identically.\<close>

definition hello_bytes :: "u64 \<Rightarrow> u8" where
  "hello_bytes a = (HELLO_MESSAGE @ HELLO_PASSED) ! (unat a - 0x10000)"

lemma hello_lengths: "length HELLO_MESSAGE = 30" "length HELLO_PASSED = 46"
  by (simp_all add: HELLO_MESSAGE_def HELLO_PASSED_def as_bytes_def CRLF_def)

lemma hello_bytes_at: "i < 100 \<Longrightarrow> d < 100 \<Longrightarrow> hello_bytes (of_nat (0x10000 + d) + of_nat i) = (HELLO_MESSAGE @ HELLO_PASSED) ! (d + i)"
  using unat_of_nat_u64 [of "0x10000 + d + i"] by (simp add: hello_bytes_def)


end
