(* ===== verification/Spec2Isabelle.thy ===== *)
theory Spec2Isabelle
  imports Scheduler_Properties Syscall_Properties Process_Image_Properties Process_Properties
    Frame_Properties X86_Properties X86_Machine_Properties X86_Gdt X86_System_Properties
    Acpi_Properties Irq_Properties Timekeeping_Properties Serial_Properties Kernel_Boot_Properties User_Hello
begin

text \<open>
  A verification library for X11-OS, a small x86_64 kernel in Rust (\<open>src/kernel\<close>) with the system call ABI it shares
  with user programs (\<open>src/abi\<close>) and a demonstration program (\<open>src/userspace\<close>).

  \<^bold>\<open>The program.\<close> The scheduler owns task control blocks in a slot table with generations and decides who runs; the
  process manager owns processes in a second such table and binds each to one task. A process image is built from an ELF
  file in the ramdisk, mapped page by page into a fresh address space through a page-table mapper that draws frames from
  the early frame allocator, and populated through the direct map. Interrupts and system calls enter through assembly
  stubs, reach the runtime, which holds scheduler, processes and execution state of one CPU, and leave through assembly
  that resumes the same or another task. The boot sequence initialises the console, the descriptor tables, the clock,
  the APIC from the firmware tables, the timer and the heap, and prepares the user program.

  \<^bold>\<open>Conventions.\<close> A struct is a record, an enum a datatype, an integer a word of its width; a function on \<open>&mut self\<close>
  returns its result and the new state; \<open>Result<T, E>\<close> is a sum with the error on the left. A panic is \<open>None\<close> in an outer
  option, written out wherever the code indexes, unwraps, asserts or does arithmetic that can overflow. Definitions keep
  the names of the code, with the type as a prefix where methods of two types share a name. Code outside the repository is
  a parameter: the crate \<open>x86_64\<close> as the records \<open>X86Crate\<close> and \<open>GdtCrate\<close>, the heap crate as \<open>HeapCrate\<close>, processor and
  devices as \<open>Hardware\<close>; what is relied on is stated as predicates of their documented behaviour (\<open>address_laws\<close> and the
  mapper laws of \<open>X86_Mapper\<close>, \<open>gdt_laws\<close>, \<open>ioapic_window\<close>, \<open>tsc_advances\<close>, \<open>deadline_device\<close>, \<open>uart\<close>), and each has a
  concrete instance.

  \<^bold>\<open>Theories.\<close>
  \<^item> \<open>Prelude\<close>: integer operations of Rust on words, results, vectors, with their characterisations (\<open>rust_arith\<close>,
    \<open>rust_vec\<close>). \<open>Generations\<close>: the contract of a slot table with generations.
  \<^item> \<open>Abi\<close>: \<open>abi/src/lib.rs\<close>. \<open>Memory_Ranges\<close>: ranges, layout, pages, flags, direct map and boot map of
    \<open>memory/*.rs\<close>. \<open>Frame_Allocator\<close>, \<open>Frame_Properties\<close>: \<open>memory/frame.rs\<close> as a refinement of a list of pending
    frames (locale \<open>frame_source\<close>).
  \<^item> \<open>Task_Model\<close>, \<open>Task_Queues\<close>: \<open>scheduler/task.rs\<close>, the run, wait and sleep queues and the preemption gate (locale
    \<open>task_fifo\<close>). \<open>Scheduler_Model\<close>: \<open>scheduler/mod.rs\<close>. \<open>Scheduler_Invariant\<close>, \<open>Scheduler_Steps\<close>, \<open>Scheduler_Waking\<close>:
    the invariant and every operation. \<open>Scheduler_Reach\<close>: the step relation, stale identifiers, round robin (locale
    \<open>fifo_dispatcher\<close>). \<open>Scheduler_Properties\<close>.
  \<^item> \<open>User_Copy\<close>, \<open>Syscall_Model\<close>, \<open>Syscall_Properties\<close>: \<open>memory/user.rs\<close>, \<open>memory/user_copy.rs\<close>,
    \<open>arch/x86_64/user_copy.rs\<close> and \<open>syscall.rs\<close> (locale \<open>user_copy_backend\<close>). \<open>User_Hello\<close>: the demonstration program on
    the dispatcher.
  \<^item> \<open>Elf_Image\<close>, \<open>Process_Image\<close>, \<open>Process_Image_Properties\<close>: from the bytes of the ramdisk to a process image
    (\<open>process/image.rs\<close>, \<open>address_space.rs\<close>, \<open>load_plan.rs\<close>, \<open>stack.rs\<close>, \<open>initial_context.rs\<close>, \<open>image_state.rs\<close>,
    \<open>ramdisk_image.rs\<close>). \<open>Process_Manager\<close>, \<open>Process_Registry\<close>, \<open>Process_Properties\<close>: \<open>process/manager.rs\<close> and the
    binding to the scheduler.
  \<^item> \<open>Loader\<close>, \<open>Mapper_Contract\<close>: \<open>process/loader.rs\<close> and \<open>address_space_builder.rs\<close> over any mapper (locale
    \<open>page_table_mapper\<close>). \<open>Population\<close>, \<open>Population_Contract\<close>: \<open>process/populate.rs\<close> over any page writer (locales
    \<open>image_writer\<close>, \<open>total_image_writer\<close>), the launch plan, \<open>image_writer.rs\<close>.
  \<^item> \<open>X86_Paging\<close>, \<open>X86_Mapper\<close>, \<open>X86_Loading\<close>, \<open>Demo_Crate\<close>, \<open>X86_Properties\<close>: page tables, address space roots,
    user memory and \<open>process_loader.rs\<close>; the mapper implements its contract.
  \<^item> \<open>X86_Asm\<close>: registers, byte memory and the instructions of the assembly routines. \<open>X86_Frames\<close>, \<open>X86_Bindings\<close>,
    \<open>X86_Switch\<close>, \<open>X86_Return_Paths\<close>, \<open>X86_Machine_Properties\<close>: frames, snapshots, the naked functions as instruction
    lists, and what they do to registers and memory. \<open>X86_Gdt\<close>: \<open>gdt.rs\<close>.
  \<^item> \<open>X86_Execution\<close>, \<open>X86_Kernel_Tasks\<close>, \<open>X86_Runtime\<close>, \<open>X86_System\<close>: execution registries, kernel tasks, the kernel
    runtime with the counters of \<open>idt.rs\<close>, the process and system runtimes with the interrupt hooks. \<open>X86_Registries\<close> (locale \<open>task_registry\<close>),
    \<open>X86_System_Invariant\<close>, \<open>X86_System_Switch\<close>, \<open>X86_System_Reach\<close>, \<open>X86_System_Demo\<close>, \<open>X86_System_Properties\<close>.
  \<^item> \<open>Hardware\<close>: the operations of the processor and its devices. \<open>Acpi\<close>, \<open>Acpi_Properties\<close>: \<open>acpi.rs\<close>.
    \<open>Interrupts\<close>: \<open>interrupts.rs\<close>, \<open>interrupt_controller.rs\<close>, \<open>apic.rs\<close>, \<open>local_apic.rs\<close>, \<open>pic.rs\<close>. \<open>Irq_Routing\<close>,
    \<open>Irq_Properties\<close>: \<open>irq_routing.rs\<close>, \<open>ioapic.rs\<close>. \<open>Timekeeping\<close>, \<open>Timekeeping_Properties\<close>: \<open>timer.rs\<close>, \<open>tsc.rs\<close>,
    \<open>lapic_timer.rs\<close>. \<open>Serial\<close>, \<open>Serial_Properties\<close>: \<open>serial.rs\<close>, \<open>hello.rs\<close>. \<open>Kernel_Heap\<close>: \<open>heap/mod.rs\<close>,
    \<open>ramdisk.rs\<close>. \<open>Kernel_Boot\<close>, \<open>Kernel_Boot_Properties\<close>: \<open>main.rs\<close> and the initialisation in \<open>arch/x86_64/mod.rs\<close>.

  \<^bold>\<open>What is shown.\<close>
  \<^item> Scheduler and processes: an invariant in every reachable state, identifiers that never come back to life, dispatch
    as a round-robin queue and its liveness, failures that change nothing, exit codes that are reported once.
  \<^item> Memory: frames are handed out once, blocks lie in usable memory, building an address space is a transaction,
    population writes exactly the program, a user root shares only the kernel half.
  \<^item> System calls: a write delivers exactly the bytes of a readable range; the demonstration program runs to its end.
  \<^item> Machine: switching away and back, entering and leaving interrupts and resuming a preempted task keep exactly the
    registers they must.
  \<^item> System runtime: ownership of tasks, processes and registry entries in every reachable state, spawning as a
    transaction, exit and yield as hand-overs.
  \<^item> Platform: the firmware parser always ends without a panic and reads back what was written, routes and redirection
    entries are exact, the clock rounds once, the calibration ends, the heap owns its block.
  \<^item> Defects that the model makes visible, each as a theorem: the initialisation of the descriptor table panics and with
    it every boot; no process image can be loaded, because its stack lies at addresses that are not canonical; a user
    pointer in the same hole panics the kernel; an exit without a successor returns to the program; the exit code is lost;
    a deadline is translated from the wrong epoch and never armed; a frame may reach past its region; the vector
    allocator hands out the vector of the system call trap.

  \<^bold>\<open>Loops and bounds.\<close> There is no fuel. Loops over arrays and regions are structural or have a termination proof: the
  frame allocator consumes a region per turn, the loader at least a page, the MADT parser at least two bytes, the write
  loop at least a byte, the digits an array position. Two loops wait for hardware and are partial functions, the polling of
  the counter and of the transmitter; they are shown to end on a counter that advances and on a transmitter that becomes
  empty. What other tasks do while a task is switched out is a parameter of the runtime.

  \<^bold>\<open>Not modelled.\<close> Instructions that only load tables or halt; the exception handlers, which print and spin; the last
  step of \<open>kernel_main\<close>, which starts one of the two runtimes with operations that are modelled and then spins; the boot
  smoke test \<open>voluntary_switch.rs\<close>; \<open>scheduler.rs\<close> and \<open>user_execution_registry.rs\<close> of the architecture layer, which no
  module declares; the build of the disk image (\<open>src/boot\<close>), which is file and process input and output on the host.
  Interrupts arrive between operations, not inside them, and there is one CPU, as in the code. Atomics are plain cells.
\<close>

end
